(* ===== verification/Go_Prelude.thy ===== *)
theory Go_Prelude
  imports Main "HOL-Library.Word" "HOL-Library.Char_ord" "HOL-Library.List_Lexorder"
begin

text \<open>
  Shared vocabulary of the development: Go errors as values, strings as byte lists with the
  \<open>strings\<close>/\<open>strconv\<close> functions the code calls, 64-bit wrap-around, durations in
  nanoseconds, pagination, and the lemma collections the component theories feed.
\<close>

named_theorems go_defs "definitions unfolded together when a handler or service is evaluated"
named_theorems row_simps "lookup and update equations of the table model"
named_theorems frame_simps "state components an operation leaves alone"

section \<open>Identifiers\<close>

text \<open>\<open>uuid.UUID\<close> is a 16-byte value; \<open>uuid.Nil\<close> is the all-zero one.\<close>

type_synonym uuid = "128 word"

abbreviation uuid_Nil :: uuid where
  "uuid_Nil \<equiv> 0"

section \<open>Errors\<close>

text \<open>
  A Go \<open>error\<close> is a sentinel of \<open>internal/model/errors.go\<close> or of the service package, the
  result of \<open>fmt.Errorf\<close> without \<open>%w\<close> (format string and arguments kept apart), a wrapped
  error (\<open>fmt.Errorf\<close> with \<open>%w\<close>), or an error of code outside the repository (driver,
  database, library), of which only the origin is kept.
\<close>

datatype farg = AStr string | AInt int

datatype err =
    ErrNotFound | ErrAlreadyExists | ErrUnauthorized
  | ErrScheduleDenied
  | ErrInvalidPIN | ErrTooManyAttempts | ErrMaxUsesExceeded | ErrInvalidSession
  | ErrInvalidCredentials | ErrUsernameTaken | ErrInvalidToken | ErrWeakPassword
  | ErrSSONotConfigured | ErrSSOInvalidState | ErrSSOAccessDenied
  | Errorf string "farg list"
  | Wrapf string "farg list" err
  | ErrExternal string

type_synonym 'a res = "err + 'a"

text \<open>\<open>errors.Is\<close> follows the chain of wrapped errors.\<close>

fun errIs :: "err \<Rightarrow> err \<Rightarrow> bool" where
  "errIs (Wrapf f a e) t = (Wrapf f a e = t \<or> errIs e t)"
| "errIs e t = (e = t)"

lemma errIs_sentinel [simp]:
  "errIs ErrNotFound t = (t = ErrNotFound)"
  "errIs ErrUnauthorized t = (t = ErrUnauthorized)"
  "errIs ErrAlreadyExists t = (t = ErrAlreadyExists)"
  "errIs ErrScheduleDenied t = (t = ErrScheduleDenied)"
  "errIs (ErrExternal s) t = (t = ErrExternal s)"
  by auto

definition is_ok :: "'a res \<Rightarrow> bool" where
  "is_ok r = (case r of Inl _ \<Rightarrow> False | Inr _ \<Rightarrow> True)"

lemma is_ok_simps [simp]: "is_ok (Inl e) = False" "is_ok (Inr a) = True"
  by (simp_all add: is_ok_def)

lemma is_okE: "is_ok r \<Longrightarrow> (\<And>a. r = Inr a \<Longrightarrow> P) \<Longrightarrow> P"
  by (cases r) auto

text \<open>\<open>x, err := f(); if err != nil { return err }; ...\<close>: the rest runs on the value.\<close>

definition rbind :: "'a res \<Rightarrow> ('a \<Rightarrow> 'b res) \<Rightarrow> 'b res" where
  "rbind r f = (case r of Inl e \<Rightarrow> Inl e | Inr a \<Rightarrow> f a)"

lemma rbind_simps [simp]: "rbind (Inl e) f = Inl e" "rbind (Inr a) f = f a"
  by (simp_all add: rbind_def)

lemma rbind_Inr_iff: "rbind r f = Inr b \<longleftrightarrow> (\<exists>a. r = Inr a \<and> f a = Inr b)"
  by (cases r) simp_all

text \<open>
  A sequence of Go checks of the form \<open>if err := f(x); err != nil { return err }\<close> over the
  elements of a slice, with the index the error message carries.
\<close>

fun first_err :: "(nat \<Rightarrow> 'a \<Rightarrow> unit res) \<Rightarrow> nat \<Rightarrow> 'a list \<Rightarrow> unit res" where
  "first_err f i [] = Inr ()"
| "first_err f i (x # xs) = (case f i x of Inl e \<Rightarrow> Inl e | Inr _ \<Rightarrow> first_err f (Suc i) xs)"

lemma first_err_ok_iff:
  "first_err f i xs = Inr () \<longleftrightarrow> (\<forall>k < length xs. f (i + k) (xs ! k) = Inr ())"
proof (induction xs arbitrary: i)
  case Nil
  then show ?case by simp
next
  case (Cons x xs)
  have "(\<forall>k < length (x # xs). f (i + k) ((x # xs) ! k) = Inr ()) \<longleftrightarrow>
        f i x = Inr () \<and> (\<forall>k < length xs. f (Suc i + k) (xs ! k) = Inr ())"
    by (auto simp: less_Suc_eq_0_disj)
  with Cons.IH [of "Suc i"] show ?case
    by (cases "f i x") auto
qed

lemma first_err_ok_uniform:
  assumes "\<And>i x. f i x = Inr () \<longleftrightarrow> P x"
  shows "first_err f i xs = Inr () \<longleftrightarrow> (\<forall>x \<in> set xs. P x)"
  by (simp add: first_err_ok_iff assms all_set_conv_all_nth)

lemma unit_res_cases: "(r :: unit res) = Inr () \<or> (\<exists>e. r = Inl e)"
  by (cases r) auto

section \<open>Strings\<close>

text \<open>
  Go strings are byte sequences. The functions below are the ones of \<open>strings\<close> and
  \<open>strconv\<close> the code calls; letters and white space are the ASCII ones.
\<close>

definition is_digit :: "char \<Rightarrow> bool" where
  "is_digit c = (48 \<le> (of_char c :: nat) \<and> (of_char c :: nat) \<le> 57)"

definition is_upper :: "char \<Rightarrow> bool" where
  "is_upper c = (65 \<le> (of_char c :: nat) \<and> (of_char c :: nat) \<le> 90)"

definition is_lower :: "char \<Rightarrow> bool" where
  "is_lower c = (97 \<le> (of_char c :: nat) \<and> (of_char c :: nat) \<le> 122)"

definition is_space :: "char \<Rightarrow> bool" where
  "is_space c = ((of_char c :: nat) \<in> {9, 10, 11, 12, 13, 32})"

definition lower_char :: "char \<Rightarrow> char" where
  "lower_char c = (if is_upper c then char_of ((of_char c :: nat) + 32) else c)"

definition upper_char :: "char \<Rightarrow> char" where
  "upper_char c = (if is_lower c then char_of ((of_char c :: nat) - 32) else c)"

definition ToLower :: "string \<Rightarrow> string" where
  "ToLower s = List.map lower_char s"

definition ToUpper :: "string \<Rightarrow> string" where
  "ToUpper s = List.map upper_char s"

definition TrimSpace :: "string \<Rightarrow> string" where
  "TrimSpace s = rev (dropWhile is_space (rev (dropWhile is_space s)))"

definition HasPrefix :: "string \<Rightarrow> string \<Rightarrow> bool" where
  "HasPrefix s p = (take (length p) s = p)"

definition TrimPrefix :: "string \<Rightarrow> string \<Rightarrow> string" where
  "TrimPrefix s p = (if HasPrefix s p then drop (length p) s else s)"

text \<open>\<open>strings.Split\<close> and \<open>strings.SplitN(_, _, 2)\<close> with a one-byte separator.\<close>

fun split_on :: "char \<Rightarrow> string \<Rightarrow> string list" where
  "split_on c [] = [[]]"
| "split_on c (x # xs) =
     (if x = c then [] # split_on c xs
      else (case split_on c xs of [] \<Rightarrow> [[x]] | y # ys \<Rightarrow> (x # y) # ys))"

definition splitN2 :: "char \<Rightarrow> string \<Rightarrow> string list" where
  "splitN2 c s = (if c \<in> set s
     then [takeWhile (\<lambda>x. x \<noteq> c) s, tl (dropWhile (\<lambda>x. x \<noteq> c) s)] else [s])"

fun join_with :: "string \<Rightarrow> string list \<Rightarrow> string" where
  "join_with sep [] = []"
| "join_with sep [x] = x"
| "join_with sep (x # y # xs) = x @ sep @ join_with sep (y # xs)"

lemma split_on_nonempty [simp]: "split_on c s \<noteq> []"
  by (induction s) (auto split: list.splits)

lemma split_on_no_sep: "c \<notin> set s \<Longrightarrow> split_on c s = [s]"
  by (induction s) auto

lemma split_on_append:
  "c \<notin> set s \<Longrightarrow> split_on c (s @ c # t) = s # split_on c t"
  by (induction s) auto

lemma TrimSpace_eq_Nil: "TrimSpace s = [] \<longleftrightarrow> list_all is_space s"
proof -
  have "TrimSpace s = [] \<longleftrightarrow> dropWhile is_space (rev (dropWhile is_space s)) = []"
    by (simp add: TrimSpace_def)
  also have "\<dots> \<longleftrightarrow> (\<forall>c \<in> set (dropWhile is_space s). is_space c)"
    by (simp add: dropWhile_eq_Nil_conv)
  also have "\<dots> \<longleftrightarrow> list_all is_space s"
  proof (induction s)
    case (Cons c s)
    then show ?case by (cases "is_space c") auto
  qed simp
  finally show ?thesis .
qed

lemma TrimSpace_id:
  assumes "\<forall>x \<in> set s. \<not> is_space x"
  shows "TrimSpace s = s"
proof -
  have id: "dropWhile is_space t = t" if "\<forall>x \<in> set t. \<not> is_space x" for t
    using that by (cases t) simp_all
  have "dropWhile is_space (rev s) = rev s" by (rule id) (use assms in simp)
  then show ?thesis using id [OF assms] by (simp add: TrimSpace_def)
qed

section \<open>Integers\<close>

text \<open>\<open>int\<close>, \<open>int64\<close> and \<open>time.Duration\<close> are 64-bit two's complement.\<close>

definition wrap64 :: "int \<Rightarrow> int" where
  "wrap64 i = (i + 2 ^ 63) mod 2 ^ 64 - 2 ^ 63"

lemma wrap64_id: "- (2 ^ 63) \<le> i \<Longrightarrow> i < 2 ^ 63 \<Longrightarrow> wrap64 i = i"
  by (simp add: wrap64_def)

lemma wrap64_bounds: "- (2 ^ 63) \<le> wrap64 i \<and> wrap64 i < 2 ^ 63"
proof -
  have "0 \<le> (i + 2 ^ 63) mod 2 ^ 64" and "(i + 2 ^ 63) mod 2 ^ 64 < 2 ^ 64"
    by simp_all
  then show ?thesis by (simp add: wrap64_def)
qed

definition digits_val :: "string \<Rightarrow> int" where
  "digits_val ds = foldl (\<lambda>n c. 10 * n + (int (of_char c) - 48)) 0 ds"

text \<open>\<open>strconv.Atoi\<close>: optional sign, one or more decimal digits, 64-bit range.\<close>

definition Atoi :: "string \<Rightarrow> int option" where
  "Atoi s =
     (let neg = (case s of c # _ \<Rightarrow> c = CHR ''-'' | [] \<Rightarrow> False);
          sgned = (case s of c # _ \<Rightarrow> c = CHR ''-'' \<or> c = CHR ''+'' | [] \<Rightarrow> False);
          ds = (if sgned then tl s else s);
          v = (if neg then - digits_val ds else digits_val ds)
      in if ds \<noteq> [] \<and> list_all is_digit ds \<and> - (2 ^ 63) \<le> v \<and> v < 2 ^ 63
         then Some v else None)"

definition digit_char :: "int \<Rightarrow> char" where
  "digit_char d = ''0123456789'' ! nat (d mod 10)"

function dec_digits :: "int \<Rightarrow> string" where
  "dec_digits n = (if n < 10 then [digit_char n] else dec_digits (n div 10) @ [digit_char n])"
  by pat_completeness auto
termination
  by (relation "measure nat") auto

declare dec_digits.simps [simp del]

definition Itoa :: "int \<Rightarrow> string" where
  "Itoa i = (if i < 0 then CHR ''-'' # dec_digits (- i) else dec_digits i)"

lemma dec_digits_nonempty [simp]: "dec_digits n \<noteq> []"
  by (subst dec_digits.simps) simp

lemma digit_char_facts:
  fixes n :: int
  shows "is_digit (digit_char n)" and "int (of_char (digit_char n)) - 48 = n mod 10"
    and "digit_char n = CHR ''0'' \<longleftrightarrow> n mod 10 = 0"
proof -
  have "n mod 10 = 0 \<or> n mod 10 = 1 \<or> n mod 10 = 2 \<or> n mod 10 = 3 \<or> n mod 10 = 4 \<or> n mod 10 = 5
    \<or> n mod 10 = 6 \<or> n mod 10 = 7 \<or> n mod 10 = 8 \<or> n mod 10 = 9" by presburger
  then show "is_digit (digit_char n)" and "int (of_char (digit_char n)) - 48 = n mod 10"
    and "digit_char n = CHR ''0'' \<longleftrightarrow> n mod 10 = 0"
    by (elim disjE; simp add: digit_char_def is_digit_def)+
qed

lemma digits_val_dec_digits:
  assumes "0 \<le> n"
  shows "digits_val (dec_digits n) = n \<and> list_all is_digit (dec_digits n) \<and> (hd (dec_digits n) = CHR ''0'' \<longrightarrow> n = 0)"
  using assms
proof (induction n rule: dec_digits.induct)
  case (1 n)
  show ?case
  proof (cases "n < 10")
    case True
    then show ?thesis
      using 1(2) by (simp add: dec_digits.simps [of n] digits_val_def digit_char_facts)
  next
    case False
    then have "digits_val (dec_digits (n div 10)) = n div 10" and "list_all is_digit (dec_digits (n div 10))"
      and "hd (dec_digits (n div 10)) = CHR ''0'' \<longrightarrow> n div 10 = 0"
      using 1 by simp_all
    moreover have "n div 10 \<noteq> 0" using False by simp
    ultimately show ?thesis
      using False by (simp add: dec_digits.simps [of n] digits_val_def digit_char_facts)
  qed
qed

lemma digits_unique:
  fixes a b a' b' k :: int
  assumes "0 \<le> b" "b < k" "0 \<le> b'" "b' < k"
  shows "a * k + b = a' * k + b' \<longleftrightarrow> a = a' \<and> b = b'"
proof
  assume eq: "a * k + b = a' * k + b'"
  have "(a * k + b) mod k = b" and "(a' * k + b') mod k = b'" using assms by simp_all
  with eq have "b = b'" by simp
  with eq assms show "a = a' \<and> b = b'" by simp
qed simp

lemma digits_no:
  assumes "list_all is_digit s" and "\<not> is_digit c"
  shows "c \<notin> set s"
  using assms by (auto simp: list_all_iff)

section \<open>Durations\<close>

text \<open>\<open>time.Duration\<close> counts nanoseconds; instants are nanoseconds since the Unix epoch.\<close>

abbreviation Millisecond :: int where "Millisecond \<equiv> 1000000"
abbreviation Second :: int where "Second \<equiv> 1000000000"
abbreviation Minute :: int where "Minute \<equiv> 60000000000"
abbreviation Hour :: int where "Hour \<equiv> 3600000000000"

text \<open>\<open>time.Duration(n) * time.Second\<close> multiplies in 64 bits.\<close>

definition seconds :: "int \<Rightarrow> int" where
  "seconds n = wrap64 (n * Second)"

lemma seconds_exact: "0 \<le> n \<Longrightarrow> n \<le> 9223372036 \<Longrightarrow> seconds n = n * Second"
  by (simp add: seconds_def wrap64_id)

section \<open>Optional, omittable and paginated values\<close>

text \<open>\<open>model.OmittableNullable\<close>.\<close>

record 'a omittable =
  om_Sent :: bool
  om_Null :: bool
  om_Value :: 'a

text \<open>\<open>model.PaginationParams\<close> and \<open>Normalize\<close>.\<close>

record pagination =
  pg_Limit :: int
  pg_Offset :: int

definition DefaultPageLimit :: int where "DefaultPageLimit = 50"
definition MaxPageLimit :: int where "MaxPageLimit = 100"

definition Normalize :: "pagination \<Rightarrow> pagination" where
  "Normalize p =
     (let p1 = (if pg_Limit p \<le> 0 then p\<lparr>pg_Limit := DefaultPageLimit\<rparr> else p);
          p2 = (if pg_Limit p1 > MaxPageLimit then p1\<lparr>pg_Limit := MaxPageLimit\<rparr> else p1)
      in if pg_Offset p2 < 0 then p2\<lparr>pg_Offset := 0\<rparr> else p2)"

text \<open>\<open>LIMIT l OFFSET o\<close> of a query, after \<open>Normalize\<close>.\<close>

definition page :: "pagination \<Rightarrow> 'a list \<Rightarrow> 'a list" where
  "page p xs = take (nat (pg_Limit p)) (drop (nat (pg_Offset p)) xs)"

lemma Normalize_bounds:
  "1 \<le> pg_Limit (Normalize p)" "pg_Limit (Normalize p) \<le> 100" "0 \<le> pg_Offset (Normalize p)"
  by (auto simp: Normalize_def Let_def DefaultPageLimit_def MaxPageLimit_def)

lemma Normalize_id:
  "1 \<le> pg_Limit p \<Longrightarrow> pg_Limit p \<le> 100 \<Longrightarrow> 0 \<le> pg_Offset p \<Longrightarrow> Normalize p = p"
  by (auto simp: Normalize_def Let_def DefaultPageLimit_def MaxPageLimit_def)

lemma Normalize_idem [simp]: "Normalize (Normalize p) = Normalize p"
  using Normalize_bounds [of p] by (intro Normalize_id)

lemma set_page_subset: "set (page p xs) \<subseteq> set xs"
  by (auto simp: page_def dest: in_set_takeD in_set_dropD)

lemma length_page: "length (page (Normalize p) xs) \<le> 100"
  using Normalize_bounds [of p] by (simp add: page_def)

lemma page_all: "0 \<le> pg_Limit p \<Longrightarrow> pg_Offset p = 0 \<Longrightarrow> length xs \<le> nat (pg_Limit p) \<Longrightarrow> page p xs = xs"
  by (simp add: page_def)

section \<open>Rows of a table\<close>

text \<open>
  A table is the list of its rows. These lemmas serve every repository: a row looked up by
  its key, updated in place, or deleted.
\<close>

lemma find_map_key [row_simps]:
  assumes "\<And>r. key (f r) = key r"
  shows "List.find (\<lambda>r. key r = k) (List.map (\<lambda>r. if key r = k then f r else r) rows)
         = map_option f (List.find (\<lambda>r. key r = k) rows)"
  by (induction rows) (auto simp: assms)

lemma find_map_other:
  assumes "\<And>r. key (f r) = key r" and "k' \<noteq> k"
  shows "List.find (\<lambda>r. key r = k') (List.map (\<lambda>r. if key r = k then f r else r) rows)
         = List.find (\<lambda>r. key r = k') rows"
  using assms by (induction rows) auto

lemma find_filter_deleted: "List.find (\<lambda>r. key r = k) (filter (\<lambda>r. key r \<noteq> k) rows) = None"
  by (induction rows) auto

lemma find_filter_other:
  "k' \<noteq> k \<Longrightarrow> List.find (\<lambda>r. key r = k') (filter (\<lambda>r. key r \<noteq> k) rows)
     = List.find (\<lambda>r. key r = k') rows"
  by (induction rows) auto

lemma find_SomeD: "List.find P rows = Some r \<Longrightarrow> r \<in> set rows \<and> P r"
  by (induction rows) (auto split: if_splits)

lemma find_None_iff_ball: "List.find P rows = None \<longleftrightarrow> (\<forall>r \<in> set rows. \<not> P r)"
  by (induction rows) auto

lemma find_first_iff:
  "List.find P xs = Some x \<longleftrightarrow> (\<exists>pre post. xs = pre @ x # post \<and> P x \<and> list_all (\<lambda>y. \<not> P y) pre)"
proof
  show "List.find P xs = Some x \<Longrightarrow> \<exists>pre post. xs = pre @ x # post \<and> P x \<and> list_all (\<lambda>y. \<not> P y) pre"
  proof (induction xs)
    case (Cons y xs)
    show ?case
    proof (cases "P y")
      case True
      with Cons.prems have "y # xs = [] @ x # xs \<and> P x" by simp
      then show ?thesis by fastforce
    next
      case False
      with Cons obtain pre post where "xs = pre @ x # post \<and> P x \<and> list_all (\<lambda>y. \<not> P y) pre" by auto
      with False have "y # xs = (y # pre) @ x # post \<and> P x \<and> list_all (\<lambda>y. \<not> P y) (y # pre)" by simp
      then show ?thesis by blast
    qed
  qed simp
next
  assume "\<exists>pre post. xs = pre @ x # post \<and> P x \<and> list_all (\<lambda>y. \<not> P y) pre"
  then obtain pre post where e: "xs = pre @ x # post" and "P x" and "list_all (\<lambda>y. \<not> P y) pre" by blast
  from this(2,3) show "List.find P xs = Some x"
    unfolding e by (induction pre) auto
qed

lemma find_first: "list_all (\<lambda>x. \<not> P x) xs \<Longrightarrow> P y \<Longrightarrow> List.find P (xs @ y # ys) = Some y"
  by (induction xs) auto

lemma find_append:
  "List.find P (xs @ ys) = (case List.find P xs of None \<Rightarrow> List.find P ys | Some r \<Rightarrow> Some r)"
  by (induction xs) auto

lemma find_distinct_key:
  assumes "distinct (List.map key rows)" and "r \<in> set rows"
  shows "List.find (\<lambda>x. key x = key r) rows = Some r"
  using assms by (induction rows) (auto simp: image_iff)

lemma find_distinct_key_and:
  assumes "distinct (List.map key rows)" and "r \<in> set rows" and "P r"
  shows "List.find (\<lambda>x. key x = key r \<and> P x) rows = Some r"
  using assms by (induction rows) (auto simp: image_iff)

end
