(* ===== verification/Go_Value.thy ===== *)
theory Go_Value
  imports Complex_Main Go_Prelude
begin

text \<open>
  Dynamic values: what \<open>encoding/json\<close> decodes into \<open>any\<close> and \<open>map[string]any\<close>, with
  \<open>float64\<close> numbers. \<open>strconv.ParseFloat\<close> (decimal and hexadecimal literals, rounding to
  the nearest double, range errors) and the shortest \<open>%v\<close> format of a \<open>float64\<close> are written
  out, because status rules compare numbers and payload mappings look up the printed value.
  The sign of a negative zero is not kept.
\<close>

section \<open>float64\<close>

datatype f64 = Fin rat | PInf | NInf | NaN

fun f64_eq :: "f64 \<Rightarrow> f64 \<Rightarrow> bool" where
  "f64_eq NaN _ = False"
| "f64_eq _ NaN = False"
| "f64_eq a b = (a = b)"

fun f64_lt :: "f64 \<Rightarrow> f64 \<Rightarrow> bool" where
  "f64_lt NaN _ = False"
| "f64_lt _ NaN = False"
| "f64_lt (Fin a) (Fin b) = (a < b)"
| "f64_lt NInf b = (b \<noteq> NInf)"
| "f64_lt (Fin a) PInf = True"
| "f64_lt (Fin a) NInf = False"
| "f64_lt PInf _ = False"

definition f64_le :: "f64 \<Rightarrow> f64 \<Rightarrow> bool" where
  "f64_le a b = (f64_lt a b \<or> f64_eq a b)"

lemma f64_lt_irrefl [simp]: "\<not> f64_lt a a"
  by (cases a) auto

lemma f64_le_Fin [simp]: "f64_le (Fin a) (Fin b) = (a \<le> b)"
  by (auto simp: f64_le_def)

lemma f64_eq_sym: "f64_eq a b = f64_eq b a"
  by (cases a; cases b) auto

lemma f64_lt_asym: "f64_lt a b \<Longrightarrow> \<not> f64_lt b a"
  by (cases a; cases b) auto

lemma f64_lt_neq: "f64_lt a b \<Longrightarrow> \<not> f64_eq a b"
  by (cases a; cases b) auto

text \<open>Rounding of an exact value to the nearest double, ties to even; \<open>None\<close> on overflow.\<close>

definition pow2 :: "int \<Rightarrow> rat" where
  "pow2 e = (if 0 \<le> e then 2 ^ nat e else 1 / 2 ^ nat (- e))"

definition pow10 :: "int \<Rightarrow> rat" where
  "pow10 e = (if 0 \<le> e then 10 ^ nat e else 1 / 10 ^ nat (- e))"

function bit_len :: "int \<Rightarrow> int" where
  "bit_len n = (if n \<le> 0 then 0 else 1 + bit_len (n div 2))"
  by pat_completeness auto
termination
  by (relation "measure nat") auto

declare bit_len.simps [simp del]

definition floor_log2 :: "rat \<Rightarrow> int" where
  "floor_log2 q =
     (let nd = quotient_of q; k = bit_len (fst nd) - bit_len (snd nd)
      in if pow2 k \<le> q then k else k - 1)"

definition round_half_even :: "rat \<Rightarrow> int" where
  "round_half_even q =
     (let f = \<lfloor>q\<rfloor>; r = q - of_int f
      in if r < 1 / 2 then f else if r > 1 / 2 then f + 1 else if even f then f else f + 1)"

definition round64 :: "rat \<Rightarrow> rat option" where
  "round64 q =
     (if q = 0 then Some 0
      else let e = max (floor_log2 \<bar>q\<bar>) (- 1022); ulp = pow2 (e - 52);
               m = round_half_even (\<bar>q\<bar> / ulp)
           in if 1023 < e \<or> e = 1023 \<and> 2 ^ 53 \<le> m then None
              else Some (sgn q * of_int m * ulp))"

text \<open>\<open>float64(n)\<close> of an integer.\<close>

definition f64_of_int :: "int \<Rightarrow> f64" where
  "f64_of_int n = (case round64 (of_int n) of Some q \<Rightarrow> Fin q | None \<Rightarrow> (if 0 < n then PInf else NInf))"

text \<open>
  \<open>int(f)\<close>: truncation towards zero; what is out of range (or not finite) gives the smallest
  64-bit integer, as the amd64 conversion instruction does.
\<close>

definition rat_trunc :: "rat \<Rightarrow> int" where
  "rat_trunc q = (if 0 \<le> q then \<lfloor>q\<rfloor> else \<lceil>q\<rceil>)"

definition f64_to_int :: "f64 \<Rightarrow> int" where
  "f64_to_int f = (case f of
      Fin q \<Rightarrow> (let t = rat_trunc q in if - (2 ^ 63) \<le> t \<and> t < 2 ^ 63 then t else - (2 ^ 63))
    | _ \<Rightarrow> - (2 ^ 63))"

lemma rat_trunc_of_int [simp]: "rat_trunc (of_int n) = n"
  by (simp add: rat_trunc_def)

lemma rat_trunc_numeral [simp]: "rat_trunc (numeral n) = numeral n" "rat_trunc 0 = 0" "rat_trunc 1 = 1"
  by (simp_all add: rat_trunc_def)

section \<open>strconv.ParseFloat\<close>

definition is_hex_digit :: "char \<Rightarrow> bool" where
  "is_hex_digit c = (is_digit c \<or> 97 \<le> (of_char (lower_char c) :: nat) \<and> (of_char (lower_char c) :: nat) \<le> 102)"

definition hex_val :: "char \<Rightarrow> int" where
  "hex_val c = (if is_digit c then int (of_char c) - 48 else int (of_char (lower_char c)) - 87)"

definition digits_in :: "int \<Rightarrow> string \<Rightarrow> int" where
  "digits_in base ds = foldl (\<lambda>n c. base * n + hex_val c) 0 ds"

text \<open>\<open>underscoreOK\<close>: underscores only between digits (or after a base prefix).\<close>

fun underscore_ok :: "bool \<Rightarrow> char \<Rightarrow> string \<Rightarrow> bool" where
  "underscore_ok hex i [] = (i \<noteq> CHR ''_'')"
| "underscore_ok hex i (c # cs) =
     (if is_digit c \<or> hex \<and> is_hex_digit c then underscore_ok hex CHR ''0'' cs
      else if c = CHR ''_'' then i = CHR ''0'' \<and> underscore_ok hex CHR ''_'' cs
      else i \<noteq> CHR ''_'' \<and> underscore_ok hex CHR ''!'' cs)"

definition exponent_part :: "string \<Rightarrow> int option" where
  "exponent_part s =
     (let neg = (case s of c # _ \<Rightarrow> c = CHR ''-'' | [] \<Rightarrow> False);
          sgned = (case s of c # _ \<Rightarrow> c = CHR ''-'' \<or> c = CHR ''+'' | [] \<Rightarrow> False);
          ds = (if sgned then tl s else s);
          v = digits_val (filter is_digit ds)
      in case ds of
           [] \<Rightarrow> None
         | d # _ \<Rightarrow> if is_digit d \<and> list_all (\<lambda>c. is_digit c \<or> c = CHR ''_'') ds
                    then Some (if neg then - v else v) else None)"

text \<open>\<open>readFloat\<close> after the sign: mantissa, optional exponent (mandatory for hexadecimal).\<close>

definition read_float :: "string \<Rightarrow> rat option" where
  "read_float s =
     (let hex = (3 \<le> length s \<and> s ! 0 = CHR ''0'' \<and> lower_char (s ! 1) = CHR ''x'');
          body = (if hex then drop 2 s else s);
          isd = (if hex then is_hex_digit else is_digit);
          mant = takeWhile (\<lambda>c. isd c \<or> c = CHR ''.'' \<or> c = CHR ''_'') body;
          rest = drop (length mant) body;
          ip = filter isd (takeWhile (\<lambda>c. c \<noteq> CHR ''.'') mant);
          fp = filter isd (dropWhile (\<lambda>c. c \<noteq> CHR ''.'') mant);
          val = of_int (digits_in (if hex then 16 else 10) (ip @ fp));
          ex = (case rest of
                  [] \<Rightarrow> if hex then None else Some 0
                | c # r \<Rightarrow> if lower_char c = (if hex then CHR ''p'' else CHR ''e'')
                           then exponent_part r else None)
      in if ip @ fp = [] \<or> 1 < length (filter (\<lambda>c. c = CHR ''.'') mant)
            \<or> \<not> underscore_ok hex (if hex then CHR ''0'' else CHR ''^'') body then None
         else case ex of None \<Rightarrow> None
              | Some e \<Rightarrow> Some (val * (if hex then pow2 (e - 4 * int (length fp))
                                       else pow10 (e - int (length fp)))))"

definition ParseFloat :: "string \<Rightarrow> f64 option" where
  "ParseFloat s =
     (let neg = (case s of c # _ \<Rightarrow> c = CHR ''-'' | [] \<Rightarrow> False);
          sgned = (case s of c # _ \<Rightarrow> c = CHR ''-'' \<or> c = CHR ''+'' | [] \<Rightarrow> False);
          r = (if sgned then tl s else s)
      in if ToLower r = ''inf'' \<or> ToLower r = ''infinity'' then Some (if neg then NInf else PInf)
         else if ToLower s = ''nan'' then Some NaN
         else case read_float r of
                None \<Rightarrow> None
              | Some q \<Rightarrow> map_option Fin (round64 (if neg then - q else q)))"

section \<open>The shortest decimal that reads back as the same double\<close>

definition dec_exp :: "rat \<Rightarrow> int" where
  "dec_exp q =
     (let nd = quotient_of q;
          k = int (length (dec_digits (fst nd))) - int (length (dec_digits (snd nd)))
      in if pow10 k \<le> q then k + 1 else k)"

text \<open>
  \<open>shortest q n fuel\<close> looks for the least number of digits, starting at \<open>n\<close>, whose nearest
  decimal rounds back to \<open>q\<close>; 17 digits always do. The result is the digits and the
  position of the decimal point.
\<close>

fun shortest :: "rat \<Rightarrow> nat \<Rightarrow> nat \<Rightarrow> string \<times> int" where
  "shortest q n fuel =
     (let k = dec_exp q; m = round_half_even (q / pow10 (k - int n));
          ds = dec_digits m
      in if fuel = 0 \<or> round64 (of_int m * pow10 (k - int n)) = Some q
         then (rev (dropWhile (\<lambda>c. c = CHR ''0'') (rev ds)), k + int (length ds) - int n)
         else shortest q (Suc n) (fuel - 1))"

declare shortest.simps [simp del]

definition zeros :: "int \<Rightarrow> string" where
  "zeros n = replicate (nat n) (CHR ''0'')"

text \<open>\<open>%g\<close> with the shortest precision: exponent form below 1e-4 and from 1e6 digits on.\<close>

definition fmt_pos :: "rat \<Rightarrow> string" where
  "fmt_pos q =
     (let dd = shortest q 1 16; ds = fst dd; dp = snd dd; x = dp - 1
      in if x < - 4 \<or> 6 \<le> x
         then hd ds # (if tl ds = [] then [] else CHR ''.'' # tl ds) @ ''e''
              @ (if x < 0 then ''-'' else ''+'') @ (if \<bar>x\<bar> < 10 then ''0'' else []) @ Itoa \<bar>x\<bar>
         else if dp \<le> 0 then ''0.'' @ zeros (- dp) @ ds
         else if int (length ds) \<le> dp then ds @ zeros (dp - int (length ds))
         else take (nat dp) ds @ ''.'' @ drop (nat dp) ds)"

definition FormatFloat :: "f64 \<Rightarrow> string" where
  "FormatFloat f = (case f of
      NaN \<Rightarrow> ''NaN'' | PInf \<Rightarrow> ''+Inf'' | NInf \<Rightarrow> ''-Inf''
    | Fin q \<Rightarrow> if q = 0 then ''0'' else if q < 0 then CHR ''-'' # fmt_pos (- q) else fmt_pos q)"

section \<open>Values of type any\<close>

text \<open>
  JSON decoding yields the first six constructors; \<open>VInt\<close> is an \<open>int\<close> or \<open>int64\<close> stored by
  Go code. An object is the list of its members, looked up by key.
\<close>

datatype gval = VNull | VBool bool | VNum f64 | VStr string | VArr "gval list"
  | VObj "(string \<times> gval) list" | VInt int

type_synonym gmap = "(string \<times> gval) list"

definition as_string :: "gval option \<Rightarrow> string option" where
  "as_string v = (case v of Some (VStr s) \<Rightarrow> Some s | _ \<Rightarrow> None)"

definition as_object :: "gval option \<Rightarrow> gmap option" where
  "as_object v = (case v of Some (VObj m) \<Rightarrow> Some m | _ \<Rightarrow> None)"

text \<open>\<open>s, _ := m[k].(string)\<close>: the zero value when the key is absent or of another type.\<close>

definition str_field :: "gmap \<Rightarrow> string \<Rightarrow> string" where
  "str_field m k = (case map_of m k of Some (VStr s) \<Rightarrow> s | _ \<Rightarrow> [])"

lemmas gval_access = as_string_def as_object_def str_field_def

text \<open>\<open>fmt.Sprintf("%v", v)\<close>: maps print their keys in sorted order.\<close>

fun sprint_v :: "gval \<Rightarrow> string" where
  "sprint_v VNull = ''<nil>''"
| "sprint_v (VBool b) = (if b then ''true'' else ''false'')"
| "sprint_v (VNum f) = FormatFloat f"
| "sprint_v (VStr s) = s"
| "sprint_v (VInt i) = Itoa i"
| "sprint_v (VArr xs) = ''['' @ join_with '' '' (List.map sprint_v xs) @ '']''"
| "sprint_v (VObj m) =
     ''map['' @ join_with '' ''
       (List.map (\<lambda>kv. fst kv @ '':'' @ snd kv)
         (sort_key fst (List.map (\<lambda>kv. (fst kv, sprint_v (snd kv))) m))) @ '']''"

text \<open>\<open>model.ToInt\<close>.\<close>

definition ToInt :: "gval option \<Rightarrow> int \<times> bool" where
  "ToInt v = (case v of
      Some (VNum f) \<Rightarrow> (f64_to_int f, True)
    | Some (VInt n) \<Rightarrow> (n, True)
    | _ \<Rightarrow> (0, False))"

end
