(* ===== verification/Go_Time.thy ===== *)
theory Go_Time
  imports Go_Prelude
begin

text \<open>
  \<open>time.Time\<close>: an instant (nanoseconds since the Unix epoch) read in a zone with a fixed
  offset. The civil fields are computed as the \<open>time\<close> package does: days since 0001-01-01,
  cut into 400-, 100-, 4- and 1-year cycles, then the month from the day of the year.
\<close>

record gotime =
  tm_ns :: int
  tm_off :: int

definition local_secs :: "gotime \<Rightarrow> int" where
  "local_secs t = tm_ns t div Second + tm_off t"

definition day_number :: "gotime \<Rightarrow> int" where
  "day_number t = local_secs t div 86400 + 719162"

definition Hour_of :: "gotime \<Rightarrow> int" where
  "Hour_of t = local_secs t mod 86400 div 3600"

definition Minute_of :: "gotime \<Rightarrow> int" where
  "Minute_of t = local_secs t mod 3600 div 60"

text \<open>0001-01-01 was a Monday; \<open>Weekday\<close> counts from Sunday = 0.\<close>

definition Weekday :: "gotime \<Rightarrow> int" where
  "Weekday t = (day_number t + 1) mod 7"

definition is_leap :: "int \<Rightarrow> bool" where
  "is_leap y = (y mod 4 = 0 \<and> (y mod 100 \<noteq> 0 \<or> y mod 400 = 0))"

text \<open>Year and day of the year (from 0) of a day number.\<close>

definition year_yday :: "int \<Rightarrow> int \<times> int" where
  "year_yday d =
     (let n400 = d div 146097; d1 = d mod 146097;
          n100 = min 3 (d1 div 36524); d2 = d1 - 36524 * n100;
          n4 = d2 div 1461; d3 = d2 mod 1461;
          n1 = min 3 (d3 div 365); d4 = d3 - 365 * n1
      in (1 + 400 * n400 + 100 * n100 + 4 * n4 + n1, d4))"

definition days_before :: "int list" where
  "days_before = [0, 31, 59, 90, 120, 151, 181, 212, 243, 273, 304, 334, 365]"

text \<open>Month (from 1) and day of the month of a day of the year.\<close>

definition month_day :: "bool \<Rightarrow> int \<Rightarrow> int \<times> int" where
  "month_day leap yd =
     (if leap \<and> yd = 59 then (2, 29)
      else let d = (if leap \<and> 59 < yd then yd - 1 else yd);
               m = d div 31
           in if days_before ! nat (m + 1) \<le> d
              then (m + 2, d - days_before ! nat (m + 1) + 1)
              else (m + 1, d - days_before ! nat m + 1))"

definition civil_date :: "gotime \<Rightarrow> int \<times> int \<times> int" where
  "civil_date t =
     (let yy = year_yday (day_number t); md = month_day (is_leap (fst yy)) (snd yy)
      in (fst yy, fst md, snd md))"

definition Month_of :: "gotime \<Rightarrow> int" where
  "Month_of t = fst (snd (civil_date t))"

definition Day_of :: "gotime \<Rightarrow> int" where
  "Day_of t = snd (snd (civil_date t))"

text \<open>\<open>now.Format("2006-01-02")\<close>.\<close>

definition pad0 :: "nat \<Rightarrow> int \<Rightarrow> string" where
  "pad0 n i = (let s = Itoa \<bar>i\<bar>
     in (if i < 0 then ''-'' else []) @ replicate (n - length s) (CHR ''0'') @ s)"

definition format_date :: "gotime \<Rightarrow> string" where
  "format_date t = (let d = civil_date t
     in pad0 4 (fst d) @ ''-'' @ pad0 2 (fst (snd d)) @ ''-'' @ pad0 2 (snd (snd d)))"

section \<open>Ranges of the civil fields\<close>

lemma Hour_of_range: "0 \<le> Hour_of t" "Hour_of t \<le> 23"
proof -
  have "0 \<le> local_secs t mod 86400" "local_secs t mod 86400 < 86400" by simp_all
  then show "0 \<le> Hour_of t" "Hour_of t \<le> 23" unfolding Hour_of_def by linarith+
qed

lemma Minute_of_range: "0 \<le> Minute_of t" "Minute_of t \<le> 59"
proof -
  have "0 \<le> local_secs t mod 3600" "local_secs t mod 3600 < 3600" by simp_all
  then show "0 \<le> Minute_of t" "Minute_of t \<le> 59" unfolding Minute_of_def by linarith+
qed

lemma Weekday_range: "0 \<le> Weekday t" "Weekday t \<le> 6"
  using pos_mod_bound [of 7 "day_number t + 1"] by (simp_all add: Weekday_def)

lemma yday_range: "0 \<le> snd (year_yday d)" "snd (year_yday d) \<le> 365"
proof -
  define d1 where "d1 = d mod 146097"
  define d2 where "d2 = d1 - 36524 * min 3 (d1 div 36524)"
  define d3 where "d3 = d2 mod 1461"
  have y: "snd (year_yday d) = d3 - 365 * min 3 (d3 div 365)"
    unfolding year_yday_def d1_def d2_def d3_def Let_def snd_conv ..
  have "0 \<le> d3" "d3 < 1461" by (simp_all add: d3_def)
  then show "0 \<le> snd (year_yday d)" "snd (year_yday d) \<le> 365"
    unfolding y by (cases "d3 div 365 \<le> 3"; linarith)+
qed

lemma month_day_range_aux:
  assumes "0 \<le> d" and "d \<le> 364"
  shows "\<exists>m dd. (if days_before ! nat (d div 31 + 1) \<le> d
              then (d div 31 + 2, d - days_before ! nat (d div 31 + 1) + 1)
              else (d div 31 + 1, d - days_before ! nat (d div 31) + 1)) = (m, dd)
          \<and> 1 \<le> m \<and> m \<le> 12 \<and> 1 \<le> dd \<and> dd \<le> 31"
proof -
  define k where "k = d div 31"
  have k: "0 \<le> k" "k \<le> 11" "31 * k \<le> d" "d < 31 * k + 31"
    using assms by (simp_all add: k_def)
  from k(1,2) have "k = 0 \<or> k = 1 \<or> k = 2 \<or> k = 3 \<or> k = 4 \<or> k = 5 \<or> k = 6 \<or> k = 7 \<or> k = 8
      \<or> k = 9 \<or> k = 10 \<or> k = 11"
    by presburger
  then show ?thesis
    using assms k unfolding k_def [symmetric]
    by (elim disjE) (simp_all add: days_before_def)
qed

lemma month_day_range:
  assumes "0 \<le> yd" and "yd \<le> 365" and "leap \<or> yd \<le> 364"
  shows "1 \<le> fst (month_day leap yd)" "fst (month_day leap yd) \<le> 12"
    and "1 \<le> snd (month_day leap yd)" "snd (month_day leap yd) \<le> 31"
proof -
  define d where "d = (if leap \<and> 59 < yd then yd - 1 else yd)"
  have d: "0 \<le> d" "d \<le> 364 \<or> leap \<and> yd = 59" using assms by (auto simp: d_def)
  have "1 \<le> fst (month_day leap yd) \<and> fst (month_day leap yd) \<le> 12
      \<and> 1 \<le> snd (month_day leap yd) \<and> snd (month_day leap yd) \<le> 31"
  proof (cases "leap \<and> yd = 59")
    case True
    then show ?thesis by (simp add: month_day_def)
  next
    case False
    with d month_day_range_aux [of d] show ?thesis
      by (auto simp: month_day_def Let_def d_def [symmetric])
  qed
  then show "1 \<le> fst (month_day leap yd)" "fst (month_day leap yd) \<le> 12"
    and "1 \<le> snd (month_day leap yd)" "snd (month_day leap yd) \<le> 31" by blast+
qed

text \<open>The 366th day exists only in leap years.\<close>

lemma yday_365_leap: "snd (year_yday d) = 365 \<Longrightarrow> is_leap (fst (year_yday d))"
proof -
  define n400 where "n400 = d div 146097"
  define d1 where "d1 = d mod 146097"
  define n100 where "n100 = min 3 (d1 div 36524)"
  define d2 where "d2 = d1 - 36524 * n100"
  define n4 where "n4 = d2 div 1461"
  define d3 where "d3 = d2 mod 1461"
  define n1 where "n1 = min 3 (d3 div 365)"
  define y where "y = 1 + 400 * n400 + 100 * n100 + 4 * n4 + n1"
  have yy: "year_yday d = (y, d3 - 365 * n1)"
    unfolding year_yday_def n400_def d1_def n100_def d2_def n4_def d3_def n1_def y_def Let_def ..
  assume "snd (year_yday d) = 365"
  then have e: "d3 - 365 * n1 = 365" by (simp add: yy)
  have d3: "0 \<le> d3" "d3 < 1461" by (simp_all add: d3_def)
  with e have n1: "n1 = 3" and d3': "d3 = 1460"
    by (auto simp: n1_def min_def split: if_splits)
  have d1: "0 \<le> d1" "d1 < 146097" by (simp_all add: d1_def)
  then have q: "0 \<le> d1 div 36524" "36524 * (d1 div 36524) \<le> d1" "d1 < 36524 * (d1 div 36524) + 36524"
    by simp_all
  then have n100: "0 \<le> n100" "n100 \<le> 3" and d2: "0 \<le> d2" "d2 \<le> 36524" and d2': "d2 = 36524 \<Longrightarrow> n100 = 3"
    using d1 unfolding d2_def n100_def by linarith+
  have n4: "0 \<le> n4" "n4 \<le> 24" and d2e: "d2 = 1461 * n4 + 1460"
    using d2 d3' mult_div_mod_eq [of 1461 d2] by (simp_all add: n4_def d3_def)
  have y: "y = 4 * (100 * n400 + 25 * n100 + n4 + 1)" by (simp add: y_def n1)
  have "y mod 100 \<noteq> 0 \<or> y mod 400 = 0"
  proof (cases "n4 = 24")
    case True
    with d2e have "n100 = 3" using d2' by simp
    with True have "y = 400 * (n400 + 1)" by (simp add: y)
    then show ?thesis by simp
  next
    case False
    define r where "r = 4 * (n4 + 1)"
    from False n4 have "y = r + (4 * n400 + n100) * 100" and "0 < r" "r < 100"
      by (simp_all add: y r_def)
    then have "y mod 100 = r" by (simp only: mod_mult_self1 mod_pos_pos_trivial less_imp_le)
    with \<open>0 < r\<close> show ?thesis by simp
  qed
  moreover have "y mod 4 = 0" by (simp add: y)
  ultimately show "is_leap (fst (year_yday d))" by (simp add: yy is_leap_def)
qed

lemma civil_month_day_range:
  "1 \<le> Month_of t" "Month_of t \<le> 12" "1 \<le> Day_of t" "Day_of t \<le> 31"
proof -
  let ?yy = "year_yday (day_number t)"
  have "is_leap (fst ?yy) \<or> snd ?yy \<le> 364"
    using yday_365_leap [of "day_number t"] yday_range [of "day_number t"] by force
  from month_day_range [OF yday_range this]
  show "1 \<le> Month_of t" "Month_of t \<le> 12" "1 \<le> Day_of t" "Day_of t \<le> 31"
    by (simp_all add: Month_of_def Day_of_def civil_date_def Let_def)
qed

end
