(* ===== verification/Gate_Model.thy ===== *)
theory Gate_Model
  imports Go_Value Go_Time "HOL-Library.AList"
begin

text \<open>
  The gate data model: \<open>internal/model/gate.go\<close> (status rules, transitions, success ranges,
  the gate itself and its effective status) and \<open>internal/model/payload_mapping.go\<close> (mapping
  of a device payload to a status and its metadata). Instants are nanoseconds; a Go map is an
  association list looked up with \<open>map_of\<close>; a JSON column holds the value it encodes.
\<close>

section \<open>Data\<close>

definition OfflineThreshold :: int where
  "OfflineThreshold = 5 * Minute"

abbreviation GateStatusOnline :: string where "GateStatusOnline \<equiv> ''online''"
abbreviation GateStatusOffline :: string where "GateStatusOffline \<equiv> ''offline''"
abbreviation GateStatusUnknown :: string where "GateStatusUnknown \<equiv> ''unknown''"
abbreviation GateStatusUnresponsive :: string where "GateStatusUnresponsive \<equiv> ''unresponsive''"

record status_rule =
  sr_Key :: string
  sr_Op :: string
  sr_Value :: string
  sr_SetStatus :: string

record status_transition =
  st_From :: string
  st_To :: string
  st_AfterSeconds :: int
  st_PersistOnChange :: bool

record status_code_range =
  sc_From :: int
  sc_To :: int

abbreviation DriverTypeMQTTGatie :: string where "DriverTypeMQTTGatie \<equiv> ''MQTT_GATIE''"
abbreviation DriverTypeMQTTCustom :: string where "DriverTypeMQTTCustom \<equiv> ''MQTT_CUSTOM''"
abbreviation DriverTypeHTTP :: string where "DriverTypeHTTP \<equiv> ''HTTP''"
abbreviation DriverTypeHTTPInbound :: string where "DriverTypeHTTPInbound \<equiv> ''HTTP_INBOUND''"
abbreviation DriverTypeHTTPWebhook :: string where "DriverTypeHTTPWebhook \<equiv> ''HTTP_WEBHOOK''"
abbreviation DriverTypeNone :: string where "DriverTypeNone \<equiv> ''NONE''"

record action_config =
  ac_Type :: string
  ac_Config :: gmap

record meta_field =
  mf_Key :: string
  mf_Label :: string
  mf_Unit :: string

definition DefaultGateStatuses :: "string list" where
  "DefaultGateStatuses = [''open'', ''closed'', ''unavailable'']"

record gate =
  g_ID :: uuid
  g_Name :: string
  g_IntegrationType :: string
  g_IntegrationConfig :: gmap
  g_OpenConfig :: "action_config option"
  g_CloseConfig :: "action_config option"
  g_StatusConfig :: "action_config option"
  g_Status :: string
  g_LastSeenAt :: "int option"
  g_CreatedAt :: int
  g_StatusMetadata :: "gmap option"
  g_MetaConfig :: "meta_field list"
  g_StatusRules :: "status_rule list"
  g_CustomStatuses :: "string list"
  g_TTLSeconds :: "int option"
  g_StatusTransitions :: "status_transition list"
  g_GateToken :: "string option"

section \<open>Status rules\<close>

text \<open>The loop of \<open>getNestedValue\<close> over the parts of the key.\<close>

fun traverse :: "gval \<Rightarrow> string list \<Rightarrow> gval option" where
  "traverse v [] = Some v"
| "traverse v (p # ps) =
     (case v of
        VObj obj \<Rightarrow> (case map_of obj p of None \<Rightarrow> None | Some w \<Rightarrow> traverse w ps)
      | _ \<Rightarrow> None)"

definition getNestedValue :: "gmap \<Rightarrow> string \<Rightarrow> gval option" where
  "getNestedValue m key =
     (case map_of m key of
        Some v \<Rightarrow> Some v
      | None \<Rightarrow> if CHR ''.'' \<notin> set key then None
                else traverse (VObj m) (split_on (CHR ''.'') key))"

definition string_compare :: "string \<Rightarrow> string \<Rightarrow> string \<Rightarrow> bool" where
  "string_compare op s threshold =
     (if op = ''eq'' then s = threshold
      else if op = ''ne'' then s \<noteq> threshold
      else False)"

definition numeric_compare :: "string \<Rightarrow> f64 \<Rightarrow> string \<Rightarrow> bool" where
  "numeric_compare op actualF threshold =
     (case ParseFloat threshold of
        None \<Rightarrow> False
      | Some threshF \<Rightarrow>
          if op = ''eq'' then f64_eq actualF threshF
          else if op = ''ne'' then \<not> f64_eq actualF threshF
          else if op = ''gt'' then f64_lt threshF actualF
          else if op = ''gte'' then f64_le threshF actualF
          else if op = ''lt'' then f64_lt actualF threshF
          else if op = ''lte'' then f64_le actualF threshF
          else False)"

definition ruleMatches :: "string \<Rightarrow> gval \<Rightarrow> string \<Rightarrow> bool" where
  "ruleMatches op actual threshold =
     (case actual of
        VNum v \<Rightarrow> numeric_compare op v threshold
      | VInt v \<Rightarrow> numeric_compare op (f64_of_int v) threshold
      | VStr v \<Rightarrow>
          (case ParseFloat v of
             Some f \<Rightarrow> numeric_compare op f threshold
           | None \<Rightarrow> string_compare op v threshold)
      | _ \<Rightarrow> string_compare op (sprint_v actual) threshold)"

fun EvaluateStatusRules :: "status_rule list \<Rightarrow> gmap \<Rightarrow> string option" where
  "EvaluateStatusRules [] meta = None"
| "EvaluateStatusRules (rule # rules) meta =
     (case getNestedValue meta (sr_Key rule) of
        None \<Rightarrow> EvaluateStatusRules rules meta
      | Some val \<Rightarrow>
          if ruleMatches (sr_Op rule) val (sr_Value rule)
          then Some (sr_SetStatus rule)
          else EvaluateStatusRules rules meta)"

section \<open>Success ranges of a polled endpoint\<close>

definition IsSuccessStatus :: "int \<Rightarrow> status_code_range list \<Rightarrow> bool" where
  "IsSuccessStatus code ranges =
     (if ranges = [] then 200 \<le> code \<and> code < 300
      else list_ex (\<lambda>r. sc_From r \<le> code \<and> code \<le> sc_To r) ranges)"

fun collect_ranges :: "gval list \<Rightarrow> status_code_range list" where
  "collect_ranges [] = []"
| "collect_ranges (item # items) =
     (case item of
        VObj m \<Rightarrow>
          (let from = fst (ToInt (map_of m ''from'')); to = fst (ToInt (map_of m ''to''))
           in if 0 < from \<and> 0 < to
              then \<lparr>sc_From = from, sc_To = to\<rparr> # collect_ranges items
              else collect_ranges items)
      | _ \<Rightarrow> collect_ranges items)"

definition ExtractSuccessStatusCodes :: "gmap \<Rightarrow> status_code_range list" where
  "ExtractSuccessStatusCodes cfg =
     (case map_of cfg ''success_status_codes'' of
        Some (VArr arr) \<Rightarrow> collect_ranges arr
      | _ \<Rightarrow> [])"

section \<open>Effective status\<close>

text \<open>\<open>time.Since\<close> saturates; the difference of two instants of the database is far below that.\<close>

definition EffectiveStatus :: "int \<Rightarrow> gate \<Rightarrow> string" where
  "EffectiveStatus now g =
     (case g_LastSeenAt g of
        None \<Rightarrow> GateStatusUnknown
      | Some seen \<Rightarrow> if OfflineThreshold < now - seen then GateStatusOffline else g_Status g)"

section \<open>Payload mapping\<close>

record status_field_mapping =
  sfm_Field :: string
  sfm_Values :: "(string \<times> string) list"

record payload_mapping =
  pm_Format :: string
  pm_Status :: status_field_mapping

text \<open>
  \<open>json.Marshal\<close> of a decoded value, then \<open>json.Unmarshal\<close> into the struct: a member is
  assigned to the field whose name it equals up to case, in the sorted order \<open>Marshal\<close> writes
  the members of a map; \<open>null\<close> leaves a field as it is (a map becomes empty); a value of another type
  is an error. Non-finite numbers cannot be marshalled.
\<close>

fun json_encodable :: "gval \<Rightarrow> bool" where
  "json_encodable (VNum (Fin _)) = True"
| "json_encodable (VNum _) = False"
| "json_encodable (VArr xs) = list_all json_encodable xs"
| "json_encodable (VObj m) = list_all (\<lambda>kv. json_encodable (snd kv)) m"
| "json_encodable _ = True"

definition decode_string :: "gval \<Rightarrow> string \<Rightarrow> string option" where
  "decode_string v old = (case v of VStr s \<Rightarrow> Some s | VNull \<Rightarrow> Some old | _ \<Rightarrow> None)"

fun decode_members :: "(string \<Rightarrow> gval \<Rightarrow> 'a \<Rightarrow> 'a option) \<Rightarrow> gmap \<Rightarrow> 'a \<Rightarrow> 'a option" where
  "decode_members f [] acc = Some acc"
| "decode_members f ((k, v) # m) acc =
     (case f k v acc of None \<Rightarrow> None | Some acc' \<Rightarrow> decode_members f m acc')"

definition decode_object :: "(string \<Rightarrow> gval \<Rightarrow> 'a \<Rightarrow> 'a option) \<Rightarrow> gval \<Rightarrow> 'a \<Rightarrow> 'a option" where
  "decode_object f v acc =
     (case v of
        VObj m \<Rightarrow> decode_members f (sort_key fst m) acc
      | VNull \<Rightarrow> Some acc
      | _ \<Rightarrow> None)"

definition decode_values :: "gval \<Rightarrow> (string \<times> string) list \<Rightarrow> (string \<times> string) list option" where
  "decode_values v old =
     (if v = VNull then Some []
      else decode_object (\<lambda>k w acc. map_option (\<lambda>s. AList.update k s acc) (decode_string w [])) v old)"

definition decode_status_mapping :: "gval \<Rightarrow> status_field_mapping \<Rightarrow> status_field_mapping option" where
  "decode_status_mapping = decode_object (\<lambda>k v acc.
     if ToLower k = ''field'' then map_option (\<lambda>s. acc\<lparr>sfm_Field := s\<rparr>) (decode_string v (sfm_Field acc))
     else if ToLower k = ''values'' then map_option (\<lambda>vs. acc\<lparr>sfm_Values := vs\<rparr>) (decode_values v (sfm_Values acc))
     else Some acc)"

definition decode_mapping :: "gval \<Rightarrow> payload_mapping option" where
  "decode_mapping v = decode_object (\<lambda>k w acc.
     if ToLower k = ''format'' then map_option (\<lambda>s. acc\<lparr>pm_Format := s\<rparr>) (decode_string w (pm_Format acc))
     else if ToLower k = ''status'' then map_option (\<lambda>s. acc\<lparr>pm_Status := s\<rparr>) (decode_status_mapping w (pm_Status acc))
     else Some acc) v \<lparr>pm_Format = [], pm_Status = \<lparr>sfm_Field = [], sfm_Values = []\<rparr>\<rparr>"

definition ExtractPayloadMapping :: "gmap \<Rightarrow> payload_mapping option" where
  "ExtractPayloadMapping config =
     (case map_of config ''mapping'' of
        None \<Rightarrow> None
      | Some raw \<Rightarrow>
          if raw = VNull \<or> \<not> json_encodable raw then None
          else case decode_mapping raw of
                 None \<Rightarrow> None
               | Some m \<Rightarrow> if sfm_Field (pm_Status m) = [] then None else Some m)"

definition ApplyMapping :: "payload_mapping \<Rightarrow> gmap \<Rightarrow> string res" where
  "ApplyMapping mapping raw =
     (if pm_Format mapping \<noteq> [] \<and> pm_Format mapping \<noteq> ''json''
      then Inl (Errorf ''unsupported payload format: %q'' [AStr (pm_Format mapping)])
      else case getNestedValue raw (sfm_Field (pm_Status mapping)) of
        None \<Rightarrow> Inl (Errorf ''status field %q not found in payload'' [AStr (sfm_Field (pm_Status mapping))])
      | Some rawVal \<Rightarrow>
          (let rawStr = sprint_v rawVal
           in if sfm_Values (pm_Status mapping) \<noteq> []
              then (case map_of (sfm_Values (pm_Status mapping)) rawStr of
                      None \<Rightarrow> Inl (Errorf ''status value %q has no mapping'' [AStr rawStr])
                    | Some mapped \<Rightarrow> Inr mapped)
              else Inr rawStr))"

text \<open>The result \<open>None\<close> is the nil map.\<close>

definition ExtractMeta :: "meta_field list \<Rightarrow> gmap \<Rightarrow> gmap option" where
  "ExtractMeta metaConfig raw =
     (if metaConfig = [] then None
      else Some (fold (\<lambda>field meta.
             case getNestedValue raw (mf_Key field) of
               Some v \<Rightarrow> AList.update (mf_Key field) v meta
             | None \<Rightarrow> meta) metaConfig []))"

section \<open>Rules: the first match wins\<close>

definition rule_hit :: "gmap \<Rightarrow> status_rule \<Rightarrow> bool" where
  "rule_hit meta r = (case getNestedValue meta (sr_Key r) of
      None \<Rightarrow> False | Some v \<Rightarrow> ruleMatches (sr_Op r) v (sr_Value r))"

lemma EvaluateStatusRules_find:
  "EvaluateStatusRules rules meta = map_option sr_SetStatus (List.find (rule_hit meta) rules)"
  by (induction rules) (auto simp: rule_hit_def split: option.splits)

lemma EvaluateStatusRules_None: "EvaluateStatusRules rules meta = None \<longleftrightarrow> (\<forall>r \<in> set rules. \<not> rule_hit meta r)"
  by (simp add: EvaluateStatusRules_find find_None_iff_ball)

text \<open>
  Status rules are evaluated in order and the first match wins: the result is
  the status of a rule exactly when that rule matches the metadata and no earlier one does.
\<close>

theorem EvaluateStatusRules_first_match:
  "EvaluateStatusRules rules meta = Some s \<longleftrightarrow>
   (\<exists>pre r post. rules = pre @ r # post \<and> rule_hit meta r \<and> sr_SetStatus r = s
      \<and> list_all (\<lambda>q. \<not> rule_hit meta q) pre)"
  by (auto simp: EvaluateStatusRules_find find_first_iff)

text \<open>The comparison operators on values that have a numeric reading.\<close>

definition numeric_reading :: "gval \<Rightarrow> f64 option" where
  "numeric_reading v = (case v of
      VNum f \<Rightarrow> Some f | VInt n \<Rightarrow> Some (f64_of_int n) | VStr s \<Rightarrow> ParseFloat s | _ \<Rightarrow> None)"

lemma ruleMatches_numeric:
  "numeric_reading v = Some a \<Longrightarrow> ruleMatches op v t = numeric_compare op a t"
  by (auto simp: numeric_reading_def ruleMatches_def split: gval.splits option.splits)

lemma f64_linear: "a \<noteq> NaN \<Longrightarrow> b \<noteq> NaN \<Longrightarrow> f64_lt a b \<or> f64_lt b a \<or> f64_eq a b"
  by (cases a; cases b) auto

text \<open>
  On a value that reads as a number, compared with a numeric threshold (neither
  being NaN), exactly one of the operators lt, eq and gt matches, lte and gte are the
  corresponding disjunctions, and ne is the negation of eq.
\<close>

theorem ruleMatches_trichotomy:
  assumes "numeric_reading v = Some a" and "ParseFloat t = Some b" and "a \<noteq> NaN" and "b \<noteq> NaN"
  shows "(ruleMatches ''lt'' v t \<or> ruleMatches ''eq'' v t \<or> ruleMatches ''gt'' v t)
    \<and> \<not> (ruleMatches ''lt'' v t \<and> ruleMatches ''eq'' v t)
    \<and> \<not> (ruleMatches ''lt'' v t \<and> ruleMatches ''gt'' v t)
    \<and> \<not> (ruleMatches ''eq'' v t \<and> ruleMatches ''gt'' v t)
    \<and> (ruleMatches ''lte'' v t \<longleftrightarrow> ruleMatches ''lt'' v t \<or> ruleMatches ''eq'' v t)
    \<and> (ruleMatches ''gte'' v t \<longleftrightarrow> ruleMatches ''gt'' v t \<or> ruleMatches ''eq'' v t)
    \<and> (ruleMatches ''ne'' v t \<longleftrightarrow> \<not> ruleMatches ''eq'' v t)"
  using f64_linear [OF assms(3,4)] f64_lt_neq [of a b] f64_lt_neq [of b a] f64_lt_asym [of a b]
    f64_eq_sym [of a b]
  by (auto simp: ruleMatches_numeric [OF assms(1)] numeric_compare_def assms(2) f64_le_def)

theorem ruleMatches_trichotomy_witness:
  "ruleMatches ''lt'' (VStr ''12'') ''20'' \<or> ruleMatches ''eq'' (VStr ''12'') ''20''
     \<or> ruleMatches ''gt'' (VStr ''12'') ''20''"
proof -
  have "numeric_reading (VStr ''12'') = Some (Fin 12)" by code_simp
  moreover have "ParseFloat ''20'' = Some (Fin 20)" by code_simp
  ultimately show ?thesis
    using ruleMatches_trichotomy [of "VStr ''12''" "Fin 12" "''20''" "Fin 20"] by blast
qed

text \<open>
  A threshold that is not a number never matches a numeric value, not even with \<open>ne\<close>.
\<close>

lemma ruleMatches_bad_threshold:
  "numeric_reading v = Some a \<Longrightarrow> ParseFloat t = None \<Longrightarrow> \<not> ruleMatches op v t"
  by (simp add: ruleMatches_numeric numeric_compare_def)

section \<open>Dotted keys\<close>

lemma split_on_join:
  "parts \<noteq> [] \<Longrightarrow> list_all (\<lambda>p. c \<notin> set p) parts \<Longrightarrow> split_on c (join_with [c] parts) = parts"
  by (induction parts rule: join_with.induct [of "\<lambda>_. _", case_names a b c, consumes 0])
     (auto simp: split_on_no_sep split_on_append)

text \<open>Storing a value under a path of keys, creating the objects on the way.\<close>

fun put_path :: "gmap \<Rightarrow> string list \<Rightarrow> gval \<Rightarrow> gmap" where
  "put_path m [] v = m"
| "put_path m [p] v = AList.update p v m"
| "put_path m (p # q # ps) v =
     AList.update p (VObj (put_path (case map_of m p of Some (VObj o') \<Rightarrow> o' | _ \<Rightarrow> []) (q # ps) v)) m"

lemma traverse_put_path: "parts \<noteq> [] \<Longrightarrow> traverse (VObj (put_path m parts v)) parts = Some v"
  by (induction m parts v rule: put_path.induct) (auto simp: update_conv)

lemma map_of_put_path: "parts \<noteq> [] \<Longrightarrow> k \<noteq> hd parts \<Longrightarrow> map_of (put_path m parts v) k = map_of m k"
  by (cases "(m, parts, v)" rule: put_path.cases) (auto simp: update_conv)

text \<open>
  A value stored under a path of objects is found by the dotted key of that path,
  unless the payload has a flat key of that name, which takes precedence.
\<close>

theorem getNestedValue_put_path:
  assumes "parts \<noteq> []" and "list_all (\<lambda>p. CHR ''.'' \<notin> set p) parts"
    and "map_of m (join_with ''.'' parts) = None"
  shows "getNestedValue (put_path m parts v) (join_with ''.'' parts) = Some v"
proof (cases parts rule: remdups_adj.cases)
  case 1
  with assms(1) show ?thesis by simp
next
  case (2 p)
  then show ?thesis by (simp add: getNestedValue_def update_conv)
next
  case (3 p q ps)
  have dot: "CHR ''.'' \<in> set (join_with ''.'' parts)" by (simp add: 3)
  with assms(2) have "join_with ''.'' parts \<noteq> hd parts" by (auto simp: 3)
  then have "map_of (put_path m parts v) (join_with ''.'' parts) = None"
    using map_of_put_path [OF assms(1)] assms(3) by simp
  then show ?thesis
    using dot split_on_join [OF assms(1,2)] traverse_put_path [OF assms(1), of m v]
    by (simp add: getNestedValue_def)
qed

theorem getNestedValue_put_path_witness:
  "getNestedValue (put_path [(''lora'', VObj [(''rssi'', VInt 3)])] [''lora'', ''snr''] (VInt 7)) ''lora.snr''
   = Some (VInt 7)"
  using getNestedValue_put_path [of "[''lora'', ''snr'']" "[(''lora'', VObj [(''rssi'', VInt 3)])]" "VInt 7"]
  by simp

section \<open>Mapping a payload\<close>

text \<open>
  A payload mapping succeeds exactly when its format is JSON (or unset), the status
  field is present and its printed value is mapped; the resulting status is the mapped one,
  so with a non-empty value table it is always one of the targets of the table, and without
  a table it is the printed raw value.
\<close>

theorem ApplyMapping_spec:
  "ApplyMapping m raw = Inr s \<longleftrightarrow>
     (pm_Format m = [] \<or> pm_Format m = ''json'')
     \<and> (\<exists>v. getNestedValue raw (sfm_Field (pm_Status m)) = Some v
          \<and> (if sfm_Values (pm_Status m) = [] then s = sprint_v v
             else map_of (sfm_Values (pm_Status m)) (sprint_v v) = Some s))"
  by (auto simp: ApplyMapping_def Let_def split: option.splits)

lemma ApplyMapping_range:
  assumes "ApplyMapping m raw = Inr s" and "sfm_Values (pm_Status m) \<noteq> []"
  shows "s \<in> snd ` set (sfm_Values (pm_Status m))"
  using assms by (force simp: ApplyMapping_spec dest: map_of_SomeD)

lemma extract_fold:
  "map_of (fold (\<lambda>field meta. case getNestedValue raw (mf_Key field) of
       Some v \<Rightarrow> AList.update (mf_Key field) v meta | None \<Rightarrow> meta) mc acc) k
   = (case (if k \<in> mf_Key ` set mc then getNestedValue raw k else None) of
        Some v \<Rightarrow> Some v | None \<Rightarrow> map_of acc k)"
  by (induction mc arbitrary: acc) (auto simp: update_conv split: option.splits)

text \<open>
  Metadata extraction keeps exactly the configured fields that the payload has: every
  configured key is looked up in the payload, and no other key is ever stored.
\<close>

theorem ExtractMeta_exact:
  "(ExtractMeta mc raw = None \<longleftrightarrow> mc = [])
   \<and> (case ExtractMeta mc raw of
        None \<Rightarrow> True
      | Some meta \<Rightarrow> \<forall>k. map_of meta k = (if k \<in> mf_Key ` set mc then getNestedValue raw k else None))"
  by (auto simp: ExtractMeta_def extract_fold split: option.splits)

end
