(* ===== verification/Schedule_Expr.thy ===== *)
theory Schedule_Expr
  imports Go_Time
begin

text \<open>
  Access schedules: the boolean expressions of \<open>internal/model/access_schedule.go\<close> and the
  evaluator and validator of \<open>internal/service/schedule.go\<close>. The abstract side reads a rule
  as an arc of a cycle (minutes of the day, days of the week or of the month, months of the
  year) and an expression as a boolean combination of such windows.
\<close>

section \<open>Data\<close>

record schedule_rule =
  r_Type :: string
  r_Days :: "int list"
  r_StartTime :: string
  r_EndTime :: string
  r_StartDay :: "int option"
  r_EndDay :: "int option"
  r_StartDate :: string
  r_EndDate :: string
  r_StartDOM :: "int option"
  r_EndDOM :: "int option"
  r_StartMonth :: "int option"
  r_EndMonth :: "int option"

datatype expr_node =
  ExprNode (en_Op: string) (en_Children: "expr_node list") (en_Rule: "schedule_rule option")

record access_schedule =
  as_ID :: uuid
  as_MemberID :: "uuid option"
  as_Name :: string
  as_Description :: "string option"
  as_Expr :: "expr_node option"
  as_CreatedAt :: int

section \<open>Matching a rule\<close>

definition parseHHMM :: "string \<Rightarrow> (int \<times> int) option" where
  "parseHHMM s =
     (case splitN2 (CHR '':'') s of
        [p0, p1] \<Rightarrow>
          (case (Atoi p0, Atoi p1) of
             (Some h, Some m) \<Rightarrow>
               if h < 0 \<or> h > 23 \<or> m < 0 \<or> m > 59 then None else Some (h, m)
           | _ \<Rightarrow> None)
      | _ \<Rightarrow> None)"

definition matchesTimeRange :: "schedule_rule \<Rightarrow> gotime \<Rightarrow> bool" where
  "matchesTimeRange r now =
     (if r_Days r \<noteq> [] \<and> \<not> list_ex (\<lambda>d. d = Weekday now) (r_Days r) then False
      else if r_StartTime r = [] \<or> r_EndTime r = [] then True
      else case (parseHHMM (r_StartTime r), parseHHMM (r_EndTime r)) of
        (Some (startH, startM), Some (endH, endM)) \<Rightarrow>
          (let nowMins = Hour_of now * 60 + Minute_of now;
               startMins = startH * 60 + startM;
               endMins = endH * 60 + endM
           in if startMins \<le> endMins then nowMins \<ge> startMins \<and> nowMins < endMins
              else nowMins \<ge> startMins \<or> nowMins < endMins)
      | _ \<Rightarrow> False)"

definition matchesWeekdaysRange :: "schedule_rule \<Rightarrow> gotime \<Rightarrow> bool" where
  "matchesWeekdaysRange r now =
     (case (r_StartDay r, r_EndDay r) of
        (Some start, Some end') \<Rightarrow>
          (let dow = Weekday now
           in if start \<le> end' then dow \<ge> start \<and> dow \<le> end' else dow \<ge> start \<or> dow \<le> end')
      | _ \<Rightarrow> False)"

definition matchesDateRange :: "schedule_rule \<Rightarrow> gotime \<Rightarrow> bool" where
  "matchesDateRange r now =
     (if r_StartDate r = [] \<or> r_EndDate r = [] then False
      else let today = format_date now in today \<ge> r_StartDate r \<and> today \<le> r_EndDate r)"

definition matchesDayOfMonthRange :: "schedule_rule \<Rightarrow> gotime \<Rightarrow> bool" where
  "matchesDayOfMonthRange r now =
     (case (r_StartDOM r, r_EndDOM r) of
        (Some start, Some end') \<Rightarrow>
          (let dom = Day_of now
           in if start \<le> end' then dom \<ge> start \<and> dom \<le> end' else dom \<ge> start \<or> dom \<le> end')
      | _ \<Rightarrow> False)"

definition matchesMonthRange :: "schedule_rule \<Rightarrow> gotime \<Rightarrow> bool" where
  "matchesMonthRange r now =
     (case (r_StartMonth r, r_EndMonth r) of
        (Some start, Some end') \<Rightarrow>
          (let month = Month_of now
           in if start \<le> end' then month \<ge> start \<and> month \<le> end'
              else month \<ge> start \<or> month \<le> end')
      | _ \<Rightarrow> False)"

definition scheduleRuleMatches :: "schedule_rule \<Rightarrow> gotime \<Rightarrow> bool" where
  "scheduleRuleMatches r now =
     (if r_Type r = ''time_range'' then matchesTimeRange r now
      else if r_Type r = ''weekdays_range'' then matchesWeekdaysRange r now
      else if r_Type r = ''date_range'' then matchesDateRange r now
      else if r_Type r = ''day_of_month_range'' then matchesDayOfMonthRange r now
      else if r_Type r = ''month_range'' then matchesMonthRange r now
      else False)"

section \<open>Evaluating and validating an expression\<close>

fun evalExpr :: "expr_node \<Rightarrow> gotime \<Rightarrow> bool" where
  "evalExpr (ExprNode op children rule) now =
     (if op = ''rule'' then (case rule of None \<Rightarrow> False | Some r \<Rightarrow> scheduleRuleMatches r now)
      else if op = ''not'' then (case children of [c] \<Rightarrow> \<not> evalExpr c now | _ \<Rightarrow> False)
      else if op = ''and'' then (if children = [] then True else list_all (\<lambda>c. evalExpr c now) children)
      else if op = ''or'' then (if children = [] then False else list_ex (\<lambda>c. evalExpr c now) children)
      else False)"

definition validateRule :: "string \<Rightarrow> schedule_rule \<Rightarrow> unit res" where
  "validateRule path r =
     (if r_Type r = ''time_range'' then
        (if r_StartTime r \<noteq> [] \<and> parseHHMM (r_StartTime r) = None
         then Inl (Errorf ''%s: invalid start_time %q (expected HH:MM)'' [AStr path, AStr (r_StartTime r)])
         else if r_EndTime r \<noteq> [] \<and> parseHHMM (r_EndTime r) = None
         then Inl (Errorf ''%s: invalid end_time %q (expected HH:MM)'' [AStr path, AStr (r_EndTime r)])
         else first_err (\<lambda>_ d. if d < 0 \<or> d > 6
                then Inl (Errorf ''%s: invalid day %d (0=Sun..6=Sat)'' [AStr path, AInt d]) else Inr ())
              0 (r_Days r))
      else if r_Type r = ''weekdays_range'' then
        (case (r_StartDay r, r_EndDay r) of
           (Some s, Some e) \<Rightarrow>
             if s < 0 \<or> s > 6 \<or> e < 0 \<or> e > 6
             then Inl (Errorf ''%s: day values must be 0-6'' [AStr path]) else Inr ()
         | _ \<Rightarrow> Inl (Errorf ''%s: weekdays_range requires start_day and end_day'' [AStr path]))
      else if r_Type r = ''date_range'' then
        (if r_StartDate r = [] \<or> r_EndDate r = []
         then Inl (Errorf ''%s: date_range requires start_date and end_date'' [AStr path])
         else if r_StartDate r > r_EndDate r
         then Inl (Errorf ''%s: start_date must be <= end_date'' [AStr path])
         else Inr ())
      else if r_Type r = ''day_of_month_range'' then
        (case (r_StartDOM r, r_EndDOM r) of
           (Some s, Some e) \<Rightarrow>
             if s < 1 \<or> s > 31 \<or> e < 1 \<or> e > 31
             then Inl (Errorf ''%s: start_dom and end_dom must be 1-31'' [AStr path]) else Inr ()
         | _ \<Rightarrow> Inl (Errorf ''%s: day_of_month_range requires start_dom and end_dom'' [AStr path]))
      else if r_Type r = ''month_range'' then
        (case (r_StartMonth r, r_EndMonth r) of
           (Some s, Some e) \<Rightarrow>
             if s < 1 \<or> s > 12 \<or> e < 1 \<or> e > 12
             then Inl (Errorf ''%s: start_month and end_month must be 1-12'' [AStr path]) else Inr ()
         | _ \<Rightarrow> Inl (Errorf ''%s: month_range requires start_month and end_month'' [AStr path]))
      else Inl (Errorf ''%s: unknown rule type %q'' [AStr path, AStr (r_Type r)]))"

text \<open>The three errors of \<open>validateExpr\<close>, named to keep the recursion readable.\<close>

definition err_no_rule :: "string \<Rightarrow> err" where
  "err_no_rule path = Errorf ''%s: op=\"rule\" requires a rule object'' [AStr path]"

definition err_not_arity :: "string \<Rightarrow> expr_node list \<Rightarrow> err" where
  "err_not_arity path cs =
     Errorf ''%s: op=\"not\" requires exactly 1 child, got %d'' [AStr path, AInt (int (length cs))]"

definition err_few_children :: "string \<Rightarrow> string \<Rightarrow> expr_node list \<Rightarrow> err" where
  "err_few_children path op cs =
     Errorf ''%s: op=%q requires at least 2 children, got %d'' [AStr path, AStr op, AInt (int (length cs))]"

definition err_unknown_op :: "string \<Rightarrow> string \<Rightarrow> err" where
  "err_unknown_op path op =
     Errorf ''%s: unknown op %q (expected \"and\", \"or\", \"not\", \"rule\")'' [AStr path, AStr op]"

definition child_path :: "string \<Rightarrow> nat \<Rightarrow> string" where
  "child_path path i = path @ ''.children['' @ Itoa (int i) @ '']''"

function validateExpr :: "expr_node \<Rightarrow> string \<Rightarrow> unit res"
  and validateChildren :: "expr_node list \<Rightarrow> string \<Rightarrow> nat \<Rightarrow> unit res" where
  "validateExpr (ExprNode op children rule) path =
     (if op = ''rule'' then (case rule of None \<Rightarrow> Inl (err_no_rule path) | Some r \<Rightarrow> validateRule path r)
      else if op = ''not'' then
        (case children of
           [c] \<Rightarrow> validateExpr c (child_path path 0)
         | _ \<Rightarrow> Inl (err_not_arity path children))
      else if op = ''and'' \<or> op = ''or'' then
        (if length children < 2 then Inl (err_few_children path op children)
         else validateChildren children path 0)
      else Inl (err_unknown_op path op))"
| "validateChildren [] path i = Inr ()"
| "validateChildren (c # cs) path i =
     (case validateExpr c (child_path path i) of
        Inl e \<Rightarrow> Inl e
      | Inr _ \<Rightarrow> validateChildren cs path (Suc i))"
  by pat_completeness auto
termination
  by (relation "measure (\<lambda>x. case x of Inl (e, _) \<Rightarrow> size e | Inr (cs, _) \<Rightarrow> size_list size cs)") auto

text \<open>\<open>ScheduleService.Check\<close>; the argument is \<open>schedule.Expr\<close> and \<open>schedule.Name\<close>.\<close>

definition Check :: "access_schedule \<Rightarrow> gotime \<Rightarrow> unit res" where
  "Check schedule now =
     (case as_Expr schedule of
        None \<Rightarrow> Inr ()
      | Some e \<Rightarrow> if evalExpr e now then Inr ()
                  else Inl (Wrapf ''%w (schedule: %s)'' [AStr (as_Name schedule)] ErrScheduleDenied))"

section \<open>Validation\<close>

definition valid_rule :: "schedule_rule \<Rightarrow> bool" where
  "valid_rule r =
     (if r_Type r = ''time_range'' then
        (r_StartTime r = [] \<or> parseHHMM (r_StartTime r) \<noteq> None)
        \<and> (r_EndTime r = [] \<or> parseHHMM (r_EndTime r) \<noteq> None)
        \<and> list_all (\<lambda>d. 0 \<le> d \<and> d \<le> 6) (r_Days r)
      else if r_Type r = ''weekdays_range'' then
        (\<exists>s \<in> set_option (r_StartDay r). \<exists>e \<in> set_option (r_EndDay r). 0 \<le> s \<and> s \<le> 6 \<and> 0 \<le> e \<and> e \<le> 6)
      else if r_Type r = ''date_range'' then
        r_StartDate r \<noteq> [] \<and> r_EndDate r \<noteq> [] \<and> r_StartDate r \<le> r_EndDate r
      else if r_Type r = ''day_of_month_range'' then
        (\<exists>s \<in> set_option (r_StartDOM r). \<exists>e \<in> set_option (r_EndDOM r). 1 \<le> s \<and> s \<le> 31 \<and> 1 \<le> e \<and> e \<le> 31)
      else r_Type r = ''month_range'' \<and>
        (\<exists>s \<in> set_option (r_StartMonth r). \<exists>e \<in> set_option (r_EndMonth r). 1 \<le> s \<and> s \<le> 12 \<and> 1 \<le> e \<and> e \<le> 12))"

fun valid_expr :: "expr_node \<Rightarrow> bool" where
  "valid_expr (ExprNode op children rule) =
     ((op = ''rule'' \<and> (case rule of None \<Rightarrow> False | Some r \<Rightarrow> valid_rule r))
      \<or> (op = ''not'' \<and> length children = 1 \<and> list_all valid_expr children)
      \<or> ((op = ''and'' \<or> op = ''or'') \<and> 2 \<le> length children \<and> list_all valid_expr children))"

lemma validateRule_iff: "validateRule path r = Inr () \<longleftrightarrow> valid_rule r"
proof -
  have "first_err (\<lambda>_ d. if d < 0 \<or> d > 6
                then Inl (Errorf ''%s: invalid day %d (0=Sun..6=Sat)'' [AStr path, AInt d]) else Inr ())
              0 (r_Days r) = Inr () \<longleftrightarrow> (\<forall>d \<in> set (r_Days r). 0 \<le> d \<and> d \<le> 6)"
    by (rule first_err_ok_uniform) auto
  note days = this
  consider "r_Type r = ''time_range''" | "r_Type r = ''weekdays_range''" | "r_Type r = ''date_range''"
    | "r_Type r = ''day_of_month_range''" | "r_Type r = ''month_range''"
    | "r_Type r \<notin> {''time_range'', ''weekdays_range'', ''date_range'', ''day_of_month_range'', ''month_range''}"
    by blast
  then show ?thesis
  proof cases
    case 1
    with days show ?thesis by (simp add: validateRule_def valid_rule_def list_all_iff)
  next
    case 2
    then show ?thesis
      by (simp add: validateRule_def valid_rule_def) (auto split: option.splits)
  next
    case 3
    then show ?thesis by (auto simp: validateRule_def valid_rule_def not_less dest: leD)
  next
    case 4
    then show ?thesis
      by (simp add: validateRule_def valid_rule_def) (auto split: option.splits)
  next
    case 5
    then show ?thesis
      by (simp add: validateRule_def valid_rule_def) (auto split: option.splits)
  next
    case 6
    then show ?thesis by (simp add: validateRule_def valid_rule_def)
  qed
qed

lemma validate_iff:
  "validateExpr e path = Inr () \<longleftrightarrow> valid_expr e"
  "validateChildren cs path i = Inr () \<longleftrightarrow> list_all valid_expr cs"
proof (induction e path and cs path i rule: validateExpr_validateChildren.induct)
  case (1 op children rule path)
  show ?case
  proof (cases "op = ''not''")
    case True
    with 1 show ?thesis by (auto simp: length_Suc_conv split: list.splits)
  next
    case False
    with 1 show ?thesis
      by (cases "op = ''rule''"; cases "op = ''and'' \<or> op = ''or''")
         (auto simp: validateRule_iff split: option.splits)
  qed
next
  case (2 path i)
  show ?case by simp
next
  case (3 c cs path i)
  then show ?case by (auto split: sum.splits)
qed

text \<open>
  An expression is accepted exactly when it is well formed: every leaf is a rule
  whose fields are present and in range, \<open>not\<close> has one operand, \<open>and\<close> and \<open>or\<close> have at
  least two, and no other operator occurs, at any depth.
\<close>

theorem validateExpr_iff_valid: "validateExpr e path = Inr () \<longleftrightarrow> valid_expr e"
  by (rule validate_iff)

section \<open>Windows as arcs of a cycle\<close>

text \<open>
  \<open>arc n a b x\<close>: going forward from \<open>a\<close> on a cycle of length \<open>n\<close>, \<open>x\<close> is met no later than \<open>b\<close>;
  \<open>arc_open\<close> stops before \<open>b\<close>.
\<close>

definition arc :: "int \<Rightarrow> int \<Rightarrow> int \<Rightarrow> int \<Rightarrow> bool" where
  "arc n a b x = ((x - a) mod n \<le> (b - a) mod n)"

definition arc_open :: "int \<Rightarrow> int \<Rightarrow> int \<Rightarrow> int \<Rightarrow> bool" where
  "arc_open n a b x = ((x - a) mod n < (b - a) mod n)"

lemma cycle_diff:
  fixes n :: int
  assumes "l \<le> a" "a < l + n" "l \<le> x" "x < l + n"
  shows "(x - a) mod n = (if a \<le> x then x - a else x - a + n)"
proof (cases "a \<le> x")
  case True
  with assms show ?thesis by (simp add: mod_pos_pos_trivial)
next
  case False
  have "(x - a) mod n = (x - a + n) mod n" by simp
  also have "\<dots> = x - a + n" using False assms by (intro mod_pos_pos_trivial) auto
  finally show ?thesis using False by simp
qed

lemma arc_iff:
  assumes "l \<le> a" "a < l + n" "l \<le> b" "b < l + n" "l \<le> x" "x < l + n"
  shows "arc n a b x \<longleftrightarrow> (if a \<le> b then a \<le> x \<and> x \<le> b else a \<le> x \<or> x \<le> b)"
    and "arc_open n a b x \<longleftrightarrow> (if a \<le> b then a \<le> x \<and> x < b else a \<le> x \<or> x < b)"
  using assms cycle_diff [of l a n x] cycle_diff [of l a n b] by (auto simp: arc_def arc_open_def)

definition minute_of_day :: "gotime \<Rightarrow> int" where
  "minute_of_day t = Hour_of t * 60 + Minute_of t"

definition clock :: "string \<Rightarrow> int" where
  "clock s = (case parseHHMM s of Some (h, m) \<Rightarrow> h * 60 + m | None \<Rightarrow> 0)"

text \<open>The meaning of a rule: the instants at which its window is open.\<close>

definition window :: "schedule_rule \<Rightarrow> gotime \<Rightarrow> bool" where
  "window r t =
     (if r_Type r = ''time_range'' then
        (r_Days r = [] \<or> Weekday t \<in> set (r_Days r))
        \<and> (r_StartTime r = [] \<or> r_EndTime r = []
           \<or> arc_open 1440 (clock (r_StartTime r)) (clock (r_EndTime r)) (minute_of_day t))
      else if r_Type r = ''weekdays_range'' then arc 7 (the (r_StartDay r)) (the (r_EndDay r)) (Weekday t)
      else if r_Type r = ''date_range'' then r_StartDate r \<le> format_date t \<and> format_date t \<le> r_EndDate r
      else if r_Type r = ''day_of_month_range'' then arc 31 (the (r_StartDOM r)) (the (r_EndDOM r)) (Day_of t)
      else arc 12 (the (r_StartMonth r)) (the (r_EndMonth r)) (Month_of t))"

lemma parseHHMM_range:
  "parseHHMM s = Some (h, m) \<Longrightarrow> 0 \<le> h \<and> h \<le> 23 \<and> 0 \<le> m \<and> m \<le> 59"
  by (auto simp: parseHHMM_def split: list.splits option.splits if_splits)

lemma clock_range: "0 \<le> clock s" "clock s < 1440"
  using parseHHMM_range [of s] by (auto simp: clock_def split: option.splits)

lemma minute_of_day_range: "0 \<le> minute_of_day t" "minute_of_day t < 1440"
  using Hour_of_range [of t] Minute_of_range [of t] by (auto simp: minute_of_day_def)

lemma time_window:
  assumes "r_Type r = ''time_range''" and "valid_rule r"
  shows "matchesTimeRange r t = window r t"
proof (cases "r_StartTime r = [] \<or> r_EndTime r = []")
  case True
  with assms show ?thesis by (auto simp: matchesTimeRange_def window_def list_ex_iff)
next
  case False
  with assms obtain h m h' m' where p: "parseHHMM (r_StartTime r) = Some (h, m)" "parseHHMM (r_EndTime r) = Some (h', m')"
    by (auto simp: valid_rule_def)
  show ?thesis
    using False assms p arc_iff(2) [of 0 "clock (r_StartTime r)" 1440 "clock (r_EndTime r)" "minute_of_day t"]
      clock_range [of "r_StartTime r"] clock_range [of "r_EndTime r"] minute_of_day_range [of t]
    by (auto simp: matchesTimeRange_def window_def list_ex_iff clock_def minute_of_day_def Let_def)
qed

lemma weekday_window:
  assumes "r_Type r = ''weekdays_range''" and "valid_rule r"
  shows "matchesWeekdaysRange r t = window r t"
proof -
  from assms obtain s e where "r_StartDay r = Some s" "r_EndDay r = Some e" "0 \<le> s" "s \<le> 6" "0 \<le> e" "e \<le> 6"
    by (auto simp: valid_rule_def)
  with assms(1) show ?thesis
    using arc_iff(1) [of 0 s 7 e "Weekday t"] Weekday_range [of t]
    by (simp add: matchesWeekdaysRange_def window_def Let_def)
qed

lemma dom_window:
  assumes "r_Type r = ''day_of_month_range''" and "valid_rule r"
  shows "matchesDayOfMonthRange r t = window r t"
proof -
  from assms obtain s e where "r_StartDOM r = Some s" "r_EndDOM r = Some e" "1 \<le> s" "s \<le> 31" "1 \<le> e" "e \<le> 31"
    by (auto simp: valid_rule_def)
  with assms(1) show ?thesis
    using arc_iff(1) [of 1 s 31 e "Day_of t"] civil_month_day_range [of t]
    by (simp add: matchesDayOfMonthRange_def window_def Let_def)
qed

lemma month_window:
  assumes "r_Type r = ''month_range''" and "valid_rule r"
  shows "matchesMonthRange r t = window r t"
proof -
  from assms obtain s e where "r_StartMonth r = Some s" "r_EndMonth r = Some e" "1 \<le> s" "s \<le> 12" "1 \<le> e" "e \<le> 12"
    by (auto simp: valid_rule_def)
  with assms(1) show ?thesis
    using arc_iff(1) [of 1 s 12 e "Month_of t"] civil_month_day_range [of t]
    by (simp add: matchesMonthRange_def window_def Let_def)
qed

lemma valid_rule_type:
  "valid_rule r \<Longrightarrow> r_Type r \<in> {''time_range'', ''weekdays_range'', ''date_range'', ''day_of_month_range'', ''month_range''}"
  by (auto simp: valid_rule_def split: if_splits)

lemma date_window:
  "r_Type r = ''date_range'' \<Longrightarrow> valid_rule r \<Longrightarrow> matchesDateRange r t = window r t"
  by (auto simp: matchesDateRange_def window_def valid_rule_def Let_def)

lemma rule_window:
  assumes "valid_rule r"
  shows "scheduleRuleMatches r t = window r t"
  using valid_rule_type [OF assms] assms time_window weekday_window date_window dom_window month_window
  by (auto simp: scheduleRuleMatches_def)

section \<open>Expressions as boolean combinations of windows\<close>

datatype bexp = Window schedule_rule | Neg bexp | Conj "bexp list" | Disj "bexp list"

fun holds :: "bexp \<Rightarrow> gotime \<Rightarrow> bool" where
  "holds (Window r) t = window r t"
| "holds (Neg b) t = (\<not> holds b t)"
| "holds (Conj bs) t = (\<forall>b \<in> set bs. holds b t)"
| "holds (Disj bs) t = (\<exists>b \<in> set bs. holds b t)"

fun abs_expr :: "expr_node \<Rightarrow> bexp" where
  "abs_expr (ExprNode op children rule) =
     (if op = ''rule'' then (case rule of Some r \<Rightarrow> Window r | None \<Rightarrow> Disj [])
      else if op = ''not'' then Neg (Disj (List.map abs_expr children))
      else if op = ''and'' then Conj (List.map abs_expr children)
      else Disj (List.map abs_expr children))"

text \<open>
  C15: On every accepted expression the evaluator implements the boolean reading of the
  tree over windows that are arcs of a cycle, so windows crossing midnight, the week end, the
  end of the month or of the year wrap around as intended.
\<close>

theorem evalExpr_refines_windows:
  assumes "validateExpr e path = Inr ()"
  shows "evalExpr e t = holds (abs_expr e) t"
proof -
  have "valid_expr e" using assms by (simp add: validate_iff)
  then show ?thesis
  proof (induction e)
    case (ExprNode op children rule)
    then consider (rule) r where "op = ''rule''" "rule = Some r" "valid_rule r"
      | (not) c where "op = ''not''" "children = [c]" "valid_expr c"
      | (bool) "op = ''and'' \<or> op = ''or''" "children \<noteq> []" "list_all valid_expr children"
      by (cases children) (auto simp: length_Suc_conv split: option.splits)
    then show ?case
    proof cases
      case rule
      then show ?thesis by (simp add: rule_window)
    next
      case not
      then show ?thesis using ExprNode.IH by simp
    next
      case bool
      then have "\<And>c. c \<in> set children \<Longrightarrow> evalExpr c t = holds (abs_expr c) t"
        using ExprNode.IH by (auto simp: list_all_iff)
      with bool show ?thesis by (auto simp: list_all_iff list_ex_iff)
    qed
  qed
qed

text \<open>Monday to Friday except 22:00 to 06:00, on Monday 2024-01-01 at 09:30 UTC.\<close>

definition blank_rule :: schedule_rule where
  "blank_rule = \<lparr>r_Type = [], r_Days = [], r_StartTime = [], r_EndTime = [], r_StartDay = None,
     r_EndDay = None, r_StartDate = [], r_EndDate = [], r_StartDOM = None, r_EndDOM = None,
     r_StartMonth = None, r_EndMonth = None\<rparr>"

definition office_hours :: expr_node where
  "office_hours = ExprNode ''and''
     [ExprNode ''rule'' [] (Some (blank_rule\<lparr>r_Type := ''weekdays_range'', r_StartDay := Some 1, r_EndDay := Some 5\<rparr>)),
      ExprNode ''not'' [ExprNode ''rule'' []
        (Some (blank_rule\<lparr>r_Type := ''time_range'', r_StartTime := ''22:00'', r_EndTime := ''06:00''\<rparr>))] None] None"

definition monday_0930 :: gotime where
  "monday_0930 = \<lparr>tm_ns = 1704101400 * Second, tm_off = 0\<rparr>"

theorem evalExpr_refines_windows_witness:
  "evalExpr office_hours monday_0930 \<and> holds (abs_expr office_hours) monday_0930"
proof -
  have "validateExpr office_hours ''expr'' = Inr ()" by code_simp
  moreover have "evalExpr office_hours monday_0930" by code_simp
  ultimately show ?thesis
    using evalExpr_refines_windows [of office_hours "''expr''" monday_0930] by simp
qed

section \<open>Calendar dates compared as strings\<close>

definition fmt_ymd :: "int \<times> int \<times> int \<Rightarrow> string" where
  "fmt_ymd d = pad0 4 (fst d) @ ''-'' @ pad0 2 (fst (snd d)) @ ''-'' @ pad0 2 (snd (snd d))"

definition ymd_ok :: "int \<times> int \<times> int \<Rightarrow> bool" where
  "ymd_ok d = (0 \<le> fst d \<and> fst d \<le> 9999 \<and> 0 \<le> fst (snd d) \<and> fst (snd d) \<le> 99
     \<and> 0 \<le> snd (snd d) \<and> snd (snd d) \<le> 99)"

definition ymd_le :: "int \<times> int \<times> int \<Rightarrow> int \<times> int \<times> int \<Rightarrow> bool" where
  "ymd_le d e = (fst d < fst e \<or> fst d = fst e \<and>
     (fst (snd d) < fst (snd e) \<or> fst (snd d) = fst (snd e) \<and> snd (snd d) \<le> snd (snd e)))"

lemma pad0_digits:
  "0 \<le> n \<Longrightarrow> n \<le> 99 \<Longrightarrow> pad0 2 n = [digit_char (n div 10), digit_char n]"
  "0 \<le> n \<Longrightarrow> n \<le> 9999 \<Longrightarrow>
     pad0 4 n = [digit_char (n div 1000), digit_char (n div 100), digit_char (n div 10), digit_char n]"
proof -
  have z: "digit_char 0 = CHR ''0''" by (simp add: digit_char_def)
  have d: "dec_digits n = (if n < 10 then [digit_char n] else if n < 100 then [digit_char (n div 10), digit_char n]
      else if n < 1000 then [digit_char (n div 100), digit_char (n div 10), digit_char n]
      else if n < 10000 then [digit_char (n div 1000), digit_char (n div 100), digit_char (n div 10), digit_char n]
      else dec_digits n)" for n
    by (auto simp: dec_digits.simps [of n] dec_digits.simps [of "n div 10"] dec_digits.simps [of "n div 100"]
        dec_digits.simps [of "n div 1000"] div_mult2_eq [symmetric] zdiv_zmult2_eq [symmetric])
  show "0 \<le> n \<Longrightarrow> n \<le> 99 \<Longrightarrow> pad0 2 n = [digit_char (n div 10), digit_char n]"
    by (auto simp: pad0_def Itoa_def Let_def d [of n] z)
  show "0 \<le> n \<Longrightarrow> n \<le> 9999 \<Longrightarrow>
     pad0 4 n = [digit_char (n div 1000), digit_char (n div 100), digit_char (n div 10), digit_char n]"
    by (auto simp: pad0_def Itoa_def Let_def d [of n] z numeral_eq_Suc)
qed

lemma digit_char_code: "int (of_char (digit_char n)) = 48 + n mod 10"
proof -
  have "n mod 10 \<in> {0, 1, 2, 3, 4, 5, 6, 7, 8, 9}"
    using pos_mod_sign [of 10 n] pos_mod_bound [of 10 n] by (simp only: insert_iff empty_iff) presburger
  then show ?thesis by (auto simp: digit_char_def)
qed

lemma digit_char_less: "digit_char m < digit_char n \<longleftrightarrow> m mod 10 < n mod 10"
  using digit_char_code [of m] digit_char_code [of n] by (simp add: less_char_def nat_int_comparison)

lemma digit_char_eq: "digit_char m = digit_char n \<longleftrightarrow> m mod 10 = n mod 10"
  by (metis digit_char_code add_left_cancel digit_char_def)

lemma append_le_same_length:
  fixes xs ys us vs :: "'a :: linorder list"
  assumes "length xs = length ys"
  shows "xs @ us \<le> ys @ vs \<longleftrightarrow> xs < ys \<or> xs = ys \<and> us \<le> vs"
  using assms by (induction xs ys rule: list_induct2) auto

text \<open>Fixed-width decimal numbers are ordered as strings the way they are as numbers.\<close>

lemma last_digit:
  fixes m n :: int
  shows "m < n \<longleftrightarrow> m div 10 < n div 10 \<or> m div 10 = n div 10 \<and> m mod 10 < n mod 10"
    and "m = n \<longleftrightarrow> m div 10 = n div 10 \<and> m mod 10 = n mod 10"
proof -
  define a r b s where ab: "a = m div 10" "r = m mod 10" "b = n div 10" "s = n mod 10"
  have "m = 10 * a + r" "n = 10 * b + s" "0 \<le> r" "r < 10" "0 \<le> s" "s < 10"
    by (simp_all add: ab)
  then have "m < n \<longleftrightarrow> a < b \<or> a = b \<and> r < s" and "m = n \<longleftrightarrow> a = b \<and> r = s"
    by (cases a b rule: linorder_cases; auto)+
  then show "m < n \<longleftrightarrow> m div 10 < n div 10 \<or> m div 10 = n div 10 \<and> m mod 10 < n mod 10"
    and "m = n \<longleftrightarrow> m div 10 = n div 10 \<and> m mod 10 = n mod 10"
    by (simp_all only: ab)
qed

lemma div_100_1000: "(n :: int) div 100 = n div 10 div 10" "n div 1000 = n div 10 div 10 div 10"
  by (simp_all add: zdiv_zmult2_eq [symmetric])

lemma leading_digit:
  fixes n :: int
  shows "0 \<le> n \<Longrightarrow> n \<le> 99 \<Longrightarrow> n div 10 mod 10 = n div 10"
    and "0 \<le> n \<Longrightarrow> n \<le> 9999 \<Longrightarrow> n div 10 div 10 div 10 mod 10 = n div 10 div 10 div 10"
  by (rule mod_pos_pos_trivial; linarith)+

lemma pad0_order:
  assumes "0 \<le> m" "0 \<le> n"
  shows "m \<le> 99 \<Longrightarrow> n \<le> 99 \<Longrightarrow> pad0 2 m < pad0 2 n \<longleftrightarrow> m < n"
    and "m \<le> 9999 \<Longrightarrow> n \<le> 9999 \<Longrightarrow> pad0 4 m < pad0 4 n \<longleftrightarrow> m < n"
proof -
  show "m \<le> 99 \<Longrightarrow> n \<le> 99 \<Longrightarrow> pad0 2 m < pad0 2 n \<longleftrightarrow> m < n"
    using assms last_digit(1) [of m n] by (simp add: pad0_digits digit_char_less digit_char_eq leading_digit)
  show "m \<le> 9999 \<Longrightarrow> n \<le> 9999 \<Longrightarrow> pad0 4 m < pad0 4 n \<longleftrightarrow> m < n"
    using assms last_digit(1) [of m n] last_digit [of "m div 10" "n div 10"]
      last_digit [of "m div 10 div 10" "n div 10 div 10"]
    by (simp add: pad0_digits digit_char_less digit_char_eq div_100_1000 leading_digit) blast
qed

lemma pad0_inj:
  assumes "0 \<le> m" "0 \<le> n"
  shows "m \<le> 99 \<Longrightarrow> n \<le> 99 \<Longrightarrow> pad0 2 m = pad0 2 n \<longleftrightarrow> m = n"
    and "m \<le> 9999 \<Longrightarrow> n \<le> 9999 \<Longrightarrow> pad0 4 m = pad0 4 n \<longleftrightarrow> m = n"
  using assms pad0_order [of m n] pad0_order [of n m] by (metis less_irrefl linorder_neqE)+

lemma fmt_ymd_le:
  assumes "ymd_ok d" and "ymd_ok e"
  shows "fmt_ymd d \<le> fmt_ymd e \<longleftrightarrow> ymd_le d e"
proof -
  have "length (pad0 4 (fst d)) = length (pad0 4 (fst e))"
    "length (pad0 2 (fst (snd d))) = length (pad0 2 (fst (snd e)))"
    using assms by (simp_all add: ymd_ok_def pad0_digits)
  moreover have "pad0 2 (snd (snd d)) \<le> pad0 2 (snd (snd e)) \<longleftrightarrow> snd (snd d) \<le> snd (snd e)"
    using assms by (auto simp: ymd_ok_def le_less pad0_order pad0_inj)
  ultimately show ?thesis
    using assms by (simp add: fmt_ymd_def ymd_le_def ymd_ok_def append_le_same_length pad0_order pad0_inj)
qed

text \<open>
  A date range given by two calendar dates contains exactly the instants whose
  local date lies between them, bounds included: comparing the formatted strings is comparing
  the dates, for all years of four digits.
\<close>

theorem date_range_calendar:
  assumes "ymd_ok s" and "ymd_ok e" and "ymd_ok (civil_date t)"
    and "r_StartDate r = fmt_ymd s" and "r_EndDate r = fmt_ymd e"
  shows "matchesDateRange r t \<longleftrightarrow> ymd_le s (civil_date t) \<and> ymd_le (civil_date t) e"
proof -
  have "format_date t = fmt_ymd (civil_date t)" by (simp add: format_date_def fmt_ymd_def Let_def)
  moreover have "fmt_ymd s \<noteq> []" "fmt_ymd e \<noteq> []" by (simp_all add: fmt_ymd_def)
  ultimately show ?thesis
    using assms by (auto simp: matchesDateRange_def Let_def fmt_ymd_le)
qed

theorem date_range_calendar_witness:
  "matchesDateRange (blank_rule\<lparr>r_StartDate := ''2023-12-31'', r_EndDate := ''2024-01-01''\<rparr>) monday_0930"
proof -
  have f: "fmt_ymd (2023, 12, 31) = ''2023-12-31''" "fmt_ymd (2024, 1, 1) = ''2024-01-01''" by code_simp+
  have "civil_date monday_0930 = (2024, 1, 1)" by code_simp
  then show ?thesis
    using date_range_calendar [of "(2023, 12, 31)" "(2024, 1, 1)" monday_0930
        "blank_rule\<lparr>r_StartDate := ''2023-12-31'', r_EndDate := ''2024-01-01''\<rparr>"]
    by (simp add: f ymd_ok_def ymd_le_def blank_rule_def)
qed

section \<open>Clock times and denials\<close>

lemma Atoi_pad0: "0 \<le> n \<Longrightarrow> n \<le> 59 \<Longrightarrow> Atoi (pad0 2 n) = Some n"
proof -
  have "list_all (\<lambda>n. Atoi (pad0 2 n) = Some n) [0..59]" by code_simp
  then show "0 \<le> n \<Longrightarrow> n \<le> 59 \<Longrightarrow> ?thesis" by (simp add: list_all_iff)
qed

text \<open>
  Every time of day written as HH:MM is read back as that hour and minute, and
  whatever the reader accepts is a time of day.
\<close>

theorem parseHHMM_roundtrip:
  "(0 \<le> h \<and> h \<le> 23 \<and> 0 \<le> m \<and> m \<le> 59 \<longrightarrow> parseHHMM (pad0 2 h @ '':'' @ pad0 2 m) = Some (h, m))
   \<and> (parseHHMM s = Some (h, m) \<longrightarrow> 0 \<le> h \<and> h \<le> 23 \<and> 0 \<le> m \<and> m \<le> 59)"
proof -
  have "parseHHMM (pad0 2 h @ '':'' @ pad0 2 m) = Some (h, m)"
    if h: "0 \<le> h" "h \<le> 23" and m: "0 \<le> m" "m \<le> 59"
  proof -
    have "list_all (\<lambda>n. CHR '':'' \<notin> set (pad0 2 n)) [0..23]" by code_simp
    with h have no: "CHR '':'' \<notin> set (pad0 2 h)" by (simp add: list_all_iff)
    then have "splitN2 (CHR '':'') (pad0 2 h @ '':'' @ pad0 2 m) = [pad0 2 h, pad0 2 m]"
      by (auto simp: splitN2_def takeWhile_append dropWhile_append)
    then show ?thesis using h m by (simp add: parseHHMM_def Atoi_pad0)
  qed
  then show ?thesis using parseHHMM_range [of s h m] by blast
qed

theorem parseHHMM_roundtrip_witness:
  "parseHHMM (pad0 2 7 @ '':'' @ pad0 2 5) = Some (7, 5)"
  using parseHHMM_roundtrip [of 7 5 "''07:05''"] by simp

lemma Check_ok_iff:
  "Check s t = Inr () \<longleftrightarrow> (\<forall>e. as_Expr s = Some e \<longrightarrow> evalExpr e t)"
  by (auto simp: Check_def split: option.splits)

lemma Check_denied: "Check s t = Inl e \<Longrightarrow> errIs e ErrScheduleDenied"
  by (auto simp: Check_def split: option.splits if_splits)

end
