(* ===== verification/Store.thy ===== *)
theory Store
  imports Gate_Model Schedule_Expr
begin

text \<open>
  The PostgreSQL tables the repositories of \<open>internal/repository/postgres\<close> read and write, as
  lists of rows, with the constraints of the migrations: primary keys, unique columns, foreign
  keys with their \<open>ON DELETE\<close> action. A statement may fail at any time: \<open>flt op key\<close> says whether
  the statement \<open>op\<close> on \<open>key\<close> is refused by the driver. A statement that fails changes nothing.
\<close>

section \<open>Rows\<close>

abbreviation RoleAdmin :: string where "RoleAdmin \<equiv> ''ADMIN''"
abbreviation RoleMember :: string where "RoleMember \<equiv> ''MEMBER''"

record member =
  mem_ID :: uuid
  mem_Username :: string
  mem_DisplayName :: "string option"
  mem_Role :: string
  mem_CreatedAt :: int

abbreviation CredPassword :: string where "CredPassword \<equiv> ''PASSWORD''"
abbreviation CredSSOIdentity :: string where "CredSSOIdentity \<equiv> ''SSO_IDENTITY''"
abbreviation CredAPIToken :: string where "CredAPIToken \<equiv> ''API_TOKEN''"

record credential =
  cr_ID :: uuid
  cr_MemberID :: uuid
  cr_Type :: string
  cr_HashedValue :: string
  cr_Label :: "string option"
  cr_ExpiresAt :: "int option"
  cr_Metadata :: gmap
  cr_CreatedAt :: int

record gate_pin =
  pin_ID :: uuid
  pin_GateID :: uuid
  pin_HashedPin :: string
  pin_Label :: string
  pin_Metadata :: gmap
  pin_ScheduleID :: "uuid option"
  pin_CreatedAt :: int

record custom_domain =
  cd_ID :: uuid
  cd_GateID :: uuid
  cd_Domain :: string
  cd_DNSChallengeToken :: string
  cd_VerifiedAt :: "int option"
  cd_CreatedAt :: int

text \<open>The columns \<open>subject_type\<close> and \<open>subject_id\<close>.\<close>

datatype subject = Membership uuid | CredentialOf uuid

record policy_row =
  po_Subject :: subject
  po_GateID :: uuid
  po_PermissionCode :: string

record link_row =
  sl_Subject :: subject
  sl_GateID :: "uuid option"
  sl_ScheduleID :: uuid

abbreviation PermReadStatus :: string where "PermReadStatus \<equiv> ''gate:read_status''"
abbreviation PermTriggerOpen :: string where "PermTriggerOpen \<equiv> ''gate:trigger_open''"
abbreviation PermTriggerClose :: string where "PermTriggerClose \<equiv> ''gate:trigger_close''"
abbreviation PermManage :: string where "PermManage \<equiv> ''gate:manage''"

definition permission_codes :: "string list" where
  "permission_codes = [PermReadStatus, PermTriggerOpen, PermTriggerClose, PermManage]"

record db =
  db_members :: "member list"
  db_creds :: "credential list"
  db_gates :: "gate list"
  db_schedules :: "access_schedule list"
  db_pins :: "gate_pin list"
  db_policies :: "policy_row list"
  db_links :: "link_row list"
  db_domains :: "custom_domain list"

definition empty_db :: db where
  "empty_db = \<lparr>db_members = [], db_creds = [], db_gates = [], db_schedules = [], db_pins = [],
     db_policies = [], db_links = [], db_domains = []\<rparr>"

type_synonym faults = "string \<Rightarrow> uuid \<Rightarrow> bool"

text \<open>\<open>fmt.Errorf("<what>: %w", err)\<close> around an error of the driver.\<close>

definition db_err :: "string \<Rightarrow> err" where
  "db_err what = Wrapf (what @ '': %w'') [] (ErrExternal ''database'')"

lemma errIs_db_err [simp]: "errIs (db_err w) t \<longleftrightarrow> db_err w = t \<or> t = ErrExternal ''database''"
  by (auto simp: db_err_def)

lemma db_err_neq [simp]:
  "db_err w \<noteq> ErrNotFound" "db_err w \<noteq> ErrUnauthorized" "db_err w \<noteq> ErrAlreadyExists"
  "db_err w \<noteq> ErrScheduleDenied" "db_err w \<noteq> ErrExternal s"
  by (simp_all add: db_err_def)

section \<open>Updating rows\<close>

definition upd_where :: "('a \<Rightarrow> bool) \<Rightarrow> ('a \<Rightarrow> 'a) \<Rightarrow> 'a list \<Rightarrow> 'a list" where
  "upd_where P f rows = List.map (\<lambda>r. if P r then f r else r) rows"

lemma upd_where_simps [simp]:
  "upd_where P f [] = []"
  "upd_where P f (r # rows) = (if P r then f r else r) # upd_where P f rows"
  by (simp_all add: upd_where_def)

lemma list_ex_upd_where: "list_ex Q (upd_where P f rows) = list_ex (\<lambda>r. Q (if P r then f r else r)) rows"
  by (induction rows) auto

lemma map_upd_where:
  assumes "\<And>r. key (f r) = key r"
  shows "List.map key (upd_where P f rows) = List.map key rows"
  using assms by (simp add: upd_where_def)

lemma set_upd_where: "set (upd_where P f rows) = (\<lambda>r. if P r then f r else r) ` set rows"
  by (simp add: upd_where_def)

lemma find_upd_where:
  assumes "\<And>r. key (f r) = key r"
  shows "List.find (\<lambda>r. key r = k) (upd_where P f rows)
    = map_option (\<lambda>r. if P r then f r else r) (List.find (\<lambda>r. key r = k) rows)"
  using assms by (induction rows) (auto simp: upd_where_def)

lemma distinct_map_filter': "distinct (List.map f xs) \<Longrightarrow> distinct (List.map f (filter P xs))"
  by (rule distinct_map_filter)

lemma find_in_map: "List.find P rows = Some r \<Longrightarrow> key r \<in> set (List.map key rows)"
  by (auto dest: find_SomeD)

section \<open>The constraints of the schema\<close>

abbreviation gate_ids :: "db \<Rightarrow> uuid set" where "gate_ids d \<equiv> set (List.map g_ID (db_gates d))"
abbreviation member_ids :: "db \<Rightarrow> uuid set" where "member_ids d \<equiv> set (List.map mem_ID (db_members d))"
abbreviation schedule_ids :: "db \<Rightarrow> uuid set" where "schedule_ids d \<equiv> set (List.map as_ID (db_schedules d))"

definition gates_wf :: "gate list \<Rightarrow> bool" where
  "gates_wf gs = (distinct (List.map g_ID gs) \<and> distinct (List.map g_GateToken gs)
     \<and> list_all (\<lambda>g. g_GateToken g \<noteq> None) gs)"

definition members_wf :: "member list \<Rightarrow> bool" where
  "members_wf ms = (distinct (List.map mem_ID ms) \<and> distinct (List.map mem_Username ms)
     \<and> list_all (\<lambda>m. mem_Role m \<in> {RoleAdmin, RoleMember}) ms)"

definition creds_wf :: "uuid set \<Rightarrow> credential list \<Rightarrow> bool" where
  "creds_wf mids cs = (distinct (List.map cr_ID cs) \<and> list_all (\<lambda>c. cr_MemberID c \<in> mids) cs
     \<and> distinct (List.map cr_MemberID (filter (\<lambda>c. cr_Type c = CredPassword) cs)))"

definition schedules_wf :: "uuid set \<Rightarrow> access_schedule list \<Rightarrow> bool" where
  "schedules_wf mids ss = (distinct (List.map as_ID ss)
     \<and> list_all (\<lambda>s. set_option (as_MemberID s) \<subseteq> mids) ss)"

definition pins_wf :: "uuid set \<Rightarrow> uuid set \<Rightarrow> gate_pin list \<Rightarrow> bool" where
  "pins_wf gids sids ps = (distinct (List.map pin_ID ps)
     \<and> list_all (\<lambda>p. pin_GateID p \<in> gids \<and> set_option (pin_ScheduleID p) \<subseteq> sids) ps)"

definition policies_wf :: "uuid set \<Rightarrow> policy_row list \<Rightarrow> bool" where
  "policies_wf gids ps = (distinct ps
     \<and> list_all (\<lambda>p. po_GateID p \<in> gids \<and> po_PermissionCode p \<in> set permission_codes) ps)"

definition links_wf :: "uuid set \<Rightarrow> uuid set \<Rightarrow> link_row list \<Rightarrow> bool" where
  "links_wf gids sids ls = (distinct (List.map (\<lambda>l. (sl_Subject l, sl_GateID l)) ls)
     \<and> list_all (\<lambda>l. set_option (sl_GateID l) \<subseteq> gids \<and> sl_ScheduleID l \<in> sids) ls)"

definition domains_wf :: "uuid set \<Rightarrow> custom_domain list \<Rightarrow> bool" where
  "domains_wf gids ds = (distinct (List.map cd_ID ds) \<and> distinct (List.map cd_Domain ds)
     \<and> list_all (\<lambda>d. cd_GateID d \<in> gids) ds)"

definition db_wf :: "db \<Rightarrow> bool" where
  "db_wf d = (gates_wf (db_gates d) \<and> members_wf (db_members d) \<and> creds_wf (member_ids d) (db_creds d)
     \<and> schedules_wf (member_ids d) (db_schedules d)
     \<and> pins_wf (gate_ids d) (schedule_ids d) (db_pins d)
     \<and> policies_wf (gate_ids d) (db_policies d)
     \<and> links_wf (gate_ids d) (schedule_ids d) (db_links d)
     \<and> domains_wf (gate_ids d) (db_domains d))"

lemmas table_wf_defs = gates_wf_def members_wf_def creds_wf_def schedules_wf_def pins_wf_def
  policies_wf_def links_wf_def domains_wf_def

lemma empty_db_wf: "db_wf empty_db"
  by (simp add: db_wf_def empty_db_def table_wf_defs)

lemma db_wfD:
  assumes "db_wf d"
  shows "distinct (List.map g_ID (db_gates d))" "distinct (List.map mem_ID (db_members d))"
    "distinct (List.map cr_ID (db_creds d))" "distinct (List.map pin_ID (db_pins d))"
    "distinct (List.map as_ID (db_schedules d))"
  using assms by (simp_all add: db_wf_def table_wf_defs)

end
