(* ===== verification/Gate_Repo.thy ===== *)
theory Gate_Repo
  imports Store
begin

text \<open>
  \<open>internal/repository/postgres/gate.go\<close>: every statement on the table \<open>gates\<close>. The identifier and
  the token the database draws for a new row are arguments; \<open>now\<close> is the \<open>NOW()\<close> of the statement.
  A row is returned without its token, which \<open>colsFull\<close> does not select.
\<close>

record create_gate_params =
  cg_Name :: string
  cg_IntegrationType :: string
  cg_IntegrationConfig :: gmap
  cg_OpenConfig :: "action_config option"
  cg_CloseConfig :: "action_config option"
  cg_StatusConfig :: "action_config option"
  cg_MetaConfig :: "meta_field list"
  cg_StatusRules :: "status_rule list"
  cg_CustomStatuses :: "string list"
  cg_TTLSeconds :: "int option"
  cg_StatusTransitions :: "status_transition list"

text \<open>A nil slice (\<open>None\<close>) means that the field was not sent.\<close>

record update_gate_params =
  ug_Name :: "string option"
  ug_OpenConfig :: "action_config omittable"
  ug_CloseConfig :: "action_config omittable"
  ug_StatusConfig :: "action_config omittable"
  ug_MetaConfig :: "meta_field list option"
  ug_StatusRules :: "status_rule list option"
  ug_CustomStatuses :: "string list option"
  ug_TTLSeconds :: "int omittable"
  ug_StatusTransitions :: "status_transition list option"

record gate_info =
  gi_GateID :: uuid
  gi_GateName :: string
  gi_HasOpenAction :: bool
  gi_HasCloseAction :: bool
  gi_Status :: string
  gi_MetaConfig :: "meta_field list"
  gi_StatusMetadata :: "gmap option"

definition scanGate :: "gate \<Rightarrow> gate" where
  "scanGate g = g\<lparr>g_GateToken := None\<rparr>"

definition gate_row :: "db \<Rightarrow> uuid \<Rightarrow> gate option" where
  "gate_row d gateID = List.find (\<lambda>g. g_ID g = gateID) (db_gates d)"

definition gates_Create :: "faults \<Rightarrow> db \<Rightarrow> uuid \<Rightarrow> string \<Rightarrow> int \<Rightarrow> create_gate_params \<Rightarrow> gate res \<times> db" where
  "gates_Create flt d newID token now p =
     (let row = \<lparr>g_ID = newID, g_Name = cg_Name p, g_IntegrationType = cg_IntegrationType p,
            g_IntegrationConfig = cg_IntegrationConfig p, g_OpenConfig = cg_OpenConfig p,
            g_CloseConfig = cg_CloseConfig p, g_StatusConfig = cg_StatusConfig p,
            g_Status = ''unknown'', g_LastSeenAt = None, g_CreatedAt = now, g_StatusMetadata = Some [],
            g_MetaConfig = cg_MetaConfig p, g_StatusRules = cg_StatusRules p,
            g_CustomStatuses = cg_CustomStatuses p, g_TTLSeconds = cg_TTLSeconds p,
            g_StatusTransitions = cg_StatusTransitions p, g_GateToken = Some token\<rparr>
      in if flt ''gates.Create'' newID \<or> cg_IntegrationType p \<notin> {''MQTT'', ''POLLING'', ''WEBHOOK''}
            \<or> newID \<in> gate_ids d \<or> Some token \<in> set (List.map g_GateToken (db_gates d))
         then (Inl (db_err ''create gate''), d)
         else (Inr row, d\<lparr>db_gates := db_gates d @ [row]\<rparr>))"

definition gates_GetByID :: "faults \<Rightarrow> db \<Rightarrow> uuid \<Rightarrow> gate res" where
  "gates_GetByID flt d gateID =
     (if flt ''gates.GetByID'' gateID then Inl (db_err ''get gate'')
      else case gate_row d gateID of None \<Rightarrow> Inl ErrNotFound | Some g \<Rightarrow> Inr (scanGate g))"

definition gates_GetByIDPublic :: "faults \<Rightarrow> db \<Rightarrow> uuid \<Rightarrow> gate res" where
  "gates_GetByIDPublic = gates_GetByID"

text \<open>\<open>COALESCE(cfg->>'type', 'NONE') <> 'NONE'\<close>.\<close>

definition has_action :: "action_config option \<Rightarrow> bool" where
  "has_action cfg = (case cfg of None \<Rightarrow> False | Some c \<Rightarrow> ac_Type c \<noteq> DriverTypeNone)"

definition public_info :: "gate \<Rightarrow> gate_info" where
  "public_info g = \<lparr>gi_GateID = g_ID g, gi_GateName = g_Name g,
     gi_HasOpenAction = has_action (g_OpenConfig g), gi_HasCloseAction = has_action (g_CloseConfig g),
     gi_Status = g_Status g, gi_MetaConfig = g_MetaConfig g, gi_StatusMetadata = g_StatusMetadata g\<rparr>"

definition gates_GetPublicInfo :: "faults \<Rightarrow> db \<Rightarrow> uuid \<Rightarrow> gate_info res" where
  "gates_GetPublicInfo flt d gateID =
     (if flt ''gates.GetPublicInfo'' gateID then Inl (db_err ''get gate public info'')
      else case gate_row d gateID of None \<Rightarrow> Inl ErrNotFound | Some g \<Rightarrow> Inr (public_info g))"

text \<open>A field of type \<open>OmittableNullable\<close>: unsent keeps the old value, null clears it.\<close>

definition omit_update :: "'a omittable \<Rightarrow> 'a option \<Rightarrow> 'a option" where
  "omit_update o' old = (if om_Sent o' then (if om_Null o' then None else Some (om_Value o')) else old)"

definition slice_update :: "'a list option \<Rightarrow> 'a list \<Rightarrow> 'a list" where
  "slice_update s old = (case s of None \<Rightarrow> old | Some v \<Rightarrow> v)"

definition apply_update :: "update_gate_params \<Rightarrow> gate \<Rightarrow> gate" where
  "apply_update p g = g\<lparr>
     g_Name := (case ug_Name p of None \<Rightarrow> g_Name g | Some n \<Rightarrow> n),
     g_OpenConfig := omit_update (ug_OpenConfig p) (g_OpenConfig g),
     g_CloseConfig := omit_update (ug_CloseConfig p) (g_CloseConfig g),
     g_StatusConfig := omit_update (ug_StatusConfig p) (g_StatusConfig g),
     g_MetaConfig := slice_update (ug_MetaConfig p) (g_MetaConfig g),
     g_StatusRules := slice_update (ug_StatusRules p) (g_StatusRules g),
     g_CustomStatuses := slice_update (ug_CustomStatuses p) (g_CustomStatuses g),
     g_TTLSeconds := omit_update (ug_TTLSeconds p) (g_TTLSeconds g),
     g_StatusTransitions := slice_update (ug_StatusTransitions p) (g_StatusTransitions g)\<rparr>"

definition no_changes :: "update_gate_params \<Rightarrow> bool" where
  "no_changes p = (ug_Name p = None \<and> \<not> om_Sent (ug_OpenConfig p) \<and> \<not> om_Sent (ug_CloseConfig p)
     \<and> \<not> om_Sent (ug_StatusConfig p) \<and> ug_MetaConfig p = None \<and> ug_StatusRules p = None
     \<and> ug_CustomStatuses p = None \<and> \<not> om_Sent (ug_TTLSeconds p) \<and> ug_StatusTransitions p = None)"

definition gates_Update :: "faults \<Rightarrow> db \<Rightarrow> uuid \<Rightarrow> update_gate_params \<Rightarrow> gate res \<times> db" where
  "gates_Update flt d gateID p =
     (if no_changes p then (gates_GetByID flt d gateID, d)
      else if flt ''gates.Update'' gateID then (Inl (db_err ''update gate''), d)
      else case gate_row d gateID of
        None \<Rightarrow> (Inl ErrNotFound, d)
      | Some g \<Rightarrow> (Inr (scanGate (apply_update p g)),
          d\<lparr>db_gates := upd_where (\<lambda>r. g_ID r = gateID) (apply_update p) (db_gates d)\<rparr>))"

text \<open>\<open>ON DELETE CASCADE\<close> removes what refers to the gate.\<close>

definition cascade_gate :: "uuid \<Rightarrow> db \<Rightarrow> db" where
  "cascade_gate gateID d = d\<lparr>
     db_gates := filter (\<lambda>g. g_ID g \<noteq> gateID) (db_gates d),
     db_pins := filter (\<lambda>p. pin_GateID p \<noteq> gateID) (db_pins d),
     db_policies := filter (\<lambda>p. po_GateID p \<noteq> gateID) (db_policies d),
     db_links := filter (\<lambda>l. sl_GateID l \<noteq> Some gateID) (db_links d),
     db_domains := filter (\<lambda>c. cd_GateID c \<noteq> gateID) (db_domains d)\<rparr>"

definition gates_Delete :: "faults \<Rightarrow> db \<Rightarrow> uuid \<Rightarrow> unit res \<times> db" where
  "gates_Delete flt d gateID =
     (if flt ''gates.Delete'' gateID then (Inl (db_err ''delete gate''), d)
      else if gate_row d gateID = None then (Inl ErrNotFound, d)
      else (Inr (), cascade_gate gateID d))"

definition visible_gates :: "db \<Rightarrow> string \<Rightarrow> uuid \<Rightarrow> gate list" where
  "visible_gates d role memberID =
     (if role = RoleAdmin then db_gates d
      else filter (\<lambda>g. list_ex (\<lambda>p. po_GateID p = g_ID g \<and> po_Subject p = Membership memberID) (db_policies d))
             (db_gates d))"

definition gates_List :: "faults \<Rightarrow> db \<Rightarrow> string \<Rightarrow> uuid \<Rightarrow> pagination \<Rightarrow> (gate list \<times> int) res" where
  "gates_List flt d role memberID p0 =
     (let p = Normalize p0; rows = visible_gates d role memberID
      in if flt ''gates.Count'' memberID then Inl (db_err ''count gates'')
         else if flt ''gates.List'' memberID then Inl (db_err ''list gates'')
         else Inr (List.map scanGate (page p (sort_key (\<lambda>g. - g_CreatedAt g) rows)), int (length rows)))"

definition gates_ListIDs :: "faults \<Rightarrow> db \<Rightarrow> uuid list res" where
  "gates_ListIDs flt d =
     (if flt ''gates.ListIDs'' 0 then Inl (db_err ''list gate ids'') else Inr (List.map g_ID (db_gates d)))"

definition gates_GetByToken :: "faults \<Rightarrow> db \<Rightarrow> uuid \<Rightarrow> string \<Rightarrow> gate res" where
  "gates_GetByToken flt d gateID token =
     (if flt ''gates.GetByToken'' gateID then Inl (db_err ''get gate by token'')
      else case List.find (\<lambda>g. g_ID g = gateID \<and> g_GateToken g = Some token) (db_gates d) of
        None \<Rightarrow> Inl ErrUnauthorized
      | Some g \<Rightarrow> Inr (scanGate g))"

definition gates_GetToken :: "faults \<Rightarrow> db \<Rightarrow> uuid \<Rightarrow> string res" where
  "gates_GetToken flt d gateID =
     (if flt ''gates.GetToken'' gateID then Inl (db_err ''get gate token'')
      else case gate_row d gateID of
        None \<Rightarrow> Inl ErrNotFound
      | Some g \<Rightarrow> (case g_GateToken g of Some t \<Rightarrow> Inr t | None \<Rightarrow> Inl (db_err ''get gate token'')))"

definition gates_SetToken :: "faults \<Rightarrow> db \<Rightarrow> uuid \<Rightarrow> string \<Rightarrow> unit res \<times> db" where
  "gates_SetToken flt d gateID token =
     (if flt ''gates.SetToken'' gateID
         \<or> list_ex (\<lambda>g. g_GateToken g = Some token \<and> g_ID g \<noteq> gateID) (db_gates d)
            \<and> gate_row d gateID \<noteq> None
      then (Inl (db_err ''set gate token''), d)
      else if gate_row d gateID = None then (Inl ErrNotFound, d)
      else (Inr (), d\<lparr>db_gates := upd_where (\<lambda>r. g_ID r = gateID) (\<lambda>r. r\<lparr>g_GateToken := Some token\<rparr>) (db_gates d)\<rparr>))"

definition gates_UpdateStatus :: "faults \<Rightarrow> db \<Rightarrow> int \<Rightarrow> uuid \<Rightarrow> string \<Rightarrow> gmap option \<Rightarrow> unit res \<times> db" where
  "gates_UpdateStatus flt d now gateID status meta =
     (if flt ''gates.UpdateStatus'' gateID then (Inl (db_err ''update gate status''), d)
      else (Inr (), d\<lparr>db_gates := upd_where (\<lambda>r. g_ID r = gateID)
             (\<lambda>r. r\<lparr>g_Status := status, g_LastSeenAt := Some now,
                 g_StatusMetadata := Some (case meta of None \<Rightarrow> [] | Some m \<Rightarrow> m)\<rparr>) (db_gates d)\<rparr>))"

text \<open>The \<open>WHERE\<close> clause of the TTL sweep; \<open>int(ttl.Seconds())\<close> is the whole number of seconds.\<close>

definition ttl_expired :: "int \<Rightarrow> int \<Rightarrow> gate \<Rightarrow> bool" where
  "ttl_expired now defaultTTLSeconds g =
     (case g_LastSeenAt g of
        None \<Rightarrow> False
      | Some seen \<Rightarrow>
          seen < now - Second * (case g_TTLSeconds g of Some t \<Rightarrow> t | None \<Rightarrow> defaultTTLSeconds)
          \<and> g_Status g \<notin> {GateStatusUnresponsive, GateStatusUnknown, GateStatusOffline})"

definition gates_MarkUnresponsiveWithIDs :: "faults \<Rightarrow> db \<Rightarrow> int \<Rightarrow> int \<Rightarrow> uuid list res \<times> db" where
  "gates_MarkUnresponsiveWithIDs flt d now ttl =
     (let secs = ttl div Second
      in if flt ''gates.MarkUnresponsive'' 0 then (Inl (db_err ''mark unresponsive''), d)
         else (Inr (List.map g_ID (filter (ttl_expired now secs) (db_gates d))),
               d\<lparr>db_gates := upd_where (ttl_expired now secs) (\<lambda>g. g\<lparr>g_Status := GateStatusUnresponsive\<rparr>) (db_gates d)\<rparr>))"

definition gates_ListWebhookGates :: "faults \<Rightarrow> db \<Rightarrow> gate list res" where
  "gates_ListWebhookGates flt d =
     (if flt ''gates.ListWebhookGates'' 0 then Inl (db_err ''list webhook gates'')
      else Inr (List.map scanGate (filter (\<lambda>g. case g_StatusConfig g of
             None \<Rightarrow> False | Some c \<Rightarrow> ac_Type c = DriverTypeHTTPWebhook) (db_gates d))))"

definition gates_ListTransitionCandidates :: "faults \<Rightarrow> db \<Rightarrow> gate list res" where
  "gates_ListTransitionCandidates flt d =
     (if flt ''gates.ListTransitionCandidates'' 0 then Inl (db_err ''list transition candidates'')
      else Inr (List.map scanGate (filter (\<lambda>g. g_StatusTransitions g \<noteq> [] \<and> g_LastSeenAt g \<noteq> None) (db_gates d))))"

section \<open>Lookup equations\<close>

lemma scanGate_sel [simp]:
  "g_ID (scanGate g) = g_ID g" "g_Status (scanGate g) = g_Status g"
  "g_StatusConfig (scanGate g) = g_StatusConfig g" "g_OpenConfig (scanGate g) = g_OpenConfig g"
  "g_CloseConfig (scanGate g) = g_CloseConfig g" "g_MetaConfig (scanGate g) = g_MetaConfig g"
  "g_StatusRules (scanGate g) = g_StatusRules g" "g_StatusMetadata (scanGate g) = g_StatusMetadata g"
  "g_LastSeenAt (scanGate g) = g_LastSeenAt g" "g_StatusTransitions (scanGate g) = g_StatusTransitions g"
  "g_TTLSeconds (scanGate g) = g_TTLSeconds g" "g_CustomStatuses (scanGate g) = g_CustomStatuses g"
  "g_Name (scanGate g) = g_Name g" "g_CreatedAt (scanGate g) = g_CreatedAt g"
  "g_GateToken (scanGate g) = None"
  by (simp_all add: scanGate_def)

lemma apply_update_id [simp]: "g_ID (apply_update p g) = g_ID g" "g_GateToken (apply_update p g) = g_GateToken g"
  by (simp_all add: apply_update_def)

lemma gate_row_SomeD: "gate_row d i = Some g \<Longrightarrow> g \<in> set (db_gates d) \<and> g_ID g = i"
  by (auto simp: gate_row_def dest: find_SomeD)

lemma gate_row_None: "gate_row d i = None \<longleftrightarrow> i \<notin> gate_ids d"
  by (auto simp: gate_row_def find_None_iff_ball)

lemma gate_row_wf: "db_wf d \<Longrightarrow> g \<in> set (db_gates d) \<Longrightarrow> gate_row d (g_ID g) = Some g"
  unfolding gate_row_def by (rule find_distinct_key) (simp_all add: db_wfD)

lemma gate_row_upd [row_simps]:
  assumes "\<And>r. g_ID (f r) = g_ID r"
  shows "gate_row (d\<lparr>db_gates := upd_where P f (db_gates d)\<rparr>) i
    = map_option (\<lambda>r. if P r then f r else r) (gate_row d i)"
  unfolding gate_row_def using find_upd_where [of g_ID, OF assms] by simp

section \<open>The constraints are preserved\<close>

lemma upd_where_ids:
  "(\<And>r. g_ID (f r) = g_ID r) \<Longrightarrow> List.map g_ID (upd_where P f gs) = List.map g_ID gs"
  by (rule map_upd_where)

lemma db_wf_gates:
  assumes "db_wf d" and "gates_wf gs" and "set (List.map g_ID gs) = gate_ids d"
  shows "db_wf (d\<lparr>db_gates := gs\<rparr>)"
  using assms unfolding db_wf_def by simp

lemma db_wf_gates_upd:
  assumes "db_wf d" and id: "\<And>r. g_ID (f r) = g_ID r" and tok: "\<And>r. g_GateToken (f r) = g_GateToken r"
  shows "db_wf (d\<lparr>db_gates := upd_where P f (db_gates d)\<rparr>)"
proof (rule db_wf_gates [OF assms(1)])
  have "gates_wf (db_gates d)" using assms(1) by (simp add: db_wf_def)
  then show "gates_wf (upd_where P f (db_gates d))"
    by (auto simp: gates_wf_def map_upd_where [of g_ID, OF id] map_upd_where [of g_GateToken, OF tok]
        list_all_iff set_upd_where tok)
  show "set (List.map g_ID (upd_where P f (db_gates d))) = gate_ids d"
    by (simp only: map_upd_where [of g_ID, OF id])
qed

lemma gates_Create_wf: "db_wf d \<Longrightarrow> db_wf (snd (gates_Create flt d i t now p))"
  by (auto simp: gates_Create_def Let_def db_wf_def table_wf_defs list_all_iff)

lemma gates_Update_wf: "db_wf d \<Longrightarrow> db_wf (snd (gates_Update flt d i p))"
  by (auto simp: gates_Update_def split: option.splits intro: db_wf_gates_upd)

lemma wf_without_gate:
  "gates_wf gs \<Longrightarrow> gates_wf (filter (\<lambda>g. g_ID g \<noteq> i) gs)"
  "pins_wf G S ps \<Longrightarrow> pins_wf (G - {i}) S (filter (\<lambda>p. pin_GateID p \<noteq> i) ps)"
  "policies_wf G pl \<Longrightarrow> policies_wf (G - {i}) (filter (\<lambda>p. po_GateID p \<noteq> i) pl)"
  "links_wf G S ls \<Longrightarrow> links_wf (G - {i}) S (filter (\<lambda>l. sl_GateID l \<noteq> Some i) ls)"
  "domains_wf G ds \<Longrightarrow> domains_wf (G - {i}) (filter (\<lambda>c. cd_GateID c \<noteq> i) ds)"
  by (auto simp: table_wf_defs list_all_iff distinct_map_filter)

lemma cascade_gate_wf:
  assumes "db_wf d"
  shows "db_wf (cascade_gate i d)"
proof -
  have "set (List.map g_ID (filter (\<lambda>g. g_ID g \<noteq> i) (db_gates d))) = gate_ids d - {i}" by auto
  with assms show ?thesis
    unfolding db_wf_def cascade_gate_def by (simp add: wf_without_gate del: set_map)
qed

lemma gates_Delete_wf: "db_wf d \<Longrightarrow> db_wf (snd (gates_Delete flt d i))"
  by (simp add: gates_Delete_def cascade_gate_wf)

lemma set_token_distinct:
  assumes "distinct (List.map g_ID gs)" and "distinct (List.map g_GateToken gs)"
    and "\<And>g. g \<in> set gs \<Longrightarrow> g_ID g \<noteq> i \<Longrightarrow> g_GateToken g \<noteq> Some t"
  shows "distinct (List.map g_GateToken (upd_where (\<lambda>r. g_ID r = i) (\<lambda>r. r\<lparr>g_GateToken := Some t\<rparr>) gs))"
  using assms
proof (induction gs)
  case (Cons g gs)
  show ?case
  proof (cases "g_ID g = i")
    case True
    with Cons.prems have ni: "i \<notin> set (List.map g_ID gs)" by auto
    then have "upd_where (\<lambda>r. g_ID r = i) (\<lambda>r. r\<lparr>g_GateToken := Some t\<rparr>) gs = gs"
      by (force simp: upd_where_def intro!: map_idI)
    moreover have "Some t \<notin> g_GateToken ` set gs"
    proof
      assume "Some t \<in> g_GateToken ` set gs"
      then obtain x where "x \<in> set gs" "g_GateToken x = Some t" by auto
      moreover from this(1) ni have "g_ID x \<noteq> i" by auto
      ultimately show False using Cons.prems(3) [of x] by simp
    qed
    ultimately show ?thesis using True Cons.prems(2) by simp
  next
    case False
    with Cons have "distinct (List.map g_GateToken (upd_where (\<lambda>r. g_ID r = i) (\<lambda>r. r\<lparr>g_GateToken := Some t\<rparr>) gs))"
      by simp
    moreover have "g_GateToken g \<noteq> Some t" using False Cons.prems(3) [of g] by simp
    ultimately show ?thesis using False Cons.prems(2) by (auto simp: set_upd_where)
  qed
qed (simp add: upd_where_def)

lemma gates_SetToken_wf: "db_wf d \<Longrightarrow> db_wf (snd (gates_SetToken flt d i t))"
proof -
  assume wf: "db_wf d"
  then have g: "gates_wf (db_gates d)" by (simp add: db_wf_def)
  show ?thesis
  proof (cases "snd (gates_SetToken flt d i t) = d")
    case False
    then have e: "snd (gates_SetToken flt d i t)
        = d\<lparr>db_gates := upd_where (\<lambda>r. g_ID r = i) (\<lambda>r. r\<lparr>g_GateToken := Some t\<rparr>) (db_gates d)\<rparr>"
      and n: "gate_row d i \<noteq> None" "\<not> list_ex (\<lambda>g. g_GateToken g = Some t \<and> g_ID g \<noteq> i) (db_gates d)"
      by (auto simp: gates_SetToken_def split: if_splits)
    show ?thesis unfolding e
    proof (rule db_wf_gates [OF wf])
      show "gates_wf (upd_where (\<lambda>r. g_ID r = i) (\<lambda>r. r\<lparr>g_GateToken := Some t\<rparr>) (db_gates d))"
        using g n(2) by (auto simp: gates_wf_def map_upd_where set_upd_where list_all_iff list_ex_iff
            intro!: set_token_distinct)
    qed (simp add: map_upd_where [of g_ID])
  qed (use wf in simp)
qed

lemma gates_UpdateStatus_wf: "db_wf d \<Longrightarrow> db_wf (snd (gates_UpdateStatus flt d now i s m))"
  by (auto simp: gates_UpdateStatus_def intro: db_wf_gates_upd)

lemma gates_MarkUnresponsive_wf: "db_wf d \<Longrightarrow> db_wf (snd (gates_MarkUnresponsiveWithIDs flt d now ttl))"
  by (auto simp: gates_MarkUnresponsiveWithIDs_def Let_def intro: db_wf_gates_upd)

lemmas gates_wf_ops = gates_Create_wf gates_Update_wf gates_Delete_wf gates_SetToken_wf
  gates_UpdateStatus_wf gates_MarkUnresponsive_wf

section \<open>Partial updates\<close>

lemma apply_update_none: "no_changes p \<Longrightarrow> apply_update p g = g"
  by (simp add: no_changes_def apply_update_def omit_update_def slice_update_def)

text \<open>
  A successful partial update of a gate changes exactly the sent fields of that gate:
  the returned row is the old row with each unsent field kept, each null field cleared and each
  value stored; the identifier, the reported status, the last contact, the metadata and the
  token are never touched, and every other gate keeps its row.
\<close>

theorem gates_Update_exact:
  assumes "fst (gates_Update flt d i p) = Inr g'"
  shows "\<exists>g. gate_row d i = Some g \<and> g' = scanGate (apply_update p g)
    \<and> gate_row (snd (gates_Update flt d i p)) i = Some (apply_update p g)
    \<and> (\<forall>j. j \<noteq> i \<longrightarrow> gate_row (snd (gates_Update flt d i p)) j = gate_row d j)
    \<and> g_Status g' = g_Status g \<and> g_LastSeenAt g' = g_LastSeenAt g \<and> g_StatusMetadata g' = g_StatusMetadata g"
proof -
  from assms obtain g where g: "gate_row d i = Some g" and e: "g' = scanGate (apply_update p g)"
    by (auto simp: gates_Update_def gates_GetByID_def apply_update_none split: if_splits option.splits)
  have "\<forall>j. gate_row (snd (gates_Update flt d i p)) j
      = map_option (\<lambda>r. if j = i then apply_update p r else r) (gate_row d j)"
  proof
    fix j
    show "gate_row (snd (gates_Update flt d i p)) j
      = map_option (\<lambda>r. if j = i then apply_update p r else r) (gate_row d j)"
    proof (cases "no_changes p")
      case True
      then show ?thesis by (cases "gate_row d j") (simp_all add: gates_Update_def apply_update_none)
    next
      case False
      with assms g have "snd (gates_Update flt d i p)
          = d\<lparr>db_gates := upd_where (\<lambda>r. g_ID r = i) (apply_update p) (db_gates d)\<rparr>"
        by (auto simp: gates_Update_def split: if_splits)
      then show ?thesis
        by (auto simp: gate_row_upd gate_row_SomeD split: option.splits) (auto dest: gate_row_SomeD simp: map_option_case split: option.splits)
    qed
  qed
  with g e show ?thesis by (auto simp: apply_update_def option.map_ident map_option_case split: option.splits)
qed

section \<open>Gate tokens\<close>

text \<open>
  What the device authentication relies on: after a token is set, it is the only token its
  gate accepts, and the other gates accept what they accepted before.
\<close>

locale token_store =
  fixes set_token :: "'d \<Rightarrow> uuid \<Rightarrow> string \<Rightarrow> unit res \<times> 'd"
    and accepts :: "'d \<Rightarrow> uuid \<Rightarrow> string \<Rightarrow> bool"
  assumes accepts_set: "fst (set_token d i t) = Inr () \<Longrightarrow>
      accepts (snd (set_token d i t)) j s \<longleftrightarrow> (if j = i then s = t else accepts d j s)"
begin

lemma old_rejected: "fst (set_token d i t) = Inr () \<Longrightarrow> s \<noteq> t \<Longrightarrow> \<not> accepts (snd (set_token d i t)) i s"
  by (simp add: accepts_set)

lemma new_accepted: "fst (set_token d i t) = Inr () \<Longrightarrow> accepts (snd (set_token d i t)) i t"
  by (simp add: accepts_set)

lemma others_kept: "fst (set_token d i t) = Inr () \<Longrightarrow> j \<noteq> i \<Longrightarrow> accepts (snd (set_token d i t)) j s = accepts d j s"
  by (simp add: accepts_set)

end

definition token_matches :: "db \<Rightarrow> uuid \<Rightarrow> string \<Rightarrow> bool" where
  "token_matches d i t = list_ex (\<lambda>g. g_ID g = i \<and> g_GateToken g = Some t) (db_gates d)"

lemma gates_GetByToken_ok_iff:
  "is_ok (gates_GetByToken flt d i t) \<longleftrightarrow> \<not> flt ''gates.GetByToken'' i \<and> token_matches d i t"
proof -
  have "(\<exists>g. List.find (\<lambda>g. g_ID g = i \<and> g_GateToken g = Some t) (db_gates d) = Some g)
      \<longleftrightarrow> token_matches d i t"
    using find_None_iff_ball [of "\<lambda>g. g_ID g = i \<and> g_GateToken g = Some t" "db_gates d"]
    by (auto simp: token_matches_def list_ex_iff)
  then show ?thesis by (auto simp: gates_GetByToken_def split: option.splits)
qed

lemma gates_GetByToken_id: "gates_GetByToken flt d i t = Inr g \<Longrightarrow> g_ID g = i"
  by (auto simp: gates_GetByToken_def dest: find_SomeD split: if_splits option.splits)

interpretation gt: token_store "gates_SetToken flt" token_matches
proof
  fix d i t j s
  assume "fst (gates_SetToken flt d i t) = Inr ()"
  then have row: "gate_row d i \<noteq> None" and e: "snd (gates_SetToken flt d i t)
      = d\<lparr>db_gates := upd_where (\<lambda>r. g_ID r = i) (\<lambda>r. r\<lparr>g_GateToken := Some t\<rparr>) (db_gates d)\<rparr>"
    by (auto simp: gates_SetToken_def split: if_splits)
  from row obtain g where "g \<in> set (db_gates d)" "g_ID g = i" using gate_row_SomeD by blast
  then show "token_matches (snd (gates_SetToken flt d i t)) j s \<longleftrightarrow> (if j = i then s = t else token_matches d j s)"
    unfolding e token_matches_def
    by (simp add: list_ex_upd_where) (auto simp: list_ex_iff split: if_splits)
qed

end
