(* ===== verification/Access_Repo.thy ===== *)
theory Access_Repo
  imports Gate_Repo
begin

text \<open>
  The remaining tables of \<open>internal/repository/postgres\<close>: members, credentials, access codes,
  schedules and custom domains (\<open>member.go\<close>, \<open>credential.go\<close>, \<open>gate_pin.go\<close>, \<open>access_schedule.go\<close>,
  \<open>custom_domain.go\<close>). New identifiers and tokens drawn by the database are arguments.
\<close>

text \<open>\<open>fmt.Errorf("<what>: %w", err)\<close>.\<close>

definition wrap :: "string \<Rightarrow> err \<Rightarrow> err" where
  "wrap what e = Wrapf (what @ '': %w'') [] e"

lemma errIs_wrap [simp]: "errIs (wrap w e) t \<longleftrightarrow> wrap w e = t \<or> errIs e t"
  by (simp add: wrap_def)

lemma wrap_neq [simp]:
  "wrap w e \<noteq> ErrNotFound" "wrap w e \<noteq> ErrUnauthorized" "wrap w e \<noteq> ErrAlreadyExists" "wrap w e \<noteq> ErrExternal s"
  by (simp_all add: wrap_def)

section \<open>Members\<close>

definition scan_one :: "bool \<Rightarrow> string \<Rightarrow> 'a option \<Rightarrow> 'a res" where
  "scan_one fault what r =
     (if fault then Inl (db_err what) else case r of None \<Rightarrow> Inl ErrNotFound | Some x \<Rightarrow> Inr x)"

definition member_row :: "db \<Rightarrow> uuid \<Rightarrow> member option" where
  "member_row d i = List.find (\<lambda>m. mem_ID m = i) (db_members d)"

definition members_Create :: "faults \<Rightarrow> db \<Rightarrow> uuid \<Rightarrow> int \<Rightarrow> string \<Rightarrow> string option \<Rightarrow> string \<Rightarrow> member res \<times> db" where
  "members_Create flt d newID now username displayName role =
     (let row = \<lparr>mem_ID = newID, mem_Username = username, mem_DisplayName = displayName,
                 mem_Role = role, mem_CreatedAt = now\<rparr>
      in if flt ''members.Create'' newID \<or> role \<notin> {RoleAdmin, RoleMember}
         then (Inl (wrap ''create member'' (db_err ''scan member'')), d)
         else if newID \<in> member_ids d \<or> username \<in> set (List.map mem_Username (db_members d))
         then (Inl ErrAlreadyExists, d)
         else (Inr row, d\<lparr>db_members := db_members d @ [row]\<rparr>))"

definition members_GetByID :: "faults \<Rightarrow> db \<Rightarrow> uuid \<Rightarrow> member res" where
  "members_GetByID flt d memberID =
     scan_one (flt ''members.GetByID'' memberID) ''scan member'' (member_row d memberID)"

definition members_GetByUsername :: "faults \<Rightarrow> db \<Rightarrow> string \<Rightarrow> member res" where
  "members_GetByUsername flt d username =
     scan_one (flt ''members.GetByUsername'' 0) ''scan member''
       (List.find (\<lambda>m. mem_Username m = username) (db_members d))"

definition members_HasAny :: "faults \<Rightarrow> db \<Rightarrow> bool res" where
  "members_HasAny flt d =
     (if flt ''members.HasAny'' 0 then Inl (db_err ''check members'') else Inr (db_members d \<noteq> []))"

definition members_List :: "faults \<Rightarrow> db \<Rightarrow> pagination \<Rightarrow> (member list \<times> int) res" where
  "members_List flt d p0 =
     (let p = Normalize p0
      in if flt ''members.Count'' 0 then Inl (db_err ''count members'')
         else if flt ''members.List'' 0 then Inl (db_err ''list members'')
         else Inr (page p (sort_key (\<lambda>m. - mem_CreatedAt m) (db_members d)), int (length (db_members d))))"

definition apply_member_update :: "string option \<Rightarrow> string option \<Rightarrow> string option \<Rightarrow> member \<Rightarrow> member" where
  "apply_member_update displayName username role m = m\<lparr>
     mem_DisplayName := (case displayName of None \<Rightarrow> mem_DisplayName m | Some n \<Rightarrow> Some n),
     mem_Username := (case username of None \<Rightarrow> mem_Username m | Some u \<Rightarrow> u),
     mem_Role := (case role of None \<Rightarrow> mem_Role m | Some r \<Rightarrow> r)\<rparr>"

definition members_Update :: "faults \<Rightarrow> db \<Rightarrow> uuid \<Rightarrow> string option \<Rightarrow> string option \<Rightarrow> string option \<Rightarrow> member res \<times> db" where
  "members_Update flt d memberID displayName username role =
     (if displayName = None \<and> username = None \<and> role = None then (members_GetByID flt d memberID, d)
      else if flt ''members.Update'' memberID then (Inl (wrap ''update member'' (db_err ''scan member'')), d)
      else case member_row d memberID of
        None \<Rightarrow> (Inl (wrap ''update member'' ErrNotFound), d)
      | Some m \<Rightarrow>
          if \<not> set_option role \<subseteq> {RoleAdmin, RoleMember}
          then (Inl (wrap ''update member'' (db_err ''scan member'')), d)
          else if list_ex (\<lambda>x. mem_ID x \<noteq> memberID \<and> username = Some (mem_Username x)) (db_members d)
          then (Inl ErrAlreadyExists, d)
          else (Inr (apply_member_update displayName username role m),
                d\<lparr>db_members := upd_where (\<lambda>x. mem_ID x = memberID)
                     (apply_member_update displayName username role) (db_members d)\<rparr>))"

text \<open>Deleting schedules cascades to the links that use them and clears them on access codes.\<close>

definition cascade_schedules :: "(access_schedule \<Rightarrow> bool) \<Rightarrow> db \<Rightarrow> db" where
  "cascade_schedules P d =
     (let gone = List.map as_ID (filter P (db_schedules d))
      in d\<lparr>db_schedules := filter (\<lambda>s. \<not> P s) (db_schedules d),
           db_pins := upd_where (\<lambda>p. list_ex (\<lambda>i. pin_ScheduleID p = Some i) gone) (\<lambda>p. p\<lparr>pin_ScheduleID := None\<rparr>) (db_pins d),
           db_links := filter (\<lambda>l. sl_ScheduleID l \<notin> set gone) (db_links d)\<rparr>)"

definition cascade_member :: "uuid \<Rightarrow> db \<Rightarrow> db" where
  "cascade_member memberID d =
     (let d1 = cascade_schedules (\<lambda>s. as_MemberID s = Some memberID) d
      in d1\<lparr>db_members := filter (\<lambda>m. mem_ID m \<noteq> memberID) (db_members d1),
            db_creds := filter (\<lambda>c. cr_MemberID c \<noteq> memberID) (db_creds d1)\<rparr>)"

definition members_Delete :: "faults \<Rightarrow> db \<Rightarrow> uuid \<Rightarrow> unit res \<times> db" where
  "members_Delete flt d memberID =
     (if flt ''members.Delete'' memberID then (Inl (db_err ''delete member''), d)
      else if member_row d memberID = None then (Inl ErrNotFound, d)
      else (Inr (), cascade_member memberID d))"

section \<open>Credentials\<close>

definition creds_Create :: "faults \<Rightarrow> db \<Rightarrow> uuid \<Rightarrow> int \<Rightarrow> uuid \<Rightarrow> string \<Rightarrow> string \<Rightarrow> string option \<Rightarrow> int option
    \<Rightarrow> gmap \<Rightarrow> credential res \<times> db" where
  "creds_Create flt d newID now memberID credType hashedValue label expiresAt metadata =
     (let row = \<lparr>cr_ID = newID, cr_MemberID = memberID, cr_Type = credType, cr_HashedValue = hashedValue,
                 cr_Label = label, cr_ExpiresAt = expiresAt, cr_Metadata = metadata, cr_CreatedAt = now\<rparr>;
          failed = Inl (wrap ''create credential'' (db_err ''scan credential''))
      in if flt ''creds.Create'' memberID \<or> credType \<notin> {CredPassword, CredSSOIdentity, CredAPIToken}
         then (failed, d)
         else if newID \<in> set (List.map cr_ID (db_creds d))
              \<or> credType = CredPassword \<and> list_ex (\<lambda>c. cr_Type c = CredPassword \<and> cr_MemberID c = memberID) (db_creds d)
         then (Inl ErrAlreadyExists, d)
         else if memberID \<notin> member_ids d then (failed, d)
         else (Inr row, d\<lparr>db_creds := db_creds d @ [row]\<rparr>))"

definition creds_GetByMemberAndType :: "faults \<Rightarrow> db \<Rightarrow> uuid \<Rightarrow> string \<Rightarrow> credential res" where
  "creds_GetByMemberAndType flt d memberID credType =
     scan_one (flt ''creds.GetByMemberAndType'' memberID) ''scan credential''
       (List.find (\<lambda>c. cr_MemberID c = memberID \<and> cr_Type c = credType) (db_creds d))"

definition creds_GetByID :: "faults \<Rightarrow> db \<Rightarrow> uuid \<Rightarrow> uuid \<Rightarrow> credential res" where
  "creds_GetByID flt d credID memberID =
     scan_one (flt ''creds.GetByID'' credID) ''scan credential''
       (List.find (\<lambda>c. cr_ID c = credID \<and> cr_MemberID c = memberID) (db_creds d))"

definition creds_ListByMemberAndType :: "faults \<Rightarrow> db \<Rightarrow> uuid \<Rightarrow> string \<Rightarrow> pagination \<Rightarrow> (credential list \<times> int) res" where
  "creds_ListByMemberAndType flt d memberID credType p0 =
     (let p = Normalize p0; rows = filter (\<lambda>c. cr_MemberID c = memberID \<and> cr_Type c = credType) (db_creds d)
      in if flt ''creds.Count'' memberID then Inl (db_err ''count credentials'')
         else if flt ''creds.List'' memberID then Inl (db_err ''list credentials'')
         else Inr (page p (sort_key (\<lambda>c. - cr_CreatedAt c) rows), int (length rows)))"

definition creds_FindBySSOIdentity :: "faults \<Rightarrow> db \<Rightarrow> string \<Rightarrow> credential res" where
  "creds_FindBySSOIdentity flt d providerSub =
     scan_one (flt ''creds.FindBySSOIdentity'' 0) ''scan credential''
       (List.find (\<lambda>c. cr_Type c = CredSSOIdentity \<and> cr_HashedValue c = providerSub) (db_creds d))"

definition not_expired :: "int \<Rightarrow> int option \<Rightarrow> bool" where
  "not_expired now e = (case e of None \<Rightarrow> True | Some t \<Rightarrow> now < t)"

definition creds_FindByHashedAPIToken :: "faults \<Rightarrow> db \<Rightarrow> int \<Rightarrow> string \<Rightarrow> (credential \<times> member) res" where
  "creds_FindByHashedAPIToken flt d now hash =
     (if flt ''creds.FindByHashedAPIToken'' 0 then Inl (db_err ''find cred by api token'')
      else case List.find (\<lambda>c. cr_HashedValue c = hash \<and> cr_Type c = CredAPIToken \<and> not_expired now (cr_ExpiresAt c)
                 \<and> member_row d (cr_MemberID c) \<noteq> None) (db_creds d) of
        None \<Rightarrow> Inl ErrNotFound
      | Some c \<Rightarrow> (case member_row d (cr_MemberID c) of None \<Rightarrow> Inl ErrNotFound | Some m \<Rightarrow> Inr (c, m)))"

definition creds_UpdateHashedValue :: "faults \<Rightarrow> db \<Rightarrow> uuid \<Rightarrow> string \<Rightarrow> string \<Rightarrow> unit res \<times> db" where
  "creds_UpdateHashedValue flt d memberID credType newHashedValue =
     (let P = (\<lambda>c. cr_MemberID c = memberID \<and> cr_Type c = credType)
      in if flt ''creds.UpdateHashedValue'' memberID then (Inl (db_err ''update credential hashed value''), d)
         else if \<not> list_ex P (db_creds d) then (Inl ErrNotFound, d)
         else (Inr (), d\<lparr>db_creds := upd_where P (\<lambda>c. c\<lparr>cr_HashedValue := newHashedValue\<rparr>) (db_creds d)\<rparr>))"

definition creds_Delete :: "faults \<Rightarrow> db \<Rightarrow> uuid \<Rightarrow> uuid \<Rightarrow> unit res \<times> db" where
  "creds_Delete flt d credID memberID =
     (let P = (\<lambda>c. cr_ID c = credID \<and> cr_MemberID c = memberID)
      in if flt ''creds.Delete'' credID then (Inl (db_err ''delete credential''), d)
         else if \<not> list_ex P (db_creds d) then (Inl ErrNotFound, d)
         else (Inr (), d\<lparr>db_creds := filter (\<lambda>c. \<not> P c) (db_creds d)\<rparr>))"

section \<open>Access codes\<close>

definition pins_Create :: "faults \<Rightarrow> db \<Rightarrow> uuid \<Rightarrow> int \<Rightarrow> uuid \<Rightarrow> string \<Rightarrow> string \<Rightarrow> gmap \<Rightarrow> uuid option \<Rightarrow> gate_pin res \<times> db" where
  "pins_Create flt d newID now gateID hashedPin label metadata scheduleID =
     (let row = \<lparr>pin_ID = newID, pin_GateID = gateID, pin_HashedPin = hashedPin, pin_Label = label,
                 pin_Metadata = metadata, pin_ScheduleID = scheduleID, pin_CreatedAt = now\<rparr>
      in if flt ''pins.Create'' gateID \<or> newID \<in> set (List.map pin_ID (db_pins d)) \<or> gateID \<notin> gate_ids d
            \<or> \<not> set_option scheduleID \<subseteq> schedule_ids d
         then (Inl (wrap ''create gate pin'' (db_err ''scan gate pin'')), d)
         else (Inr row, d\<lparr>db_pins := db_pins d @ [row]\<rparr>))"

definition pin_row :: "db \<Rightarrow> uuid \<Rightarrow> uuid \<Rightarrow> gate_pin option" where
  "pin_row d pinID gateID = List.find (\<lambda>p. pin_ID p = pinID \<and> pin_GateID p = gateID) (db_pins d)"

definition pins_GetByID :: "faults \<Rightarrow> db \<Rightarrow> uuid \<Rightarrow> uuid \<Rightarrow> gate_pin res" where
  "pins_GetByID flt d pinID gateID = scan_one (flt ''pins.GetByID'' pinID) ''scan gate pin'' (pin_row d pinID gateID)"

definition pins_List :: "faults \<Rightarrow> db \<Rightarrow> uuid \<Rightarrow> pagination \<Rightarrow> (gate_pin list \<times> int) res" where
  "pins_List flt d gateID p0 =
     (let p = Normalize p0; rows = filter (\<lambda>r. pin_GateID r = gateID) (db_pins d)
      in if flt ''pins.Count'' gateID then Inl (db_err ''count gate access codes'')
         else if flt ''pins.List'' gateID then Inl (db_err ''list gate access codes'')
         else Inr (page p (sort_key (\<lambda>r. - pin_CreatedAt r) rows), int (length rows)))"

text \<open>\<open>metadata || $2\<close> of \<open>jsonb\<close>: the new members replace the old ones of the same name.\<close>

definition json_merge :: "gmap \<Rightarrow> gmap \<Rightarrow> gmap" where
  "json_merge old new = fold (\<lambda>kv. AList.update (fst kv) (snd kv)) new old"

text \<open>\<open>UPDATE ... RETURNING\<close> of one access code.\<close>

definition update_pin :: "bool \<Rightarrow> string \<Rightarrow> db \<Rightarrow> uuid \<Rightarrow> uuid \<Rightarrow> (gate_pin \<Rightarrow> gate_pin) \<Rightarrow> gate_pin res \<times> db" where
  "update_pin fault what d pinID gateID f =
     (if fault then (Inl (wrap what (db_err ''scan gate pin'')), d)
      else case pin_row d pinID gateID of
        None \<Rightarrow> (Inl (wrap what ErrNotFound), d)
      | Some p \<Rightarrow> (Inr (f p), d\<lparr>db_pins := upd_where (\<lambda>r. pin_ID r = pinID \<and> pin_GateID r = gateID) f (db_pins d)\<rparr>))"

definition pins_Update :: "faults \<Rightarrow> db \<Rightarrow> uuid \<Rightarrow> uuid \<Rightarrow> string option \<Rightarrow> gmap \<Rightarrow> gate_pin res \<times> db" where
  "pins_Update flt d pinID gateID label metadata =
     update_pin (flt ''pins.Update'' pinID) ''update gate access code'' d pinID gateID
       (\<lambda>p. p\<lparr>pin_Label := (case label of None \<Rightarrow> pin_Label p | Some l \<Rightarrow> l),
              pin_Metadata := json_merge (pin_Metadata p) metadata\<rparr>)"

definition pins_SetPinSchedule :: "faults \<Rightarrow> db \<Rightarrow> uuid \<Rightarrow> uuid \<Rightarrow> uuid \<Rightarrow> gate_pin res \<times> db" where
  "pins_SetPinSchedule flt d pinID gateID scheduleID =
     update_pin (flt ''pins.SetPinSchedule'' pinID
         \<or> pin_row d pinID gateID \<noteq> None \<and> scheduleID \<notin> schedule_ids d) ''set pin schedule'' d pinID gateID
       (\<lambda>p. p\<lparr>pin_ScheduleID := Some scheduleID\<rparr>)"

definition pins_ClearPinSchedule :: "faults \<Rightarrow> db \<Rightarrow> uuid \<Rightarrow> uuid \<Rightarrow> gate_pin res \<times> db" where
  "pins_ClearPinSchedule flt d pinID gateID =
     update_pin (flt ''pins.ClearPinSchedule'' pinID) ''clear pin schedule'' d pinID gateID
       (\<lambda>p. p\<lparr>pin_ScheduleID := None\<rparr>)"

definition pins_Delete :: "faults \<Rightarrow> db \<Rightarrow> uuid \<Rightarrow> uuid \<Rightarrow> unit res \<times> db" where
  "pins_Delete flt d pinID gateID =
     (if flt ''pins.Delete'' pinID then (Inl (db_err ''delete gate access code''), d)
      else if pin_row d pinID gateID = None then (Inl ErrNotFound, d)
      else (Inr (), d\<lparr>db_pins := filter (\<lambda>p. \<not> (pin_ID p = pinID \<and> pin_GateID p = gateID)) (db_pins d)\<rparr>))"

section \<open>Schedules\<close>

definition schedule_row :: "db \<Rightarrow> uuid \<Rightarrow> access_schedule option" where
  "schedule_row d i = List.find (\<lambda>s. as_ID s = i) (db_schedules d)"

definition schedules_Create :: "faults \<Rightarrow> db \<Rightarrow> uuid \<Rightarrow> int \<Rightarrow> uuid option \<Rightarrow> string \<Rightarrow> string option \<Rightarrow> expr_node option
    \<Rightarrow> access_schedule res \<times> db" where
  "schedules_Create flt d newID now memberID name description expr =
     (let row = \<lparr>as_ID = newID, as_MemberID = memberID, as_Name = name, as_Description = description,
                 as_Expr = expr, as_CreatedAt = now\<rparr>
      in if flt ''schedules.Create'' newID \<or> newID \<in> schedule_ids d \<or> \<not> set_option memberID \<subseteq> member_ids d
         then (Inl (db_err ''scan access schedule''), d)
         else (Inr row, d\<lparr>db_schedules := db_schedules d @ [row]\<rparr>))"

definition schedules_GetByID :: "faults \<Rightarrow> db \<Rightarrow> uuid \<Rightarrow> access_schedule res" where
  "schedules_GetByID flt d scheduleID =
     scan_one (flt ''schedules.GetByID'' scheduleID) ''scan access schedule'' (schedule_row d scheduleID)"

definition schedules_GetByIDPublic :: "faults \<Rightarrow> db \<Rightarrow> uuid \<Rightarrow> access_schedule res" where
  "schedules_GetByIDPublic = schedules_GetByID"

definition schedules_List :: "faults \<Rightarrow> db \<Rightarrow> pagination \<Rightarrow> (access_schedule list \<times> int) res" where
  "schedules_List flt d p0 =
     (let p = Normalize p0; rows = filter (\<lambda>s. as_MemberID s = None) (db_schedules d)
      in if flt ''schedules.Count'' 0 then Inl (db_err ''count schedules'')
         else if flt ''schedules.List'' 0 then Inl (db_err ''list schedules'')
         else Inr (page p (sort_key as_Name rows), int (length rows)))"

definition schedules_ListByMember :: "faults \<Rightarrow> db \<Rightarrow> uuid \<Rightarrow> pagination \<Rightarrow> (access_schedule list \<times> int) res" where
  "schedules_ListByMember flt d memberID p0 =
     (let p = Normalize p0; rows = filter (\<lambda>s. as_MemberID s = Some memberID) (db_schedules d)
      in if flt ''schedules.CountByMember'' memberID then Inl (db_err ''count member schedules'')
         else if flt ''schedules.ListByMember'' memberID then Inl (db_err ''list member schedules'')
         else Inr (page p (sort_key as_Name rows), int (length rows)))"

definition schedules_Update :: "faults \<Rightarrow> db \<Rightarrow> uuid \<Rightarrow> string \<Rightarrow> string option \<Rightarrow> expr_node option \<Rightarrow> access_schedule res \<times> db" where
  "schedules_Update flt d scheduleID name description expr =
     (let f = (\<lambda>s. s\<lparr>as_Name := name, as_Description := description, as_Expr := expr\<rparr>)
      in if flt ''schedules.Update'' scheduleID
         then (Inl (wrap ''update access schedule'' (db_err ''scan access schedule'')), d)
         else case schedule_row d scheduleID of
           None \<Rightarrow> (Inl (wrap ''update access schedule'' ErrNotFound), d)
         | Some s \<Rightarrow> (Inr (f s), d\<lparr>db_schedules := upd_where (\<lambda>s. as_ID s = scheduleID) f (db_schedules d)\<rparr>))"

definition schedules_Delete :: "faults \<Rightarrow> db \<Rightarrow> uuid \<Rightarrow> unit res \<times> db" where
  "schedules_Delete flt d scheduleID =
     (if flt ''schedules.Delete'' scheduleID then (Inl (db_err ''delete access schedule''), d)
      else if schedule_row d scheduleID = None then (Inl ErrNotFound, d)
      else (Inr (), cascade_schedules (\<lambda>s. as_ID s = scheduleID) d))"

section \<open>Custom domains\<close>

definition domains_Create :: "faults \<Rightarrow> db \<Rightarrow> uuid \<Rightarrow> string \<Rightarrow> int \<Rightarrow> uuid \<Rightarrow> string \<Rightarrow> custom_domain res \<times> db" where
  "domains_Create flt d newID token now gateID domain =
     (let row = \<lparr>cd_ID = newID, cd_GateID = gateID, cd_Domain = domain, cd_DNSChallengeToken = token,
                 cd_VerifiedAt = None, cd_CreatedAt = now\<rparr>;
          failed = Inl (wrap ''create custom domain'' (db_err ''scan custom domain''))
      in if flt ''domains.Create'' gateID then (failed, d)
         else if newID \<in> set (List.map cd_ID (db_domains d)) \<or> domain \<in> set (List.map cd_Domain (db_domains d))
         then (Inl ErrAlreadyExists, d)
         else if gateID \<notin> gate_ids d then (failed, d)
         else (Inr row, d\<lparr>db_domains := db_domains d @ [row]\<rparr>))"

definition domain_row :: "db \<Rightarrow> uuid \<Rightarrow> uuid \<Rightarrow> custom_domain option" where
  "domain_row d domainID gateID = List.find (\<lambda>c. cd_ID c = domainID \<and> cd_GateID c = gateID) (db_domains d)"

definition domains_GetByID :: "faults \<Rightarrow> db \<Rightarrow> uuid \<Rightarrow> uuid \<Rightarrow> custom_domain res" where
  "domains_GetByID flt d domainID gateID =
     scan_one (flt ''domains.GetByID'' domainID) ''scan custom domain'' (domain_row d domainID gateID)"

definition domains_GetByDomain :: "faults \<Rightarrow> db \<Rightarrow> string \<Rightarrow> custom_domain res" where
  "domains_GetByDomain flt d domain =
     scan_one (flt ''domains.GetByDomain'' 0) ''scan custom domain'' (List.find (\<lambda>c. cd_Domain c = domain) (db_domains d))"

definition domains_ListByGate :: "faults \<Rightarrow> db \<Rightarrow> uuid \<Rightarrow> pagination \<Rightarrow> (custom_domain list \<times> int) res" where
  "domains_ListByGate flt d gateID p0 =
     (let p = Normalize p0; rows = filter (\<lambda>c. cd_GateID c = gateID) (db_domains d)
      in if flt ''domains.Count'' gateID then Inl (db_err ''count custom domains'')
         else if flt ''domains.List'' gateID then Inl (db_err ''list custom domains'')
         else Inr (page p (sort_key (\<lambda>c. - cd_CreatedAt c) rows), int (length rows)))"

definition domains_ListAllVerified :: "faults \<Rightarrow> db \<Rightarrow> custom_domain list res" where
  "domains_ListAllVerified flt d =
     (if flt ''domains.ListAllVerified'' 0 then Inl (db_err ''list verified domains'')
      else Inr (sort_key cd_Domain (filter (\<lambda>c. cd_VerifiedAt c \<noteq> None) (db_domains d))))"

definition domains_SetVerified :: "faults \<Rightarrow> db \<Rightarrow> uuid \<Rightarrow> int \<Rightarrow> unit res \<times> db" where
  "domains_SetVerified flt d domainID verifiedAt =
     (if flt ''domains.SetVerified'' domainID then (Inl (db_err ''set domain verified''), d)
      else if \<not> list_ex (\<lambda>c. cd_ID c = domainID) (db_domains d) then (Inl ErrNotFound, d)
      else (Inr (), d\<lparr>db_domains := upd_where (\<lambda>c. cd_ID c = domainID) (\<lambda>c. c\<lparr>cd_VerifiedAt := Some verifiedAt\<rparr>) (db_domains d)\<rparr>))"

definition domains_ResolveByDomain :: "faults \<Rightarrow> db \<Rightarrow> string \<Rightarrow> gate_info res" where
  "domains_ResolveByDomain flt d domain =
     (if flt ''domains.ResolveByDomain'' 0 then Inl (db_err ''resolve domain'')
      else case List.find (\<lambda>c. cd_Domain c = domain \<and> cd_VerifiedAt c \<noteq> None) (db_domains d) of
        None \<Rightarrow> Inl ErrNotFound
      | Some c \<Rightarrow> (case gate_row d (cd_GateID c) of None \<Rightarrow> Inl ErrNotFound | Some g \<Rightarrow> Inr (public_info g)))"

definition domains_Delete :: "faults \<Rightarrow> db \<Rightarrow> uuid \<Rightarrow> uuid \<Rightarrow> unit res \<times> db" where
  "domains_Delete flt d domainID gateID =
     (if flt ''domains.Delete'' domainID then (Inl (db_err ''delete custom domain''), d)
      else if domain_row d domainID gateID = None then (Inl ErrNotFound, d)
      else (Inr (), d\<lparr>db_domains := filter (\<lambda>c. \<not> (cd_ID c = domainID \<and> cd_GateID c = gateID)) (db_domains d)\<rparr>))"

section \<open>The constraints are preserved\<close>

lemma creds_wf_delete: "creds_wf M cs \<Longrightarrow> creds_wf M (filter P cs)"
proof -
  have "filter (\<lambda>c. cr_Type c = CredPassword) (filter P cs) = filter P (filter (\<lambda>c. cr_Type c = CredPassword) cs)"
    by (simp add: conj_commute)
  then show "creds_wf M cs \<Longrightarrow> creds_wf M (filter P cs)"
    unfolding creds_wf_def by (simp only: distinct_map_filter) (auto simp: list_all_iff)
qed

lemma pins_wf_upd:
  assumes "pins_wf G S ps" and "\<And>p. pin_ID (f p) = pin_ID p" and "\<And>p. pin_GateID (f p) = pin_GateID p"
    and "\<And>p. set_option (pin_ScheduleID (f p)) \<subseteq> S \<union> set_option (pin_ScheduleID p)"
  shows "pins_wf G S (upd_where P f ps)"
  using assms(1,3,4)
  by (fastforce simp: pins_wf_def map_upd_where [of pin_ID, OF assms(2)] list_all_iff set_upd_where)

lemma update_pin_wf:
  assumes "db_wf d" and "\<And>p. pin_ID (f p) = pin_ID p" and "\<And>p. pin_GateID (f p) = pin_GateID p"
    and "\<not> fault \<Longrightarrow> pin_row d i g \<noteq> None \<Longrightarrow> \<forall>p. set_option (pin_ScheduleID (f p)) \<subseteq> schedule_ids d \<union> set_option (pin_ScheduleID p)"
  shows "db_wf (snd (update_pin fault what d i g f))"
  using assms by (auto simp: update_pin_def db_wf_def split: option.splits intro!: pins_wf_upd)

lemma pins_wf_ops:
  "db_wf d \<Longrightarrow> db_wf (snd (pins_Create flt d i now g h l m s))"
  "db_wf d \<Longrightarrow> db_wf (snd (pins_Update flt d i g lo m))"
  "db_wf d \<Longrightarrow> db_wf (snd (pins_SetPinSchedule flt d i g s'))"
  "db_wf d \<Longrightarrow> db_wf (snd (pins_ClearPinSchedule flt d i g))"
  "db_wf d \<Longrightarrow> db_wf (snd (pins_Delete flt d i g))"
proof -
  assume wf: "db_wf d"
  show "db_wf (snd (pins_Create flt d i now g h l m s))"
    using wf by (auto simp: pins_Create_def Let_def db_wf_def pins_wf_def)
  show "db_wf (snd (pins_Update flt d i g lo m))"
    unfolding pins_Update_def by (rule update_pin_wf [OF wf]) auto
  show "db_wf (snd (pins_SetPinSchedule flt d i g s'))"
    unfolding pins_SetPinSchedule_def by (rule update_pin_wf [OF wf]) auto
  show "db_wf (snd (pins_ClearPinSchedule flt d i g))"
    unfolding pins_ClearPinSchedule_def by (rule update_pin_wf [OF wf]) auto
  show "db_wf (snd (pins_Delete flt d i g))"
    using wf by (auto simp: pins_Delete_def db_wf_def pins_wf_def list_all_iff distinct_map_filter)
qed

lemma cascade_schedules_parts:
  assumes "distinct (List.map as_ID ss)"
  shows "set (List.map as_ID (filter (\<lambda>s. \<not> P s) ss)) = set (List.map as_ID ss) - set (List.map as_ID (filter P ss))"
  using assms by (auto simp: distinct_map dest: inj_onD)

lemma cascade_schedules_wf:
  assumes "db_wf d"
  shows "db_wf (cascade_schedules P d)"
proof -
  let ?gone = "List.map as_ID (filter P (db_schedules d))"
  have ids: "set (List.map as_ID (filter (\<lambda>s. \<not> P s) (db_schedules d))) = schedule_ids d - set ?gone"
    by (rule cascade_schedules_parts) (simp add: db_wfD [OF assms])
  have p: "pins_wf G (S - set ?gone) (upd_where (\<lambda>p. list_ex (\<lambda>i. pin_ScheduleID p = Some i) ?gone)
      (\<lambda>p. p\<lparr>pin_ScheduleID := None\<rparr>) ps)" if "pins_wf G S ps" for G S ps
    using that by (fastforce simp: pins_wf_def map_upd_where [of pin_ID] list_all_iff list_ex_iff set_upd_where)
  have l: "links_wf G (S - set ?gone) (filter (\<lambda>l. sl_ScheduleID l \<notin> set ?gone) ls)" if "links_wf G S ls" for G S ls
    using that by (auto simp: links_wf_def list_all_iff distinct_map_filter)
  have s: "schedules_wf M (filter (\<lambda>s. \<not> P s) ss)" if "schedules_wf M ss" for M ss
    using that by (auto simp: schedules_wf_def list_all_iff distinct_map_filter)
  show ?thesis
    using assms unfolding db_wf_def cascade_schedules_def Let_def
    by (simp add: ids p l s del: set_map)
qed

lemma cascade_schedules_sel [simp]:
  "db_members (cascade_schedules P d) = db_members d" "db_creds (cascade_schedules P d) = db_creds d"
  "db_gates (cascade_schedules P d) = db_gates d" "db_policies (cascade_schedules P d) = db_policies d"
  "db_domains (cascade_schedules P d) = db_domains d"
  "db_schedules (cascade_schedules P d) = filter (\<lambda>s. \<not> P s) (db_schedules d)"
  by (simp_all add: cascade_schedules_def Let_def)

lemma cascade_member_wf:
  assumes "db_wf d"
  shows "db_wf (cascade_member i d)"
proof -
  let ?d = "cascade_schedules (\<lambda>s. as_MemberID s = Some i) d"
  have ids: "set (List.map mem_ID (filter (\<lambda>m. mem_ID m \<noteq> i) (db_members d))) = member_ids d - {i}" by auto
  have m: "members_wf (filter (\<lambda>m. mem_ID m \<noteq> i) ms)" if "members_wf ms" for ms
    using that by (auto simp: members_wf_def list_all_iff distinct_map_filter)
  have c: "creds_wf (M - {i}) (filter (\<lambda>c. cr_MemberID c \<noteq> i) cs)" if "creds_wf M cs" for M cs
    using creds_wf_delete [OF that] that by (auto simp: creds_wf_def list_all_iff)
  have s: "schedules_wf (M - {i}) (filter (\<lambda>s. as_MemberID s \<noteq> Some i) ss)" if "schedules_wf M ss" for M ss
    using that by (auto simp: schedules_wf_def list_all_iff distinct_map_filter)
  have "db_wf ?d" by (rule cascade_schedules_wf [OF assms])
  with assms show ?thesis
    unfolding db_wf_def cascade_member_def Let_def
    by (simp add: ids m c s del: set_map)
qed

lemma schedules_wf_ops:
  "db_wf d \<Longrightarrow> db_wf (snd (schedules_Create flt d i now mo n de e))"
  "db_wf d \<Longrightarrow> db_wf (snd (schedules_Update flt d i n de e))"
  "db_wf d \<Longrightarrow> db_wf (snd (schedules_Delete flt d i))"
proof -
  assume wf: "db_wf d"
  show "db_wf (snd (schedules_Create flt d i now mo n de e))"
    using wf by (auto simp: schedules_Create_def Let_def db_wf_def table_wf_defs list_all_iff)
  have "set (List.map as_ID (upd_where P (\<lambda>s. s\<lparr>as_Name := n, as_Description := de, as_Expr := e\<rparr>) ss)) = set (List.map as_ID ss)"
    and "schedules_wf M ss \<Longrightarrow> schedules_wf M (upd_where P (\<lambda>s. s\<lparr>as_Name := n, as_Description := de, as_Expr := e\<rparr>) ss)"
    for P ss M
    by (auto simp: map_upd_where [of as_ID] schedules_wf_def list_all_iff set_upd_where simp del: set_map)
  with wf show "db_wf (snd (schedules_Update flt d i n de e))"
    by (auto simp: schedules_Update_def Let_def db_wf_def simp del: set_map split: option.splits)
  show "db_wf (snd (schedules_Delete flt d i))"
    using wf by (simp add: schedules_Delete_def cascade_schedules_wf)
qed

lemma members_wf_upd:
  assumes "members_wf ms" and "set_option r \<subseteq> {RoleAdmin, RoleMember}"
    and "\<not> list_ex (\<lambda>x. mem_ID x \<noteq> i \<and> u = Some (mem_Username x)) ms"
  shows "members_wf (upd_where (\<lambda>x. mem_ID x = i) (apply_member_update dn u r) ms)"
proof -
  have "distinct (List.map mem_Username (upd_where (\<lambda>x. mem_ID x = i) (apply_member_update dn u r) ms))"
    using assms(1,3)
  proof (induction ms)
    case (Cons m ms)
    then have IH: "distinct (List.map mem_Username (upd_where (\<lambda>x. mem_ID x = i) (apply_member_update dn u r) ms))"
      by (simp add: members_wf_def)
    have ne: "mem_Username x \<noteq> mem_Username (if mem_ID m = i then apply_member_update dn u r m else m)"
      if x: "x \<in> set (upd_where (\<lambda>x. mem_ID x = i) (apply_member_update dn u r) ms)" for x
    proof -
      from x obtain y where y: "y \<in> set ms" "x = (if mem_ID y = i then apply_member_update dn u r y else y)"
        by (auto simp: set_upd_where)
      have ne: "mem_ID y \<noteq> mem_ID m" "mem_Username y \<noteq> mem_Username m"
        using Cons.prems(1) y(1) by (auto simp: members_wf_def) (metis image_eqI)+
      have u: "mem_ID y \<noteq> i \<Longrightarrow> u \<noteq> Some (mem_Username y)" "mem_ID m \<noteq> i \<Longrightarrow> u \<noteq> Some (mem_Username m)"
        using Cons.prems(2) y(1) by (auto simp: list_ex_iff)
      show ?thesis using y(2) ne u by (auto simp: apply_member_update_def split: option.splits)
    qed
    have "mem_Username (if mem_ID m = i then apply_member_update dn u r m else m)
        \<notin> mem_Username ` set (upd_where (\<lambda>x. mem_ID x = i) (apply_member_update dn u r) ms)"
      by (rule notI, elim imageE) (drule ne, simp only: not_True_eq_False)
    with IH show ?case by (simp only: upd_where_simps list.map distinct.simps list.set_map not_False_eq_True simp_thms)
  qed simp
  with assms(1,2) show ?thesis
    by (auto simp: members_wf_def map_upd_where [of mem_ID] apply_member_update_def list_all_iff set_upd_where split: option.splits)
qed

lemma members_wf_ops:
  "db_wf d \<Longrightarrow> db_wf (snd (members_Create flt d i now u dn r))"
  "db_wf d \<Longrightarrow> db_wf (snd (members_Update flt d i dn' u' r'))"
  "db_wf d \<Longrightarrow> db_wf (snd (members_Delete flt d i))"
proof -
  assume wf: "db_wf d"
  show "db_wf (snd (members_Create flt d i now u dn r))"
    using wf by (auto simp: members_Create_def Let_def db_wf_def table_wf_defs list_all_iff)
  have ids: "List.map mem_ID (upd_where P (apply_member_update dn' u' r') ms) = List.map mem_ID ms" for P ms
    by (rule map_upd_where) (simp add: apply_member_update_def)
  have mw: "members_wf (db_members d)" using wf by (simp add: db_wf_def)
  have "db_wf (d\<lparr>db_members := upd_where (\<lambda>x. mem_ID x = i) (apply_member_update dn' u' r') (db_members d)\<rparr>)"
    if "set_option r' \<subseteq> {RoleAdmin, RoleMember}" "\<not> list_ex (\<lambda>x. mem_ID x \<noteq> i \<and> u' = Some (mem_Username x)) (db_members d)"
    using wf members_wf_upd [OF mw that, of dn'] by (simp add: db_wf_def ids del: set_map)
  with wf show "db_wf (snd (members_Update flt d i dn' u' r'))"
    by (auto simp: members_Update_def split: option.splits)
  show "db_wf (snd (members_Delete flt d i))"
    using wf by (simp add: members_Delete_def cascade_member_wf)
qed

lemma creds_wf_ops:
  "db_wf d \<Longrightarrow> db_wf (snd (creds_Create flt d i now m ty h l e md))"
  "db_wf d \<Longrightarrow> db_wf (snd (creds_UpdateHashedValue flt d m ty h))"
  "db_wf d \<Longrightarrow> db_wf (snd (creds_Delete flt d i m))"
proof -
  assume wf: "db_wf d"
  show "db_wf (snd (creds_Create flt d i now m ty h l e md))"
    using wf by (auto simp: creds_Create_def Let_def db_wf_def creds_wf_def list_all_iff list_ex_iff)
  have "creds_wf M (upd_where P (\<lambda>c. c\<lparr>cr_HashedValue := h\<rparr>) cs) = creds_wf M cs" for M P cs
  proof -
    have "List.map cr_MemberID (filter (\<lambda>c. cr_Type c = CredPassword) (upd_where P (\<lambda>c. c\<lparr>cr_HashedValue := h\<rparr>) cs))
        = List.map cr_MemberID (filter (\<lambda>c. cr_Type c = CredPassword) cs)"
      by (induction cs) auto
    moreover have "list_all (\<lambda>c. cr_MemberID c \<in> M) (upd_where P (\<lambda>c. c\<lparr>cr_HashedValue := h\<rparr>) cs)
        = list_all (\<lambda>c. cr_MemberID c \<in> M) cs"
      by (induction cs) auto
    ultimately show ?thesis by (simp add: creds_wf_def map_upd_where [of cr_ID])
  qed
  with wf show "db_wf (snd (creds_UpdateHashedValue flt d m ty h))"
    by (auto simp: creds_UpdateHashedValue_def Let_def db_wf_def)
  show "db_wf (snd (creds_Delete flt d i m))"
    using wf by (auto simp: creds_Delete_def Let_def db_wf_def intro: creds_wf_delete)
qed

lemma domains_wf_ops:
  "db_wf d \<Longrightarrow> db_wf (snd (domains_Create flt d i t now g nm))"
  "db_wf d \<Longrightarrow> db_wf (snd (domains_SetVerified flt d i now))"
  "db_wf d \<Longrightarrow> db_wf (snd (domains_Delete flt d i g))"
  by (auto simp: domains_Create_def domains_SetVerified_def domains_Delete_def Let_def db_wf_def domains_wf_def
      list_all_iff distinct_map_filter map_upd_where [of cd_ID] map_upd_where [of cd_Domain] set_upd_where)

end
