(* ===== verification/Policy_Repo.thy ===== *)
theory Policy_Repo
  imports Gate_Repo "HOL-Library.Product_Lexorder"
begin

text \<open>
  \<open>internal/repository/postgres/policy.go\<close> and \<open>credential_policy.go\<close>: the permissions of members
  and of API tokens on gates, and the schedules linked to them. Both repositories store into the
  tables \<open>access_policies\<close> and \<open>schedule_links\<close>, told apart by the subject. The two contracts
  clients use (permissions, schedule links) are locales, interpreted for both repositories.
\<close>

section \<open>The statements on the two tables\<close>

definition insert_policy :: "policy_row \<Rightarrow> db \<Rightarrow> db option" where
  "insert_policy row d =
     (if po_GateID row \<notin> gate_ids d \<or> po_PermissionCode row \<notin> set permission_codes then None
      else if row \<in> set (db_policies d) then Some d
      else Some (d\<lparr>db_policies := db_policies d @ [row]\<rparr>))"

definition delete_policies :: "(policy_row \<Rightarrow> bool) \<Rightarrow> db \<Rightarrow> db" where
  "delete_policies P d = d\<lparr>db_policies := filter (\<lambda>p. \<not> P p) (db_policies d)\<rparr>"

definition upsert_link :: "link_row \<Rightarrow> db \<Rightarrow> db option" where
  "upsert_link row d =
     (if \<not> set_option (sl_GateID row) \<subseteq> gate_ids d \<or> sl_ScheduleID row \<notin> schedule_ids d then None
      else if list_ex (\<lambda>l. sl_Subject l = sl_Subject row \<and> sl_GateID l = sl_GateID row) (db_links d)
      then Some (d\<lparr>db_links := upd_where (\<lambda>l. sl_Subject l = sl_Subject row \<and> sl_GateID l = sl_GateID row)
             (\<lambda>l. l\<lparr>sl_ScheduleID := sl_ScheduleID row\<rparr>) (db_links d)\<rparr>)
      else Some (d\<lparr>db_links := db_links d @ [row]\<rparr>))"

definition delete_links :: "subject \<Rightarrow> uuid option \<Rightarrow> db \<Rightarrow> db" where
  "delete_links s g d = d\<lparr>db_links := filter (\<lambda>l. \<not> (sl_Subject l = s \<and> sl_GateID l = g)) (db_links d)\<rparr>"

definition find_link :: "subject \<Rightarrow> uuid option \<Rightarrow> db \<Rightarrow> uuid option" where
  "find_link s g d = map_option sl_ScheduleID
     (List.find (\<lambda>l. sl_Subject l = s \<and> sl_GateID l = g) (db_links d))"

text \<open>An \<open>Exec\<close> whose statement may be refused by the driver or by a constraint.\<close>

definition exec :: "bool \<Rightarrow> string \<Rightarrow> db \<Rightarrow> db option \<Rightarrow> unit res \<times> db" where
  "exec fault what d r =
     (if fault then (Inl (db_err what), d)
      else case r of None \<Rightarrow> (Inl (db_err what), d) | Some d' \<Rightarrow> (Inr (), d'))"

section \<open>Policies of members\<close>

definition policies_Grant :: "faults \<Rightarrow> db \<Rightarrow> uuid \<Rightarrow> uuid \<Rightarrow> string \<Rightarrow> unit res \<times> db" where
  "policies_Grant flt d memberID gateID permCode =
     exec (flt ''policies.Grant'' gateID) ''grant policy'' d
       (insert_policy \<lparr>po_Subject = Membership memberID, po_GateID = gateID, po_PermissionCode = permCode\<rparr> d)"

definition policies_Revoke :: "faults \<Rightarrow> db \<Rightarrow> uuid \<Rightarrow> uuid \<Rightarrow> unit res \<times> db" where
  "policies_Revoke flt d memberID gateID =
     exec (flt ''policies.Revoke'' gateID) ''revoke policy'' d
       (Some (delete_policies (\<lambda>p. po_Subject p = Membership memberID \<and> po_GateID p = gateID) d))"

definition policies_RevokePermission :: "faults \<Rightarrow> db \<Rightarrow> uuid \<Rightarrow> uuid \<Rightarrow> string \<Rightarrow> unit res \<times> db" where
  "policies_RevokePermission flt d memberID gateID permCode =
     (let P = (\<lambda>p. po_Subject p = Membership memberID \<and> po_GateID p = gateID \<and> po_PermissionCode p = permCode)
      in if flt ''policies.RevokePermission'' gateID then (Inl (db_err ''revoke permission''), d)
         else if \<not> list_ex P (db_policies d) then (Inl ErrNotFound, d)
         else (Inr (), delete_policies P d))"

definition policies_HasPermission :: "faults \<Rightarrow> db \<Rightarrow> uuid \<Rightarrow> uuid \<Rightarrow> string \<Rightarrow> bool res" where
  "policies_HasPermission flt d memberID gateID permCode =
     (if flt ''policies.HasPermission'' gateID then Inl (db_err ''check permission'')
      else Inr (list_ex (\<lambda>p. po_Subject p = Membership memberID \<and> po_GateID p = gateID
                  \<and> po_PermissionCode p = permCode) (db_policies d)))"

definition policies_HasAnyPermission :: "faults \<Rightarrow> db \<Rightarrow> uuid \<Rightarrow> uuid \<Rightarrow> bool res" where
  "policies_HasAnyPermission flt d memberID gateID =
     (if flt ''policies.HasAnyPermission'' gateID then Inl (db_err ''check any permission'')
      else Inr (list_ex (\<lambda>p. po_Subject p = Membership memberID \<and> po_GateID p = gateID) (db_policies d)))"

definition policies_HasPermissionOnAnyGate :: "faults \<Rightarrow> db \<Rightarrow> uuid \<Rightarrow> string \<Rightarrow> bool res" where
  "policies_HasPermissionOnAnyGate flt d memberID permCode =
     (if flt ''policies.HasPermissionOnAnyGate'' memberID then Inl (db_err ''check permission on any gate'')
      else Inr (list_ex (\<lambda>p. po_Subject p = Membership memberID \<and> po_PermissionCode p = permCode) (db_policies d)))"

definition subject_id :: "subject \<Rightarrow> uuid" where
  "subject_id s = (case s of Membership i \<Rightarrow> i | CredentialOf i \<Rightarrow> i)"

definition is_membership :: "subject \<Rightarrow> bool" where
  "is_membership s = (case s of Membership _ \<Rightarrow> True | CredentialOf _ \<Rightarrow> False)"

definition policies_ListForGate :: "faults \<Rightarrow> db \<Rightarrow> uuid \<Rightarrow> pagination \<Rightarrow> (policy_row list \<times> int) res" where
  "policies_ListForGate flt d gateID p0 =
     (let p = Normalize p0;
          rows = filter (\<lambda>r. is_membership (po_Subject r) \<and> po_GateID r = gateID) (db_policies d)
      in if flt ''policies.CountForGate'' gateID then Inl (db_err ''count policies'')
         else if flt ''policies.ListForGate'' gateID then Inl (db_err ''list policies'')
         else Inr (page p (sort_key (\<lambda>r. (subject_id (po_Subject r), po_PermissionCode r)) rows),
                   int (length rows)))"

definition policies_ListForMember :: "faults \<Rightarrow> db \<Rightarrow> uuid \<Rightarrow> pagination \<Rightarrow> (policy_row list \<times> int) res" where
  "policies_ListForMember flt d memberID p0 =
     (let p = Normalize p0; rows = filter (\<lambda>r. po_Subject r = Membership memberID) (db_policies d)
      in if flt ''policies.CountForMember'' memberID then Inl (db_err ''count member policies'')
         else if flt ''policies.ListForMember'' memberID then Inl (db_err ''list member policies'')
         else Inr (page p (sort_key (\<lambda>r. (po_GateID r, po_PermissionCode r)) rows), int (length rows)))"

definition policies_GetScheduleID :: "faults \<Rightarrow> db \<Rightarrow> uuid \<Rightarrow> uuid \<Rightarrow> uuid res" where
  "policies_GetScheduleID flt d memberID gateID =
     (if flt ''policies.GetScheduleID'' gateID then Inl (db_err ''get member gate schedule'')
      else case find_link (Membership memberID) (Some gateID) d of None \<Rightarrow> Inl ErrNotFound | Some s \<Rightarrow> Inr s)"

definition policies_SetSchedule :: "faults \<Rightarrow> db \<Rightarrow> uuid \<Rightarrow> uuid \<Rightarrow> uuid \<Rightarrow> unit res \<times> db" where
  "policies_SetSchedule flt d memberID gateID scheduleID =
     exec (flt ''policies.SetSchedule'' gateID) ''set member gate schedule'' d
       (upsert_link \<lparr>sl_Subject = Membership memberID, sl_GateID = Some gateID, sl_ScheduleID = scheduleID\<rparr> d)"

definition policies_RemoveSchedule :: "faults \<Rightarrow> db \<Rightarrow> uuid \<Rightarrow> uuid \<Rightarrow> unit res \<times> db" where
  "policies_RemoveSchedule flt d memberID gateID =
     exec (flt ''policies.RemoveSchedule'' gateID) ''remove member gate schedule'' d
       (Some (delete_links (Membership memberID) (Some gateID) d))"

section \<open>Policies of API tokens\<close>

definition credPolicies_List :: "faults \<Rightarrow> db \<Rightarrow> uuid \<Rightarrow> pagination \<Rightarrow> (policy_row list \<times> int) res" where
  "credPolicies_List flt d credentialID p0 =
     (let p = Normalize p0; rows = filter (\<lambda>r. po_Subject r = CredentialOf credentialID) (db_policies d)
      in if flt ''credPolicies.Count'' credentialID then Inl (db_err ''count credential policies'')
         else if flt ''credPolicies.List'' credentialID then Inl (db_err ''list credential policies'')
         else Inr (page p (sort_key (\<lambda>r. (po_GateID r, po_PermissionCode r)) rows), int (length rows)))"

definition credPolicies_HasAny :: "faults \<Rightarrow> db \<Rightarrow> uuid \<Rightarrow> bool res" where
  "credPolicies_HasAny flt d credentialID =
     (if flt ''credPolicies.HasAny'' credentialID then Inl (db_err ''check any credential policy'')
      else Inr (list_ex (\<lambda>p. po_Subject p = CredentialOf credentialID) (db_policies d)))"

definition credPolicies_HasPermission :: "faults \<Rightarrow> db \<Rightarrow> uuid \<Rightarrow> uuid \<Rightarrow> string \<Rightarrow> bool res" where
  "credPolicies_HasPermission flt d credentialID gateID permCode =
     (if flt ''credPolicies.HasPermission'' gateID then Inl (db_err ''check credential permission'')
      else Inr (list_ex (\<lambda>p. po_Subject p = CredentialOf credentialID \<and> po_GateID p = gateID
                  \<and> po_PermissionCode p = permCode) (db_policies d)))"

definition credPolicies_Grant :: "faults \<Rightarrow> db \<Rightarrow> uuid \<Rightarrow> uuid \<Rightarrow> string \<Rightarrow> unit res \<times> db" where
  "credPolicies_Grant flt d credentialID gateID permCode =
     exec (flt ''credPolicies.Grant'' gateID) ''grant credential policy'' d
       (insert_policy \<lparr>po_Subject = CredentialOf credentialID, po_GateID = gateID, po_PermissionCode = permCode\<rparr> d)"

definition credPolicies_RevokeAll :: "faults \<Rightarrow> db \<Rightarrow> uuid \<Rightarrow> unit res \<times> db" where
  "credPolicies_RevokeAll flt d credentialID =
     exec (flt ''credPolicies.RevokeAll'' credentialID) ''revoke all credential policies'' d
       (Some (delete_policies (\<lambda>p. po_Subject p = CredentialOf credentialID) d))"

definition credPolicies_GetScheduleID :: "faults \<Rightarrow> db \<Rightarrow> uuid \<Rightarrow> uuid res" where
  "credPolicies_GetScheduleID flt d credentialID =
     (if flt ''credPolicies.GetScheduleID'' credentialID then Inl (db_err ''get credential schedule'')
      else case find_link (CredentialOf credentialID) None d of None \<Rightarrow> Inl ErrNotFound | Some s \<Rightarrow> Inr s)"

definition credPolicies_SetSchedule :: "faults \<Rightarrow> db \<Rightarrow> uuid \<Rightarrow> uuid \<Rightarrow> unit res \<times> db" where
  "credPolicies_SetSchedule flt d credentialID scheduleID =
     exec (flt ''credPolicies.SetSchedule'' credentialID) ''set credential schedule'' d
       (upsert_link \<lparr>sl_Subject = CredentialOf credentialID, sl_GateID = None, sl_ScheduleID = scheduleID\<rparr> d)"

definition credPolicies_RemoveSchedule :: "faults \<Rightarrow> db \<Rightarrow> uuid \<Rightarrow> unit res \<times> db" where
  "credPolicies_RemoveSchedule flt d credentialID =
     exec (flt ''credPolicies.RemoveSchedule'' credentialID) ''remove credential schedule'' d
       (Some (delete_links (CredentialOf credentialID) None d))"

section \<open>The constraints are preserved\<close>

lemma insert_policy_wf: "db_wf d \<Longrightarrow> insert_policy row d = Some d' \<Longrightarrow> db_wf d'"
  by (auto simp: insert_policy_def db_wf_def policies_wf_def split: if_splits)

lemma delete_policies_wf: "db_wf d \<Longrightarrow> db_wf (delete_policies P d)"
  by (auto simp: delete_policies_def db_wf_def policies_wf_def list_all_iff)

lemma delete_links_wf: "db_wf d \<Longrightarrow> db_wf (delete_links s g d)"
  by (auto simp: delete_links_def db_wf_def links_wf_def list_all_iff distinct_map_filter)

lemma upsert_link_wf:
  assumes "db_wf d" and "upsert_link row d = Some d'"
  shows "db_wf d'"
proof (cases "list_ex (\<lambda>l. sl_Subject l = sl_Subject row \<and> sl_GateID l = sl_GateID row) (db_links d)")
  case True
  with assms(2) have d': "d' = d\<lparr>db_links := upd_where (\<lambda>l. sl_Subject l = sl_Subject row \<and> sl_GateID l = sl_GateID row)
             (\<lambda>l. l\<lparr>sl_ScheduleID := sl_ScheduleID row\<rparr>) (db_links d)\<rparr>"
    and "sl_ScheduleID row \<in> schedule_ids d"
    by (auto simp: upsert_link_def split: if_splits)
  with assms(1) show ?thesis
    by (auto simp: db_wf_def links_wf_def map_upd_where [of "\<lambda>l. (sl_Subject l, sl_GateID l)"] list_all_iff set_upd_where)
next
  case False
  with assms show ?thesis
    by (auto simp: upsert_link_def db_wf_def links_wf_def list_ex_iff split: if_splits) blast
qed

lemma exec_wf: "db_wf d \<Longrightarrow> (\<And>d'. r = Some d' \<Longrightarrow> db_wf d') \<Longrightarrow> db_wf (snd (exec fault what d r))"
  by (auto simp: exec_def split: option.splits)

lemma exec_ok: "fst (exec fault what d r) = Inr () \<longleftrightarrow> \<not> fault \<and> r \<noteq> None"
  by (auto simp: exec_def split: option.splits)

lemma exec_ok_snd: "fst (exec fault what d r) = Inr () \<Longrightarrow> r = Some (snd (exec fault what d r))"
  by (auto simp: exec_def split: option.splits if_splits)

lemma policies_wf_ops:
  "db_wf d \<Longrightarrow> db_wf (snd (policies_Grant flt d m g c))"
  "db_wf d \<Longrightarrow> db_wf (snd (policies_Revoke flt d m g))"
  "db_wf d \<Longrightarrow> db_wf (snd (policies_RevokePermission flt d m g c))"
  "db_wf d \<Longrightarrow> db_wf (snd (policies_SetSchedule flt d m g s))"
  "db_wf d \<Longrightarrow> db_wf (snd (policies_RemoveSchedule flt d m g))"
  "db_wf d \<Longrightarrow> db_wf (snd (credPolicies_Grant flt d m g c))"
  "db_wf d \<Longrightarrow> db_wf (snd (credPolicies_RevokeAll flt d m))"
  "db_wf d \<Longrightarrow> db_wf (snd (credPolicies_SetSchedule flt d m s))"
  "db_wf d \<Longrightarrow> db_wf (snd (credPolicies_RemoveSchedule flt d m))"
  by (auto simp: policies_Grant_def policies_Revoke_def policies_RevokePermission_def policies_SetSchedule_def
      policies_RemoveSchedule_def credPolicies_Grant_def credPolicies_RevokeAll_def credPolicies_SetSchedule_def
      credPolicies_RemoveSchedule_def Let_def delete_policies_wf delete_links_wf
      intro!: exec_wf intro: insert_policy_wf upsert_link_wf)

section \<open>The contract of a permission store\<close>

text \<open>
  What the services rely on, for subjects of type \<open>'s\<close>: a permission holds after it is
  granted, granting changes nothing else, and after a revocation none is left in its scope.
\<close>

locale permission_store =
  fixes grant :: "'d \<Rightarrow> 's \<Rightarrow> uuid \<Rightarrow> string \<Rightarrow> unit res \<times> 'd"
    and revoke :: "'d \<Rightarrow> 's \<Rightarrow> uuid \<Rightarrow> unit res \<times> 'd"
    and has :: "'d \<Rightarrow> 's \<Rightarrow> uuid \<Rightarrow> string \<Rightarrow> bool"
    and scope :: "uuid \<Rightarrow> uuid \<Rightarrow> bool"
  assumes has_grant: "fst (grant d s g c) = Inr () \<Longrightarrow>
      has (snd (grant d s g c)) s' g' c' \<longleftrightarrow> (s' = s \<and> g' = g \<and> c' = c) \<or> has d s' g' c'"
    and has_revoke: "fst (revoke d s g) = Inr () \<Longrightarrow>
      has (snd (revoke d s g)) s' g' c' \<longleftrightarrow> \<not> (s' = s \<and> scope g g') \<and> has d s' g' c'"
    and scope_refl: "scope g g"
begin

lemma granted: "fst (grant d s g c) = Inr () \<Longrightarrow> has (snd (grant d s g c)) s g c"
  by (simp add: has_grant)

lemma revoked: "fst (revoke d s g) = Inr () \<Longrightarrow> \<not> has (snd (revoke d s g)) s g c"
  by (simp add: has_revoke scope_refl)

lemma grant_then_revoke:
  assumes "fst (grant d s g c) = Inr ()" and "fst (revoke (snd (grant d s g c)) s g) = Inr ()"
  shows "has (snd (revoke (snd (grant d s g c)) s g)) s' g' c' \<longleftrightarrow> \<not> (s' = s \<and> scope g g') \<and> has d s' g' c'"
  using assms by (auto simp: has_grant has_revoke scope_refl)

text \<open>A sequence of grants, as \<open>CreateAPIToken\<close> issues them.\<close>

fun grants :: "'d \<Rightarrow> 's \<Rightarrow> (uuid \<times> string) list \<Rightarrow> unit res \<times> 'd" where
  "grants d s [] = (Inr (), d)"
| "grants d s ((g, c) # ps) = (case grant d s g c of
     (Inl e, d') \<Rightarrow> (Inl e, d') | (Inr _, d') \<Rightarrow> grants d' s ps)"

lemma has_grants:
  "fst (grants d s ps) = Inr () \<Longrightarrow>
   has (snd (grants d s ps)) s' g' c' \<longleftrightarrow> (s' = s \<and> (g', c') \<in> set ps) \<or> has d s' g' c'"
proof (induction ps arbitrary: d)
  case (Cons p ps)
  obtain g c where p: "p = (g, c)" by (cases p)
  from Cons.prems obtain d' where d': "grant d s g c = (Inr (), d')" and ok: "fst (grants d' s ps) = Inr ()"
    by (cases "grant d s g c") (auto simp: p split: sum.splits)
  have "has d' s' g' c' \<longleftrightarrow> (s' = s \<and> g' = g \<and> c' = c) \<or> has d s' g' c'"
    using has_grant [of d s g c s' g' c'] d' by simp
  with Cons.IH [OF ok] show ?case by (auto simp: p d')
qed simp

end

definition member_has :: "db \<Rightarrow> uuid \<Rightarrow> uuid \<Rightarrow> string \<Rightarrow> bool" where
  "member_has d m g c = (\<lparr>po_Subject = Membership m, po_GateID = g, po_PermissionCode = c\<rparr> \<in> set (db_policies d))"

definition token_has :: "db \<Rightarrow> uuid \<Rightarrow> uuid \<Rightarrow> string \<Rightarrow> bool" where
  "token_has d t g c = (\<lparr>po_Subject = CredentialOf t, po_GateID = g, po_PermissionCode = c\<rparr> \<in> set (db_policies d))"

lemma policy_row_eq: "p = \<lparr>po_Subject = s, po_GateID = g, po_PermissionCode = c\<rparr>
   \<longleftrightarrow> po_Subject p = s \<and> po_GateID p = g \<and> po_PermissionCode p = c"
  by (cases p) auto

lemma HasPermission_iff:
  "policies_HasPermission flt d m g c = Inr b \<longleftrightarrow> \<not> flt ''policies.HasPermission'' g \<and> b = member_has d m g c"
  "credPolicies_HasPermission flt d m g c = Inr b \<longleftrightarrow> \<not> flt ''credPolicies.HasPermission'' g \<and> b = token_has d m g c"
proof -
  have *: "list_ex (\<lambda>p. po_Subject p = s \<and> po_GateID p = g \<and> po_PermissionCode p = c) (db_policies d)
      \<longleftrightarrow> \<lparr>po_Subject = s, po_GateID = g, po_PermissionCode = c\<rparr> \<in> set (db_policies d)" for s
    unfolding list_ex_iff policy_row_eq [symmetric] by auto
  show "policies_HasPermission flt d m g c = Inr b \<longleftrightarrow> \<not> flt ''policies.HasPermission'' g \<and> b = member_has d m g c"
    "credPolicies_HasPermission flt d m g c = Inr b \<longleftrightarrow> \<not> flt ''credPolicies.HasPermission'' g \<and> b = token_has d m g c"
    by (auto simp: policies_HasPermission_def credPolicies_HasPermission_def member_has_def token_has_def *)
qed

interpretation mp: permission_store "policies_Grant flt" "policies_Revoke flt" member_has "(=)"
proof
  fix d s g c s' g' c'
  show "fst (policies_Grant flt d s g c) = Inr () \<Longrightarrow>
      member_has (snd (policies_Grant flt d s g c)) s' g' c' \<longleftrightarrow> (s' = s \<and> g' = g \<and> c' = c) \<or> member_has d s' g' c'"
    by (auto simp: policies_Grant_def member_has_def insert_policy_def exec_def split: if_splits)
  show "fst (policies_Revoke flt d s g) = Inr () \<Longrightarrow>
      member_has (snd (policies_Revoke flt d s g)) s' g' c' \<longleftrightarrow> \<not> (s' = s \<and> g = g') \<and> member_has d s' g' c'"
    by (auto simp: policies_Revoke_def member_has_def delete_policies_def exec_def split: if_splits)
qed simp

interpretation tp: permission_store "credPolicies_Grant flt" "\<lambda>d t g. credPolicies_RevokeAll flt d t" token_has "\<lambda>_ _. True"
proof
  fix d s g c s' g' c'
  show "fst (credPolicies_Grant flt d s g c) = Inr () \<Longrightarrow>
      token_has (snd (credPolicies_Grant flt d s g c)) s' g' c' \<longleftrightarrow> (s' = s \<and> g' = g \<and> c' = c) \<or> token_has d s' g' c'"
    by (auto simp: credPolicies_Grant_def token_has_def insert_policy_def exec_def split: if_splits)
  show "fst (credPolicies_RevokeAll flt d s) = Inr () \<Longrightarrow>
      token_has (snd (credPolicies_RevokeAll flt d s)) s' g' c' \<longleftrightarrow> \<not> (s' = s \<and> True) \<and> token_has d s' g' c'"
    by (auto simp: credPolicies_RevokeAll_def token_has_def delete_policies_def exec_def split: if_splits)
qed simp

section \<open>The contract of a schedule link\<close>

locale link_store =
  fixes set_link :: "'d \<Rightarrow> 'k \<Rightarrow> uuid \<Rightarrow> unit res \<times> 'd"
    and remove_link :: "'d \<Rightarrow> 'k \<Rightarrow> unit res \<times> 'd"
    and link :: "'d \<Rightarrow> 'k \<Rightarrow> uuid option"
  assumes link_set: "fst (set_link d k s) = Inr () \<Longrightarrow>
      link (snd (set_link d k s)) k' = (if k' = k then Some s else link d k')"
    and link_remove: "fst (remove_link d k) = Inr () \<Longrightarrow>
      link (snd (remove_link d k)) k' = (if k' = k then None else link d k')"
begin

lemma set_set: "fst (set_link d k s) = Inr () \<Longrightarrow> fst (set_link (snd (set_link d k s)) k s') = Inr () \<Longrightarrow>
   link (snd (set_link (snd (set_link d k s)) k s')) k' = (if k' = k then Some s' else link d k')"
  by (simp add: link_set)

lemma remove_set: "fst (set_link d k s) = Inr () \<Longrightarrow> fst (remove_link (snd (set_link d k s)) k) = Inr () \<Longrightarrow>
   link (snd (remove_link (snd (set_link d k s)) k)) k' = (if k' = k then None else link d k')"
  by (simp add: link_set link_remove)

end

lemma find_link_upd:
  "List.find (\<lambda>l. sl_Subject l = s' \<and> sl_GateID l = g')
     (upd_where (\<lambda>l. sl_Subject l = s \<and> sl_GateID l = g) (\<lambda>l. l\<lparr>sl_ScheduleID := x\<rparr>) ls)
   = map_option (\<lambda>l. if s' = s \<and> g' = g then l\<lparr>sl_ScheduleID := x\<rparr> else l)
       (List.find (\<lambda>l. sl_Subject l = s' \<and> sl_GateID l = g') ls)"
  by (induction ls) auto

lemma find_link_upsert:
  assumes "upsert_link \<lparr>sl_Subject = s, sl_GateID = g, sl_ScheduleID = x\<rparr> d = Some d'"
  shows "find_link s' g' d' = (if s' = s \<and> g' = g then Some x else find_link s' g' d)"
proof (cases "list_ex (\<lambda>l. sl_Subject l = s \<and> sl_GateID l = g) (db_links d)")
  case True
  then obtain l where "List.find (\<lambda>l. sl_Subject l = s \<and> sl_GateID l = g) (db_links d) = Some l"
    using find_None_iff_ball [of "\<lambda>l. sl_Subject l = s \<and> sl_GateID l = g" "db_links d"]
    by (auto simp: list_ex_iff)
  with True assms show ?thesis
    by (auto simp: upsert_link_def find_link_def find_link_upd option.map_comp comp_def map_option_case
        split: if_splits option.splits)
next
  case False
  then have "List.find (\<lambda>l. sl_Subject l = s \<and> sl_GateID l = g) (db_links d) = None"
    by (simp add: find_None_iff_ball list_ex_iff)
  with False assms show ?thesis
    by (auto simp: upsert_link_def find_link_def find_append split: if_splits option.splits)
qed

lemma find_link_delete:
  "find_link s' g' (delete_links s g d) = (if s' = s \<and> g' = g then None else find_link s' g' d)"
proof -
  have "List.find (\<lambda>l. sl_Subject l = s' \<and> sl_GateID l = g') (filter (\<lambda>l. sl_Subject l = s \<longrightarrow> sl_GateID l \<noteq> g) ls)
      = (if s' = s \<and> g' = g then None else List.find (\<lambda>l. sl_Subject l = s' \<and> sl_GateID l = g') ls)" for ls
    by (induction ls) auto
  from this [of "db_links d"] show ?thesis by (auto simp: find_link_def delete_links_def)
qed

interpretation ml: link_store "\<lambda>d k. policies_SetSchedule flt d (fst k) (snd k)"
  "\<lambda>d k. policies_RemoveSchedule flt d (fst k) (snd k)" "\<lambda>d k. find_link (Membership (fst k)) (Some (snd k)) d"
proof
  fix d k s k'
  assume "fst (policies_SetSchedule flt d (fst k) (snd k) s) = Inr ()"
  from find_link_upsert [OF exec_ok_snd [OF this [unfolded policies_SetSchedule_def]]]
  show "find_link (Membership (fst k')) (Some (snd k')) (snd (policies_SetSchedule flt d (fst k) (snd k) s))
      = (if k' = k then Some s else find_link (Membership (fst k')) (Some (snd k')) d)"
    by (simp add: policies_SetSchedule_def prod_eq_iff)
next
  fix d k k'
  assume "fst (policies_RemoveSchedule flt d (fst k) (snd k)) = Inr ()"
  then show "find_link (Membership (fst k')) (Some (snd k')) (snd (policies_RemoveSchedule flt d (fst k) (snd k)))
      = (if k' = k then None else find_link (Membership (fst k')) (Some (snd k')) d)"
    by (auto simp: policies_RemoveSchedule_def exec_def prod_eq_iff find_link_delete split: if_splits)
qed

interpretation tl: link_store "credPolicies_SetSchedule flt" "credPolicies_RemoveSchedule flt"
  "\<lambda>d k. find_link (CredentialOf k) None d"
proof
  fix d k s k'
  assume "fst (credPolicies_SetSchedule flt d k s) = Inr ()"
  from find_link_upsert [OF exec_ok_snd [OF this [unfolded credPolicies_SetSchedule_def]]]
  show "find_link (CredentialOf k') None (snd (credPolicies_SetSchedule flt d k s))
      = (if k' = k then Some s else find_link (CredentialOf k') None d)"
    by (simp add: credPolicies_SetSchedule_def)
next
  fix d k k'
  assume "fst (credPolicies_RemoveSchedule flt d k) = Inr ()"
  then show "find_link (CredentialOf k') None (snd (credPolicies_RemoveSchedule flt d k))
      = (if k' = k then None else find_link (CredentialOf k') None d)"
    by (auto simp: credPolicies_RemoveSchedule_def exec_def find_link_delete split: if_splits)
qed

end
