(* ===== verification/Platform.thy ===== *)
theory Platform
  imports Access_Repo Policy_Repo
begin

text \<open>
  The environment of the services: what is outside the repository is a field of \<open>env\<close>
  (Redis commands on an abstract state, bcrypt, JWT, SHA-256, UUID text, randomness, faults of
  the database and of Redis, the time zone), and the state of the whole program is a \<open>world\<close>:
  the database, the Redis state and the log of what was sent out. What the development assumes
  of these fields is stated by named predicates (\<open>redis_ok\<close>, \<open>uuid_ok\<close>, \<open>jwt_ok\<close>, \<open>bcrypt_ok\<close>), used
  as hypotheses only where a property needs them.
\<close>

section \<open>Redis\<close>

text \<open>
  A Redis value is a byte string; the strings the code stores are counters, plain strings
  and JSON documents, kept apart here.
\<close>

datatype rval = RInt int | RStr string | RJson gval

text \<open>Every command takes the state and the current instant.\<close>

record 'r redis =
  rd_Get :: "'r \<Rightarrow> int \<Rightarrow> string \<Rightarrow> rval option"
  rd_Set :: "'r \<Rightarrow> int \<Rightarrow> string \<Rightarrow> rval \<Rightarrow> int \<Rightarrow> 'r"
  rd_Del :: "'r \<Rightarrow> int \<Rightarrow> string \<Rightarrow> 'r"
  rd_Incr :: "'r \<Rightarrow> int \<Rightarrow> string \<Rightarrow> (int \<times> 'r) option"
  rd_Decr :: "'r \<Rightarrow> int \<Rightarrow> string \<Rightarrow> (int \<times> 'r) option"
  rd_ExpireNX :: "'r \<Rightarrow> int \<Rightarrow> string \<Rightarrow> int \<Rightarrow> 'r"

text \<open>
  The documented behaviour of the commands, stated over a view of the state: the value and
  the expiry instant (if any) of each live key. \<open>SET\<close> with expiration 0 never expires;
  \<open>INCR\<close> of a missing key gives 1 and keeps an existing expiry; \<open>EXPIRE NX\<close> sets an expiry only
  on a key without one.
\<close>

type_synonym 'r rview = "'r \<Rightarrow> int \<Rightarrow> string \<Rightarrow> (rval \<times> int option) option"

definition alive :: "int \<Rightarrow> rval \<times> int option \<Rightarrow> (rval \<times> int option) option" where
  "alive t ve = (case snd ve of None \<Rightarrow> Some ve | Some x \<Rightarrow> if t < x then Some ve else None)"

definition get_law :: "'r redis \<Rightarrow> 'r rview \<Rightarrow> bool" where
  "get_law R view \<longleftrightarrow> (\<forall>s t k. rd_Get R s t k = map_option fst (view s t k))"

definition set_law :: "'r redis \<Rightarrow> 'r rview \<Rightarrow> bool" where
  "set_law R view \<longleftrightarrow>
     (\<forall>s t k v d t'. t \<le> t' \<and> 0 \<le> d \<longrightarrow>
        view (rd_Set R s t k v d) t' k = alive t' (v, if d = 0 then None else Some (t + d)))
   \<and> (\<forall>s t k v d t' k'. t \<le> t' \<and> k' \<noteq> k \<longrightarrow> view (rd_Set R s t k v d) t' k' = view s t' k')"

definition del_law :: "'r redis \<Rightarrow> 'r rview \<Rightarrow> bool" where
  "del_law R view \<longleftrightarrow> (\<forall>s t k t' k'. t \<le> t' \<longrightarrow>
     view (rd_Del R s t k) t' k' = (if k' = k then None else view s t' k'))"

definition incr_fresh_law :: "'r redis \<Rightarrow> 'r rview \<Rightarrow> bool" where
  "incr_fresh_law R view \<longleftrightarrow> (\<forall>s t k. view s t k = None \<longrightarrow> (\<exists>s'. rd_Incr R s t k = Some (1, s') \<and>
     (\<forall>t' k'. t \<le> t' \<longrightarrow> view s' t' k' = (if k' = k then Some (RInt 1, None) else view s t' k'))))"

definition incr_law :: "'r redis \<Rightarrow> 'r rview \<Rightarrow> bool" where
  "incr_law R view \<longleftrightarrow> (\<forall>s t k n e. view s t k = Some (RInt n, e) \<longrightarrow> (\<exists>s'. rd_Incr R s t k = Some (n + 1, s') \<and>
     (\<forall>t' k'. t \<le> t' \<longrightarrow> view s' t' k' = (if k' = k then alive t' (RInt (n + 1), e) else view s t' k'))))"

definition decr_law :: "'r redis \<Rightarrow> 'r rview \<Rightarrow> bool" where
  "decr_law R view \<longleftrightarrow> (\<forall>s t k n e. view s t k = Some (RInt n, e) \<longrightarrow> (\<exists>s'. rd_Decr R s t k = Some (n - 1, s') \<and>
     (\<forall>t' k'. t \<le> t' \<longrightarrow> view s' t' k' = (if k' = k then alive t' (RInt (n - 1), e) else view s t' k'))))"

definition expire_law :: "'r redis \<Rightarrow> 'r rview \<Rightarrow> bool" where
  "expire_law R view \<longleftrightarrow> (\<forall>s t k d t' k'. t \<le> t' \<and> 0 < d \<longrightarrow>
     view (rd_ExpireNX R s t k d) t' k' =
       (if k' = k then (case view s t k of
            Some (v, None) \<Rightarrow> alive t' (v, Some (t + d)) | _ \<Rightarrow> view s t' k) else view s t' k'))"

definition clock_law :: "'r rview \<Rightarrow> bool" where
  "clock_law view \<longleftrightarrow> (\<forall>s t k t'. t \<le> t' \<longrightarrow>
     view s t' k = (case view s t k of None \<Rightarrow> None | Some ve \<Rightarrow> alive t' ve))"

definition type_law :: "'r redis \<Rightarrow> 'r rview \<Rightarrow> bool" where
  "type_law R view \<longleftrightarrow> (\<forall>s t k v e. view s t k = Some (v, e) \<and> (\<forall>n. v \<noteq> RInt n) \<longrightarrow>
     rd_Incr R s t k = None \<and> rd_Decr R s t k = None)"

definition redis_ok :: "'r redis \<Rightarrow> 'r rview \<Rightarrow> bool" where
  "redis_ok R view \<longleftrightarrow> get_law R view \<and> set_law R view \<and> del_law R view \<and> incr_fresh_law R view
     \<and> incr_law R view \<and> decr_law R view \<and> expire_law R view \<and> clock_law view \<and> type_law R view"

section \<open>The environment\<close>

record password_policy =
  pp_MinLength :: int
  pp_RequireUpper :: bool
  pp_RequireLower :: bool
  pp_RequireDigit :: bool

text \<open>A request to a third-party HTTP server and its answer; the body is the decoded JSON, if it decodes.\<close>

record http_request =
  hq_Method :: string
  hq_URL :: string
  hq_Headers :: "(string \<times> string) list"
  hq_Body :: string

record http_response =
  hp_Status :: int
  hp_Body :: "gval option"

text \<open>\<open>service.SSOIdentity\<close> and \<open>service.SSOProviderConfig\<close>.\<close>

record sso_identity =
  si_Subject :: string
  si_Email :: string
  si_DisplayName :: string
  si_Claims :: gmap

record sso_provider =
  sp_ID :: string
  sp_Name :: string
  sp_Type :: string
  sp_ClientID :: string
  sp_ClientSecret :: string
  sp_Issuer :: string
  sp_Scopes :: "string list"
  sp_AuthEndpoint :: string
  sp_TokenEndpoint :: string
  sp_JwksURL :: string
  sp_AutoProvision :: bool
  sp_DefaultRole :: string
  sp_RoleClaim :: string
  sp_RoleMapping :: "(string \<times> string) list"

text \<open>
  \<open>x_authConfig\<close> stands for the field \<open>AuthConfig\<close> that \<open>middleware/auth.go\<close> reads of a member and
  \<open>model.Member\<close> does not declare; \<open>x_discover\<close>, \<open>x_authCodeURL\<close> and \<open>x_oidcExchange\<close> are the OIDC
  library; \<open>x_http\<close> takes the number of the attempt.
\<close>

record 'r env =
  x_redis :: "'r redis"
  x_redisFault :: "int \<Rightarrow> string \<Rightarrow> string \<Rightarrow> bool"
  x_dbFault :: "int \<Rightarrow> faults"
  x_bcryptHash :: "int \<Rightarrow> string \<Rightarrow> string option"
  x_bcryptCheck :: "string \<Rightarrow> string \<Rightarrow> bool"
  x_sha256 :: "string \<Rightarrow> string"
  x_jwtSign :: "string \<Rightarrow> gmap \<Rightarrow> string option"
  x_jwtParse :: "(string \<Rightarrow> string option) \<Rightarrow> int \<Rightarrow> bool \<Rightarrow> string \<Rightarrow> gmap option"
  x_uuidString :: "uuid \<Rightarrow> string"
  x_uuidParse :: "string \<Rightarrow> uuid option"
  x_newID :: "int \<Rightarrow> string \<Rightarrow> uuid"
  x_random :: "int \<Rightarrow> string \<Rightarrow> string option"
  x_zone :: "int \<Rightarrow> int"
  x_brokerFault :: "int \<Rightarrow> uuid \<Rightarrow> bool"
  x_http :: "int \<Rightarrow> nat \<Rightarrow> http_request \<Rightarrow> http_response res"
  x_cancelled :: "int \<Rightarrow> nat \<Rightarrow> bool"
  x_urlScheme :: "string \<Rightarrow> string option"
  x_mqttUp :: bool
  x_mqttFault :: "int \<Rightarrow> string \<Rightarrow> bool"
  x_lookupTXT :: "int \<Rightarrow> string \<Rightarrow> string list option"
  x_authConfig :: "member \<Rightarrow> gmap"
  x_discover :: "int \<Rightarrow> string \<Rightarrow> unit res"
  x_authCodeURL :: "sso_provider \<Rightarrow> string \<Rightarrow> string"
  x_oidcExchange :: "int \<Rightarrow> sso_provider \<Rightarrow> string \<Rightarrow> sso_identity res"
  cf_jwtSecret :: string
  cf_sessionDuration :: int
  cf_passwordPolicy :: password_policy
  cf_maxAttempts :: int
  cf_maxGateAttempts :: int
  cf_maxRetries :: int
  cf_cookieSecure :: bool
  cf_ssoProviders :: "sso_provider list"
  cf_frontendURL :: string

text \<open>\<open>time.Now()\<close> in the server's zone.\<close>

definition go_now :: "'r env \<Rightarrow> int \<Rightarrow> gotime" where
  "go_now X now = \<lparr>tm_ns = now, tm_off = x_zone X now\<rparr>"

definition uuid_ok :: "'r env \<Rightarrow> bool" where
  "uuid_ok X \<longleftrightarrow> (\<forall>u. x_uuidParse X (x_uuidString X u) = Some u)"

text \<open>
  A token signed with a secret parses back to its claims under a key function that returns
  this secret for HS256, as long as its expiry (when it has one, or when one is required) lies
  ahead; a token that parses was signed with the secret the key function gave.
\<close>

definition exp_valid :: "int \<Rightarrow> bool \<Rightarrow> gmap \<Rightarrow> bool" where
  "exp_valid now required claims = (case map_of claims ''exp'' of
      Some (VNum (Fin e)) \<Rightarrow> of_int now < e * of_int Second
    | None \<Rightarrow> \<not> required
    | _ \<Rightarrow> False)"

text \<open>\<open>t.Unix()\<close> as a JSON number.\<close>

definition num_date :: "int \<Rightarrow> gval" where
  "num_date t = VNum (Fin (of_int (t div Second)))"

definition jwt_ok :: "'r env \<Rightarrow> bool" where
  "jwt_ok X \<longleftrightarrow> (\<forall>secret claims tok kf now req.
      x_jwtSign X secret claims = Some tok \<longrightarrow> kf ''HS256'' = Some secret \<longrightarrow>
      x_jwtParse X kf now req tok = (if exp_valid now req claims then Some claims else None))"

definition bcrypt_ok :: "'r env \<Rightarrow> bool" where
  "bcrypt_ok X \<longleftrightarrow> (\<forall>now pw pw' h. x_bcryptHash X now pw = Some h \<longrightarrow> length pw \<le> 72 \<longrightarrow> length pw' \<le> 72 \<longrightarrow>
      x_bcryptCheck X h pw' = (pw' = pw))"

section \<open>The world\<close>

datatype event =
    EvTrigger gate string
  | EvPublish uuid string "gmap option"
  | EvBrokerSync uuid string
  | EvBrokerRemove uuid

record 'r world =
  w_db :: db
  w_redis :: 'r
  w_out :: "event list"

definition emit :: "event \<Rightarrow> 'r world \<Rightarrow> 'r world" where
  "emit e w = w\<lparr>w_out := w_out w @ [e]\<rparr>"

lemma emit_sel [simp]:
  "w_db (emit e w) = w_db w" "w_redis (emit e w) = w_redis w" "w_out (emit e w) = w_out w @ [e]"
  by (simp_all add: emit_def)

text \<open>A database operation inside a handler: the result, and the world with the new database.\<close>

definition on_db :: "(db \<Rightarrow> 'a \<times> db) \<Rightarrow> 'r world \<Rightarrow> 'a \<times> 'r world" where
  "on_db f w = (let r = f (w_db w) in (fst r, w\<lparr>w_db := snd r\<rparr>))"

lemma on_db_fst [simp]: "fst (on_db f w) = fst (f (w_db w))"
  by (simp add: on_db_def Let_def)

lemma on_db_snd [simp]: "snd (on_db f w) = w\<lparr>w_db := snd (f (w_db w))\<rparr>"
  by (simp add: on_db_def Let_def)

text \<open>
  Sequencing with early return: \<open>x, err := f(); if err != nil { return err }\<close> where \<open>f\<close> may
  change the world. \<open>map_err\<close> and \<open>werr\<close> wrap the error on the way out.
\<close>

definition wbind :: "'a res \<times> 'w \<Rightarrow> ('a \<Rightarrow> 'w \<Rightarrow> 'b res \<times> 'w) \<Rightarrow> 'b res \<times> 'w" where
  "wbind r f = (case fst r of Inl e \<Rightarrow> (Inl e, snd r) | Inr a \<Rightarrow> f a (snd r))"

definition map_err :: "(err \<Rightarrow> err) \<Rightarrow> 'a res \<Rightarrow> 'a res" where
  "map_err h r = (case r of Inl e \<Rightarrow> Inl (h e) | Inr a \<Rightarrow> Inr a)"

definition werr :: "(err \<Rightarrow> err) \<Rightarrow> 'a res \<times> 'w \<Rightarrow> 'a res \<times> 'w" where
  "werr h r = (map_err h (fst r), snd r)"

lemma wbind_simps [simp]: "wbind (Inl e, w) f = (Inl e, w)" "wbind (Inr a, w) f = f a w"
  by (simp_all add: wbind_def)

lemma map_err_simps [simp]: "map_err h (Inl e) = Inl (h e)" "map_err h (Inr a) = Inr a"
  by (simp_all add: map_err_def)

lemma map_err_Inr_iff [simp]: "map_err h r = Inr a \<longleftrightarrow> r = Inr a"
  by (cases r) simp_all

lemma werr_Inr_iff: "werr h r = (Inr a, w) \<longleftrightarrow> r = (Inr a, w)"
  by (cases r) (simp add: werr_def)

lemma werr_sel [simp]: "snd (werr h r) = snd r" "fst (werr h r) = map_err h (fst r)"
  by (simp_all add: werr_def)

lemma wbind_Inr_iff: "wbind r f = (Inr b, w') \<longleftrightarrow> (\<exists>a w. r = (Inr a, w) \<and> f a w = (Inr b, w'))"
  by (cases r; cases "fst r") (auto simp: wbind_def)

lemma wbind_ok_iff: "fst (wbind r f) = Inr b \<longleftrightarrow> (\<exists>a w. r = (Inr a, w) \<and> fst (f a w) = Inr b)"
  by (cases r; cases "fst r") (auto simp: wbind_def)

section \<open>Redis commands of the handlers\<close>

text \<open>A command that fails changes nothing; a \<open>GET\<close> of a missing key is the error \<open>redis.Nil\<close>.\<close>

definition redis_err :: err where
  "redis_err = ErrExternal ''redis''"

definition redis_Get :: "'r env \<Rightarrow> int \<Rightarrow> 'r world \<Rightarrow> string \<Rightarrow> rval res" where
  "redis_Get X now w k =
     (if x_redisFault X now ''GET'' k then Inl redis_err
      else case rd_Get (x_redis X) (w_redis w) now k of
        None \<Rightarrow> Inl (ErrExternal ''redis: nil'') | Some v \<Rightarrow> Inr v)"

definition redis_GetDel :: "'r env \<Rightarrow> int \<Rightarrow> 'r world \<Rightarrow> string \<Rightarrow> rval res \<times> 'r world" where
  "redis_GetDel X now w k =
     (if x_redisFault X now ''GETDEL'' k then (Inl redis_err, w)
      else case rd_Get (x_redis X) (w_redis w) now k of
        None \<Rightarrow> (Inl (ErrExternal ''redis: nil''), w)
      | Some v \<Rightarrow> (Inr v, w\<lparr>w_redis := rd_Del (x_redis X) (w_redis w) now k\<rparr>))"

definition redis_Set :: "'r env \<Rightarrow> int \<Rightarrow> 'r world \<Rightarrow> string \<Rightarrow> rval \<Rightarrow> int \<Rightarrow> unit res \<times> 'r world" where
  "redis_Set X now w k v d =
     (if x_redisFault X now ''SET'' k then (Inl redis_err, w)
      else (Inr (), w\<lparr>w_redis := rd_Set (x_redis X) (w_redis w) now k v d\<rparr>))"

definition redis_Del :: "'r env \<Rightarrow> int \<Rightarrow> 'r world \<Rightarrow> string \<Rightarrow> 'r world" where
  "redis_Del X now w k =
     (if x_redisFault X now ''DEL'' k then w else w\<lparr>w_redis := rd_Del (x_redis X) (w_redis w) now k\<rparr>)"

text \<open>
  \<open>INCR k; EXPIRE k d NX\<close>, the two commands both rate limiters queue in their transaction. Redis
  executes the second also when the first is refused (the key holds no number).
\<close>

definition incr_expire :: "'r env \<Rightarrow> int \<Rightarrow> 'r \<Rightarrow> string \<Rightarrow> int \<Rightarrow> int option \<times> 'r" where
  "incr_expire X now s k d = (case rd_Incr (x_redis X) s now k of
      None \<Rightarrow> (None, rd_ExpireNX (x_redis X) s now k d)
    | Some (n, s') \<Rightarrow> (Some n, rd_ExpireNX (x_redis X) s' now k d))"

lemma redis_frame [simp]:
  "w_db (snd (redis_GetDel X now w k)) = w_db w" "w_out (snd (redis_GetDel X now w k)) = w_out w"
  "w_db (snd (redis_Set X now w k v d)) = w_db w" "w_out (snd (redis_Set X now w k v d)) = w_out w"
  "w_db (redis_Del X now w k) = w_db w" "w_out (redis_Del X now w k) = w_out w"
  by (simp_all add: redis_GetDel_def redis_Set_def redis_Del_def split: option.splits)

section \<open>A Redis that satisfies the laws\<close>

text \<open>
  A finite store of keys with their expiry: it shows that the hypotheses can hold and is
  what the examples run on. The instants of its commands are the ones they are given.
\<close>

type_synonym kv = "(string \<times> (rval \<times> int option)) list"

definition kv_view :: "kv rview" where
  "kv_view s t k = (case map_of s k of None \<Rightarrow> None | Some ve \<Rightarrow> alive t ve)"

definition kv_put :: "kv \<Rightarrow> string \<Rightarrow> rval \<times> int option \<Rightarrow> kv" where
  "kv_put s k ve = AList.update k ve s"

definition kv_redis :: "kv redis" where
  "kv_redis = \<lparr>
     rd_Get = (\<lambda>s t k. map_option fst (kv_view s t k)),
     rd_Set = (\<lambda>s t k v d. kv_put s k (v, if d = 0 then None else Some (t + d))),
     rd_Del = (\<lambda>s t k. AList.delete k s),
     rd_Incr = (\<lambda>s t k. case kv_view s t k of
        None \<Rightarrow> Some (1, kv_put s k (RInt 1, None))
      | Some (RInt n, e) \<Rightarrow> Some (n + 1, kv_put s k (RInt (n + 1), e)) | _ \<Rightarrow> None),
     rd_Decr = (\<lambda>s t k. case kv_view s t k of
        None \<Rightarrow> Some (- 1, kv_put s k (RInt (- 1), None))
      | Some (RInt n, e) \<Rightarrow> Some (n - 1, kv_put s k (RInt (n - 1), e)) | _ \<Rightarrow> None),
     rd_ExpireNX = (\<lambda>s t k d. case kv_view s t k of
        Some (v, None) \<Rightarrow> kv_put s k (v, Some (t + d)) | _ \<Rightarrow> s)\<rparr>"

lemma kv_view_put: "kv_view (kv_put s k ve) t k' = (if k' = k then alive t ve else kv_view s t k')"
  by (simp add: kv_view_def kv_put_def update_conv)

lemma kv_view_del: "kv_view (AList.delete k s) t k' = (if k' = k then None else kv_view s t k')"
  by (auto simp: kv_view_def delete_conv)

lemma kv_redis_ok: "redis_ok kv_redis kv_view"
proof -
  have "get_law kv_redis kv_view"
    by (simp add: get_law_def kv_redis_def)
  moreover have "set_law kv_redis kv_view"
    by (simp add: set_law_def kv_redis_def kv_view_put)
  moreover have "del_law kv_redis kv_view"
    by (simp add: del_law_def kv_redis_def kv_view_del)
  moreover have "incr_fresh_law kv_redis kv_view"
    by (simp add: incr_fresh_law_def kv_redis_def kv_view_put alive_def)
  moreover have "incr_law kv_redis kv_view"
    by (simp add: incr_law_def kv_redis_def kv_view_put)
  moreover have "decr_law kv_redis kv_view"
    by (simp add: decr_law_def kv_redis_def kv_view_put)
  moreover have "expire_law kv_redis kv_view"
    by (auto simp: expire_law_def kv_redis_def kv_view_put split: option.splits)
  moreover have "clock_law kv_view"
    unfolding clock_law_def kv_view_def by (auto simp: alive_def split: option.splits if_splits)
  moreover have "type_law kv_redis kv_view"
    by (auto simp: type_law_def kv_redis_def split: rval.splits)
  ultimately show ?thesis by (simp add: redis_ok_def)
qed

section \<open>What the services rely on\<close>

text \<open>
  The laws the services use, proved once from the documented behaviour: reading what was
  stored, single use of a key that was read and deleted, and the counters of the rate limiters.
\<close>

locale redis_store =
  fixes R :: "'r redis" and view :: "'r rview"
  assumes laws: "redis_ok R view"
begin

lemma get: "rd_Get R s t k = map_option fst (view s t k)"
  using laws by (simp add: redis_ok_def get_law_def)

lemma view_set:
  "t \<le> t' \<Longrightarrow> 0 \<le> d \<Longrightarrow> view (rd_Set R s t k v d) t' k' =
     (if k' = k then alive t' (v, if d = 0 then None else Some (t + d)) else view s t' k')"
  using laws by (simp add: redis_ok_def set_law_def)

lemma view_del: "t \<le> t' \<Longrightarrow> view (rd_Del R s t k) t' k' = (if k' = k then None else view s t' k')"
  using laws by (simp add: redis_ok_def del_law_def)

lemma view_later: "view s t k = Some (v, e) \<Longrightarrow> t \<le> t' \<Longrightarrow> view s t' k = alive t' (v, e)"
  using laws by (simp add: redis_ok_def clock_law_def)

lemma view_gone: "view s t k = None \<Longrightarrow> t \<le> t' \<Longrightarrow> view s t' k = None"
  using laws by (simp add: redis_ok_def clock_law_def)

text \<open>What was set with a session duration reads back until it expires.\<close>

lemma get_set:
  "t \<le> t' \<Longrightarrow> 0 \<le> d \<Longrightarrow> rd_Get R (rd_Set R s t k v d) t' k = (if d = 0 \<or> t' < t + d then Some v else None)"
  by (simp add: get view_set alive_def)

lemma get_del: "t \<le> t' \<Longrightarrow> rd_Get R (rd_Del R s t k) t' k = None"
  by (simp add: get view_del)

lemma get_set_other:
  "t \<le> t' \<Longrightarrow> k' \<noteq> k \<Longrightarrow> rd_Get R (rd_Set R s t k v d) t' k' = rd_Get R s t' k'"
  using laws by (simp add: get redis_ok_def set_law_def)

lemma get_gone: "rd_Get R s t k = None \<Longrightarrow> t \<le> t' \<Longrightarrow> rd_Get R s t' k = None"
  using view_gone by (simp add: get)

lemma incr_fresh:
  "view s t k = None \<Longrightarrow> \<exists>s'. rd_Incr R s t k = Some (1, s') \<and>
     (\<forall>t' k'. t \<le> t' \<longrightarrow> view s' t' k' = (if k' = k then Some (RInt 1, None) else view s t' k'))"
  using laws by (simp add: redis_ok_def incr_fresh_law_def)

lemma incr_counter:
  "view s t k = Some (RInt n, e) \<Longrightarrow> \<exists>s'. rd_Incr R s t k = Some (n + 1, s') \<and>
     (\<forall>t' k'. t \<le> t' \<longrightarrow> view s' t' k' = (if k' = k then alive t' (RInt (n + 1), e) else view s t' k'))"
  using laws by (simp add: redis_ok_def incr_law_def)

lemma decr_counter:
  "view s t k = Some (RInt n, e) \<Longrightarrow> \<exists>s'. rd_Decr R s t k = Some (n - 1, s') \<and>
     (\<forall>t' k'. t \<le> t' \<longrightarrow> view s' t' k' = (if k' = k then alive t' (RInt (n - 1), e) else view s t' k'))"
  using laws by (simp add: redis_ok_def decr_law_def)

lemma incr_other_type: "view s t k = Some (v, e) \<Longrightarrow> (\<And>n. v \<noteq> RInt n) \<Longrightarrow> rd_Incr R s t k = None"
  using laws by (simp add: redis_ok_def type_law_def)

text \<open>Counting touches no other key.\<close>

lemma incr_other_key:
  assumes "rd_Incr R s t k = Some (m, s')" and "t \<le> t'" and "k' \<noteq> k"
  shows "view s' t' k' = view s t' k'"
proof (cases "view s t k")
  case None
  from incr_fresh [OF None] obtain s2 where "rd_Incr R s t k = Some (1, s2)"
    and v: "\<And>t' k'. t \<le> t' \<Longrightarrow> view s2 t' k' = (if k' = k then Some (RInt 1, None) else view s t' k')" by blast
  with assms(1) have "s2 = s'" by simp
  with v [OF assms(2), of k'] assms(3) show ?thesis by simp
next
  case (Some ve)
  obtain v e where ve: "ve = (v, e)" by fastforce
  show ?thesis
  proof (cases v)
    case (RInt n)
    with Some ve have "view s t k = Some (RInt n, e)" by simp
    from incr_counter [OF this] obtain s2 where "rd_Incr R s t k = Some (n + 1, s2)"
      and v: "\<And>t' k'. t \<le> t' \<Longrightarrow> view s2 t' k' = (if k' = k then alive t' (RInt (n + 1), e) else view s t' k')" by blast
    with assms(1) have "s2 = s'" by simp
    with v [OF assms(2), of k'] assms(3) show ?thesis by simp
  qed (use Some ve assms(1) incr_other_type [of s t k v e] in auto)
qed

lemma view_expire:
  "t \<le> t' \<Longrightarrow> 0 < d \<Longrightarrow> view (rd_ExpireNX R s t k d) t' k' =
     (if k' = k then (case view s t k of
        Some (v, None) \<Rightarrow> alive t' (v, Some (t + d)) | _ \<Rightarrow> view s t' k) else view s t' k')"
  using laws by (simp add: redis_ok_def expire_law_def)

end

interpretation kv: redis_store kv_redis kv_view
  by unfold_locales (rule kv_redis_ok)

text \<open>Counting starts the expiry of a key that has none; other keys keep their value.\<close>

lemma incr_expire_view:
  assumes "redis_ok (x_redis X) view" and "0 < d" and "now \<le> t"
  shows "view s now k = Some (RInt n, Some e) \<Longrightarrow> now < e \<Longrightarrow>
      fst (incr_expire X now s k d) = Some (n + 1) \<and> view (snd (incr_expire X now s k d)) t k = alive t (RInt (n + 1), Some e)"
    and "view s now k = None \<Longrightarrow>
      fst (incr_expire X now s k d) = Some 1 \<and> view (snd (incr_expire X now s k d)) t k = alive t (RInt 1, Some (now + d))"
    and "k' \<noteq> k \<Longrightarrow> view (snd (incr_expire X now s k d)) t k' = view s t k'"
proof -
  note R = redis_store.intro [OF assms(1)]
  note E = redis_store.view_expire [OF R assms(3,2)]
  show "fst (incr_expire X now s k d) = Some (n + 1) \<and> view (snd (incr_expire X now s k d)) t k = alive t (RInt (n + 1), Some e)"
    if v: "view s now k = Some (RInt n, Some e)" and "now < e"
  proof -
    from redis_store.incr_counter [OF R v] obtain s' where s': "rd_Incr (x_redis X) s now k = Some (n + 1, s')"
      and v': "\<And>t' k'. now \<le> t' \<Longrightarrow> view s' t' k' = (if k' = k then alive t' (RInt (n + 1), Some e) else view s t' k')" by blast
    from v' [of now k] that(2) have "view s' now k = Some (RInt (n + 1), Some e)" by (simp add: alive_def)
    with s' v' [OF assms(3), of k] show ?thesis by (simp add: incr_expire_def E)
  qed
  show "fst (incr_expire X now s k d) = Some 1 \<and> view (snd (incr_expire X now s k d)) t k = alive t (RInt 1, Some (now + d))"
    if v: "view s now k = None"
  proof -
    from redis_store.incr_fresh [OF R v] obtain s' where s': "rd_Incr (x_redis X) s now k = Some (1, s')"
      and v': "\<And>t' k'. now \<le> t' \<Longrightarrow> view s' t' k' = (if k' = k then Some (RInt 1, None) else view s t' k')" by blast
    from v' [of now k] s' show ?thesis by (simp add: incr_expire_def E)
  qed
  show "view (snd (incr_expire X now s k d)) t k' = view s t k'" if "k' \<noteq> k"
    using that redis_store.incr_other_key [OF R _ assms(3) that]
    by (simp add: incr_expire_def E split: option.splits prod.splits)
qed

end
