(* ===== verification/Store_Reach.thy ===== *)
theory Store_Reach
  imports Policy_Repo Access_Repo
begin

text \<open>
  The store as a state machine: a database is reachable when a sequence of repository
  operations, each with any arguments, any drawn identifiers and any faults, leads to it from
  the empty schema. Reachable databases satisfy every constraint of the migrations.
\<close>

inductive db_reach :: "db \<Rightarrow> bool" where
  init: "db_reach empty_db"
| gates_Create: "db_reach d \<Longrightarrow> db_reach (snd (gates_Create flt d i tok now p))"
| gates_Update: "db_reach d \<Longrightarrow> db_reach (snd (gates_Update flt d i up))"
| gates_Delete: "db_reach d \<Longrightarrow> db_reach (snd (gates_Delete flt d i))"
| gates_SetToken: "db_reach d \<Longrightarrow> db_reach (snd (gates_SetToken flt d i tok))"
| gates_UpdateStatus: "db_reach d \<Longrightarrow> db_reach (snd (gates_UpdateStatus flt d now i st m))"
| gates_Mark: "db_reach d \<Longrightarrow> db_reach (snd (gates_MarkUnresponsiveWithIDs flt d now ttl))"
| policies_Grant: "db_reach d \<Longrightarrow> db_reach (snd (policies_Grant flt d i g c))"
| policies_Revoke: "db_reach d \<Longrightarrow> db_reach (snd (policies_Revoke flt d i g))"
| policies_RevokePermission: "db_reach d \<Longrightarrow> db_reach (snd (policies_RevokePermission flt d i g c))"
| policies_SetSchedule: "db_reach d \<Longrightarrow> db_reach (snd (policies_SetSchedule flt d i g s))"
| policies_RemoveSchedule: "db_reach d \<Longrightarrow> db_reach (snd (policies_RemoveSchedule flt d i g))"
| credPolicies_Grant: "db_reach d \<Longrightarrow> db_reach (snd (credPolicies_Grant flt d i g c))"
| credPolicies_RevokeAll: "db_reach d \<Longrightarrow> db_reach (snd (credPolicies_RevokeAll flt d i))"
| credPolicies_SetSchedule: "db_reach d \<Longrightarrow> db_reach (snd (credPolicies_SetSchedule flt d i s))"
| credPolicies_RemoveSchedule: "db_reach d \<Longrightarrow> db_reach (snd (credPolicies_RemoveSchedule flt d i))"
| members_Create: "db_reach d \<Longrightarrow> db_reach (snd (members_Create flt d i now u dn r))"
| members_Update: "db_reach d \<Longrightarrow> db_reach (snd (members_Update flt d i dno uo ro))"
| members_Delete: "db_reach d \<Longrightarrow> db_reach (snd (members_Delete flt d i))"
| creds_Create: "db_reach d \<Longrightarrow> db_reach (snd (creds_Create flt d i now m ty h l e md))"
| creds_UpdateHashedValue: "db_reach d \<Longrightarrow> db_reach (snd (creds_UpdateHashedValue flt d m ty h))"
| creds_Delete: "db_reach d \<Longrightarrow> db_reach (snd (creds_Delete flt d i m))"
| pins_Create: "db_reach d \<Longrightarrow> db_reach (snd (pins_Create flt d i now g h lb md so))"
| pins_Update: "db_reach d \<Longrightarrow> db_reach (snd (pins_Update flt d i g lo md))"
| pins_SetPinSchedule: "db_reach d \<Longrightarrow> db_reach (snd (pins_SetPinSchedule flt d i g s))"
| pins_ClearPinSchedule: "db_reach d \<Longrightarrow> db_reach (snd (pins_ClearPinSchedule flt d i g))"
| pins_Delete: "db_reach d \<Longrightarrow> db_reach (snd (pins_Delete flt d i g))"
| schedules_Create: "db_reach d \<Longrightarrow> db_reach (snd (schedules_Create flt d i now mo n de e))"
| schedules_Update: "db_reach d \<Longrightarrow> db_reach (snd (schedules_Update flt d i n de e))"
| schedules_Delete: "db_reach d \<Longrightarrow> db_reach (snd (schedules_Delete flt d i))"
| domains_Create: "db_reach d \<Longrightarrow> db_reach (snd (domains_Create flt d i tok now g nm))"
| domains_SetVerified: "db_reach d \<Longrightarrow> db_reach (snd (domains_SetVerified flt d i now))"
| domains_Delete: "db_reach d \<Longrightarrow> db_reach (snd (domains_Delete flt d i g))"

lemmas repo_wf_ops = gates_wf_ops policies_wf_ops members_wf_ops creds_wf_ops pins_wf_ops
  schedules_wf_ops domains_wf_ops

text \<open>
  Whatever operations the repositories have executed, with whatever faults, the
  database satisfies the constraints of the schema: identifiers, gate tokens, usernames, domains
  and links are unique, a member has at most one password, and every reference to a gate, a
  member or a schedule points to a row that exists.
\<close>

theorem db_reach_wf: "db_reach d \<Longrightarrow> db_wf d"
  by (induction rule: db_reach.induct) (simp_all add: empty_db_wf repo_wf_ops)

definition no_faults :: faults where
  "no_faults op key = False"

definition sample_gate_params :: create_gate_params where
  "sample_gate_params = \<lparr>cg_Name = ''Barrier'', cg_IntegrationType = ''MQTT'', cg_IntegrationConfig = [],
     cg_OpenConfig = Some \<lparr>ac_Type = DriverTypeMQTTGatie, ac_Config = []\<rparr>, cg_CloseConfig = None,
     cg_StatusConfig = None, cg_MetaConfig = [], cg_StatusRules = [], cg_CustomStatuses = [],
     cg_TTLSeconds = None, cg_StatusTransitions = []\<rparr>"

definition sample_db :: db where
  "sample_db = snd (policies_Grant no_faults
     (snd (members_Create no_faults
        (snd (gates_Create no_faults empty_db 1 ''tok'' 0 sample_gate_params)) 2 0 ''ana'' None RoleMember))
     2 1 PermTriggerOpen)"

theorem db_reach_wf_witness: "db_wf sample_db \<and> length (db_policies sample_db) = 1"
proof -
  have "db_reach sample_db"
    unfolding sample_db_def by (intro db_reach.intros)
  moreover have "length (db_policies sample_db) = 1" by code_simp
  ultimately show ?thesis using db_reach_wf [of sample_db] by blast
qed

section \<open>Permissions\<close>

lemma cred_ops_members:
  "member_has (snd (credPolicies_Grant flt d t g c)) = member_has d"
  "member_has (snd (credPolicies_RevokeAll flt d t)) = member_has d"
  by (auto simp: fun_eq_iff member_has_def credPolicies_Grant_def credPolicies_RevokeAll_def exec_def
      insert_policy_def delete_policies_def split: option.splits)

lemma member_ops_creds:
  "token_has (snd (policies_Grant flt d m g c)) = token_has d"
  "token_has (snd (policies_Revoke flt d m g)) = token_has d"
  by (auto simp: fun_eq_iff token_has_def policies_Grant_def policies_Revoke_def exec_def
      insert_policy_def delete_policies_def split: option.splits)

text \<open>
  Granting a member a permission adds exactly that permission and revoking the
  member's access to a gate removes exactly the permissions on that gate; the permissions of
  API tokens are not affected, and operations on the policies of a token leave the permissions
  of members alone.
\<close>

theorem permission_laws:
  "(fst (policies_Grant flt d m g c) = Inr () \<longrightarrow>
      (\<forall>m' g' c'. member_has (snd (policies_Grant flt d m g c)) m' g' c'
         \<longleftrightarrow> (m' = m \<and> g' = g \<and> c' = c) \<or> member_has d m' g' c'))
   \<and> (fst (policies_Revoke flt d m g) = Inr () \<longrightarrow>
      (\<forall>m' g' c'. member_has (snd (policies_Revoke flt d m g)) m' g' c'
         \<longleftrightarrow> \<not> (m' = m \<and> g' = g) \<and> member_has d m' g' c'))
   \<and> token_has (snd (policies_Grant flt d m g c)) = token_has d
   \<and> token_has (snd (policies_Revoke flt d m g)) = token_has d
   \<and> member_has (snd (credPolicies_Grant flt d t g c)) = member_has d
   \<and> member_has (snd (credPolicies_RevokeAll flt d t)) = member_has d"
  using mp.has_grant [of flt d m g c] mp.has_revoke [of flt d m g] member_ops_creds cred_ops_members
  by (auto simp: eq_commute [of g])

theorem permission_laws_witness:
  "member_has (snd (policies_Grant no_faults sample_db 2 1 PermManage)) 2 1 PermManage"
proof -
  have "fst (policies_Grant no_faults sample_db 2 1 PermManage) = Inr ()" by code_simp
  then show ?thesis
    using permission_laws [of no_faults sample_db 2 1 PermManage] by blast
qed

section \<open>Deleting a schedule\<close>

lemma find_filter_kept: "List.find P ls = Some l \<Longrightarrow> Q l \<Longrightarrow> List.find P (filter Q ls) = Some l"
  by (induction ls) (auto split: if_splits)

lemma find_filter_unique:
  assumes "distinct (List.map key ls)" and "List.find P ls = Some l" and "\<not> Q l"
    and key: "\<And>x y. P x \<Longrightarrow> P y \<Longrightarrow> key x = key y"
  shows "List.find P (filter Q ls) = None"
  using assms(1-3)
proof (induction ls)
  case (Cons a ls)
  show ?case
  proof (cases "P a")
    case True
    have "\<not> P x" if x: "x \<in> set ls" for x
    proof
      assume "P x"
      with True have "key a = key x" by (rule key)
      with x Cons.prems(1) show False by auto
    qed
    moreover have "l = a" using Cons.prems(2) True by simp
    ultimately show ?thesis using Cons.prems(3) by (auto simp: find_None_iff_ball)
  qed (use Cons in simp)
qed simp

text \<open>
  Deleting a schedule leaves no trace of it: every access code that used it and every
  link of a member or a token to it lose their time restriction (they are not blocked), while
  the other restrictions stay.
\<close>

theorem schedule_delete_unrestricts:
  assumes "fst (schedules_Delete flt d i) = Inr ()"
  shows "schedule_row (snd (schedules_Delete flt d i)) i = None
    \<and> (\<forall>s g. find_link s g d = Some i \<and> db_wf d \<longrightarrow> find_link s g (snd (schedules_Delete flt d i)) = None)
    \<and> (\<forall>s g k. find_link s g d = Some k \<and> k \<noteq> i \<longrightarrow> find_link s g (snd (schedules_Delete flt d i)) = Some k)
    \<and> (\<forall>p \<in> set (db_pins (snd (schedules_Delete flt d i))). pin_ScheduleID p \<noteq> Some i)"
proof -
  let ?d = "snd (schedules_Delete flt d i)"
  have e: "?d = cascade_schedules (\<lambda>s. as_ID s = i) d" and row: "schedule_row d i \<noteq> None"
    using assms by (auto simp: schedules_Delete_def split: if_splits)
  have mem: "i \<in> as_ID ` set (db_schedules d)"
    using row by (auto simp: schedule_row_def dest: find_SomeD)
  have gone: "set (List.map as_ID (filter (\<lambda>s. as_ID s = i) (db_schedules d))) = {i}"
    using mem by auto
  have links: "db_links ?d = filter (\<lambda>l. sl_ScheduleID l \<noteq> i) (db_links d)"
    using gone unfolding e cascade_schedules_def Let_def by (simp del: set_map)
  have "find_link s g ?d = None" if l: "find_link s g d = Some i" and wf: "db_wf d" for s g
  proof -
    from l obtain l where l: "List.find (\<lambda>l. sl_Subject l = s \<and> sl_GateID l = g) (db_links d) = Some l" "sl_ScheduleID l = i"
      by (auto simp: find_link_def)
    have "distinct (List.map (\<lambda>l. (sl_Subject l, sl_GateID l)) (db_links d))"
      using wf by (simp add: db_wf_def links_wf_def)
    from find_filter_unique [OF this l(1), of "\<lambda>l. sl_ScheduleID l \<noteq> i"] l(2) show ?thesis
      by (simp add: find_link_def links)
  qed
  moreover have "find_link s g ?d = Some k" if l: "find_link s g d = Some k" and k: "k \<noteq> i" for s g k
  proof -
    from l obtain l where "List.find (\<lambda>l. sl_Subject l = s \<and> sl_GateID l = g) (db_links d) = Some l" "sl_ScheduleID l = k"
      by (auto simp: find_link_def)
    from find_filter_kept [OF this(1), of "\<lambda>l. sl_ScheduleID l \<noteq> i"] this(2) k show ?thesis
      by (simp add: find_link_def links)
  qed
  moreover have "pin_ScheduleID p \<noteq> Some i" if "p \<in> set (db_pins ?d)" for p
    using that mem unfolding e cascade_schedules_def Let_def by (auto simp: set_upd_where list_ex_iff)
  ultimately show ?thesis
    by (auto simp: e schedule_row_def find_None_iff_ball)
qed

definition sample_schedule_db :: db where
  "sample_schedule_db = snd (policies_SetSchedule no_faults
     (snd (schedules_Create no_faults sample_db 7 0 None ''nights'' None None)) 2 1 7)"

theorem schedule_delete_unrestricts_witness:
  "find_link (Membership 2) (Some 1) sample_schedule_db = Some 7
   \<and> schedule_row (snd (schedules_Delete no_faults sample_schedule_db 7)) 7 = None
   \<and> find_link (Membership 2) (Some 1) (snd (schedules_Delete no_faults sample_schedule_db 7)) = None"
proof -
  have "db_wf sample_schedule_db"
    unfolding sample_schedule_db_def sample_db_def by (simp add: repo_wf_ops empty_db_wf)
  moreover
  have "fst (schedules_Delete no_faults sample_schedule_db 7) = Inr ()" by code_simp
  moreover have "find_link (Membership 2) (Some 1) sample_schedule_db = Some 7" by code_simp
  ultimately show ?thesis
    using schedule_delete_unrestricts [of no_faults sample_schedule_db 7] by blast
qed

section \<open>Renaming a gate\<close>

definition unsent :: "'a \<Rightarrow> 'a omittable" where
  "unsent x = \<lparr>om_Sent = False, om_Null = False, om_Value = x\<rparr>"

definition sample_rename :: update_gate_params where
  "sample_rename = (let a = \<lparr>ac_Type = [], ac_Config = []\<rparr> in
     \<lparr>ug_Name = Some ''North'', ug_OpenConfig = unsent a, ug_CloseConfig = unsent a, ug_StatusConfig = unsent a,
      ug_MetaConfig = None, ug_StatusRules = None, ug_CustomStatuses = None, ug_TTLSeconds = unsent 0,
      ug_StatusTransitions = None\<rparr>)"

theorem gates_Update_exact_witness:
  "\<exists>g'. fst (gates_Update no_faults sample_db 1 sample_rename) = Inr g' \<and> g_Name g' = ''North''
    \<and> (\<exists>g. gate_row sample_db 1 = Some g \<and> g' = scanGate (apply_update sample_rename g)
        \<and> gate_row (snd (gates_Update no_faults sample_db 1 sample_rename)) 1 = Some (apply_update sample_rename g))"
proof -
  have "(case fst (gates_Update no_faults sample_db 1 sample_rename) of Inr g' \<Rightarrow> g_Name g' = ''North'' | Inl _ \<Rightarrow> False)"
    by code_simp
  then obtain g' where "fst (gates_Update no_faults sample_db 1 sample_rename) = Inr g'" "g_Name g' = ''North''"
    by (auto split: sum.splits)
  with gates_Update_exact [OF this(1)] show ?thesis by blast
qed

end
