(* ===== verification/Sample_Env.thy ===== *)
theory Sample_Env
  imports Platform Store_Reach
begin

text \<open>
  A concrete environment that satisfies every assumption of the development: signing is a
  table of known tokens, hashing keeps the text behind a marker, identifiers print in unary and
  Redis is the finite store of \<open>Platform\<close>. The witnesses of the properties run on it.
\<close>

type_synonym token_table = "(string \<times> string \<times> gmap) list"

definition table_sign :: "token_table \<Rightarrow> string \<Rightarrow> gmap \<Rightarrow> string option" where
  "table_sign tbl secret claims = map_option fst (List.find (\<lambda>e. snd e = (secret, claims)) tbl)"

definition table_parse :: "token_table \<Rightarrow> (string \<Rightarrow> string option) \<Rightarrow> int \<Rightarrow> bool \<Rightarrow> string \<Rightarrow> gmap option" where
  "table_parse tbl kf now req tok =
     (case map_of tbl tok of
        None \<Rightarrow> None
      | Some (secret, claims) \<Rightarrow>
          if kf ''HS256'' = Some secret \<and> exp_valid now req claims then Some claims else None)"

definition unary :: "uuid \<Rightarrow> string" where
  "unary u = replicate (unat u) (CHR ''i'')"

definition of_unary :: "string \<Rightarrow> uuid option" where
  "of_unary s = Some (of_nat (length s))"

definition sample_env :: "token_table \<Rightarrow> kv env" where
  "sample_env tbl = \<lparr>
     x_redis = kv_redis,
     x_redisFault = (\<lambda>_ _ _. False),
     x_dbFault = (\<lambda>_. no_faults),
     x_bcryptHash = (\<lambda>_ pw. if length pw \<le> 72 then Some (''$2a$'' @ pw) else None),
     x_bcryptCheck = (\<lambda>h pw. h = ''$2a$'' @ pw),
     x_sha256 = (\<lambda>s. ''#'' @ s),
     x_jwtSign = table_sign tbl,
     x_jwtParse = table_parse tbl,
     x_uuidString = unary,
     x_uuidParse = of_unary,
     x_newID = (\<lambda>now what. word_of_int (now + int (length what))),
     x_random = (\<lambda>now what. Some (what @ Itoa now)),
     x_zone = (\<lambda>_. 0),
     x_brokerFault = (\<lambda>_ _. False),
     x_http = (\<lambda>_ _ _. Inr \<lparr>hp_Status = 200, hp_Body = Some (VObj [(''state'', VStr ''up'')])\<rparr>),
     x_cancelled = (\<lambda>_ _. False),
     x_urlScheme = (\<lambda>u. if HasPrefix u ''https:'' then Some ''https'' else if HasPrefix u ''http:'' then Some ''http'' else Some []),
     x_mqttUp = True,
     x_mqttFault = (\<lambda>_ _. False),
     x_lookupTXT = (\<lambda>_ _. Some [''challenge'']),
     x_authConfig = (\<lambda>_. []),
     x_discover = (\<lambda>_ _. Inr ()),
     x_authCodeURL = (\<lambda>p s. sp_AuthEndpoint p @ ''?state='' @ s),
     x_oidcExchange = (\<lambda>_ _ code. Inr \<lparr>si_Subject = code, si_Email = [], si_DisplayName = [], si_Claims = []\<rparr>),
     cf_jwtSecret = ''secret'',
     cf_sessionDuration = 604800 * Second,
     cf_passwordPolicy = \<lparr>pp_MinLength = 8, pp_RequireUpper = True, pp_RequireLower = True, pp_RequireDigit = True\<rparr>,
     cf_maxAttempts = 3,
     cf_maxGateAttempts = 5,
     cf_maxRetries = 2,
     cf_cookieSecure = True,
     cf_ssoProviders = [],
     cf_frontendURL = ''https://gate.example''\<rparr>"

lemma sample_env_sel [simp]:
  "x_redis (sample_env tbl) = kv_redis" "x_redisFault (sample_env tbl) n c k = False"
  "x_dbFault (sample_env tbl) n = no_faults" "x_sha256 (sample_env tbl) s = ''#'' @ s"
  "x_jwtSign (sample_env tbl) = table_sign tbl" "x_jwtParse (sample_env tbl) = table_parse tbl"
  "x_uuidString (sample_env tbl) = unary" "x_uuidParse (sample_env tbl) = of_unary"
  "cf_jwtSecret (sample_env tbl) = ''secret''"
  by (simp_all add: sample_env_def)

lemma sample_no_faults [simp]: "\<not> no_faults op k"
  by (simp add: no_faults_def)

lemma sample_uuid_ok: "uuid_ok (sample_env tbl)"
  by (simp add: uuid_ok_def unary_def of_unary_def)

lemma sample_redis_ok: "redis_ok (x_redis (sample_env tbl)) kv_view"
  by (simp add: kv_redis_ok)

lemma sample_bcrypt_ok: "bcrypt_ok (sample_env tbl)"
  by (auto simp: bcrypt_ok_def sample_env_def split: if_splits)

lemma sample_jwt_ok:
  assumes "distinct (List.map fst tbl)"
  shows "jwt_ok (sample_env tbl)"
proof -
  have "map_of tbl tok = Some (secret, claims)" if "table_sign tbl secret claims = Some tok" for secret claims tok
    using that assms by (auto simp: table_sign_def dest!: find_SomeD)
  then show ?thesis
    by (auto simp: jwt_ok_def table_parse_def)
qed

definition sample_world :: "db \<Rightarrow> kv world" where
  "sample_world d = \<lparr>w_db = d, w_redis = [], w_out = []\<rparr>"

lemma sample_world_sel [simp]:
  "w_db (sample_world d) = d" "w_redis (sample_world d) = []" "w_out (sample_world d) = []"
  by (simp_all add: sample_world_def)

text \<open>A gate without actions, rules or transitions.\<close>

definition sample_gate :: "uuid \<Rightarrow> gate" where
  "sample_gate i = \<lparr>g_ID = i, g_Name = ''Barrier'', g_IntegrationType = ''MQTT'', g_IntegrationConfig = [],
     g_OpenConfig = None, g_CloseConfig = None, g_StatusConfig = None, g_Status = ''closed'',
     g_LastSeenAt = None, g_CreatedAt = 0, g_StatusMetadata = Some [], g_MetaConfig = [], g_StatusRules = [],
     g_CustomStatuses = [], g_TTLSeconds = None, g_StatusTransitions = [], g_GateToken = Some (unary i)\<rparr>"

end
