(* ===== verification/Gate_Service.thy ===== *)
theory Gate_Service
  imports Sample_Env
begin

text \<open>
  \<open>internal/service/gate.go\<close>, \<open>gate_status.go\<close>, \<open>gate_token.go\<close>, \<open>policy.go\<close>, the schedule service's
  operations and \<open>repository/postgres/audit.go\<close>: gate tokens, status processing, the gate
  operations and the decision of \<open>Trigger\<close>. \<open>slog\<close> lines are left out.
\<close>

section \<open>Gate tokens\<close>

abbreviation gateTokenType :: string where "gateTokenType \<equiv> ''gate_token''"

definition gateTokenClaims :: "'r env \<Rightarrow> int \<Rightarrow> uuid \<Rightarrow> gmap" where
  "gateTokenClaims X now gateID =
     [(''jti'', VStr (x_uuidString X (x_newID X now ''jti''))),
      (''sub'', VStr (x_uuidString X gateID)),
      (''iat'', num_date now),
      (''type'', VStr gateTokenType)]"

definition IssueGateToken :: "'r env \<Rightarrow> int \<Rightarrow> uuid \<Rightarrow> string res" where
  "IssueGateToken X now gateID =
     (case x_jwtSign X (cf_jwtSecret X) (gateTokenClaims X now gateID) of
        None \<Rightarrow> Inl (wrap ''sign gate token'' (ErrExternal ''jwt''))
      | Some token \<Rightarrow> Inr token)"

text \<open>The key function: only HS256 tokens get the secret.\<close>

definition keyFunc :: "'r env \<Rightarrow> string \<Rightarrow> string option" where
  "keyFunc X alg = (if alg \<noteq> ''HS256'' then None else Some (cf_jwtSecret X))"

definition ParseGateToken :: "'r env \<Rightarrow> int \<Rightarrow> string \<Rightarrow> uuid res" where
  "ParseGateToken X now tokenStr =
     (case x_jwtParse X (keyFunc X) now False tokenStr of
        None \<Rightarrow> Inl ErrInvalidToken
      | Some claims \<Rightarrow>
          if str_field claims ''type'' \<noteq> gateTokenType then Inl ErrInvalidToken
          else case x_uuidParse X (str_field claims ''sub'') of
                 None \<Rightarrow> Inl ErrInvalidToken
               | Some gateID \<Rightarrow> Inr gateID)"

section \<open>Status processing\<close>

definition publishGateStatusEvent :: "'r env \<Rightarrow> int \<Rightarrow> uuid \<Rightarrow> string \<Rightarrow> gmap option \<Rightarrow> 'r world \<Rightarrow> 'r world" where
  "publishGateStatusEvent X now gateID status meta w =
     (if x_redisFault X now ''PUBLISH'' ''gate:events'' then w else emit (EvPublish gateID status meta) w)"

definition ProcessGateStatus :: "'r env \<Rightarrow> int \<Rightarrow> gate \<Rightarrow> string \<Rightarrow> gmap option \<Rightarrow> 'r world \<Rightarrow> unit res \<times> 'r world" where
  "ProcessGateStatus X now gate rawStatus meta w =
     (let finalStatus = (case EvaluateStatusRules (g_StatusRules gate) (case meta of None \<Rightarrow> [] | Some m \<Rightarrow> m) of
            Some override \<Rightarrow> override | None \<Rightarrow> rawStatus)
      in case on_db (\<lambda>d. gates_UpdateStatus (x_dbFault X now) d now (g_ID gate) finalStatus meta) w of
           (Inl e, w1) \<Rightarrow> (Inl (wrap ''persist gate status'' e), w1)
         | (Inr _, w1) \<Rightarrow> (Inr (), publishGateStatusEvent X now (g_ID gate) finalStatus meta w1))"

lemma publish_sel [simp]:
  "w_db (publishGateStatusEvent X now i s m w) = w_db w" "w_redis (publishGateStatusEvent X now i s m w) = w_redis w"
  by (simp_all add: publishGateStatusEvent_def)

section \<open>Policies and schedules\<close>

definition svc_HasPermission :: "faults \<Rightarrow> db \<Rightarrow> uuid \<Rightarrow> uuid \<Rightarrow> string \<Rightarrow> bool res" where
  "svc_HasPermission = policies_HasPermission"

definition svc_HasAnyPermission :: "faults \<Rightarrow> db \<Rightarrow> uuid \<Rightarrow> uuid \<Rightarrow> bool res" where
  "svc_HasAnyPermission = policies_HasAnyPermission"

definition svc_GetMemberGateScheduleID :: "faults \<Rightarrow> db \<Rightarrow> uuid \<Rightarrow> uuid \<Rightarrow> uuid res" where
  "svc_GetMemberGateScheduleID = policies_GetScheduleID"

definition svc_GetMemberGateSchedule :: "faults \<Rightarrow> db \<Rightarrow> uuid \<Rightarrow> uuid \<Rightarrow> access_schedule res" where
  "svc_GetMemberGateSchedule flt d memberID gateID =
     (case policies_GetScheduleID flt d memberID gateID of
        Inl e \<Rightarrow> Inl e
      | Inr scheduleID \<Rightarrow> schedules_GetByIDPublic flt d scheduleID)"

definition schedule_GetPublic :: "faults \<Rightarrow> db \<Rightarrow> uuid \<Rightarrow> access_schedule res" where
  "schedule_GetPublic = schedules_GetByIDPublic"

definition validate_opt :: "expr_node option \<Rightarrow> unit res" where
  "validate_opt expr = (case expr of None \<Rightarrow> Inr () | Some e \<Rightarrow> validateExpr e ''expr'')"

definition schedule_Create :: "'r env \<Rightarrow> int \<Rightarrow> db \<Rightarrow> string \<Rightarrow> string option \<Rightarrow> expr_node option \<Rightarrow> access_schedule res \<times> db" where
  "schedule_Create X now d name description expr =
     (case validate_opt expr of
        Inl e \<Rightarrow> (Inl e, d)
      | Inr _ \<Rightarrow> schedules_Create (x_dbFault X now) d (x_newID X now ''schedule'') now None name description expr)"

definition schedule_CreateMember :: "'r env \<Rightarrow> int \<Rightarrow> db \<Rightarrow> uuid \<Rightarrow> string \<Rightarrow> string option \<Rightarrow> expr_node option
    \<Rightarrow> access_schedule res \<times> db" where
  "schedule_CreateMember X now d memberID name description expr =
     (case validate_opt expr of
        Inl e \<Rightarrow> (Inl e, d)
      | Inr _ \<Rightarrow> schedules_Create (x_dbFault X now) d (x_newID X now ''schedule'') now (Some memberID) name description expr)"

definition schedule_Update :: "'r env \<Rightarrow> int \<Rightarrow> db \<Rightarrow> uuid \<Rightarrow> string \<Rightarrow> string option \<Rightarrow> expr_node option \<Rightarrow> access_schedule res \<times> db" where
  "schedule_Update X now d scheduleID name description expr =
     (case validate_opt expr of
        Inl e \<Rightarrow> (Inl e, d)
      | Inr _ \<Rightarrow> schedules_Update (x_dbFault X now) d scheduleID name description expr)"

definition schedule_Delete :: "'r env \<Rightarrow> int \<Rightarrow> db \<Rightarrow> uuid \<Rightarrow> unit res \<times> db" where
  "schedule_Delete X now d scheduleID = schedules_Delete (x_dbFault X now) d scheduleID"

definition audit_Insert :: "uuid \<Rightarrow> uuid \<Rightarrow> string \<Rightarrow> 'r world \<Rightarrow> unit res \<times> 'r world" where
  "audit_Insert gateID memberID action w = (Inr (), w)"

section \<open>The gate service\<close>

definition AuthenticateToken :: "'r env \<Rightarrow> int \<Rightarrow> db \<Rightarrow> string \<Rightarrow> gate res" where
  "AuthenticateToken X now d token =
     (case ParseGateToken X now token of
        Inl _ \<Rightarrow> Inl ErrUnauthorized
      | Inr gateID \<Rightarrow> gates_GetByToken (x_dbFault X now) d gateID token)"

definition gate_ProcessStatus :: "'r env \<Rightarrow> int \<Rightarrow> gate \<Rightarrow> string \<Rightarrow> gmap option \<Rightarrow> 'r world \<Rightarrow> unit res \<times> 'r world" where
  "gate_ProcessStatus = ProcessGateStatus"

text \<open>\<open>brokerAuth.SyncCredentials\<close> and \<open>RemoveCredentials\<close>: a failure is only logged.\<close>

definition syncBroker :: "'r env \<Rightarrow> int \<Rightarrow> uuid \<Rightarrow> string \<Rightarrow> 'r world \<Rightarrow> 'r world" where
  "syncBroker X now gateID token w =
     (if x_brokerFault X now gateID then w else emit (EvBrokerSync gateID token) w)"

definition removeBroker :: "'r env \<Rightarrow> int \<Rightarrow> uuid \<Rightarrow> 'r world \<Rightarrow> 'r world" where
  "removeBroker X now gateID w = (if x_brokerFault X now gateID then w else emit (EvBrokerRemove gateID) w)"

definition db_random :: "'r env \<Rightarrow> int \<Rightarrow> string \<Rightarrow> string" where
  "db_random X now what = (case x_random X now what of None \<Rightarrow> [] | Some s \<Rightarrow> s)"

definition gate_Create :: "'r env \<Rightarrow> int \<Rightarrow> create_gate_params \<Rightarrow> 'r world \<Rightarrow> gate res \<times> 'r world" where
  "gate_Create X now params w =
     (let flt = x_dbFault X now;
          intType = (if cg_IntegrationType params = [] then ''MQTT'' else cg_IntegrationType params)
      in case on_db (\<lambda>d. gates_Create flt d (x_newID X now ''gate'') (db_random X now ''gate_token'') now
                (params\<lparr>cg_IntegrationType := intType\<rparr>)) w of
           (Inl e, w1) \<Rightarrow> (Inl (wrap ''create gate'' e), w1)
         | (Inr gate, w1) \<Rightarrow>
             (case IssueGateToken X now (g_ID gate) of
                Inl e \<Rightarrow> (Inl (wrap ''issue gate token'' e), w1)
              | Inr jwtToken \<Rightarrow>
                  (case on_db (\<lambda>d. gates_SetToken flt d (g_ID gate) jwtToken) w1 of
                     (Inl e, w2) \<Rightarrow> (Inl (wrap ''set gate token'' e), w2)
                   | (Inr _, w2) \<Rightarrow>
                       (Inr (gate\<lparr>g_GateToken := Some jwtToken, g_Status := EffectiveStatus now gate\<rparr>),
                        syncBroker X now (g_ID gate) jwtToken w2))))"

definition with_effective :: "int \<Rightarrow> gate \<Rightarrow> gate" where
  "with_effective now g = g\<lparr>g_Status := EffectiveStatus now g\<rparr>"

definition gate_List :: "'r env \<Rightarrow> int \<Rightarrow> db \<Rightarrow> string \<Rightarrow> uuid \<Rightarrow> pagination \<Rightarrow> (gate list \<times> int) res" where
  "gate_List X now d role memberID p =
     (case gates_List (x_dbFault X now) d role memberID p of
        Inl e \<Rightarrow> Inl (wrap ''list gates'' e)
      | Inr (gates, n_total) \<Rightarrow> Inr (List.map (with_effective now) gates, n_total))"

definition gate_Get :: "'r env \<Rightarrow> int \<Rightarrow> db \<Rightarrow> uuid \<Rightarrow> string \<Rightarrow> uuid \<Rightarrow> gate res" where
  "gate_Get X now d gateID role memberID =
     (let flt = x_dbFault X now
      in case gates_GetByID flt d gateID of
           Inl e \<Rightarrow> Inl e
         | Inr gate \<Rightarrow>
             if role = RoleMember then
               (case svc_HasAnyPermission flt d memberID (g_ID gate) of
                  Inl e \<Rightarrow> Inl (wrap ''check permissions'' e)
                | Inr ok \<Rightarrow>
                    if \<not> ok then Inl ErrUnauthorized
                    else let hasStatus = (svc_HasPermission flt d memberID (g_ID gate) PermReadStatus = Inr True)
                         in Inr (with_effective now (if hasStatus then gate else gate\<lparr>g_StatusMetadata := None\<rparr>)))
             else Inr (with_effective now gate))"

definition gate_Update :: "'r env \<Rightarrow> int \<Rightarrow> uuid \<Rightarrow> update_gate_params \<Rightarrow> 'r world \<Rightarrow> gate res \<times> 'r world" where
  "gate_Update X now gateID params w =
     (case on_db (\<lambda>d. gates_Update (x_dbFault X now) d gateID params) w of
        (Inl e, w1) \<Rightarrow> (Inl e, w1)
      | (Inr gate, w1) \<Rightarrow> (Inr (with_effective now gate), w1))"

definition gate_Delete :: "'r env \<Rightarrow> int \<Rightarrow> uuid \<Rightarrow> 'r world \<Rightarrow> unit res \<times> 'r world" where
  "gate_Delete X now gateID w =
     (case on_db (\<lambda>d. gates_Delete (x_dbFault X now) d gateID) w of
        (Inl e, w1) \<Rightarrow> (Inl e, w1)
      | (Inr _, w1) \<Rightarrow> (Inr (), removeBroker X now gateID w1))"

definition gate_GetToken :: "'r env \<Rightarrow> int \<Rightarrow> db \<Rightarrow> uuid \<Rightarrow> string res" where
  "gate_GetToken X now d gateID = gates_GetToken (x_dbFault X now) d gateID"

definition gate_RotateToken :: "'r env \<Rightarrow> int \<Rightarrow> uuid \<Rightarrow> 'r world \<Rightarrow> string res \<times> 'r world" where
  "gate_RotateToken X now gateID w =
     (let flt = x_dbFault X now
      in case gates_GetByID flt (w_db w) gateID of
           Inl e \<Rightarrow> (Inl e, w)
         | Inr gate \<Rightarrow>
             (case IssueGateToken X now (g_ID gate) of
                Inl e \<Rightarrow> (Inl (wrap ''issue gate token'' e), w)
              | Inr jwtToken \<Rightarrow>
                  (case on_db (\<lambda>d. gates_SetToken flt d gateID jwtToken) w of
                     (Inl e, w1) \<Rightarrow> (Inl (wrap ''set gate token'' e), w1)
                   | (Inr _, w1) \<Rightarrow> (Inr jwtToken, syncBroker X now (g_ID gate) jwtToken w1))))"

section \<open>Trigger\<close>

text \<open>
  The two schedule checks of \<open>Trigger\<close>: a link that does not exist is no restriction, any
  other failure refuses. \<open>which\<close> is the word the error messages use.
\<close>

definition check_linked_schedule :: "'r env \<Rightarrow> int \<Rightarrow> db \<Rightarrow> string \<Rightarrow> uuid res \<Rightarrow> unit res" where
  "check_linked_schedule X now d which link =
     (case link of
        Inr scheduleID \<Rightarrow>
          (case schedule_GetPublic (x_dbFault X now) d scheduleID of
             Inl e \<Rightarrow> Inl (wrap (''load '' @ which @ '' schedule'') e)
           | Inr schedule \<Rightarrow>
               (case Check schedule (go_now X now) of
                  Inl _ \<Rightarrow> Inl ErrScheduleDenied
                | Inr _ \<Rightarrow> Inr ()))
      | Inl e \<Rightarrow> if errIs e ErrNotFound then Inr () else Inl (wrap (''lookup '' @ which @ '' schedule'') e))"

definition permCode_of :: "string \<Rightarrow> string" where
  "permCode_of action = (if action = ''close'' then PermTriggerClose else PermTriggerOpen)"

text \<open>The policy check of a credential: \<open>Inr True\<close> means the member check is still needed.\<close>

definition check_credential_policies :: "'r env \<Rightarrow> int \<Rightarrow> db \<Rightarrow> uuid \<Rightarrow> string \<Rightarrow> uuid \<Rightarrow> string \<Rightarrow> bool res" where
  "check_credential_policies X now d gateID role credentialID permCode =
     (let flt = x_dbFault X now; needsMemberCheck = (role = RoleMember)
      in if credentialID = uuid_Nil then Inr needsMemberCheck
         else case credPolicies_HasAny flt d credentialID of
           Inl e \<Rightarrow> Inl (wrap ''check credential policies'' e)
         | Inr hasCredPolicies \<Rightarrow>
             if hasCredPolicies then
               (case credPolicies_HasPermission flt d credentialID gateID permCode of
                  Inl e \<Rightarrow> Inl (wrap ''check credential permission'' e)
                | Inr ok \<Rightarrow> if \<not> ok then Inl ErrUnauthorized else Inr False)
             else Inr needsMemberCheck)"

definition check_member_policy :: "'r env \<Rightarrow> int \<Rightarrow> db \<Rightarrow> uuid \<Rightarrow> uuid \<Rightarrow> string \<Rightarrow> unit res" where
  "check_member_policy X now d gateID memberID permCode =
     (case svc_HasPermission (x_dbFault X now) d memberID gateID permCode of
        Inl e \<Rightarrow> Inl (wrap ''check permission'' e)
      | Inr ok \<Rightarrow> if \<not> ok then Inl ErrUnauthorized else Inr ())"

text \<open>The checks of \<open>Trigger\<close> in their order, up to the row of the gate.\<close>

definition trigger_checks :: "'r env \<Rightarrow> int \<Rightarrow> db \<Rightarrow> uuid \<Rightarrow> string \<Rightarrow> uuid \<Rightarrow> uuid \<Rightarrow> string \<Rightarrow> gate res" where
  "trigger_checks X now d gateID role memberID credentialID permCode =
     (let flt = x_dbFault X now
      in rbind (if credentialID \<noteq> uuid_Nil
                then check_linked_schedule X now d ''credential'' (credPolicies_GetScheduleID flt d credentialID)
                else Inr ()) (\<lambda>_.
         rbind (check_credential_policies X now d gateID role credentialID permCode) (\<lambda>needsMemberCheck.
         rbind (if needsMemberCheck then check_member_policy X now d gateID memberID permCode else Inr ()) (\<lambda>_.
         rbind (if role = RoleMember \<or> credentialID \<noteq> uuid_Nil
                then check_linked_schedule X now d ''member'' (svc_GetMemberGateScheduleID flt d memberID gateID)
                else Inr ()) (\<lambda>_.
         gates_GetByID flt d gateID)))))"

definition gate_Trigger :: "'r env \<Rightarrow> int \<Rightarrow> uuid \<Rightarrow> string \<Rightarrow> uuid \<Rightarrow> uuid \<Rightarrow> string \<Rightarrow> 'r world \<Rightarrow> unit res \<times> 'r world" where
  "gate_Trigger X now gateID role memberID credentialID action w =
     (case trigger_checks X now (w_db w) gateID role memberID credentialID (permCode_of action) of
        Inl e \<Rightarrow> (Inl e, w)
      | Inr gate \<Rightarrow> (Inr (), snd (audit_Insert gateID memberID (permCode_of action) (emit (EvTrigger gate action) w))))"

section \<open>When a command reaches a gate\<close>

definition link_ok :: "'r env \<Rightarrow> int \<Rightarrow> db \<Rightarrow> uuid option \<Rightarrow> bool" where
  "link_ok X now d l = (case l of
      None \<Rightarrow> True
    | Some s \<Rightarrow> (case schedule_row d s of None \<Rightarrow> False | Some sch \<Rightarrow> Check sch (go_now X now) = Inr ()))"

definition token_restricted :: "db \<Rightarrow> uuid \<Rightarrow> bool" where
  "token_restricted d c = list_ex (\<lambda>p. po_Subject p = CredentialOf c) (db_policies d)"

definition trigger_allowed :: "'r env \<Rightarrow> int \<Rightarrow> db \<Rightarrow> uuid \<Rightarrow> string \<Rightarrow> uuid \<Rightarrow> uuid \<Rightarrow> string \<Rightarrow> bool" where
  "trigger_allowed X now d gateID role memberID credentialID permCode =
     (gate_row d gateID \<noteq> None
      \<and> (credentialID \<noteq> uuid_Nil \<longrightarrow> link_ok X now d (find_link (CredentialOf credentialID) None d))
      \<and> (if credentialID \<noteq> uuid_Nil \<and> token_restricted d credentialID
         then token_has d credentialID gateID permCode
         else role = RoleMember \<longrightarrow> member_has d memberID gateID permCode)
      \<and> (role = RoleMember \<or> credentialID \<noteq> uuid_Nil \<longrightarrow>
           link_ok X now d (find_link (Membership memberID) (Some gateID) d)))"

lemma check_linked_ok:
  assumes "check_linked_schedule X now d which (case l of None \<Rightarrow> Inl ErrNotFound | Some s \<Rightarrow> Inr s) = Inr ()"
  shows "link_ok X now d l"
  using assms by (auto simp: check_linked_schedule_def link_ok_def schedule_GetPublic_def schedules_GetByIDPublic_def
      schedules_GetByID_def scan_one_def split: option.splits sum.splits if_splits)

lemma check_linked_err: "check_linked_schedule X now d which (Inl (db_err e)) \<noteq> Inr ()"
  by (simp add: check_linked_schedule_def)

lemma check_linked_credential:
  "check_linked_schedule X now d which (credPolicies_GetScheduleID flt d c) = Inr ()
   \<Longrightarrow> link_ok X now d (find_link (CredentialOf c) None d)"
  unfolding credPolicies_GetScheduleID_def by (auto simp: check_linked_err intro: check_linked_ok split: if_splits)

lemma check_linked_member:
  "check_linked_schedule X now d which (svc_GetMemberGateScheduleID flt d m g) = Inr ()
   \<Longrightarrow> link_ok X now d (find_link (Membership m) (Some g) d)"
  unfolding svc_GetMemberGateScheduleID_def policies_GetScheduleID_def
  by (auto simp: check_linked_err intro: check_linked_ok split: if_splits)

lemma check_linked_complete:
  assumes "\<And>s. \<not> x_dbFault X now ''schedules.GetByID'' s" and "link_ok X now d l"
  shows "check_linked_schedule X now d which (case l of None \<Rightarrow> Inl ErrNotFound | Some s \<Rightarrow> Inr s) = Inr ()"
  using assms by (auto simp: check_linked_schedule_def link_ok_def schedule_GetPublic_def schedules_GetByIDPublic_def
      schedules_GetByID_def scan_one_def split: option.splits sum.splits if_splits)

lemma check_credential_policies_Inr:
  assumes "check_credential_policies X now d g role c perm = Inr b"
  shows "if c \<noteq> uuid_Nil \<and> token_restricted d c then token_has d c g perm \<and> \<not> b else b = (role = RoleMember)"
  using assms HasPermission_iff(2) [of "x_dbFault X now" d c g perm True]
  by (auto simp: check_credential_policies_def credPolicies_HasAny_def token_restricted_def Let_def
      split: if_splits sum.splits)

lemma check_member_policy_Inr:
  "check_member_policy X now d g m perm = Inr () \<Longrightarrow> member_has d m g perm"
  using HasPermission_iff(1) [of "x_dbFault X now" d m g perm True]
  by (auto simp: check_member_policy_def svc_HasPermission_def split: sum.splits if_splits)

lemma gates_GetByID_ok: "gates_GetByID flt d i = Inr g \<Longrightarrow> \<exists>row. gate_row d i = Some row \<and> g = scanGate row"
  by (auto simp: gates_GetByID_def split: if_splits option.splits)

lemma trigger_checks_allowed:
  assumes "trigger_checks X now d gateID role memberID credentialID perm = Inr g"
  shows "trigger_allowed X now d gateID role memberID credentialID perm
    \<and> (\<exists>row. gate_row d gateID = Some row \<and> g = scanGate row)"
proof -
  from assms obtain b u1 u3 u4 where
    c1: "(if credentialID \<noteq> uuid_Nil then check_linked_schedule X now d ''credential''
          (credPolicies_GetScheduleID (x_dbFault X now) d credentialID) else Inr ()) = Inr u1"
    and s2: "check_credential_policies X now d gateID role credentialID perm = Inr b"
    and c3: "(if b then check_member_policy X now d gateID memberID perm else Inr ()) = Inr u3"
    and c4: "(if role = RoleMember \<or> credentialID \<noteq> uuid_Nil then check_linked_schedule X now d ''member''
          (svc_GetMemberGateScheduleID (x_dbFault X now) d memberID gateID) else Inr ()) = Inr u4"
    and s5: "gates_GetByID (x_dbFault X now) d gateID = Inr g"
    unfolding trigger_checks_def Let_def rbind_Inr_iff by (elim exE conjE) (rule that)
  from gates_GetByID_ok [OF s5] obtain row where row: "gate_row d gateID = Some row" "g = scanGate row" by blast
  have s1: "credentialID \<noteq> uuid_Nil \<Longrightarrow> link_ok X now d (find_link (CredentialOf credentialID) None d)"
    using c1 by (simp add: check_linked_credential)
  have s3: "b \<Longrightarrow> member_has d memberID gateID perm"
    using c3 by (simp add: check_member_policy_Inr)
  have s4: "role = RoleMember \<or> credentialID \<noteq> uuid_Nil \<Longrightarrow> link_ok X now d (find_link (Membership memberID) (Some gateID) d)"
    using c4 by (simp add: check_linked_member)
  have "trigger_allowed X now d gateID role memberID credentialID perm"
    unfolding trigger_allowed_def
    using row s1 s3 s4 check_credential_policies_Inr [OF s2] by (auto split: if_splits)
  with row show ?thesis by blast
qed


lemma trigger_allowed_succeeds:
  assumes "\<And>op key. \<not> x_dbFault X now op key"
    and "trigger_allowed X now (w_db w) gateID role memberID credentialID (permCode_of action)"
  shows "fst (gate_Trigger X now gateID role memberID credentialID action w) = Inr ()"
proof -
  let ?d = "w_db w" and ?perm = "permCode_of action"
  note A = assms(2) [unfolded trigger_allowed_def]
  have s1: "check_linked_schedule X now ?d ''credential'' (credPolicies_GetScheduleID (x_dbFault X now) ?d credentialID) = Inr ()"
    if "credentialID \<noteq> uuid_Nil"
    using A that assms(1) unfolding credPolicies_GetScheduleID_def by (simp add: check_linked_complete)
  have s4: "check_linked_schedule X now ?d ''member'' (svc_GetMemberGateScheduleID (x_dbFault X now) ?d memberID gateID) = Inr ()"
    if "role = RoleMember \<or> credentialID \<noteq> uuid_Nil"
    using A that assms(1) unfolding svc_GetMemberGateScheduleID_def policies_GetScheduleID_def by (simp add: check_linked_complete)
  have cp: "credPolicies_HasPermission (x_dbFault X now) ?d credentialID gateID ?perm = Inr (token_has ?d credentialID gateID ?perm)"
    and mp: "policies_HasPermission (x_dbFault X now) ?d memberID gateID ?perm = Inr (member_has ?d memberID gateID ?perm)"
    by (simp_all add: HasPermission_iff assms(1))
  obtain b where s2: "check_credential_policies X now ?d gateID role credentialID ?perm = Inr b"
    and b: "b \<Longrightarrow> member_has ?d memberID gateID ?perm"
    using A assms(1) cp
    by (cases "credentialID \<noteq> uuid_Nil \<and> token_restricted ?d credentialID")
       (auto simp: check_credential_policies_def credPolicies_HasAny_def token_restricted_def Let_def)
  have s3: "check_member_policy X now ?d gateID memberID ?perm = Inr ()" if b
    using b [OF that] mp by (simp add: check_member_policy_def svc_HasPermission_def)
  obtain row where "gate_row ?d gateID = Some row" using A by auto
  then have s5: "gates_GetByID (x_dbFault X now) ?d gateID = Inr (scanGate row)"
    by (simp add: gates_GetByID_def assms(1))
  have e1: "(if credentialID \<noteq> uuid_Nil then check_linked_schedule X now ?d ''credential''
      (credPolicies_GetScheduleID (x_dbFault X now) ?d credentialID) else Inr ()) = Inr ()"
    using s1 by simp
  have e3: "(if b then check_member_policy X now ?d gateID memberID ?perm else Inr ()) = Inr ()"
    using s3 by simp
  have e4: "(if role = RoleMember \<or> credentialID \<noteq> uuid_Nil then check_linked_schedule X now ?d ''member''
      (svc_GetMemberGateScheduleID (x_dbFault X now) ?d memberID gateID) else Inr ()) = Inr ()"
    using s4 by simp
  show ?thesis
    by (simp only: gate_Trigger_def trigger_checks_def Let_def e1 s2 e3 e4 s5 rbind_simps sum.case fst_conv)
qed

text \<open>
  C13: Completeness of the trigger endpoint: when the database answers, every call that
  the permissions and the schedules allow succeeds, so the endpoint refuses nobody else.
\<close>

theorem trigger_complete:
  assumes "\<And>op key. \<not> x_dbFault X now op key"
    and "trigger_allowed X now (w_db w) gateID role memberID credentialID (permCode_of action)"
  shows "fst (gate_Trigger X now gateID role memberID credentialID action w) = Inr ()"
  using assms by (rule trigger_allowed_succeeds)

theorem trigger_complete_witness:
  "fst (gate_Trigger (sample_env []) 0 1 RoleMember 2 uuid_Nil ''open'' (sample_world sample_db)) = Inr ()
   \<and> fst (gate_Trigger (sample_env []) 0 1 RoleMember 2 uuid_Nil ''close'' (sample_world sample_db)) = Inl ErrUnauthorized"
proof -
  have "trigger_allowed (sample_env []) 0 (w_db (sample_world sample_db)) 1 RoleMember 2 uuid_Nil (permCode_of ''open'')"
    by code_simp
  moreover have "fst (gate_Trigger (sample_env []) 0 1 RoleMember 2 uuid_Nil ''close'' (sample_world sample_db)) = Inl ErrUnauthorized"
    by code_simp
  ultimately show ?thesis
    using trigger_complete [of "sample_env []" 0 "sample_world sample_db" 1 RoleMember 2 uuid_Nil "''open''"] by simp
qed

section \<open>The token life cycle\<close>

lemma ParseGateToken_issued:
  assumes "jwt_ok X" and "uuid_ok X" and "IssueGateToken X now gateID = Inr tok"
  shows "ParseGateToken X now' tok = Inr gateID"
proof -
  from assms(3) have s: "x_jwtSign X (cf_jwtSecret X) (gateTokenClaims X now gateID) = Some tok"
    by (auto simp: IssueGateToken_def split: option.splits)
  have "exp_valid now' False (gateTokenClaims X now gateID)"
    by (simp add: exp_valid_def gateTokenClaims_def)
  with s assms(1) have "x_jwtParse X (keyFunc X) now' False tok = Some (gateTokenClaims X now gateID)"
    unfolding jwt_ok_def by (metis keyFunc_def)
  with assms(2) show ?thesis
    by (simp add: ParseGateToken_def gateTokenClaims_def str_field_def uuid_ok_def)
qed

lemma RotateToken_ok:
  assumes "fst (gate_RotateToken X now gateID w) = Inr tok"
  shows "IssueGateToken X now gateID = Inr tok"
    and "fst (gates_SetToken (x_dbFault X now) (w_db w) gateID tok) = Inr ()"
    and "w_db (snd (gate_RotateToken X now gateID w)) = snd (gates_SetToken (x_dbFault X now) (w_db w) gateID tok)"
proof -
  have b: "w_db (syncBroker X now i t w') = w_db w'" for i t w' by (simp add: syncBroker_def)
  from assms obtain g where g: "gates_GetByID (x_dbFault X now) (w_db w) gateID = Inr g"
    by (auto simp: gate_RotateToken_def Let_def split: sum.splits)
  then have i: "g_ID g = gateID" using gates_GetByID_ok gate_row_SomeD by fastforce
  from assms g i show "IssueGateToken X now gateID = Inr tok"
    and "fst (gates_SetToken (x_dbFault X now) (w_db w) gateID tok) = Inr ()"
    and "w_db (snd (gate_RotateToken X now gateID w)) = snd (gates_SetToken (x_dbFault X now) (w_db w) gateID tok)"
    by (auto simp: gate_RotateToken_def Let_def on_db_def b split: sum.splits)
qed

text \<open>
  C9: Rotating the token of a gate takes effect at once: the returned token authenticates
  that gate, every other token presented for it is refused (the old one in particular), and the
  tokens of all other gates keep working. The token itself names the gate at any later time.
\<close>

theorem rotate_invalidates:
  assumes "jwt_ok X" and "uuid_ok X"
    and "fst (gate_RotateToken X now gateID w) = Inr tok"
    and "\<not> x_dbFault X now' ''gates.GetByToken'' gateID"
  defines "d' \<equiv> w_db (snd (gate_RotateToken X now gateID w))"
  shows "(\<exists>g. AuthenticateToken X now' d' tok = Inr g \<and> g_ID g = gateID)
    \<and> (\<forall>old. old \<noteq> tok \<and> ParseGateToken X now' old = Inr gateID \<longrightarrow> \<not> is_ok (AuthenticateToken X now' d' old))
    \<and> (\<forall>t j. j \<noteq> gateID \<and> ParseGateToken X now' t = Inr j \<longrightarrow>
          is_ok (AuthenticateToken X now' d' t) = is_ok (AuthenticateToken X now' (w_db w) t))"
proof -
  note R = RotateToken_ok [OF assms(3)]
  have p: "ParseGateToken X now' tok = Inr gateID"
    by (rule ParseGateToken_issued [OF assms(1,2) R(1)])
  have acc: "token_matches d' j s \<longleftrightarrow> (if j = gateID then s = tok else token_matches (w_db w) j s)" for j s
    unfolding d'_def R(3) by (rule gt.accepts_set [OF R(2)])
  have auth: "is_ok (AuthenticateToken X now' d t) \<longleftrightarrow> \<not> x_dbFault X now' ''gates.GetByToken'' j \<and> token_matches d j t"
    if "ParseGateToken X now' t = Inr j" for d t j
    by (simp add: AuthenticateToken_def that gates_GetByToken_ok_iff)
  have "is_ok (AuthenticateToken X now' d' tok)"
    by (simp add: auth [OF p] acc assms(4))
  then obtain g where g: "AuthenticateToken X now' d' tok = Inr g" by (rule is_okE)
  then have "g_ID g = gateID"
    by (simp add: AuthenticateToken_def p gates_GetByToken_id)
  with g show ?thesis using auth acc by auto
qed

text \<open>The token that the sample environment signs for gate 1 at instant 0.\<close>

definition sample_gate_table :: token_table where
  "sample_gate_table = [(''gate-jwt'', ''secret'',
     [(''jti'', VStr (unary 3)), (''sub'', VStr (unary 1)), (''iat'', num_date 0), (''type'', VStr ''gate_token'')])]"

theorem rotate_invalidates_witness:
  "let X = sample_env sample_gate_table; w = sample_world sample_db; r = gate_RotateToken X 0 1 w
   in fst r = Inr ''gate-jwt'' \<and> (\<exists>g. AuthenticateToken X 7 (w_db (snd r)) ''gate-jwt'' = Inr g \<and> g_ID g = 1)"
proof -
  let ?X = "sample_env sample_gate_table"
  have "jwt_ok ?X" by (rule sample_jwt_ok) (simp add: sample_gate_table_def)
  moreover have r: "fst (gate_RotateToken ?X 0 1 (sample_world sample_db)) = Inr ''gate-jwt''" by code_simp
  ultimately have "\<exists>g. AuthenticateToken ?X 7 (w_db (snd (gate_RotateToken ?X 0 1 (sample_world sample_db)))) ''gate-jwt'' = Inr g \<and> g_ID g = 1"
    using rotate_invalidates [of ?X 0 1 "sample_world sample_db" "''gate-jwt''" 7] by (simp add: sample_uuid_ok)
  with r show ?thesis by (simp add: Let_def)
qed

section \<open>What a status report does\<close>


section \<open>Who sees the metadata of a gate\<close>

text \<open>
  A plain member gets the metadata of a gate from \<open>Get\<close> only with the read-status
  permission on it, but \<open>List\<close> returns the stored metadata of every listed gate, also to a member
  who has only a trigger permission.
\<close>

theorem metadata_visibility:
  "(gate_Get X now d gateID RoleMember memberID = Inr g \<and> g_StatusMetadata g \<noteq> None
      \<longrightarrow> member_has d memberID gateID PermReadStatus)
   \<and> (gate_List X now d role memberID p = Inr (gs, n_total) \<and> g' \<in> set gs
      \<longrightarrow> (\<exists>row \<in> set (visible_gates d role memberID). g_ID g' = g_ID row \<and> g_StatusMetadata g' = g_StatusMetadata row))"
proof -
  have "member_has d memberID gateID PermReadStatus"
    if "gate_Get X now d gateID RoleMember memberID = Inr g" "g_StatusMetadata g \<noteq> None"
  proof -
    from that obtain g0 where "gates_GetByID (x_dbFault X now) d gateID = Inr g0"
      and h: "svc_HasPermission (x_dbFault X now) d memberID (g_ID g0) PermReadStatus = Inr True"
      by (auto simp: gate_Get_def Let_def with_effective_def split: sum.splits if_splits)
    then have "g_ID g0 = gateID" using gates_GetByID_ok gate_row_SomeD by fastforce
    with h show ?thesis by (simp add: svc_HasPermission_def HasPermission_iff)
  qed
  moreover have "\<exists>row \<in> set (visible_gates d role memberID). g_ID g' = g_ID row \<and> g_StatusMetadata g' = g_StatusMetadata row"
    if "gate_List X now d role memberID p = Inr (gs, n_total)" "g' \<in> set gs"
  proof -
    from that obtain x where "x \<in> set (page (Normalize p) (sort_key (\<lambda>g. - g_CreatedAt g) (visible_gates d role memberID)))"
      and "g' = with_effective now (scanGate x)"
      by (auto simp: gate_List_def gates_List_def Let_def split: sum.splits if_splits)
    then show ?thesis using set_page_subset [of "Normalize p"] by (fastforce simp: with_effective_def)
  qed
  ultimately show ?thesis by blast
qed

text \<open>Ana may only open the gate; the device has reported a temperature.\<close>

definition sample_reported_db :: db where
  "sample_reported_db = snd (gates_UpdateStatus no_faults sample_db 5 1 ''open'' (Some [(''temp'', VNum (Fin 21))]))"

theorem metadata_visibility_witness:
  "(\<exists>gs n g'. gate_List (sample_env []) 9 sample_reported_db RoleMember 2 \<lparr>pg_Limit = 10, pg_Offset = 0\<rparr> = Inr (gs, n)
        \<and> g' \<in> set gs \<and> g_StatusMetadata g' = Some [(''temp'', VNum (Fin 21))]
        \<and> (\<exists>row \<in> set (visible_gates sample_reported_db RoleMember 2). g_ID g' = g_ID row))
   \<and> \<not> member_has sample_reported_db 2 1 PermReadStatus"
proof -
  let ?L = "gate_List (sample_env []) 9 sample_reported_db RoleMember 2 \<lparr>pg_Limit = 10, pg_Offset = 0\<rparr>"
  have "(case ?L of Inr ([g'], n) \<Rightarrow> n = 1 \<and> g_StatusMetadata g' = Some [(''temp'', VNum (Fin 21))] | _ \<Rightarrow> False)"
    by code_simp
  then obtain g' where L: "?L = Inr ([g'], 1)" and m: "g_StatusMetadata g' = Some [(''temp'', VNum (Fin 21))]"
    by (auto split: sum.splits prod.splits list.splits)
  moreover have "\<not> member_has sample_reported_db 2 1 PermReadStatus" by code_simp
  moreover have "\<exists>row \<in> set (visible_gates sample_reported_db RoleMember 2). g_ID g' = g_ID row"
    using metadata_visibility [of "sample_env []" 9 sample_reported_db 1 2 g' RoleMember "\<lparr>pg_Limit = 10, pg_Offset = 0\<rparr>" "[g']" 1 g'] L
    by auto
  ultimately show ?thesis by auto
qed

end
