(* ===== verification/Http_Client.thy ===== *)
theory Http_Client
  imports Gate_Service
begin

text \<open>
  What the HTTP driver (\<open>internal/integration/http.go\<close>) and the webhook worker share: a request
  built from a gate's configuration, with the \<open>net/http\<close> functions it uses. Header names
  are case-insensitive; a header is kept under its lower-case name. The map of headers is
  visited in the order of its members.
\<close>

section \<open>Headers\<close>

definition header_Set :: "string \<Rightarrow> string \<Rightarrow> (string \<times> string) list \<Rightarrow> (string \<times> string) list" where
  "header_Set k v hs = AList.update (ToLower k) v hs"

definition header_Get :: "string \<Rightarrow> (string \<times> string) list \<Rightarrow> string" where
  "header_Get k hs = (case map_of hs (ToLower k) of None \<Rightarrow> [] | Some v \<Rightarrow> v)"

lemma header_Get_Set: "header_Get k (header_Set k' v hs) = (if ToLower k = ToLower k' then v else header_Get k hs)"
  by (simp add: header_Get_def header_Set_def update_conv)

section \<open>Building a request\<close>

text \<open>\<open>http.NewRequest\<close> wants a method made of token characters and a URL that parses.\<close>

definition is_token_char :: "char \<Rightarrow> bool" where
  "is_token_char c = (is_digit c \<or> is_upper c \<or> is_lower c \<or> c \<in> set (''!#$%&*+-.^_`|~'' @ [char_of (39 :: nat)]))"

definition valid_method :: "string \<Rightarrow> bool" where
  "valid_method m = (m \<noteq> [] \<and> list_all is_token_char m)"

definition NewRequest :: "'r env \<Rightarrow> string \<Rightarrow> string \<Rightarrow> string \<Rightarrow> http_request res" where
  "NewRequest X method url body =
     (if \<not> valid_method method then Inl (Errorf ''net/http: invalid method %q'' [AStr method])
      else case x_urlScheme X url of
        None \<Rightarrow> Inl (ErrExternal ''url.Parse'')
      | Some _ \<Rightarrow> Inr \<lparr>hq_Method = method, hq_URL = url, hq_Headers = [], hq_Body = body\<rparr>)"

definition set_headers :: "(string \<times> string) list \<Rightarrow> string \<Rightarrow> http_request \<Rightarrow> http_request" where
  "set_headers headers body req =
     (let hs = fold (\<lambda>(k, v). header_Set k v) headers (hq_Headers req)
      in req\<lparr>hq_Headers := (if body \<noteq> [] \<and> header_Get ''Content-Type'' hs = []
               then header_Set ''Content-Type'' ''application/json'' hs else hs)\<rparr>)"

section \<open>Reading the configuration of a request\<close>

definition config_method :: "string \<Rightarrow> gmap \<Rightarrow> string" where
  "config_method default_method cfg = (case map_of cfg ''method'' of
      Some (VStr m) \<Rightarrow> if m \<noteq> [] then ToUpper m else default_method
    | _ \<Rightarrow> default_method)"

fun string_members :: "gmap \<Rightarrow> (string \<times> string) list" where
  "string_members [] = []"
| "string_members ((k, v) # m) = (case v of VStr s \<Rightarrow> (k, s) # string_members m | _ \<Rightarrow> string_members m)"

definition config_headers :: "gmap \<Rightarrow> (string \<times> string) list" where
  "config_headers cfg = (case map_of cfg ''headers'' of Some (VObj h) \<Rightarrow> string_members h | _ \<Rightarrow> [])"

lemma content_type_default:
  "hq_Body r = b \<Longrightarrow> b \<noteq> [] \<Longrightarrow> header_Get ''Content-Type'' (hq_Headers (set_headers hs b r)) \<noteq> []"
  by (simp add: set_headers_def Let_def header_Get_Set)

lemma set_headers_sel [simp]:
  "hq_Method (set_headers hs b r) = hq_Method r" "hq_URL (set_headers hs b r) = hq_URL r"
  "hq_Body (set_headers hs b r) = hq_Body r"
  by (simp_all add: set_headers_def Let_def)

lemma NewRequest_ok:
  "NewRequest X m u b = Inr r \<longleftrightarrow> valid_method m \<and> x_urlScheme X u \<noteq> None
     \<and> r = \<lparr>hq_Method = m, hq_URL = u, hq_Headers = [], hq_Body = b\<rparr>"
  by (auto simp: NewRequest_def split: option.splits)

end
