(* ===== verification/Net_Guard.thy ===== *)
theory Net_Guard
  imports Http_Client
begin

text \<open>
  The SSRF protection of \<open>internal/integration/http.go\<close>: the list of private networks, the
  allowed exceptions and the dial function of the gates' HTTP client, over the \<open>net\<close> functions it
  uses (\<open>ParseIP\<close>, \<open>ParseCIDR\<close>, \<open>IPNet.Contains\<close>). An address is its 16-byte form as a word, an
  IPv4 address the mapped one, as in the \<open>net\<close> package. The resolver is a parameter.
\<close>

section \<open>Parsing addresses\<close>

text \<open>One field of a dotted quad.\<close>

definition octet_of :: "string \<Rightarrow> int option" where
  "octet_of s = (if s \<noteq> [] \<and> list_all is_digit s \<and> (hd s = CHR ''0'' \<longrightarrow> s = ''0'') \<and> digits_val s \<le> 255
     then Some (digits_val s) else None)"

definition parseIPv4 :: "string \<Rightarrow> int option" where
  "parseIPv4 s = (case List.map octet_of (split_on CHR ''.'' s) of
      [Some a, Some b, Some c, Some d] \<Rightarrow> Some (((a * 256 + b) * 256 + c) * 256 + d)
    | _ \<Rightarrow> None)"

text \<open>
  The loop of \<open>parseIPv6\<close> over the groups of 16 bits: the groups read, the place of the
  ellipsis and what is left of the string; the first argument counts the groups there is room for.
\<close>

fun v6_groups :: "nat \<Rightarrow> string \<Rightarrow> int list \<Rightarrow> nat option \<Rightarrow> (int list \<times> nat option \<times> string) option" where
  "v6_groups 0 s gs el = Some (gs, el, s)"
| "v6_groups (Suc left) s gs el =
     (let hex = takeWhile is_hex_digit s; rest = drop (length hex) s
      in if hex = [] \<or> 4 < length hex then None
         else if rest \<noteq> [] \<and> hd rest = CHR ''.'' then
           (if el = None \<and> length gs \<noteq> 6 \<or> left = 0 then None
            else case parseIPv4 s of
              None \<Rightarrow> None
            | Some v \<Rightarrow> Some (gs @ [v div 65536, v mod 65536], el, []))
         else (let gs' = gs @ [digits_in 16 hex]
               in case rest of
                    [] \<Rightarrow> Some (gs', el, [])
                  | c # s1 \<Rightarrow>
                      if c \<noteq> CHR '':'' \<or> s1 = [] then None
                      else if hd s1 = CHR '':'' then
                        (if el \<noteq> None then None
                         else if tl s1 = [] then Some (gs', Some (length gs'), [])
                         else v6_groups left (tl s1) gs' (Some (length gs')))
                      else v6_groups left s1 gs' el))"

definition parseIPv6 :: "string \<Rightarrow> int list option" where
  "parseIPv6 s =
     (let lead = HasPrefix s ''::''; s0 = (if lead then drop 2 s else s)
      in if lead \<and> s0 = [] then Some (replicate 8 0)
         else case v6_groups 8 s0 [] (if lead then Some 0 else None) of
           None \<Rightarrow> None
         | Some (gs, el, rest) \<Rightarrow>
             if rest \<noteq> [] then None
             else if length gs < 8 then
               (case el of None \<Rightarrow> None | Some e \<Rightarrow> Some (take e gs @ replicate (8 - length gs) 0 @ drop e gs))
             else if el \<noteq> None then None else Some gs)"

datatype addr = Is4 int | Is6 "int list"

text \<open>\<open>netip.ParseAddr\<close> of an address without a zone: the first of these characters decides.\<close>

definition ParseAddr :: "string \<Rightarrow> addr option" where
  "ParseAddr s = (if CHR ''%'' \<in> set s then None
     else case List.find (\<lambda>c. c = CHR ''.'' \<or> c = CHR '':'') s of
       None \<Rightarrow> None
     | Some c \<Rightarrow> if c = CHR ''.'' then map_option Is4 (parseIPv4 s) else map_option Is6 (parseIPv6 s))"

definition As16 :: "addr \<Rightarrow> 128 word" where
  "As16 a = (case a of
      Is4 v \<Rightarrow> word_of_int (65535 * 2 ^ 32 + v)
    | Is6 gs \<Rightarrow> word_of_int (foldl (\<lambda>n g. 65536 * n + g) 0 gs))"

definition ParseIP :: "string \<Rightarrow> 128 word option" where
  "ParseIP s = map_option As16 (ParseAddr s)"

definition To4 :: "128 word \<Rightarrow> 32 word option" where
  "To4 ip = (if drop_bit 32 ip = 65535 then Some (ucast ip) else None)"

section \<open>Networks\<close>

text \<open>A network with the length of its mask, in the 4-byte or the 16-byte form.\<close>

datatype ipnet = Net4 "32 word" nat | Net6 "128 word" nat

definition ParseCIDR :: "string \<Rightarrow> ipnet option" where
  "ParseCIDR s =
     (if CHR ''/'' \<notin> set s then None
      else let a = takeWhile (\<lambda>c. c \<noteq> CHR ''/'') s; m = tl (dropWhile (\<lambda>c. c \<noteq> CHR ''/'') s); n = digits_val m
           in if m = [] \<or> \<not> list_all is_digit m then None
              else case ParseAddr a of
                None \<Rightarrow> None
              | Some (Is4 v) \<Rightarrow>
                  if n \<le> 32 then Some (Net4 (push_bit (32 - nat n) (drop_bit (32 - nat n) (word_of_int v))) (nat n)) else None
              | Some (Is6 gs) \<Rightarrow>
                  if n \<le> 128 then Some (Net6 (push_bit (128 - nat n) (drop_bit (128 - nat n) (As16 (Is6 gs)))) (nat n)) else None)"

text \<open>
  A network in the 16-byte form whose address is a mapped IPv4 address is one of the 4-byte
  form; otherwise IPv4 addresses are only in networks of the 4-byte form.
\<close>

definition Contains :: "ipnet \<Rightarrow> 128 word \<Rightarrow> bool" where
  "Contains net ip = (case net of
      Net4 a n \<Rightarrow> (case To4 ip of None \<Rightarrow> False | Some x \<Rightarrow> drop_bit (32 - n) x = drop_bit (32 - n) a)
    | Net6 a n \<Rightarrow>
        (case (To4 a, To4 ip) of
           (Some a', Some x) \<Rightarrow> drop_bit (128 - n) x = drop_bit (128 - n) a'
         | (None, None) \<Rightarrow> drop_bit (128 - n) ip = drop_bit (128 - n) a
         | _ \<Rightarrow> False))"

section \<open>The filter\<close>

definition privateIPBlocks :: "string list" where
  "privateIPBlocks = [''10.0.0.0/8'', ''172.16.0.0/12'', ''192.168.0.0/16'', ''127.0.0.0/8'', ''169.254.0.0/16'',
     ''100.64.0.0/10'', ''::1/128'', ''fc00::/7'', ''fe80::/10'']"

definition privateIPNets :: "ipnet list" where
  "privateIPNets = List.map_filter ParseCIDR privateIPBlocks"

definition isPrivateIP :: "string \<Rightarrow> bool" where
  "isPrivateIP addr = (case ParseIP addr of None \<Rightarrow> False | Some ip \<Rightarrow> list_ex (\<lambda>block. Contains block ip) privateIPNets)"

definition isAllowed :: "string \<Rightarrow> ipnet list \<Rightarrow> bool" where
  "isAllowed addr cidrs = (case ParseIP addr of None \<Rightarrow> False | Some ip \<Rightarrow> list_ex (\<lambda>cidr. Contains cidr ip) cidrs)"

text \<open>
  \<open>resolve\<close> gives the addresses of a host at its first, second, ... lookup of a dial; the
  dialer looks the host up again and connects to one of the addresses it gets.
\<close>

definition ssrf_check :: "ipnet list \<Rightarrow> string list \<Rightarrow> unit res" where
  "ssrf_check allowedCIDRs addrs =
     (case List.find (\<lambda>a. isPrivateIP a \<and> \<not> isAllowed a allowedCIDRs) addrs of
        Some a \<Rightarrow> Inl (Errorf ''http driver: target resolves to a private/reserved IP (%s), blocked for security'' [AStr a])
      | None \<Rightarrow> Inr ())"

definition ssrfSafeDialContext :: "ipnet list \<Rightarrow> (nat \<Rightarrow> string \<Rightarrow> string list option) \<Rightarrow> string \<Rightarrow> string list res" where
  "ssrfSafeDialContext allowedCIDRs resolve host =
     (case resolve 0 host of
        None \<Rightarrow> Inl (Wrapf ''ssrf check: resolve %s: %w'' [AStr host] (ErrExternal ''lookup''))
      | Some addrs \<Rightarrow>
          rbind (ssrf_check allowedCIDRs addrs) (\<lambda>_.
            case resolve 1 host of None \<Rightarrow> Inl (ErrExternal ''dial'') | Some targets \<Rightarrow> Inr targets))"

section \<open>Which addresses are private\<close>

definition dotted_quad :: "int \<Rightarrow> int \<Rightarrow> int \<Rightarrow> int \<Rightarrow> string" where
  "dotted_quad a b c d = join_with ''.'' [Itoa a, Itoa b, Itoa c, Itoa d]"

definition quad_val :: "int \<Rightarrow> int \<Rightarrow> int \<Rightarrow> int \<Rightarrow> int" where
  "quad_val a b c d = ((a * 256 + b) * 256 + c) * 256 + d"

abbreviation is_octet :: "int \<Rightarrow> bool" where "is_octet n \<equiv> 0 \<le> n \<and> n \<le> 255"

lemma octet_Itoa:
  assumes "is_octet n"
  shows "octet_of (Itoa n) = Some n" and "list_all is_digit (Itoa n)" and "Itoa n \<noteq> []"
proof -
  have v: "digits_val (Itoa n) = n" "list_all is_digit (Itoa n)" "hd (Itoa n) = CHR ''0'' \<longrightarrow> n = 0"
    using assms digits_val_dec_digits [of n] by (simp_all add: Itoa_def)
  moreover have "Itoa 0 = ''0''" by (simp add: Itoa_def dec_digits.simps digit_char_def)
  ultimately show "octet_of (Itoa n) = Some n" "list_all is_digit (Itoa n)" "Itoa n \<noteq> []"
    using assms by (auto simp: octet_of_def Itoa_def)
qed

lemma quad_val_bounds:
  assumes "is_octet a" "is_octet b" "is_octet c" "is_octet d"
  shows "0 \<le> quad_val a b c d" and "quad_val a b c d < 2 ^ 32"
  using assms by (simp_all add: quad_val_def)

lemma separators_not_digits [simp]: "\<not> is_digit CHR ''.''" "\<not> is_digit CHR '':''" "\<not> is_digit CHR ''%''"
  by code_simp+

lemma parseIPv4_quad:
  assumes "is_octet a" "is_octet b" "is_octet c" "is_octet d"
  shows "parseIPv4 (dotted_quad a b c d) = Some (quad_val a b c d)"
proof -
  have no: "CHR ''.'' \<notin> set (Itoa n)" if "is_octet n" for n
    using digits_no [OF octet_Itoa(2) [OF that]] by simp
  have "split_on CHR ''.'' (dotted_quad a b c d) = [Itoa a, Itoa b, Itoa c, Itoa d]"
    using assms by (simp add: dotted_quad_def no split_on_append split_on_no_sep)
  then show ?thesis by (simp add: parseIPv4_def octet_Itoa assms quad_val_def)
qed

definition mapped_addr :: "int \<Rightarrow> 128 word" where
  "mapped_addr v = word_of_int (65535 * 2 ^ 32 + v)"

lemma quad_chars:
  assumes "is_octet a" "is_octet b" "is_octet c" "is_octet d" and "\<not> is_digit x" and "x \<noteq> CHR ''.''"
  shows "x \<notin> set (dotted_quad a b c d)"
  using assms by (simp add: dotted_quad_def digits_no [OF octet_Itoa(2)])

lemma ParseAddr_quad:
  assumes "is_octet a" "is_octet b" "is_octet c" "is_octet d"
  shows "ParseAddr (dotted_quad a b c d) = Some (Is4 (quad_val a b c d))"
proof -
  have "CHR ''%'' \<notin> set (dotted_quad a b c d)" by (rule quad_chars [OF assms]) simp_all
  moreover have "List.find (\<lambda>c. c = CHR ''.'' \<or> c = CHR '':'') (dotted_quad a b c d) = Some CHR ''.''"
    unfolding dotted_quad_def join_with.simps append_Cons append_Nil
    by (rule find_first) (use octet_Itoa(2) [OF assms(1)] in \<open>auto simp: list_all_iff\<close>)
  ultimately show ?thesis
    by (simp add: ParseAddr_def parseIPv4_quad [OF assms])
qed

lemma ParseIP_quad:
  assumes "is_octet a" "is_octet b" "is_octet c" "is_octet d"
  shows "ParseIP (dotted_quad a b c d) = Some (mapped_addr (quad_val a b c d))"
  unfolding ParseIP_def ParseAddr_quad [OF assms] by (simp add: As16_def mapped_addr_def)

lemma uint_drop_bit:
  fixes w :: "'a::len word"
  shows "uint (drop_bit k w) = uint w div 2 ^ k"
  unfolding unsigned_drop_bit_eq by (simp add: drop_bit_eq_div take_bit_int_eq_self)

lemma uint_mapped_addr:
  assumes "0 \<le> v" "v < 2 ^ 32"
  shows "uint (mapped_addr v) = 65535 * 2 ^ 32 + v"
proof -
  have "65535 * 2 ^ 32 + v < (2 ^ 128 :: int)" and "0 \<le> 65535 * 2 ^ 32 + v" using assms by simp_all
  then show ?thesis
    unfolding mapped_addr_def uint_word_of_int by (simp add: take_bit_int_eq_self_iff)
qed

lemma To4_mapped:
  assumes "0 \<le> v" "v < 2 ^ 32"
  shows "To4 (mapped_addr v) = Some (word_of_int v)"
proof -
  have u: "uint (mapped_addr v) = 65535 * 2 ^ 32 + v" by (rule uint_mapped_addr [OF assms])
  have "(65535 * 2 ^ 32 + v) div 2 ^ 32 = 65535" using assms by simp
  then have "drop_bit 32 (mapped_addr v) = 65535"
    unfolding word_uint_eq_iff uint_drop_bit u by simp
  moreover have "(65535 * 2 ^ 32 + v) mod 2 ^ 32 = v" unfolding mod_mult_self3 using assms by simp
  then have "(ucast (mapped_addr v) :: 32 word) = word_of_int v"
    using assms by (simp add: word_uint_eq_iff unsigned_ucast_eq u uint_word_of_int take_bit_eq_mod)
  ultimately show ?thesis by (simp add: To4_def)
qed

lemma Contains_mapped:
  assumes "0 \<le> v" "v < 2 ^ 32"
  shows "Contains (Net4 a n) (mapped_addr v) \<longleftrightarrow> v div 2 ^ (32 - n) = uint a div 2 ^ (32 - n)"
proof -
  have "uint (word_of_int v :: 32 word) = v" using assms by (simp add: uint_word_of_int take_bit_int_eq_self_iff)
  then show ?thesis
    by (simp add: Contains_def To4_mapped [OF assms] word_uint_eq_iff uint_drop_bit)
qed

lemma hex_chars [simp]: "is_hex_digit CHR ''f''" "\<not> is_hex_digit CHR ''.''" "\<not> is_hex_digit CHR '':''"
    "digits_in 16 ''ffff'' = 65535"
  by code_simp+

lemma length_Itoa:
  assumes "is_octet n"
  shows "length (Itoa n) \<le> 3"
proof -
  have "dec_digits n = (if n < 10 then [digit_char n] else if n < 100 then [digit_char (n div 10), digit_char n]
      else [digit_char (n div 100), digit_char (n div 10), digit_char n])"
    using assms by (auto simp: dec_digits.simps [of n] dec_digits.simps [of "n div 10"] dec_digits.simps [of "n div 100"]
        zdiv_zmult2_eq [symmetric])
  then show ?thesis using assms by (auto simp: Itoa_def)
qed

lemma dotted_quad_split: "dotted_quad a b c d = Itoa a @ CHR ''.'' # join_with ''.'' [Itoa b, Itoa c, Itoa d]"
  by (simp add: dotted_quad_def)

lemma takeWhile_hex_quad:
  assumes "is_octet a"
  shows "takeWhile is_hex_digit (dotted_quad a b c d) = Itoa a"
proof -
  have "\<forall>x \<in> set (Itoa a). is_hex_digit x"
    using octet_Itoa(2) [OF assms] by (auto simp: list_all_iff is_hex_digit_def is_digit_def)
  then show ?thesis
    unfolding dotted_quad_split by (subst takeWhile_append2) auto
qed

text \<open>The same address in the mapped form of IPv6.\<close>

lemma parseIPv6_mapped_quad:
  assumes "is_octet a" "is_octet b" "is_octet c" "is_octet d"
  shows "parseIPv6 (''::ffff:'' @ dotted_quad a b c d)
    = Some [0, 0, 0, 0, 0, 65535, (quad_val a b c d) div 65536, (quad_val a b c d) mod 65536]"
proof -
  let ?q = "dotted_quad a b c d"
  have q: "?q = Itoa a @ CHR ''.'' # join_with ''.'' [Itoa b, Itoa c, Itoa d]" by (rule dotted_quad_split)
  have ne: "?q \<noteq> []" "hd ?q \<noteq> CHR '':''"
    using octet_Itoa(2,3) [OF assms(1)] by (cases "Itoa a"; auto simp: q is_digit_def)+
  have rest: "drop (length (Itoa a)) ?q = CHR ''.'' # join_with ''.'' [Itoa b, Itoa c, Itoa d]" by (simp add: q)
  have g: "v6_groups 7 ?q [65535] (Some 0)
    = Some ([65535, (quad_val a b c d) div 65536, (quad_val a b c d) mod 65536], Some 0, [])"
    using length_Itoa [OF assms(1)] octet_Itoa(3) [OF assms(1)]
    by (simp add: v6_groups.simps(2) [of 6, simplified] takeWhile_hex_quad [OF assms(1)] rest parseIPv4_quad [OF assms] Let_def
        del: join_with.simps)
  have "v6_groups (Suc 7) (''ffff:'' @ ?q) [] (Some 0) = v6_groups 7 ?q [65535] (Some 0)"
    using ne unfolding v6_groups.simps(2) by (simp add: Let_def)
  with g show ?thesis
    by (simp add: parseIPv6_def Let_def HasPrefix_def numeral_eq_Suc)
qed

lemma ParseIP_mapped_quad:
  assumes "is_octet a" "is_octet b" "is_octet c" "is_octet d"
  shows "ParseIP (''::ffff:'' @ dotted_quad a b c d) = Some (mapped_addr (quad_val a b c d))"
proof -
  let ?v = "quad_val a b c d"
  have dig: "list_all is_digit (Itoa n)" if "is_octet n" for n by (rule octet_Itoa(2) [OF that])
  have "CHR ''%'' \<notin> set (''::ffff:'' @ dotted_quad a b c d)"
    using assms by (simp add: dotted_quad_def digits_no [OF dig])
  moreover have "(281470681743360 :: int) + ?v div 65536 * 65536 + ?v mod 65536 = 281470681743360 + ?v" by simp
  then have "As16 (Is6 [0, 0, 0, 0, 0, 65535, ?v div 65536, ?v mod 65536]) = mapped_addr ?v"
    unfolding As16_def mapped_addr_def by (simp add: algebra_simps)
  ultimately show ?thesis
    by (simp add: ParseIP_def ParseAddr_def parseIPv6_mapped_quad [OF assms, simplified] del: join_with.simps)
qed

lemma privateIPNets_table: "privateIPNets =
    [Net4 167772160 8, Net4 2886729728 12, Net4 3232235520 16, Net4 2130706432 8, Net4 2851995648 16, Net4 1681915904 10,
     Net6 1 128, Net6 334965454937798799971759379190646833152 7, Net6 338288524927261089654018896841347694592 10]"
  by code_simp

lemma Contains_not_mapped:
  assumes "0 \<le> v" "v < 2 ^ 32" and "To4 a = None"
  shows "\<not> Contains (Net6 a n) (mapped_addr v)"
  using assms(3) by (simp add: Contains_def To4_mapped [OF assms(1,2)])

lemma private_mapped:
  assumes "0 \<le> v" "v < 2 ^ 32"
  shows "list_ex (\<lambda>block. Contains block (mapped_addr v)) privateIPNets
    \<longleftrightarrow> v div 2 ^ 24 \<in> {10, 127} \<or> v div 2 ^ 20 = 2753 \<or> v div 2 ^ 16 \<in> {49320, 43518} \<or> v div 2 ^ 22 = 401"
proof -
  have none: "To4 1 = None" "To4 334965454937798799971759379190646833152 = None"
    "To4 338288524927261089654018896841347694592 = None" by (simp_all add: To4_def)
  show ?thesis
    by (auto simp: privateIPNets_table Contains_mapped [OF assms] Contains_not_mapped [OF assms none(1)]
        Contains_not_mapped [OF assms none(2)] Contains_not_mapped [OF assms none(3)])
qed

lemma quad_divs:
  fixes a b c d :: int
  assumes "is_octet b" "is_octet c" "is_octet d"
  shows "(quad_val a b c d) div 2 ^ 24 = a" and "(quad_val a b c d) div 2 ^ 16 = a * 256 + b"
    and "(quad_val a b c d) div 2 ^ 20 = a * 16 + b div 16"
    and "(quad_val a b c d) div 2 ^ 22 = a * 4 + b div 64"
proof -
  let ?v = "quad_val a b c d"
  have "?v = (c * 256 + d) + (a * 256 + b) * 65536" by (simp add: quad_val_def)
  moreover have "(c * 256 + d) div 65536 = 0" using assms by simp
  ultimately have 16: "?v div 65536 = a * 256 + b" by simp
  have step: "?v div (65536 * k) = (a * 256 + b) div k" if "0 < k" for k :: int
    unfolding zdiv_zmult2_eq [OF less_imp_le [OF that]] 16 ..
  show "?v div 2 ^ 16 = a * 256 + b" using 16 by simp
  show "?v div 2 ^ 24 = a" using step [of 256] assms by simp
  show "?v div 2 ^ 20 = a * 16 + b div 16" using step [of 16] by simp
  show "?v div 2 ^ 22 = a * 4 + b div 64" using step [of 64] by simp
qed

lemma private_quad:
  assumes "is_octet a" "is_octet b" "is_octet c" "is_octet d"
  shows "list_ex (\<lambda>block. Contains block (mapped_addr (quad_val a b c d))) privateIPNets
    \<longleftrightarrow> a = 10 \<or> a = 172 \<and> 16 \<le> b \<and> b \<le> 31 \<or> a = 192 \<and> b = 168 \<or> a = 127 \<or> a = 169 \<and> b = 254 \<or> a = 100 \<and> 64 \<le> b \<and> b \<le> 127"
proof -
  let ?v = "quad_val a b c d"
  note v = quad_val_bounds [OF assms]
  have q: "0 \<le> b div 16" "b div 16 \<le> 15" "0 \<le> b div 64" "b div 64 \<le> 3" using assms by linarith+
  have "b div 16 = 1 \<longleftrightarrow> 16 \<le> b \<and> b \<le> 31" and "b div 64 = 1 \<longleftrightarrow> 64 \<le> b \<and> b \<le> 127" by linarith+
  moreover have "a * 16 + b div 16 = 2753 \<longleftrightarrow> a = 172 \<and> b div 16 = 1"
    using q by (simp add: digits_unique [of "b div 16" 16 1 a 172, simplified])
  moreover have "a * 4 + b div 64 = 401 \<longleftrightarrow> a = 100 \<and> b div 64 = 1"
    using q by (simp add: digits_unique [of "b div 64" 4 1 a 100, simplified])
  moreover have "a * 256 + b = 49320 \<longleftrightarrow> a = 192 \<and> b = 168" "a * 256 + b = 43518 \<longleftrightarrow> a = 169 \<and> b = 254"
    using assms(2) digits_unique [of b 256 168 a 192] digits_unique [of b 256 254 a 169] by simp_all
  ultimately have "a * 16 + b div 16 = 2753 \<longleftrightarrow> a = 172 \<and> 16 \<le> b \<and> b \<le> 31" "a * 4 + b div 64 = 401 \<longleftrightarrow> a = 100 \<and> 64 \<le> b \<and> b \<le> 127"
    "a * 256 + b = 49320 \<longleftrightarrow> a = 192 \<and> b = 168" "a * 256 + b = 43518 \<longleftrightarrow> a = 169 \<and> b = 254"
    by blast+
  then show ?thesis
    unfolding private_mapped [OF v] quad_divs [OF assms(2-4)] insert_iff empty_iff by blast
qed

lemma isPrivateIP_quad:
  assumes "is_octet a" "is_octet b" "is_octet c" "is_octet d"
  shows "isPrivateIP (dotted_quad a b c d)
    \<longleftrightarrow> a = 10 \<or> a = 172 \<and> 16 \<le> b \<and> b \<le> 31 \<or> a = 192 \<and> b = 168 \<or> a = 127 \<or> a = 169 \<and> b = 254 \<or> a = 100 \<and> 64 \<le> b \<and> b \<le> 127"
  by (simp only: isPrivateIP_def ParseIP_quad [OF assms] option.case private_quad [OF assms])

text \<open>
  C19: The filter tells exactly the private IPv4 addresses: for every dotted quad, written as such or
  as an IPv4-mapped IPv6 address, \<open>isPrivateIP\<close> is true in 10/8, 172.16/12, 192.168/16, 127/8,
  169.254/16 and 100.64/10, and nowhere else (so neither for 0.0.0.0 nor for multicast addresses).
\<close>

theorem private_ranges_exact:
  assumes "is_octet a" "is_octet b" "is_octet c" "is_octet d"
    and "addr \<in> {dotted_quad a b c d, ''::ffff:'' @ dotted_quad a b c d}"
  shows "isPrivateIP addr
    \<longleftrightarrow> a = 10 \<or> a = 172 \<and> 16 \<le> b \<and> b \<le> 31 \<or> a = 192 \<and> b = 168 \<or> a = 127 \<or> a = 169 \<and> b = 254 \<or> a = 100 \<and> 64 \<le> b \<and> b \<le> 127"
proof -
  have "ParseIP addr = Some (mapped_addr (quad_val a b c d))"
    using assms(5) ParseIP_quad [OF assms(1-4)] ParseIP_mapped_quad [OF assms(1-4)] by auto
  then show ?thesis by (simp only: isPrivateIP_def option.case private_quad [OF assms(1-4)])
qed

theorem private_ranges_exact_witness:
  "isPrivateIP ''::ffff:127.0.0.1'' \<and> \<not> isPrivateIP ''172.32.0.1'' \<and> \<not> isPrivateIP ''0.0.0.0''"
proof -
  have "''::ffff:127.0.0.1'' = ''::ffff:'' @ dotted_quad 127 0 0 1" "''172.32.0.1'' = dotted_quad 172 32 0 1"
    "''0.0.0.0'' = dotted_quad 0 0 0 0"
    by code_simp+
  then show ?thesis
    using private_ranges_exact [of 127 0 0 1] private_ranges_exact [of 172 32 0 1] private_ranges_exact [of 0 0 0 0] by simp
qed

section \<open>The dial function\<close>

lemma ssrf_check_ok: "ssrf_check allowedCIDRs addrs = Inr () \<longleftrightarrow> (\<forall>a \<in> set addrs. isPrivateIP a \<longrightarrow> isAllowed a allowedCIDRs)"
  by (auto simp: ssrf_check_def find_None_iff find_Some_iff split: option.splits)

text \<open>
  C20: What the dial function guarantees: a connection is only made when no address of the first
  lookup is private, unless the allow list covers it; so if the name's second lookup answers with
  addresses of the first, the address connected to is public or allowed. The second lookup is not
  checked: a name that is answered differently the second time reaches any address.
\<close>

theorem dial_guard:
  assumes "ssrfSafeDialContext allowedCIDRs resolve host = Inr targets"
  shows "\<exists>checked. resolve 0 host = Some checked \<and> (\<forall>a \<in> set checked. isPrivateIP a \<longrightarrow> isAllowed a allowedCIDRs)
      \<and> (set targets \<subseteq> set checked \<longrightarrow> (\<forall>a \<in> set targets. isPrivateIP a \<longrightarrow> isAllowed a allowedCIDRs))
      \<and> (\<forall>others. ssrfSafeDialContext allowedCIDRs (resolve(1 := (\<lambda>_. Some others))) host = Inr others)"
proof -
  obtain checked where c: "resolve 0 host = Some checked" "ssrf_check allowedCIDRs checked = Inr ()"
    using assms by (auto simp: ssrfSafeDialContext_def rbind_def split: option.splits sum.splits)
  then have "ssrfSafeDialContext allowedCIDRs (resolve(1 := (\<lambda>_. Some others))) host = Inr others" for others
    by (simp add: ssrfSafeDialContext_def)
  with c show ?thesis by (auto simp: ssrf_check_ok)
qed

definition rebinding :: "nat \<Rightarrow> string \<Rightarrow> string list option" where
  "rebinding lookup host = Some [if lookup = 0 then ''93.184.216.34'' else ''127.0.0.1'']"

theorem dial_guard_witness:
  "ssrfSafeDialContext [] rebinding ''gate.example'' = Inr [''127.0.0.1''] \<and> isPrivateIP ''127.0.0.1''
   \<and> (\<exists>checked. rebinding 0 ''gate.example'' = Some checked \<and> (\<forall>a \<in> set checked. isPrivateIP a \<longrightarrow> isAllowed a []))"
proof -
  have quads: "''93.184.216.34'' = dotted_quad 93 184 216 34" "''127.0.0.1'' = dotted_quad 127 0 0 1" by code_simp+
  have "\<not> isPrivateIP ''93.184.216.34''" and p: "isPrivateIP ''127.0.0.1''"
    using isPrivateIP_quad [of 93 184 216 34] isPrivateIP_quad [of 127 0 0 1] by (simp_all only: quads) simp_all
  then have 1: "ssrfSafeDialContext [] rebinding ''gate.example'' = Inr [''127.0.0.1'']" "isPrivateIP ''127.0.0.1''"
    by (simp_all add: ssrfSafeDialContext_def rebinding_def ssrf_check_def)
  then show ?thesis using dial_guard [OF 1(1)] by auto
qed

end
