(* ===== verification/Config.thy ===== *)
theory Config
  imports Net_Guard Sample_Env "HOL-Library.AList"
begin

text \<open>
  \<open>internal/config/config.go\<close>: reading the configuration from the environment, and the part of
  \<open>cmd/server/main.go\<close> that hands it to the services. \<open>getenv\<close> is \<open>os.Getenv\<close> after \<open>godotenv.Load\<close>:
  an unset variable is the empty string. \<open>Load\<close> is split at its comments, one function per group
  of variables, each of them from the record so far to the next one.
\<close>

section \<open>The record\<close>

record config =
  co_Port :: int
  co_DatabaseURL :: string
  co_RedisURL :: string
  co_MQTTBroker :: string
  co_MQTTUsername :: string
  co_MQTTPassword :: string
  co_MQTTAuthMode :: string
  co_JWTSecret :: string
  co_CORSOrigins :: "string list"
  co_BaseURL :: string
  co_FrontendURL :: string
  co_GlobalSessionDuration :: int
  co_CookieSecure :: bool
  co_PasswordMinLength :: int
  co_PasswordRequireUpper :: bool
  co_PasswordRequireLower :: bool
  co_PasswordRequireDigit :: bool
  co_PINMaxAttempts :: int
  co_PINGateMaxAttempts :: int
  co_HTTPDriverAllowedCIDRs :: "ipnet list"
  co_WebhookMaxRetries :: int
  co_WebhookRetryDelay :: int
  co_OIDCProviderID :: string
  co_OIDCProviderName :: string
  co_OIDCClientID :: string
  co_OIDCClientSecret :: string
  co_OIDCIssuer :: string
  co_OIDCScopes :: "string list"
  co_OIDCAuthEndpoint :: string
  co_OIDCTokenEndpoint :: string
  co_OIDCJwksURL :: string
  co_OIDCAutoProvision :: bool
  co_OIDCDefaultRole :: string
  co_OIDCRoleClaim :: string
  co_OIDCRoleMapping :: "(string \<times> string) list"

type_synonym getenv = "string \<Rightarrow> string"

text \<open>The zero value of the struct with the two defaults of its literal.\<close>

definition config_start :: config where
  "config_start = \<lparr>co_Port = 8080, co_DatabaseURL = [], co_RedisURL = [], co_MQTTBroker = [], co_MQTTUsername = [],
     co_MQTTPassword = [], co_MQTTAuthMode = [], co_JWTSecret = [], co_CORSOrigins = [''http://localhost:5173''],
     co_BaseURL = [], co_FrontendURL = [], co_GlobalSessionDuration = 0, co_CookieSecure = False,
     co_PasswordMinLength = 0, co_PasswordRequireUpper = False, co_PasswordRequireLower = False,
     co_PasswordRequireDigit = False, co_PINMaxAttempts = 0, co_PINGateMaxAttempts = 0,
     co_HTTPDriverAllowedCIDRs = [], co_WebhookMaxRetries = 0, co_WebhookRetryDelay = 0,
     co_OIDCProviderID = [], co_OIDCProviderName = [], co_OIDCClientID = [], co_OIDCClientSecret = [],
     co_OIDCIssuer = [], co_OIDCScopes = [], co_OIDCAuthEndpoint = [], co_OIDCTokenEndpoint = [],
     co_OIDCJwksURL = [], co_OIDCAutoProvision = False, co_OIDCDefaultRole = [], co_OIDCRoleClaim = [],
     co_OIDCRoleMapping = []\<rparr>"

section \<open>Reading one variable\<close>

definition or_default :: "string \<Rightarrow> string \<Rightarrow> string" where
  "or_default d v = (if v = [] then d else v)"

lemma or_default_nonempty [simp]: "d \<noteq> [] \<Longrightarrow> or_default d v \<noteq> []"
  by (simp add: or_default_def)

definition int_var :: "getenv \<Rightarrow> string \<Rightarrow> int \<Rightarrow> int res" where
  "int_var getenv name d = (let v = getenv name in if v = [] then Inr d
     else case Atoi v of None \<Rightarrow> Inl (Wrapf (''invalid '' @ name @ '': %w'') [] (ErrExternal ''strconv'')) | Some n \<Rightarrow> Inr n)"

definition positive_var :: "getenv \<Rightarrow> string \<Rightarrow> int \<Rightarrow> int res" where
  "positive_var getenv name d = (let v = getenv name in if v = [] then Inr d
     else case Atoi v of
       None \<Rightarrow> Inl (Errorf (''invalid '' @ name @ '': must be a positive integer'') [])
     | Some n \<Rightarrow> if n \<le> 0 then Inl (Errorf (''invalid '' @ name @ '': must be a positive integer'') []) else Inr n)"

definition bool_var :: "getenv \<Rightarrow> string \<Rightarrow> bool \<Rightarrow> bool" where
  "bool_var getenv name d = (let v = getenv name in if v = [] then d else v = ''true'' \<or> v = ''1'')"

section \<open>The groups of variables\<close>

definition load_server :: "getenv \<Rightarrow> config \<Rightarrow> config res" where
  "load_server getenv cfg =
     rbind (int_var getenv ''PORT'' (co_Port cfg)) (\<lambda>p.
     if getenv ''DATABASE_URL'' = [] then Inl (Errorf ''DATABASE_URL is required'' [])
     else Inr (cfg\<lparr>co_Port := p, co_DatabaseURL := getenv ''DATABASE_URL'',
       co_RedisURL := or_default ''redis://localhost:6379'' (getenv ''REDIS_URL'')\<rparr>))"

definition load_mqtt :: "getenv \<Rightarrow> config \<Rightarrow> config res" where
  "load_mqtt getenv cfg =
     (let m = or_default ''dynsec'' (getenv ''MQTT_AUTH_MODE'')
      in if m \<noteq> ''dynsec'' \<and> m \<noteq> ''payload''
         then Inl (Errorf (''MQTT_AUTH_MODE must be '' @ [CHR 0x22] @ ''dynsec'' @ [CHR 0x22] @ '' or '' @ [CHR 0x22] @ ''payload'' @ [CHR 0x22] @ '', got %q'') [AStr m])
         else Inr (cfg\<lparr>co_MQTTBroker := or_default ''tcp://localhost:1883'' (getenv ''MQTT_BROKER''),
           co_MQTTUsername := getenv ''MQTT_USERNAME'', co_MQTTPassword := getenv ''MQTT_PASSWORD'', co_MQTTAuthMode := m\<rparr>))"

definition load_secret :: "getenv \<Rightarrow> config \<Rightarrow> config res" where
  "load_secret getenv cfg =
     (let s = getenv ''JWT_SECRET''
      in if s = [] then Inl (Errorf ''JWT_SECRET is required'' [])
         else if length s < 32 then Inl (Errorf ''JWT_SECRET must be at least 32 characters'' [])
         else Inr (cfg\<lparr>co_JWTSecret := s\<rparr>))"

text \<open>The trimmed origin is only compared; what is stored are the untrimmed parts.\<close>

definition load_cors :: "getenv \<Rightarrow> config \<Rightarrow> config res" where
  "load_cors getenv cfg =
     (let v = getenv ''CORS_ORIGINS''; origins = split_on CHR '','' v
      in if v = [] then Inr cfg
         else if list_ex (\<lambda>o'. TrimSpace o' = ''*'') origins
         then Inl (Errorf (''CORS_ORIGINS must not contain wildcard '' @ [CHR 0x27, CHR ''*'', CHR 0x27] @ '' (credentials mode requires explicit origins)'') [])
         else Inr (cfg\<lparr>co_CORSOrigins := origins\<rparr>))"

definition load_urls :: "getenv \<Rightarrow> config \<Rightarrow> config" where
  "load_urls getenv cfg =
     (let base = or_default (''http://localhost:'' @ Itoa (co_Port cfg)) (getenv ''BASE_URL'')
      in cfg\<lparr>co_BaseURL := base, co_FrontendURL := or_default ''http://localhost:5173'' (getenv ''FRONTEND_URL''),
           co_CookieSecure := HasPrefix base ''https://''\<rparr>)"

definition load_password :: "getenv \<Rightarrow> config \<Rightarrow> config res" where
  "load_password getenv cfg =
     rbind (int_var getenv ''AUTH_PASSWORD_MIN_LENGTH'' 8) (\<lambda>n.
     Inr (cfg\<lparr>co_PasswordMinLength := n,
       co_PasswordRequireUpper := bool_var getenv ''AUTH_PASSWORD_REQUIRE_UPPER'' True,
       co_PasswordRequireLower := bool_var getenv ''AUTH_PASSWORD_REQUIRE_LOWER'' True,
       co_PasswordRequireDigit := bool_var getenv ''AUTH_PASSWORD_REQUIRE_DIGIT'' True\<rparr>))"

text \<open>Seconds; 0 is infinite; the product with \<open>time.Second\<close> wraps around.\<close>

definition load_session :: "getenv \<Rightarrow> config \<Rightarrow> config res" where
  "load_session getenv cfg =
     rbind (int_var getenv ''AUTH_SESSION_DURATION'' 604800) (\<lambda>secs.
     Inr (cfg\<lparr>co_GlobalSessionDuration := (if secs = 0 then 0 else wrap64 (secs * Second))\<rparr>))"

definition load_pin :: "getenv \<Rightarrow> config \<Rightarrow> config res" where
  "load_pin getenv cfg =
     rbind (positive_var getenv ''PIN_MAX_ATTEMPTS'' 5) (\<lambda>n.
     rbind (positive_var getenv ''PIN_GATE_MAX_ATTEMPTS'' 50) (\<lambda>m.
     Inr (cfg\<lparr>co_PINMaxAttempts := n, co_PINGateMaxAttempts := m\<rparr>)))"

text \<open>A bare address gets the suffix \<open>/32\<close>, whatever its family.\<close>

definition cidr_text :: "string \<Rightarrow> string" where
  "cidr_text raw = (if CHR ''/'' \<in> set raw then raw else raw @ ''/32'')"

fun parse_cidrs :: "string list \<Rightarrow> ipnet list res" where
  "parse_cidrs [] = Inr []"
| "parse_cidrs (raw0 # rest) =
     (let raw = TrimSpace raw0
      in if raw = [] then parse_cidrs rest
         else let raw' = cidr_text raw
              in case ParseCIDR raw' of
                   None \<Rightarrow> Inl (Wrapf ''invalid HTTP_DRIVER_ALLOWED_CIDRS entry %q: %w'' [AStr raw'] (ErrExternal ''net''))
                 | Some net \<Rightarrow> rbind (parse_cidrs rest) (\<lambda>nets. Inr (net # nets)))"

definition load_cidrs :: "getenv \<Rightarrow> config \<Rightarrow> config res" where
  "load_cidrs getenv cfg =
     (let v = getenv ''HTTP_DRIVER_ALLOWED_CIDRS''
      in if v = [] then Inr cfg
         else rbind (parse_cidrs (split_on CHR '','' v)) (\<lambda>nets. Inr (cfg\<lparr>co_HTTPDriverAllowedCIDRs := nets\<rparr>)))"

definition load_webhook :: "getenv \<Rightarrow> config \<Rightarrow> config res" where
  "load_webhook getenv cfg =
     rbind (int_var getenv ''WEBHOOK_MAX_RETRIES'' 3) (\<lambda>n.
     rbind (int_var getenv ''WEBHOOK_RETRY_DELAY_MS'' 1000) (\<lambda>ms.
     Inr (cfg\<lparr>co_WebhookMaxRetries := n, co_WebhookRetryDelay := wrap64 (ms * Millisecond)\<rparr>)))"

definition role_pair :: "string \<Rightarrow> (string \<times> string) list \<Rightarrow> (string \<times> string) list" where
  "role_pair pair m = (case splitN2 CHR ''='' pair of
      [k, v] \<Rightarrow> AList.update (TrimSpace k) (TrimSpace v) m | _ \<Rightarrow> m)"

definition load_oidc :: "getenv \<Rightarrow> config \<Rightarrow> config" where
  "load_oidc getenv cfg = cfg\<lparr>
     co_OIDCClientID := getenv ''OIDC_CLIENT_ID'',
     co_OIDCClientSecret := getenv ''OIDC_CLIENT_SECRET'',
     co_OIDCIssuer := getenv ''OIDC_ISSUER'',
     co_OIDCProviderID := or_default ''oidc'' (getenv ''OIDC_PROVIDER_ID''),
     co_OIDCProviderName := or_default ''SSO'' (getenv ''OIDC_PROVIDER_NAME''),
     co_OIDCScopes := (if getenv ''OIDC_SCOPES'' = [] then [] else split_on CHR '','' (getenv ''OIDC_SCOPES'')),
     co_OIDCAuthEndpoint := getenv ''OIDC_AUTH_ENDPOINT'',
     co_OIDCTokenEndpoint := getenv ''OIDC_TOKEN_ENDPOINT'',
     co_OIDCJwksURL := getenv ''OIDC_JWKS_URL'',
     co_OIDCAutoProvision := bool_var getenv ''OIDC_AUTO_PROVISION'' True,
     co_OIDCDefaultRole := or_default ''MEMBER'' (getenv ''OIDC_DEFAULT_ROLE''),
     co_OIDCRoleClaim := getenv ''OIDC_ROLE_CLAIM'',
     co_OIDCRoleMapping := (if getenv ''OIDC_ROLE_MAPPING'' = [] then []
       else fold role_pair (split_on CHR '','' (getenv ''OIDC_ROLE_MAPPING'')) [])\<rparr>"

definition Load :: "getenv \<Rightarrow> config res" where
  "Load getenv =
     rbind (load_server getenv config_start) (\<lambda>c1.
     rbind (load_mqtt getenv c1) (\<lambda>c2.
     rbind (load_secret getenv c2) (\<lambda>c3.
     rbind (load_cors getenv c3) (\<lambda>c4.
     rbind (load_password getenv (load_urls getenv c4)) (\<lambda>c5.
     rbind (load_session getenv c5) (\<lambda>c6.
     rbind (load_pin getenv c6) (\<lambda>c7.
     rbind (load_cidrs getenv c7) (\<lambda>c8.
     rbind (load_webhook getenv c8) (\<lambda>c9.
     Inr (load_oidc getenv c9))))))))))"

section \<open>Wiring\<close>

text \<open>\<open>main\<close> builds at most one provider, from the OIDC variables.\<close>

definition ssoProviders :: "config \<Rightarrow> sso_provider list" where
  "ssoProviders cfg = (if co_OIDCClientID cfg = [] then [] else
     [\<lparr>sp_ID = co_OIDCProviderID cfg, sp_Name = co_OIDCProviderName cfg, sp_Type = ''oidc'',
       sp_ClientID = co_OIDCClientID cfg, sp_ClientSecret = co_OIDCClientSecret cfg, sp_Issuer = co_OIDCIssuer cfg,
       sp_Scopes = co_OIDCScopes cfg, sp_AuthEndpoint = co_OIDCAuthEndpoint cfg,
       sp_TokenEndpoint = co_OIDCTokenEndpoint cfg, sp_JwksURL = co_OIDCJwksURL cfg,
       sp_AutoProvision = co_OIDCAutoProvision cfg, sp_DefaultRole = co_OIDCDefaultRole cfg,
       sp_RoleClaim = co_OIDCRoleClaim cfg, sp_RoleMapping = co_OIDCRoleMapping cfg\<rparr>])"

definition configure :: "config \<Rightarrow> 'r env \<Rightarrow> 'r env" where
  "configure cfg X = X\<lparr>
     cf_jwtSecret := co_JWTSecret cfg,
     cf_sessionDuration := co_GlobalSessionDuration cfg,
     cf_passwordPolicy := \<lparr>pp_MinLength = co_PasswordMinLength cfg, pp_RequireUpper = co_PasswordRequireUpper cfg,
       pp_RequireLower = co_PasswordRequireLower cfg, pp_RequireDigit = co_PasswordRequireDigit cfg\<rparr>,
     cf_maxAttempts := co_PINMaxAttempts cfg,
     cf_maxGateAttempts := co_PINGateMaxAttempts cfg,
     cf_maxRetries := co_WebhookMaxRetries cfg,
     cf_cookieSecure := co_CookieSecure cfg,
     cf_ssoProviders := ssoProviders cfg,
     cf_frontendURL := co_FrontendURL cfg\<rparr>"

section \<open>What a loaded configuration satisfies\<close>

text \<open>The networks \<open>ParseCIDR\<close> builds: the mask fits the address and the host bits are zero.\<close>

definition ipnet_ok :: "ipnet \<Rightarrow> bool" where
  "ipnet_ok net = (case net of
      Net4 a n \<Rightarrow> n \<le> 32 \<and> take_bit (32 - n) a = 0
    | Net6 a n \<Rightarrow> n \<le> 128 \<and> take_bit (128 - n) a = 0)"

lemma ParseCIDR_ok: "ParseCIDR s = Some net \<Longrightarrow> ipnet_ok net"
  by (auto simp: ParseCIDR_def Let_def ipnet_ok_def take_bit_push_bit split: if_splits option.splits addr.splits)

lemma parse_cidrs_ok: "parse_cidrs raws = Inr nets \<Longrightarrow> list_all ipnet_ok nets"
  by (induction raws arbitrary: nets)
    (auto simp: Let_def rbind_def ParseCIDR_ok split: if_splits option.splits sum.splits)

lemma Atoi_bounds: "Atoi s = Some n \<Longrightarrow> - (2 ^ 63) \<le> n \<and> n < 2 ^ 63"
  by (auto simp: Atoi_def Let_def split: if_splits)

lemma positive_var_ok:
  assumes "positive_var getenv name d = Inr n" "0 < d" "d < 2 ^ 63"
  shows "0 < n \<and> n < 2 ^ 63"
  using assms Atoi_bounds [of "getenv name"] by (auto simp: positive_var_def Let_def split: if_splits option.splits)

definition config_wf :: "config \<Rightarrow> bool" where
  "config_wf cfg \<longleftrightarrow> co_DatabaseURL cfg \<noteq> [] \<and> co_RedisURL cfg \<noteq> [] \<and> 32 \<le> length (co_JWTSecret cfg)
     \<and> co_MQTTAuthMode cfg \<in> {''dynsec'', ''payload''}
     \<and> (\<forall>o' \<in> set (co_CORSOrigins cfg). TrimSpace o' \<noteq> ''*'')
     \<and> co_CookieSecure cfg = HasPrefix (co_BaseURL cfg) ''https://''
     \<and> 0 < co_PINMaxAttempts cfg \<and> 0 < co_PINGateMaxAttempts cfg
     \<and> - (2 ^ 63) \<le> co_GlobalSessionDuration cfg \<and> co_GlobalSessionDuration cfg < 2 ^ 63
     \<and> list_all ipnet_ok (co_HTTPDriverAllowedCIDRs cfg)"

lemmas load_defs = load_server_def load_mqtt_def load_secret_def load_cors_def load_urls_def load_password_def load_session_def
  load_pin_def load_cidrs_def load_webhook_def load_oidc_def

text \<open>What each group of variables sets, as equations on the record it is given.\<close>

lemma load_server_ok: "load_server getenv cfg = Inr c \<Longrightarrow> \<exists>p. c = cfg\<lparr>co_Port := p, co_DatabaseURL := getenv ''DATABASE_URL'',
    co_RedisURL := or_default ''redis://localhost:6379'' (getenv ''REDIS_URL'')\<rparr> \<and> getenv ''DATABASE_URL'' \<noteq> []"
  by (auto simp: load_server_def rbind_Inr_iff split: if_splits)

lemma load_mqtt_ok: "load_mqtt getenv cfg = Inr c \<Longrightarrow> \<exists>b u p m. c = cfg\<lparr>co_MQTTBroker := b, co_MQTTUsername := u, co_MQTTPassword := p,
    co_MQTTAuthMode := m\<rparr> \<and> m \<in> {''dynsec'', ''payload''}"
  by (auto simp: load_mqtt_def Let_def split: if_splits)

lemma load_secret_ok: "load_secret getenv cfg = Inr c \<Longrightarrow> \<exists>s. c = cfg\<lparr>co_JWTSecret := s\<rparr> \<and> 32 \<le> length s"
  by (auto simp: load_secret_def Let_def split: if_splits)

lemma load_cors_ok: "load_cors getenv cfg = Inr c \<Longrightarrow> \<exists>os. c = cfg\<lparr>co_CORSOrigins := os\<rparr>
    \<and> (os = co_CORSOrigins cfg \<or> (\<forall>o' \<in> set os. TrimSpace o' \<noteq> ''*''))"
  by (cases "getenv ''CORS_ORIGINS'' = []")
    (force simp: load_cors_def Let_def list_ex_iff split: if_splits)+

lemma load_pin_ok:
  assumes "load_pin getenv cfg = Inr c"
  shows "\<exists>n m. c = cfg\<lparr>co_PINMaxAttempts := n, co_PINGateMaxAttempts := m\<rparr> \<and> 0 < n \<and> 0 < m"
proof -
  obtain n m where "positive_var getenv ''PIN_MAX_ATTEMPTS'' 5 = Inr n" "positive_var getenv ''PIN_GATE_MAX_ATTEMPTS'' 50 = Inr m"
    and c: "c = cfg\<lparr>co_PINMaxAttempts := n, co_PINGateMaxAttempts := m\<rparr>"
    using assms by (auto simp: load_pin_def rbind_Inr_iff)
  with positive_var_ok [of getenv "''PIN_MAX_ATTEMPTS''" 5 n] positive_var_ok [of getenv "''PIN_GATE_MAX_ATTEMPTS''" 50 m]
  show ?thesis by auto
qed

lemma load_session_ok: "load_session getenv cfg = Inr c \<Longrightarrow> \<exists>d. c = cfg\<lparr>co_GlobalSessionDuration := d\<rparr> \<and> - (2 ^ 63) \<le> d \<and> d < 2 ^ 63"
  using wrap64_bounds by (auto simp: load_session_def rbind_Inr_iff)

lemma load_password_ok: "load_password getenv cfg = Inr c \<Longrightarrow> \<exists>n u l d. c = cfg\<lparr>co_PasswordMinLength := n, co_PasswordRequireUpper := u,
    co_PasswordRequireLower := l, co_PasswordRequireDigit := d\<rparr>"
  by (auto simp: load_password_def rbind_Inr_iff)

lemma load_webhook_ok: "load_webhook getenv cfg = Inr c \<Longrightarrow> \<exists>n d. c = cfg\<lparr>co_WebhookMaxRetries := n, co_WebhookRetryDelay := d\<rparr>"
  by (auto simp: load_webhook_def rbind_Inr_iff)

lemma load_cidrs_ok: "load_cidrs getenv cfg = Inr c \<Longrightarrow> list_all ipnet_ok (co_HTTPDriverAllowedCIDRs cfg)
    \<Longrightarrow> \<exists>nets. c = cfg\<lparr>co_HTTPDriverAllowedCIDRs := nets\<rparr> \<and> list_all ipnet_ok nets"
  by (cases "getenv ''HTTP_DRIVER_ALLOWED_CIDRS'' = []")
    (force simp: load_cidrs_def Let_def rbind_Inr_iff dest: parse_cidrs_ok)+

lemma Load_config_wf:
  assumes "Load getenv = Inr cfg"
  shows "config_wf cfg"
proof -
  obtain c1 c2 c3 c4 c5 c6 c7 c8 c9 where steps:
    "load_server getenv config_start = Inr c1" "load_mqtt getenv c1 = Inr c2" "load_secret getenv c2 = Inr c3"
    "load_cors getenv c3 = Inr c4" "load_password getenv (load_urls getenv c4) = Inr c5" "load_session getenv c5 = Inr c6"
    "load_pin getenv c6 = Inr c7" "load_cidrs getenv c7 = Inr c8" "load_webhook getenv c8 = Inr c9" and cfg: "cfg = load_oidc getenv c9"
    using assms unfolding Load_def rbind_Inr_iff by blast
  let ?base = "\<lambda>c. co_DatabaseURL c \<noteq> [] \<and> co_RedisURL c \<noteq> [] \<and> co_HTTPDriverAllowedCIDRs c = []"
  let ?keys = "\<lambda>c. ?base c \<and> co_MQTTAuthMode c \<in> {''dynsec'', ''payload''} \<and> 32 \<le> length (co_JWTSecret c)"
  let ?web = "\<lambda>c. ?keys c \<and> (\<forall>o' \<in> set (co_CORSOrigins c). TrimSpace o' \<noteq> ''*'')"
  have "TrimSpace ''http://localhost:5173'' \<noteq> ''*''" by code_simp
  then have "?base c1 \<and> (\<forall>o' \<in> set (co_CORSOrigins c1). TrimSpace o' \<noteq> ''*'')"
    using load_server_ok [OF steps(1)] by (auto simp: config_start_def)
  then have "?web c3"
    using load_mqtt_ok [OF steps(2)] load_secret_ok [OF steps(3)] by auto
  then have "?web c4"
    using load_cors_ok [OF steps(4)] by auto
  then have "?web c5 \<and> co_CookieSecure c5 = HasPrefix (co_BaseURL c5) ''https://''"
    using load_password_ok [OF steps(5)] by (auto simp: load_urls_def Let_def)
  then have 7: "?web c7" "co_CookieSecure c7 = HasPrefix (co_BaseURL c7) ''https://''" "0 < co_PINMaxAttempts c7 \<and> 0 < co_PINGateMaxAttempts c7"
    "- (2 ^ 63) \<le> co_GlobalSessionDuration c7 \<and> co_GlobalSessionDuration c7 < 2 ^ 63"
    using load_session_ok [OF steps(6)] load_pin_ok [OF steps(7)] by auto
  have "config_wf c8"
    using load_cidrs_ok [OF steps(8)] 7 by (auto simp: config_wf_def)
  then have "config_wf c9"
    using load_webhook_ok [OF steps(9)] by (auto simp: config_wf_def)
  then show "config_wf cfg"
    by (simp add: cfg load_oidc_def config_wf_def)
qed


definition sample_vars :: getenv where
  "sample_vars name = (if name = ''DATABASE_URL'' then ''postgres://db'' else if name = ''JWT_SECRET'' then ''0123456789abcdef0123456789abcdef''
     else if name = ''HTTP_DRIVER_ALLOWED_CIDRS'' then ''192.168.1.0/24, 10.0.0.50'' else [])"


section \<open>When loading fails\<close>

lemma isl_rbind: "isl (rbind r f) \<longleftrightarrow> isl r \<or> isl (f (projr r))"
  by (cases r) simp_all

definition bad_int :: "getenv \<Rightarrow> string \<Rightarrow> bool" where
  "bad_int getenv name \<longleftrightarrow> getenv name \<noteq> [] \<and> Atoi (getenv name) = None"

definition bad_positive :: "getenv \<Rightarrow> string \<Rightarrow> bool" where
  "bad_positive getenv name \<longleftrightarrow> getenv name \<noteq> [] \<and> (case Atoi (getenv name) of None \<Rightarrow> True | Some n \<Rightarrow> n \<le> 0)"

definition bad_cidrs :: "string \<Rightarrow> bool" where
  "bad_cidrs v \<longleftrightarrow> (\<exists>raw \<in> set (split_on CHR '','' v). TrimSpace raw \<noteq> [] \<and> ParseCIDR (cidr_text (TrimSpace raw)) = None)"

lemma isl_int_var: "isl (int_var getenv name d) \<longleftrightarrow> bad_int getenv name"
  by (auto simp: int_var_def bad_int_def Let_def split: option.splits)

lemma isl_positive_var: "isl (positive_var getenv name d) \<longleftrightarrow> bad_positive getenv name"
  by (auto simp: positive_var_def bad_positive_def Let_def split: option.splits)

lemma isl_parse_cidrs: "isl (parse_cidrs raws) \<longleftrightarrow> (\<exists>raw \<in> set raws. TrimSpace raw \<noteq> [] \<and> ParseCIDR (cidr_text (TrimSpace raw)) = None)"
  by (induction raws) (auto simp: Let_def isl_rbind split: option.splits)

lemma isl_if: "isl (if b then Inl e else r) \<longleftrightarrow> b \<or> isl r"
  by simp

text \<open>
  C29: Loading fails exactly when a required variable is missing, the secret is short, the MQTT
  mode is unknown, an origin is a wildcard, a number does not parse (or an attempt limit is not
  positive), or an exempted network does not parse. Nothing else is refused: in particular neither
  a port out of range nor a negative retry count, minimum length or session duration is.
\<close>

theorem Load_fails_iff:
  "isl (Load getenv) \<longleftrightarrow>
     bad_int getenv ''PORT'' \<or> getenv ''DATABASE_URL'' = []
   \<or> getenv ''MQTT_AUTH_MODE'' \<notin> {[], ''dynsec'', ''payload''}
   \<or> length (getenv ''JWT_SECRET'') < 32
   \<or> getenv ''CORS_ORIGINS'' \<noteq> [] \<and> (\<exists>o' \<in> set (split_on CHR '','' (getenv ''CORS_ORIGINS'')). TrimSpace o' = ''*'')
   \<or> bad_int getenv ''AUTH_PASSWORD_MIN_LENGTH'' \<or> bad_int getenv ''AUTH_SESSION_DURATION''
   \<or> bad_positive getenv ''PIN_MAX_ATTEMPTS'' \<or> bad_positive getenv ''PIN_GATE_MAX_ATTEMPTS''
   \<or> getenv ''HTTP_DRIVER_ALLOWED_CIDRS'' \<noteq> [] \<and> bad_cidrs (getenv ''HTTP_DRIVER_ALLOWED_CIDRS'')
   \<or> bad_int getenv ''WEBHOOK_MAX_RETRIES'' \<or> bad_int getenv ''WEBHOOK_RETRY_DELAY_MS''"
proof -
  have server: "isl (load_server getenv c) \<longleftrightarrow> bad_int getenv ''PORT'' \<or> getenv ''DATABASE_URL'' = []" for c
    by (simp add: load_server_def isl_rbind isl_int_var)
  have mqtt: "isl (load_mqtt getenv c) \<longleftrightarrow> getenv ''MQTT_AUTH_MODE'' \<notin> {[], ''dynsec'', ''payload''}" for c
    by (auto simp: load_mqtt_def Let_def or_default_def)
  have secret: "isl (load_secret getenv c) \<longleftrightarrow> length (getenv ''JWT_SECRET'') < 32" for c
    by (auto simp: load_secret_def Let_def)
  have cors: "isl (load_cors getenv c) \<longleftrightarrow> getenv ''CORS_ORIGINS'' \<noteq> []
      \<and> (\<exists>o' \<in> set (split_on CHR '','' (getenv ''CORS_ORIGINS'')). TrimSpace o' = ''*'')" for c
    by (simp add: load_cors_def Let_def list_ex_iff)
  have password: "isl (load_password getenv c) \<longleftrightarrow> bad_int getenv ''AUTH_PASSWORD_MIN_LENGTH''" for c
    by (simp add: load_password_def isl_rbind isl_int_var)
  have session: "isl (load_session getenv c) \<longleftrightarrow> bad_int getenv ''AUTH_SESSION_DURATION''" for c
    by (simp add: load_session_def isl_rbind isl_int_var)
  have pin: "isl (load_pin getenv c) \<longleftrightarrow> bad_positive getenv ''PIN_MAX_ATTEMPTS'' \<or> bad_positive getenv ''PIN_GATE_MAX_ATTEMPTS''" for c
    by (simp add: load_pin_def isl_rbind isl_positive_var)
  have cidrs: "isl (load_cidrs getenv c) \<longleftrightarrow> getenv ''HTTP_DRIVER_ALLOWED_CIDRS'' \<noteq> [] \<and> bad_cidrs (getenv ''HTTP_DRIVER_ALLOWED_CIDRS'')" for c
    by (simp add: load_cidrs_def Let_def isl_rbind isl_parse_cidrs bad_cidrs_def)
  have webhook: "isl (load_webhook getenv c) \<longleftrightarrow> bad_int getenv ''WEBHOOK_MAX_RETRIES'' \<or> bad_int getenv ''WEBHOOK_RETRY_DELAY_MS''" for c
    by (simp add: load_webhook_def isl_rbind isl_int_var)
  show ?thesis
    unfolding Load_def isl_rbind server mqtt secret cors password session pin cidrs webhook by simp
qed

theorem Load_fails_iff_witness:
  "isl (Load (\<lambda>_. [])) \<and> isl (Load (sample_vars(''MQTT_AUTH_MODE'' := ''none''))) \<and> \<not> isl (Load sample_vars)"
proof -
  have "isl (Load (\<lambda>_. []))" and "isl (Load (sample_vars(''MQTT_AUTH_MODE'' := ''none'')))"
    unfolding Load_fails_iff by simp_all
  moreover have "\<not> isl (Load sample_vars)" by code_simp
  ultimately show ?thesis by simp
qed

section \<open>Exempted addresses\<close>

lemma parse_cidrs_quad:
  assumes "is_octet a" "is_octet b" "is_octet c" "is_octet d"
  shows "parse_cidrs [dotted_quad a b c d] = Inr [Net4 (word_of_int (quad_val a b c d)) 32]"
proof -
  let ?q = "dotted_quad a b c d"
  have slash: "CHR ''/'' \<notin> set ?q" by (rule quad_chars [OF assms]) (simp_all add: is_digit_def)
  have "\<not> is_digit x \<and> x \<noteq> CHR ''.''" if "is_space x" for x
    using that by (auto simp: is_digit_def is_space_def)
  then have "\<forall>x \<in> set ?q. \<not> is_space x" using quad_chars [OF assms] by blast
  then have trim: "TrimSpace ?q = ?q" by (simp add: TrimSpace_id)
  have "?q \<noteq> []" by (simp add: dotted_quad_def)
  moreover have "takeWhile (\<lambda>c. c \<noteq> CHR ''/'') (?q @ ''/32'') = ?q" "dropWhile (\<lambda>c. c \<noteq> CHR ''/'') (?q @ ''/32'') = ''/32''"
    using slash by (auto intro!: takeWhile_append2 dropWhile_append2 simp: takeWhile_tail dropWhile_append3)
  moreover have "digits_val ''32'' = 32" "list_all is_digit ''32''" by code_simp+
  ultimately show ?thesis
    by (simp add: trim cidr_text_def slash ParseCIDR_def Let_def ParseAddr_quad [OF assms])
qed

lemma quad_inj:
  assumes "is_octet b" "is_octet c" "is_octet d" "is_octet b'" "is_octet c'" "is_octet d'"
  shows "quad_val a' b' c' d' = quad_val a b c d \<longleftrightarrow> (a', b', c', d') = (a, b, c, d)"
proof -
  have lt: "x < 256" if "is_octet x" for x :: int using that by simp
  show ?thesis
    unfolding quad_val_def using assms lt
      digits_unique [of d' 256 d "(a' * 256 + b') * 256 + c'" "(a * 256 + b) * 256 + c"]
      digits_unique [of c' 256 c "a' * 256 + b'" "a * 256 + b"] digits_unique [of b' 256 b a' a] by auto
qed

text \<open>
  A bare IPv4 address in the allow list exempts exactly this address. A bare IPv6 address
  exempts the whole network of its first 32 bits, because the suffix \<open>/32\<close> is added to it as well.
\<close>

theorem bare_entry_exempts:
  assumes "is_octet a" "is_octet b" "is_octet c" "is_octet d"
    and "is_octet a'" "is_octet b'" "is_octet c'" "is_octet d'"
  shows "(\<exists>net. parse_cidrs [dotted_quad a b c d] = Inr [net]
        \<and> (isAllowed (dotted_quad a' b' c' d') [net] \<longleftrightarrow> (a', b', c', d') = (a, b, c, d)))
     \<and> (\<exists>net. parse_cidrs [''fd00::5''] = Inr [net] \<and> isAllowed ''fd00:0:ffff::1'' [net])"
proof -
  let ?v = "quad_val a b c d" and ?v' = "quad_val a' b' c' d'"
  note v = quad_val_bounds [OF assms(1-4)] and v' = quad_val_bounds [OF assms(5-8)]
  have "uint (word_of_int ?v :: 32 word) = ?v"
    unfolding uint_word_of_int using v by (simp add: take_bit_int_eq_self)
  then have "isAllowed (dotted_quad a' b' c' d') [Net4 (word_of_int ?v) 32] \<longleftrightarrow> ?v' = ?v"
    unfolding isAllowed_def ParseIP_quad [OF assms(5-8)] by (simp add: Contains_mapped [OF v'])
  also have "\<dots> \<longleftrightarrow> (a', b', c', d') = (a, b, c, d)"
    by (rule quad_inj [OF assms(2-4,6-8)])
  finally have 4: "isAllowed (dotted_quad a' b' c' d') [Net4 (word_of_int ?v) 32] \<longleftrightarrow> (a', b', c', d') = (a, b, c, d)" .
  have "case parse_cidrs [''fd00::5''] of Inr [net] \<Rightarrow> isAllowed ''fd00:0:ffff::1'' [net] | _ \<Rightarrow> False" by code_simp
  then have "\<exists>net. parse_cidrs [''fd00::5''] = Inr [net] \<and> isAllowed ''fd00:0:ffff::1'' [net]"
    by (auto split: sum.splits list.splits)
  with 4 parse_cidrs_quad [OF assms(1-4)] show ?thesis by blast
qed

theorem bare_entry_exempts_witness:
  "\<exists>net. parse_cidrs [''10.0.0.50''] = Inr [net] \<and> \<not> isAllowed ''10.0.0.51'' [net]"
proof -
  have "''10.0.0.50'' = dotted_quad 10 0 0 50" "''10.0.0.51'' = dotted_quad 10 0 0 51" by code_simp+
  then show ?thesis using bare_entry_exempts [of 10 0 0 50 10 0 0 51] by auto
qed

end
