(* ===== verification/Auth_Service.thy ===== *)
theory Auth_Service
  imports Gate_Service
begin

text \<open>
  \<open>internal/service/auth.go\<close>, \<open>credential.go\<close> and \<open>member.go\<close>: passwords, member tokens and the
  sessions of access codes, refresh tokens in Redis, and the member service. Upper and lower case
  and digits of a password are those of ASCII.
\<close>

abbreviation AccessTokenTTL :: int where "AccessTokenTTL \<equiv> 15 * Minute"
abbreviation defaultSessionTTL :: int where "defaultSessionTTL \<equiv> 7 * 24 * Hour"

record token_pair =
  tp_AccessToken :: string
  tp_RefreshToken :: string
  tp_SessionDuration :: int
  tp_AccessTokenTTL :: int

record refresh_result =
  rr_Tokens :: token_pair
  rr_Type :: string
  rr_Member :: "member option"
  rr_GateID :: uuid
  rr_Permissions :: "string list option"

section \<open>Passwords and API tokens\<close>

definition validatePassword :: "password_policy \<Rightarrow> string \<Rightarrow> unit res" where
  "validatePassword pp password =
     (if int (length password) < pp_MinLength pp
      then Inl (Wrapf ''%w: minimum %d characters'' [AInt (pp_MinLength pp)] ErrWeakPassword)
      else if pp_RequireUpper pp \<and> \<not> list_ex is_upper password
      then Inl (Wrapf ''%w: must contain an uppercase letter'' [] ErrWeakPassword)
      else if pp_RequireLower pp \<and> \<not> list_ex is_lower password
      then Inl (Wrapf ''%w: must contain a lowercase letter'' [] ErrWeakPassword)
      else if pp_RequireDigit pp \<and> \<not> list_ex is_digit password
      then Inl (Wrapf ''%w: must contain a digit'' [] ErrWeakPassword)
      else Inr ())"

definition bcryptGenerate :: "'r env \<Rightarrow> int \<Rightarrow> string \<Rightarrow> string res" where
  "bcryptGenerate X now password =
     (case x_bcryptHash X now password of None \<Rightarrow> Inl (ErrExternal ''bcrypt'') | Some h \<Rightarrow> Inr h)"

definition HashPassword :: "'r env \<Rightarrow> int \<Rightarrow> string \<Rightarrow> string res" where
  "HashPassword X now password = map_err (wrap ''hash password'') (bcryptGenerate X now password)"

definition CheckPassword :: "'r env \<Rightarrow> string \<Rightarrow> string \<Rightarrow> bool" where
  "CheckPassword X hashedValue password = x_bcryptCheck X hashedValue password"

definition GenerateAPIToken :: "'r env \<Rightarrow> int \<Rightarrow> (string \<times> string) res" where
  "GenerateAPIToken X now =
     (case x_random X now ''api_token'' of
        None \<Rightarrow> Inl (wrap ''generate random bytes'' (ErrExternal ''rand''))
      | Some h \<Rightarrow> (let rawToken = ''gatie_'' @ h in Inr (rawToken, x_sha256 X rawToken)))"

section \<open>Session durations\<close>

text \<open>\<open>d.Seconds()\<close> of a duration and back.\<close>

definition dur_seconds :: "int \<Rightarrow> f64" where
  "dur_seconds d =
     (let sec = (if d < 0 then - (- d div Second) else d div Second);
          frac = (case round64 (of_int (d - sec * Second) / of_int Second) of Some r \<Rightarrow> r | None \<Rightarrow> 0)
      in case round64 (of_int sec + frac) of Some r \<Rightarrow> Fin r | None \<Rightarrow> PInf)"

definition payloadSessionDuration :: "gmap \<Rightarrow> int" where
  "payloadSessionDuration payload =
     (case map_of payload ''session_duration'' of
        Some (VNum secs) \<Rightarrow>
          if f64_eq secs (Fin 0) then 0
          else if f64_lt (Fin 0) secs then wrap64 (f64_to_int secs * Second)
          else defaultSessionTTL
      | _ \<Rightarrow> defaultSessionTTL)"

section \<open>Issuing tokens\<close>

definition refreshKey :: "'r env \<Rightarrow> string \<Rightarrow> string" where
  "refreshKey X tok = ''refresh:'' @ x_sha256 X tok"

definition newRefreshToken :: "'r env \<Rightarrow> int \<Rightarrow> string res" where
  "newRefreshToken X now = (case x_random X now ''refresh'' of None \<Rightarrow> Inl (ErrExternal ''rand'') | Some s \<Rightarrow> Inr s)"

definition jwt_sign :: "'r env \<Rightarrow> gmap \<Rightarrow> string res" where
  "jwt_sign X claims = (case x_jwtSign X (cf_jwtSecret X) claims of None \<Rightarrow> Inl (ErrExternal ''jwt'') | Some t \<Rightarrow> Inr t)"

definition member_claims :: "'r env \<Rightarrow> int \<Rightarrow> uuid \<Rightarrow> string \<Rightarrow> gmap" where
  "member_claims X now memberID role =
     [(''sub'', VStr (x_uuidString X memberID)), (''type'', VStr ''member''), (''role'', VStr role),
      (''iat'', num_date now), (''exp'', num_date (now + AccessTokenTTL))]"

definition member_payload :: "'r env \<Rightarrow> uuid \<Rightarrow> string \<Rightarrow> int \<Rightarrow> gmap" where
  "member_payload X memberID role sessionDuration =
     [(''type'', VStr ''member''), (''sub'', VStr (x_uuidString X memberID)), (''role'', VStr role),
      (''session_duration'', VNum (dur_seconds sessionDuration))]"

definition issueTokenPair :: "'r env \<Rightarrow> int \<Rightarrow> uuid \<Rightarrow> string \<Rightarrow> int \<Rightarrow> 'r world \<Rightarrow> token_pair res \<times> 'r world" where
  "issueTokenPair X now memberID role sessionDuration w =
     wbind (map_err (wrap ''sign access token'') (jwt_sign X (member_claims X now memberID role)), w) (\<lambda>accessToken w.
     wbind (map_err (wrap ''generate refresh token'') (newRefreshToken X now), w) (\<lambda>refreshToken w.
     wbind (werr (wrap ''store refresh token'')
              (redis_Set X now w (refreshKey X refreshToken) (RJson (VObj (member_payload X memberID role sessionDuration)))
                 sessionDuration)) (\<lambda>_ w.
       (Inr \<lparr>tp_AccessToken = accessToken, tp_RefreshToken = refreshToken, tp_SessionDuration = sessionDuration,
             tp_AccessTokenTTL = AccessTokenTTL\<rparr>, w))))"

definition IssueTokenPair :: "'r env \<Rightarrow> int \<Rightarrow> uuid \<Rightarrow> string \<Rightarrow> 'r world \<Rightarrow> token_pair res \<times> 'r world" where
  "IssueTokenPair X now memberID role w = issueTokenPair X now memberID role (cf_sessionDuration X) w"

text \<open>A nil slice of permissions is JSON \<open>null\<close>.\<close>

definition perms_json :: "string list option \<Rightarrow> gval" where
  "perms_json ps = (case ps of None \<Rightarrow> VNull | Some l \<Rightarrow> VArr (List.map VStr l))"

definition perms_of :: "gval option \<Rightarrow> string list option" where
  "perms_of v = (case v of
      Some (VArr xs) \<Rightarrow> (let ss = List.concat (List.map (\<lambda>x. case x of VStr s \<Rightarrow> [s] | _ \<Rightarrow> []) xs)
                        in if ss = [] then None else Some ss)
    | _ \<Rightarrow> None)"

definition pin_claims :: "'r env \<Rightarrow> int \<Rightarrow> uuid \<Rightarrow> uuid \<Rightarrow> string list option \<Rightarrow> gmap" where
  "pin_claims X now pinID gateID permissions =
     [(''sub'', VStr (x_uuidString X pinID)), (''type'', VStr ''pin_session''),
      (''gate_id'', VStr (x_uuidString X gateID)), (''permissions'', perms_json permissions),
      (''iat'', num_date now), (''exp'', num_date (now + AccessTokenTTL))]"

definition pin_payload :: "'r env \<Rightarrow> uuid \<Rightarrow> uuid \<Rightarrow> int \<Rightarrow> string list option \<Rightarrow> gmap" where
  "pin_payload X pinID gateID sessionDuration permissions =
     [(''type'', VStr ''pin_session''), (''sub'', VStr (x_uuidString X pinID)),
      (''gate_id'', VStr (x_uuidString X gateID)), (''permissions'', perms_json permissions),
      (''session_duration'', VNum (dur_seconds sessionDuration))]"

definition IssueGatePinSession :: "'r env \<Rightarrow> int \<Rightarrow> uuid \<Rightarrow> uuid \<Rightarrow> int \<Rightarrow> string list option \<Rightarrow> 'r world
    \<Rightarrow> token_pair res \<times> 'r world" where
  "IssueGatePinSession X now pinID gateID sessionDuration permissions w =
     wbind (map_err (wrap ''sign pin session access token'') (jwt_sign X (pin_claims X now pinID gateID permissions)), w)
       (\<lambda>accessToken w.
     wbind (map_err (wrap ''generate pin session refresh token'') (newRefreshToken X now), w) (\<lambda>refreshToken w.
     wbind (werr (wrap ''store pin session refresh token'')
              (redis_Set X now w (refreshKey X refreshToken)
                 (RJson (VObj (pin_payload X pinID gateID sessionDuration permissions))) sessionDuration)) (\<lambda>_ w.
       (Inr \<lparr>tp_AccessToken = accessToken, tp_RefreshToken = refreshToken, tp_SessionDuration = 0,
             tp_AccessTokenTTL = AccessTokenTTL\<rparr>, w))))"

section \<open>Register and Login\<close>

definition Register :: "'r env \<Rightarrow> int \<Rightarrow> string \<Rightarrow> string \<Rightarrow> string option \<Rightarrow> 'r world \<Rightarrow> (token_pair \<times> member) res \<times> 'r world" where
  "Register X now username password displayName w =
     (let flt = x_dbFault X now in
      wbind (validatePassword (cf_passwordPolicy X) password, w) (\<lambda>_ w.
      case members_GetByUsername flt (w_db w) username of
        Inr _ \<Rightarrow> (Inl ErrUsernameTaken, w)
      | Inl e \<Rightarrow>
          if \<not> errIs e ErrNotFound then (Inl (wrap ''check username'' e), w)
          else
            wbind (map_err (wrap ''hash password'') (bcryptGenerate X now password), w) (\<lambda>hashed w.
            wbind (werr (wrap ''create member'')
                     (on_db (\<lambda>d. members_Create flt d (x_newID X now ''member'') now username displayName RoleMember) w))
              (\<lambda>member w.
            wbind (werr (wrap ''create credential'')
                     (on_db (\<lambda>d. creds_Create flt d (x_newID X now ''credential'') now (mem_ID member) CredPassword hashed
                        None None []) w)) (\<lambda>_ w.
            wbind (issueTokenPair X now (mem_ID member) (mem_Role member) (cf_sessionDuration X) w) (\<lambda>tokens w.
              (Inr (tokens, member), w)))))))"

definition Login :: "'r env \<Rightarrow> int \<Rightarrow> string \<Rightarrow> string \<Rightarrow> 'r world \<Rightarrow> (token_pair \<times> member) res \<times> 'r world" where
  "Login X now username password w =
     (let flt = x_dbFault X now in
      case members_GetByUsername flt (w_db w) username of
        Inl e \<Rightarrow> (Inl (if errIs e ErrNotFound then ErrInvalidCredentials else wrap ''get member'' e), w)
      | Inr member \<Rightarrow>
          (case creds_GetByMemberAndType flt (w_db w) (mem_ID member) CredPassword of
             Inl e \<Rightarrow> (Inl (if errIs e ErrNotFound then ErrInvalidCredentials else wrap ''get credential'' e), w)
           | Inr cred \<Rightarrow>
               if \<not> x_bcryptCheck X (cr_HashedValue cred) password then (Inl ErrInvalidCredentials, w)
               else wbind (issueTokenPair X now (mem_ID member) (mem_Role member) (cf_sessionDuration X) w)
                      (\<lambda>tokens w. (Inr (tokens, member), w))))"

section \<open>Refresh and logout\<close>

definition uuid_field :: "'r env \<Rightarrow> gmap \<Rightarrow> string \<Rightarrow> uuid option" where
  "uuid_field X m k = (case map_of m k of Some (VStr s) \<Rightarrow> x_uuidParse X s | _ \<Rightarrow> None)"

definition refresh_member :: "'r env \<Rightarrow> int \<Rightarrow> gmap \<Rightarrow> 'r world \<Rightarrow> refresh_result res \<times> 'r world" where
  "refresh_member X now payload w =
     (case uuid_field X payload ''sub'' of
        None \<Rightarrow> (Inl ErrInvalidToken, w)
      | Some memberID \<Rightarrow>
          (case members_GetByID (x_dbFault X now) (w_db w) memberID of
             Inl _ \<Rightarrow> (Inl ErrInvalidToken, w)
           | Inr member \<Rightarrow>
               wbind (issueTokenPair X now memberID (mem_Role member) (payloadSessionDuration payload) w) (\<lambda>tokens w.
                 (Inr \<lparr>rr_Tokens = tokens, rr_Type = ''member'', rr_Member = Some member, rr_GateID = uuid_Nil,
                       rr_Permissions = None\<rparr>, w))))"

definition refresh_pin :: "'r env \<Rightarrow> int \<Rightarrow> gmap \<Rightarrow> 'r world \<Rightarrow> refresh_result res \<times> 'r world" where
  "refresh_pin X now payload w =
     (case (uuid_field X payload ''sub'', uuid_field X payload ''gate_id'') of
        (Some pinID, Some gateID) \<Rightarrow>
          (let perms = perms_of (map_of payload ''permissions'')
           in wbind (IssueGatePinSession X now pinID gateID (payloadSessionDuration payload) perms w) (\<lambda>tokens w.
                (Inr \<lparr>rr_Tokens = tokens, rr_Type = ''pin_session'', rr_Member = None, rr_GateID = gateID,
                      rr_Permissions = perms\<rparr>, w)))
      | _ \<Rightarrow> (Inl ErrInvalidToken, w))"

definition Refresh :: "'r env \<Rightarrow> int \<Rightarrow> string \<Rightarrow> 'r world \<Rightarrow> refresh_result res \<times> 'r world" where
  "Refresh X now refreshToken w =
     (case redis_GetDel X now w (refreshKey X refreshToken) of
        (Inr (RJson (VObj payload)), w1) \<Rightarrow>
          (let typ = str_field payload ''type''
           in if typ = ''member'' then refresh_member X now payload w1
              else if typ = ''pin_session'' then refresh_pin X now payload w1
              else (Inl ErrInvalidToken, w1))
      | (_, w1) \<Rightarrow> (Inl ErrInvalidToken, w1))"

definition RevokeRefreshToken :: "'r env \<Rightarrow> int \<Rightarrow> string \<Rightarrow> 'r world \<Rightarrow> 'r world" where
  "RevokeRefreshToken X now tok w = redis_Del X now w (refreshKey X tok)"

section \<open>Validating tokens\<close>

definition ValidateAccessToken :: "'r env \<Rightarrow> int \<Rightarrow> string \<Rightarrow> (uuid \<times> string) res" where
  "ValidateAccessToken X now tokenStr =
     (case x_jwtParse X (keyFunc X) now True tokenStr of
        None \<Rightarrow> Inl ErrInvalidToken
      | Some claims \<Rightarrow>
          if str_field claims ''type'' \<noteq> ''member'' then Inl ErrInvalidToken
          else case x_uuidParse X (str_field claims ''sub'') of
            None \<Rightarrow> Inl ErrInvalidToken
          | Some memberID \<Rightarrow>
              (let roleStr = str_field claims ''role''
               in if roleStr = [] then Inl ErrInvalidToken else Inr (memberID, roleStr)))"

text \<open>
  The type assertions on \<open>sub\<close> and \<open>gate_id\<close> have no second result: a claim that is not a
  string panics, which the recovery middleware turns into an error of its own.
\<close>

definition ErrPanic :: err where
  "ErrPanic = ErrExternal ''panic: interface conversion''"

definition parse_claim :: "'r env \<Rightarrow> gmap \<Rightarrow> string \<Rightarrow> uuid res" where
  "parse_claim X claims k = (case map_of claims k of
      Some (VStr s) \<Rightarrow> (case x_uuidParse X s of None \<Rightarrow> Inl ErrInvalidToken | Some u \<Rightarrow> Inr u)
    | _ \<Rightarrow> Inl ErrPanic)"

definition ValidatePinSessionToken :: "'r env \<Rightarrow> int \<Rightarrow> string \<Rightarrow> (uuid \<times> uuid \<times> string list option) res" where
  "ValidatePinSessionToken X now tokenStr =
     (case x_jwtParse X (keyFunc X) now True tokenStr of
        None \<Rightarrow> Inl ErrInvalidToken
      | Some claims \<Rightarrow>
          if str_field claims ''type'' \<noteq> ''pin_session'' then Inl ErrInvalidToken
          else rbind (parse_claim X claims ''sub'') (\<lambda>pinID.
               rbind (parse_claim X claims ''gate_id'') (\<lambda>gateID.
                 Inr (pinID, gateID, perms_of (map_of claims ''permissions'')))))"

section \<open>The member service\<close>

definition member_Create :: "'r env \<Rightarrow> int \<Rightarrow> string \<Rightarrow> string option \<Rightarrow> string \<Rightarrow> string \<Rightarrow> 'r world \<Rightarrow> member res \<times> 'r world" where
  "member_Create X now username displayName password role w =
     (let flt = x_dbFault X now in
      wbind (map_err (wrap ''hash password'') (bcryptGenerate X now password), w) (\<lambda>hashed w.
      wbind (werr (\<lambda>e. if errIs e ErrAlreadyExists then ErrUsernameTaken else wrap ''create member'' e)
               (on_db (\<lambda>d. members_Create flt d (x_newID X now ''member'') now username displayName role) w)) (\<lambda>member w.
      wbind (werr (wrap ''create password credential'')
               (on_db (\<lambda>d. creds_Create flt d (x_newID X now ''credential'') now (mem_ID member) CredPassword hashed
                  None None []) w)) (\<lambda>_ w.
        (Inr member, w)))))"

definition member_GetByID :: "'r env \<Rightarrow> int \<Rightarrow> db \<Rightarrow> uuid \<Rightarrow> member res" where
  "member_GetByID X now d memberID = members_GetByID (x_dbFault X now) d memberID"

definition member_List :: "'r env \<Rightarrow> int \<Rightarrow> db \<Rightarrow> pagination \<Rightarrow> (member list \<times> int) res" where
  "member_List X now d p = members_List (x_dbFault X now) d p"

definition member_Update :: "'r env \<Rightarrow> int \<Rightarrow> uuid \<Rightarrow> string option \<Rightarrow> string option \<Rightarrow> string option \<Rightarrow> 'r world \<Rightarrow> member res \<times> 'r world" where
  "member_Update X now memberID displayName username role w =
     on_db (\<lambda>d. members_Update (x_dbFault X now) d memberID displayName username role) w"

definition member_Delete :: "'r env \<Rightarrow> int \<Rightarrow> uuid \<Rightarrow> 'r world \<Rightarrow> unit res \<times> 'r world" where
  "member_Delete X now memberID w = on_db (\<lambda>d. members_Delete (x_dbFault X now) d memberID) w"

definition member_SetPassword :: "'r env \<Rightarrow> int \<Rightarrow> uuid \<Rightarrow> string \<Rightarrow> 'r world \<Rightarrow> unit res \<times> 'r world" where
  "member_SetPassword X now memberID password w =
     (let flt = x_dbFault X now in
      wbind (members_GetByID flt (w_db w) memberID, w) (\<lambda>_ w.
      wbind (map_err (wrap ''hash password'') (bcryptGenerate X now password), w) (\<lambda>hashed w.
      wbind (case creds_GetByMemberAndType flt (w_db w) memberID CredPassword of
               Inl e \<Rightarrow> if errIs e ErrNotFound then (Inr (), w) else (Inl (wrap ''get existing credential'' e), w)
             | Inr existing \<Rightarrow>
                 werr (wrap ''delete existing credential'') (on_db (\<lambda>d. creds_Delete flt d (cr_ID existing) memberID) w))
        (\<lambda>_ w.
      wbind (werr (wrap ''create password credential'')
               (on_db (\<lambda>d. creds_Create flt d (x_newID X now ''credential'') now memberID CredPassword hashed
                  None None []) w)) (\<lambda>_ w.
        (Inr (), w))))))"

definition member_HasAny :: "'r env \<Rightarrow> int \<Rightarrow> db \<Rightarrow> bool res" where
  "member_HasAny X now d = members_HasAny (x_dbFault X now) d"

end
