(* ===== verification/Pin_Service.thy ===== *)
theory Pin_Service
  imports Auth_Service Go_Time
begin

text \<open>
  \<open>internal/service/gate_pin.go\<close>: access codes of a gate. The metadata of a code is decoded the
  way \<open>encoding/json\<close> fills \<open>pinMetadata\<close> (a value of the wrong type leaves a zero behind and goes
  on, a malformed time stops the decoding), validation counts attempts in Redis before it looks
  at the codes, and a session carries permissions. The comparison with a dummy hash, which only
  spends time, is left out.
\<close>

section \<open>RFC 3339 instants\<close>

definition parse_uint :: "int \<Rightarrow> int \<Rightarrow> string \<Rightarrow> int option" where
  "parse_uint lo hi s =
     (let v = digits_val s in if list_all is_digit s \<and> lo \<le> v \<and> v \<le> hi then Some v else None)"

definition days_in :: "int \<Rightarrow> int \<Rightarrow> int" where
  "days_in y m = days_before ! nat m - days_before ! nat (m - 1) + (if m = 2 \<and> is_leap y then 1 else 0)"

definition epoch_day :: "int \<Rightarrow> int \<Rightarrow> int \<Rightarrow> int" where
  "epoch_day y m d =
     365 * (y - 1) + (y - 1) div 4 - (y - 1) div 100 + (y - 1) div 400
     + days_before ! nat (m - 1) + (if 2 < m \<and> is_leap y then 1 else 0) + d - 1 - 719162"

text \<open>\<open>parseRFC3339\<close>: the zone part after the seconds, as nanoseconds to subtract.\<close>

definition rfc_zone :: "string \<Rightarrow> int option" where
  "rfc_zone s =
     (if s = ''Z'' then Some 0
      else if length s \<noteq> 6 then None
      else case (parse_uint 0 23 (take 2 (drop 1 s)), parse_uint 0 59 (drop 4 s)) of
        (Some hr, Some mm) \<Rightarrow>
          if s ! 3 = CHR '':'' \<and> s ! 0 = CHR ''+'' then Some ((hr * 60 + mm) * Minute)
          else if s ! 3 = CHR '':'' \<and> s ! 0 = CHR ''-'' then Some (- ((hr * 60 + mm) * Minute))
          else None
      | _ \<Rightarrow> None)"

definition rfc_fraction :: "string \<Rightarrow> int \<times> string" where
  "rfc_fraction s =
     (if 2 \<le> length s \<and> s ! 0 = CHR ''.'' \<and> is_digit (s ! 1)
      then (let ds = takeWhile is_digit (tl s); n = take 9 ds
            in (digits_val n * 10 ^ (9 - length n), drop (Suc (length ds)) s))
      else (0, s))"

definition ParseRFC3339 :: "string \<Rightarrow> int option" where
  "ParseRFC3339 s =
     (if length s < 19 then None
      else case (parse_uint 0 9999 (take 4 s), parse_uint 1 12 (take 2 (drop 5 s)),
                 parse_uint 0 23 (take 2 (drop 11 s)), parse_uint 0 59 (take 2 (drop 14 s)), parse_uint 0 59 (take 2 (drop 17 s))) of
        (Some y, Some m, Some hh, Some mi, Some sec) \<Rightarrow>
          (case parse_uint 1 (days_in y m) (take 2 (drop 8 s)) of
             None \<Rightarrow> None
           | Some d \<Rightarrow>
               if s ! 4 = CHR ''-'' \<and> s ! 7 = CHR ''-'' \<and> s ! 10 = CHR ''T'' \<and> s ! 13 = CHR '':'' \<and> s ! 16 = CHR '':''
               then (let (ns, rest) = rfc_fraction (drop 19 s)
                     in case rfc_zone rest of
                          None \<Rightarrow> None
                        | Some z \<Rightarrow> Some (((epoch_day y m d * 24 + hh) * 60 + mi) * Minute + sec * Second + ns - z))
               else None)
      | _ \<Rightarrow> None)"

section \<open>The metadata of a code\<close>

record pin_meta =
  pm_SessionDuration :: "int option"
  pm_MaxUses :: "int option"
  pm_Permissions :: "string list option"
  pm_ExpiresAt :: "int option"

definition no_pin_meta :: pin_meta where
  "no_pin_meta = \<lparr>pm_SessionDuration = None, pm_MaxUses = None, pm_Permissions = None, pm_ExpiresAt = None\<rparr>"

text \<open>The zero \<open>time.Time\<close>, the first instant of the year 1.\<close>

definition zero_time :: int where
  "zero_time = epoch_day 1 1 1 * 24 * Hour"

definition decode_int64 :: "gval \<Rightarrow> int option \<Rightarrow> int option" where
  "decode_int64 v old =
     (let kept = Some (case old of None \<Rightarrow> 0 | Some o' \<Rightarrow> o')
      in case v of
           VNull \<Rightarrow> None
         | VInt n \<Rightarrow> Some n
         | VNum (Fin q) \<Rightarrow>
             (let n = rat_trunc q in if of_int n = q \<and> - (2 ^ 63) \<le> n \<and> n < 2 ^ 63 then Some n else kept)
         | _ \<Rightarrow> kept)"

definition decode_strings :: "gval \<Rightarrow> string list option \<Rightarrow> string list option" where
  "decode_strings v old = (case v of
      VNull \<Rightarrow> None
    | VArr xs \<Rightarrow> Some (List.map (\<lambda>x. case x of VStr s \<Rightarrow> s | _ \<Rightarrow> []) xs)
    | _ \<Rightarrow> old)"

text \<open>The members in sorted order; \<open>expires_at\<close> stops the decoding when it is malformed.\<close>

fun decode_pin_meta :: "gmap \<Rightarrow> pin_meta \<Rightarrow> pin_meta" where
  "decode_pin_meta [] acc = acc"
| "decode_pin_meta ((k, v) # m) acc =
     (if ToLower k = ''session_duration''
      then decode_pin_meta m (acc\<lparr>pm_SessionDuration := decode_int64 v (pm_SessionDuration acc)\<rparr>)
      else if ToLower k = ''max_uses''
      then decode_pin_meta m (acc\<lparr>pm_MaxUses := decode_int64 v (pm_MaxUses acc)\<rparr>)
      else if ToLower k = ''permissions''
      then decode_pin_meta m (acc\<lparr>pm_Permissions := decode_strings v (pm_Permissions acc)\<rparr>)
      else if ToLower k = ''expires_at''
      then (case v of
              VNull \<Rightarrow> decode_pin_meta m (acc\<lparr>pm_ExpiresAt := None\<rparr>)
            | VStr s \<Rightarrow> (case ParseRFC3339 s of
                Some t \<Rightarrow> decode_pin_meta m (acc\<lparr>pm_ExpiresAt := Some t\<rparr>)
              | None \<Rightarrow> acc\<lparr>pm_ExpiresAt := Some zero_time\<rparr>)
            | _ \<Rightarrow> acc\<lparr>pm_ExpiresAt := Some zero_time\<rparr>)
      else decode_pin_meta m acc)"

definition parsePinMetadata :: "gmap \<Rightarrow> pin_meta" where
  "parsePinMetadata raw =
     (if json_encodable (VObj raw) then decode_pin_meta (sort_key fst raw) no_pin_meta else no_pin_meta)"

section \<open>Management\<close>

record create_pin_params =
  cp_PIN :: string
  cp_CodeType :: string
  cp_Label :: string
  cp_Metadata :: gmap
  cp_ScheduleID :: "uuid option"

definition pin_Create :: "'r env \<Rightarrow> int \<Rightarrow> uuid \<Rightarrow> create_pin_params \<Rightarrow> 'r world \<Rightarrow> gate_pin res \<times> 'r world" where
  "pin_Create X now gateID params w =
     (let codeType = (if cp_CodeType params = [] then ''pin'' else cp_CodeType params) in
      if codeType = ''pin'' \<and> length (cp_PIN params) < 4
      then (Inl (Errorf ''pin code must be at least 4 digits'' []), w)
      else if codeType = ''pin'' \<and> \<not> list_all is_digit (cp_PIN params)
      then (Inl (Errorf ''pin code must contain digits only'' []), w)
      else wbind (map_err (wrap ''hash pin'') (bcryptGenerate X now (cp_PIN params)), w) (\<lambda>hashed w.
        on_db (\<lambda>d. pins_Create (x_dbFault X now) d (x_newID X now ''pin'') now gateID hashed (cp_Label params)
                 (AList.update ''code_type'' (VStr codeType) (cp_Metadata params)) (cp_ScheduleID params)) w))"

definition pin_List :: "'r env \<Rightarrow> int \<Rightarrow> db \<Rightarrow> uuid \<Rightarrow> pagination \<Rightarrow> (gate_pin list \<times> int) res" where
  "pin_List X now d gateID p = pins_List (x_dbFault X now) d gateID p"

definition pin_Update :: "'r env \<Rightarrow> int \<Rightarrow> uuid \<Rightarrow> uuid \<Rightarrow> string option \<Rightarrow> gmap \<Rightarrow> 'r world \<Rightarrow> gate_pin res \<times> 'r world" where
  "pin_Update X now pinID gateID label metadata w =
     on_db (\<lambda>d. pins_Update (x_dbFault X now) d pinID gateID label metadata) w"

definition usesKey :: "'r env \<Rightarrow> uuid \<Rightarrow> string" where
  "usesKey X pinID = ''pin:uses:'' @ x_uuidString X pinID"

definition pin_Delete :: "'r env \<Rightarrow> int \<Rightarrow> uuid \<Rightarrow> uuid \<Rightarrow> 'r world \<Rightarrow> unit res \<times> 'r world" where
  "pin_Delete X now pinID gateID w =
     wbind (on_db (\<lambda>d. pins_Delete (x_dbFault X now) d pinID gateID) w) (\<lambda>_ w.
       (Inr (), redis_Del X now w (usesKey X pinID)))"

definition pin_SetSchedule :: "'r env \<Rightarrow> int \<Rightarrow> uuid \<Rightarrow> uuid \<Rightarrow> uuid \<Rightarrow> 'r world \<Rightarrow> gate_pin res \<times> 'r world" where
  "pin_SetSchedule X now pinID gateID scheduleID w =
     on_db (\<lambda>d. pins_SetPinSchedule (x_dbFault X now) d pinID gateID scheduleID) w"

definition pin_ClearSchedule :: "'r env \<Rightarrow> int \<Rightarrow> uuid \<Rightarrow> uuid \<Rightarrow> 'r world \<Rightarrow> gate_pin res \<times> 'r world" where
  "pin_ClearSchedule X now pinID gateID w =
     on_db (\<lambda>d. pins_ClearPinSchedule (x_dbFault X now) d pinID gateID) w"

section \<open>Validation\<close>

definition defaultMaxPINAttempts :: int where "defaultMaxPINAttempts = 5"
definition defaultMaxGatePINAttempts :: int where "defaultMaxGatePINAttempts = 50"
definition pinRateLimitTTL :: int where "pinRateLimitTTL = 15 * Minute"

definition maxAttempts :: "'r env \<Rightarrow> int" where
  "maxAttempts X = (if cf_maxAttempts X \<le> 0 then defaultMaxPINAttempts else cf_maxAttempts X)"

definition maxGateAttempts :: "'r env \<Rightarrow> int" where
  "maxGateAttempts X = (if cf_maxGateAttempts X \<le> 0 then defaultMaxGatePINAttempts else cf_maxGateAttempts X)"

definition ipKey :: "'r env \<Rightarrow> uuid \<Rightarrow> string \<Rightarrow> string" where
  "ipKey X gateID ip = ''rl:unlock:'' @ x_uuidString X gateID @ '':'' @ ip"

definition gateKey :: "'r env \<Rightarrow> uuid \<Rightarrow> string" where
  "gateKey X gateID = ''rl:unlock:gate:'' @ x_uuidString X gateID"

text \<open>The transaction that counts an attempt; \<open>None\<close> when it fails.\<close>

definition count_attempt :: "'r env \<Rightarrow> int \<Rightarrow> uuid \<Rightarrow> string \<Rightarrow> 'r world \<Rightarrow> (int \<times> int) option \<times> 'r world" where
  "count_attempt X now gateID ip w =
     (if x_redisFault X now ''EXEC'' (ipKey X gateID ip) then (None, w)
      else let (a, s1) = incr_expire X now (w_redis w) (ipKey X gateID ip) pinRateLimitTTL;
               (b, s2) = incr_expire X now s1 (gateKey X gateID) pinRateLimitTTL
           in (case (a, b) of (Some n, Some m) \<Rightarrow> Some (n, m) | _ \<Rightarrow> None, w\<lparr>w_redis := s2\<rparr>))"

text \<open>What is decided from the database: the code that matches, its expiry and its schedule.\<close>

definition find_pin :: "'r env \<Rightarrow> int \<Rightarrow> db \<Rightarrow> uuid \<Rightarrow> string \<Rightarrow> (gate_pin \<times> pin_meta) res" where
  "find_pin X now d gateID pin =
     (case pins_List (x_dbFault X now) d gateID \<lparr>pg_Limit = 10000, pg_Offset = 0\<rparr> of
        Inl e \<Rightarrow> Inl (wrap ''list pins'' e)
      | Inr (pins, _) \<Rightarrow>
          (case List.find (\<lambda>p. x_bcryptCheck X (pin_HashedPin p) pin) pins of
             None \<Rightarrow> Inl ErrInvalidPIN
           | Some matched \<Rightarrow>
               (let meta = parsePinMetadata (pin_Metadata matched)
                in if (case pm_ExpiresAt meta of Some t \<Rightarrow> t < now | None \<Rightarrow> False) then Inl ErrScheduleDenied
                   else case pin_ScheduleID matched of
                     None \<Rightarrow> Inr (matched, meta)
                   | Some sid \<Rightarrow>
                       (case schedule_GetPublic (x_dbFault X now) d sid of
                          Inl _ \<Rightarrow> Inr (matched, meta)
                        | Inr schedule \<Rightarrow>
                            (case Check schedule (go_now X now) of
                               Inl _ \<Rightarrow> Inl ErrScheduleDenied
                             | Inr _ \<Rightarrow> Inr (matched, meta))))))"

definition validatePIN :: "'r env \<Rightarrow> int \<Rightarrow> uuid \<Rightarrow> string \<Rightarrow> string \<Rightarrow> 'r world \<Rightarrow> (gate_pin \<times> pin_meta) res \<times> 'r world" where
  "validatePIN X now gateID pin ip w =
     (case count_attempt X now gateID ip w of
        (None, w1) \<Rightarrow> (Inl ErrTooManyAttempts, w1)
      | (Some (n, m), w1) \<Rightarrow>
          if maxAttempts X < n \<or> maxGateAttempts X < m then (Inl ErrTooManyAttempts, w1)
          else wbind (find_pin X now (w_db w1) gateID pin, w1) (\<lambda>r w.
                 (Inr r, redis_Del X now w (ipKey X gateID ip))))"

section \<open>Opening\<close>

definition triggerGate :: "'r env \<Rightarrow> int \<Rightarrow> uuid \<Rightarrow> 'r world \<Rightarrow> 'r world" where
  "triggerGate X now gateID w =
     (case gates_GetByIDPublic (x_dbFault X now) (w_db w) gateID of
        Inl _ \<Rightarrow> w
      | Inr gate \<Rightarrow> emit (EvTrigger gate ''open'') w)"

definition Unlock :: "'r env \<Rightarrow> int \<Rightarrow> uuid \<Rightarrow> string \<Rightarrow> string \<Rightarrow> 'r world \<Rightarrow> unit res \<times> 'r world" where
  "Unlock X now gateID pin ip w =
     wbind (validatePIN X now gateID pin ip w) (\<lambda>_ w. (Inr (), triggerGate X now gateID w))"

text \<open>
  The Lua script of \<open>Open\<close>: \<open>Some 0\<close> when the code is used up, \<open>None\<close> when the script fails.
\<close>

definition use_script :: "'r env \<Rightarrow> int \<Rightarrow> string \<Rightarrow> int \<Rightarrow> 'r world \<Rightarrow> int option \<times> 'r world" where
  "use_script X now k most w =
     (if x_redisFault X now ''EVAL'' k then (None, w)
      else case rd_Incr (x_redis X) (w_redis w) now k of
        None \<Rightarrow> (None, w)
      | Some (count, s1) \<Rightarrow>
          if most < count
          then (case rd_Decr (x_redis X) s1 now k of
                  None \<Rightarrow> (None, w\<lparr>w_redis := s1\<rparr>)
                | Some (_, s2) \<Rightarrow> (Some 0, w\<lparr>w_redis := s2\<rparr>))
          else (Some count, w\<lparr>w_redis := s1\<rparr>))"

definition count_use :: "'r env \<Rightarrow> int \<Rightarrow> gate_pin \<Rightarrow> pin_meta \<Rightarrow> 'r world \<Rightarrow> unit res \<times> 'r world" where
  "count_use X now matched meta w =
     (case pm_MaxUses meta of
        None \<Rightarrow> (Inr (), w)
      | Some most \<Rightarrow>
          if most \<le> 0 then (Inr (), w)
          else (case use_script X now (usesKey X (pin_ID matched)) most w of
                  (None, w1) \<Rightarrow> (Inr (), w1)
                | (Some result, w1) \<Rightarrow> if result = 0 then (Inl ErrMaxUsesExceeded, w1) else (Inr (), w1)))"

definition pin_session_duration :: "pin_meta \<Rightarrow> int" where
  "pin_session_duration meta =
     (case pm_SessionDuration meta of Some n \<Rightarrow> seconds n | None \<Rightarrow> 7 * 24 * Hour)"

definition pin_permissions :: "pin_meta \<Rightarrow> string list" where
  "pin_permissions meta =
     (let perms = (case pm_Permissions meta of None \<Rightarrow> [] | Some ps \<Rightarrow> ps)
      in filter (\<lambda>p. p \<noteq> PermManage) (if perms = [] then [PermTriggerOpen] else perms))"

record open_result =
  or_Tokens :: token_pair
  or_Permissions :: "string list"

definition pin_Open :: "'r env \<Rightarrow> int \<Rightarrow> uuid \<Rightarrow> string \<Rightarrow> string \<Rightarrow> 'r world \<Rightarrow> open_result res \<times> 'r world" where
  "pin_Open X now gateID pin ip w =
     wbind (validatePIN X now gateID pin ip w) (\<lambda>(matched, meta) w.
     wbind (count_use X now matched meta w) (\<lambda>_ w.
     wbind (werr (wrap ''issue session'')
              (IssueGatePinSession X now (pin_ID matched) gateID (pin_session_duration meta) (Some (pin_permissions meta)) w))
       (\<lambda>tokens w.
       (Inr \<lparr>or_Tokens = tokens, or_Permissions = pin_permissions meta\<rparr>, triggerGate X now gateID w))))"

definition TriggerWithSession :: "'r env \<Rightarrow> int \<Rightarrow> string \<Rightarrow> string \<Rightarrow> 'r world \<Rightarrow> unit res \<times> 'r world" where
  "TriggerWithSession X now tok action w =
     (case ValidatePinSessionToken X now tok of
        Inl e \<Rightarrow> (Inl (if e = ErrPanic then ErrPanic else ErrInvalidSession), w)
      | Inr (_, gateID, permissions) \<Rightarrow>
          (let requiredPerm = permCode_of action;
               perms = (case permissions of None \<Rightarrow> [] | Some ps \<Rightarrow> ps)
           in if requiredPerm \<notin> set perms
              then (Inl (Wrapf ''%w: missing %s'' [AStr requiredPerm] ErrUnauthorized), w)
              else wbind (gates_GetByIDPublic (x_dbFault X now) (w_db w) gateID, w) (\<lambda>gate w.
                     (Inr (), emit (EvTrigger gate action) w))))"

end
