(* ===== verification/Http_Api.thy ===== *)
theory Http_Api
  imports Pin_Service
begin

text \<open>
  What the HTTP layer shares: an error response as the value \<open>HErr status message\<close>, the parts of
  a request the middlewares read, and the identity they leave in the request context (the
  context keys of \<open>internal/middleware/auth.go\<close>). The JSON body of a response is the value of the
  handler; headers other than the cookies are left out.
\<close>

section \<open>Responses\<close>

datatype herr = HErr int string

type_synonym 'a hres = "herr + 'a"

definition hbind :: "'a hres \<times> 'w \<Rightarrow> ('a \<Rightarrow> 'w \<Rightarrow> 'b hres \<times> 'w) \<Rightarrow> 'b hres \<times> 'w" where
  "hbind r f = (case fst r of Inl e \<Rightarrow> (Inl e, snd r) | Inr a \<Rightarrow> f a (snd r))"

lemma hbind_simps [simp]: "hbind (Inl e, w) f = (Inl e, w)" "hbind (Inr a, w) f = f a w"
  by (simp_all add: hbind_def)

lemma hbind_Inr_iff: "hbind r f = (Inr b, w') \<longleftrightarrow> (\<exists>a w. r = (Inr a, w) \<and> f a w = (Inr b, w'))"
  by (cases r; cases "fst r") (auto simp: hbind_def)

lemma hbind_ok_iff: "fst (hbind r f) = Inr b \<longleftrightarrow> (\<exists>a w. r = (Inr a, w) \<and> fst (f a w) = Inr b)"
  by (cases r; cases "fst r") (auto simp: hbind_def)

text \<open>The answer of a handler to an error of a service.\<close>

definition respond :: "(err \<Rightarrow> herr) \<Rightarrow> 'a res \<Rightarrow> 'a hres" where
  "respond h r = (case r of Inl e \<Rightarrow> Inl (h e) | Inr a \<Rightarrow> Inr a)"

definition wrespond :: "(err \<Rightarrow> herr) \<Rightarrow> 'a res \<times> 'w \<Rightarrow> 'a hres \<times> 'w" where
  "wrespond h r = (respond h (fst r), snd r)"

lemma respond_simps [simp]: "respond h (Inl e) = Inl (h e)" "respond h (Inr a) = Inr a"
  by (simp_all add: respond_def)

lemma respond_Inr_iff [simp]: "respond h r = Inr a \<longleftrightarrow> r = Inr a"
  by (cases r) simp_all

lemma wrespond_sel [simp]: "fst (wrespond h r) = respond h (fst r)" "snd (wrespond h r) = snd r"
  by (simp_all add: wrespond_def)

lemma wrespond_Inr_iff: "wrespond h r = (Inr a, w) \<longleftrightarrow> r = (Inr a, w)"
  by (cases r) (auto simp: wrespond_def)

section \<open>Requests\<close>

record request =
  rq_RemoteAddr :: string
  rq_Host :: string
  rq_Cookie :: string
  rq_Authorization :: string
  rq_PathGateID :: string

record req_ctx =
  cx_MemberID :: "uuid option"
  cx_Role :: "string option"
  cx_CredentialID :: "uuid option"
  cx_ClientIP :: string

definition MemberIDFromContext :: "req_ctx \<Rightarrow> uuid option" where
  "MemberIDFromContext cx = (case cx_MemberID cx of Some i \<Rightarrow> if i \<noteq> uuid_Nil then Some i else None | None \<Rightarrow> None)"

definition MemberRoleFromContext :: "req_ctx \<Rightarrow> string option" where
  "MemberRoleFromContext cx = (case cx_Role cx of Some r \<Rightarrow> if r \<noteq> [] then Some r else None | None \<Rightarrow> None)"

definition CredentialIDFromContext :: "req_ctx \<Rightarrow> uuid option" where
  "CredentialIDFromContext cx = (case cx_CredentialID cx of Some i \<Rightarrow> if i \<noteq> uuid_Nil then Some i else None | None \<Rightarrow> None)"

definition IsAPITokenAuth :: "req_ctx \<Rightarrow> bool" where
  "IsAPITokenAuth cx = (CredentialIDFromContext cx \<noteq> None)"

definition IsPrivilegedMember :: "req_ctx \<Rightarrow> bool" where
  "IsPrivilegedMember cx = (if IsAPITokenAuth cx then False else MemberRoleFromContext cx = Some RoleAdmin)"

definition ClientIPFromContext :: "req_ctx \<Rightarrow> string" where
  "ClientIPFromContext cx = (if cx_ClientIP cx \<noteq> [] then cx_ClientIP cx else ''unknown'')"

end
