(* ===== verification/Auth_Props.thy ===== *)
theory Auth_Props
  imports Auth_Service
begin

text \<open>
  What the authentication service promises: the life time of access tokens and the separation
  of the three kinds of token, sessions that keep their duration, refresh tokens that work once
  and follow the current role of the member, and passwords.
\<close>

section \<open>Durations survive the JSON payload\<close>

lemma bit_len_le: "n < 2 ^ k \<Longrightarrow> bit_len n \<le> int k"
proof (induction n arbitrary: k rule: bit_len.induct)
  case (1 n)
  show ?case
  proof (cases "n \<le> 0")
    case True
    then show ?thesis by (simp add: bit_len.simps)
  next
    case False
    with "1.prems" have "0 < k" by (cases k) auto
    then obtain j where k: "k = Suc j" by (cases k) auto
    with "1.prems" have "n div 2 < 2 ^ j" by auto
    from "1.IH" [OF False this] False k show ?thesis by (subst bit_len.simps) simp
  qed
qed

lemma round_half_even_int [simp]: "round_half_even (of_int n) = n"
  by (simp add: round_half_even_def Let_def)

lemma floor_log2_int:
  assumes "0 < n" and "n < 2 ^ 53"
  shows "floor_log2 (of_int n) \<le> 52"
proof -
  have "quotient_of (of_int n :: rat) = (n, 1)" using quotient_of_int [of n] by (simp add: Rat.of_int_def)
  moreover have "bit_len 1 = 1" by (simp add: bit_len.simps)
  moreover have "bit_len n \<le> 53" using bit_len_le [of n 53] assms by simp
  ultimately show ?thesis by (simp add: floor_log2_def Let_def)
qed

text \<open>Integers below \<open>2 ^ 53\<close> are doubles.\<close>

lemma round64_int:
  assumes "0 \<le> n" and "n < 2 ^ 53"
  shows "round64 (of_int n) = Some (of_int n)"
proof (cases "n = 0")
  case True
  then show ?thesis by (simp add: round64_def)
next
  case False
  with assms have pos: "0 < n" by simp
  define e where "e = max (floor_log2 (of_int n)) (- 1022)"
  have e: "e \<le> 52" using floor_log2_int [OF pos assms(2)] by (simp add: e_def)
  define j where "j = nat (52 - e)"
  have ulp: "pow2 (e - 52) = 1 / 2 ^ j"
    using e by (cases "e = 52") (simp_all add: pow2_def j_def)
  have q: "of_int n / pow2 (e - 52) = of_int (n * 2 ^ j)" by (simp add: ulp)
  have m: "round_half_even (of_int n / pow2 (e - 52)) = n * 2 ^ j"
    unfolding q by (rule round_half_even_int)
  have "of_int (n * 2 ^ j) * pow2 (e - 52) = (of_int n :: rat)" by (simp add: ulp)
  with m e pos show ?thesis
    by (simp add: round64_def Let_def e_def [symmetric] del: of_int_mult)
qed

lemma dur_seconds_whole:
  assumes "0 \<le> n" and "n \<le> 9223372036"
  shows "dur_seconds (n * Second) = Fin (of_int n)"
proof -
  have "n * Second div Second = n" by simp
  moreover have "\<not> n * Second < 0" using assms by simp
  moreover have "round64 0 = Some 0" by (simp add: round64_def)
  moreover have "round64 (of_int n) = Some (of_int n)" using assms by (intro round64_int) auto
  ultimately show ?thesis by (simp add: dur_seconds_def Let_def)
qed

text \<open>Evaluation goes straight to the result for whole seconds.\<close>

definition dur_seconds_rounded :: "int \<Rightarrow> f64" where
  "dur_seconds_rounded d = dur_seconds d"

lemma dur_seconds_rounded_code [code]:
  "dur_seconds_rounded d =
     (let sec = (if d < 0 then - (- d div Second) else d div Second);
          frac = (case round64 (of_int (d - sec * Second) / of_int Second) of Some r \<Rightarrow> r | None \<Rightarrow> 0)
      in case round64 (of_int sec + frac) of Some r \<Rightarrow> Fin r | None \<Rightarrow> PInf)"
  by (simp add: dur_seconds_rounded_def dur_seconds_def)

lemma dur_seconds_code [code]:
  "dur_seconds d = (if 0 \<le> d \<and> d mod Second = 0 \<and> d div Second \<le> 9223372036 then Fin (of_int (d div Second))
     else dur_seconds_rounded d)"
proof (cases "0 \<le> d \<and> d mod Second = 0 \<and> d div Second \<le> 9223372036")
  case True
  then obtain n where d: "d = n * Second" by (metis mod_0_imp_dvd dvdE mult.commute)
  with True have "0 \<le> n" "n \<le> 9223372036" by simp_all
  from dur_seconds_whole [OF this] True show ?thesis by (simp add: d)
next
  case False
  then show ?thesis unfolding if_not_P [OF False] by (simp add: dur_seconds_rounded_def)
qed

lemma payloadSessionDuration_whole:
  assumes "0 \<le> n" and "n \<le> 9223372036" and "map_of payload ''session_duration'' = Some (VNum (dur_seconds (n * Second)))"
  shows "payloadSessionDuration payload = n * Second"
  using assms by (simp add: payloadSessionDuration_def dur_seconds_whole f64_to_int_def Let_def wrap64_id)

text \<open>
  The duration of a session survives its storage as a JSON number of seconds: for every
  whole number of seconds that fits a duration, a member session and a session of an access code
  are refreshed with exactly the duration they were opened with, 0 (no expiry) included.
\<close>

theorem session_duration_roundtrip:
  assumes "0 \<le> n" and "n \<le> 9223372036"
  shows "payloadSessionDuration (member_payload X m role (n * Second)) = n * Second
    \<and> payloadSessionDuration (pin_payload X p g (n * Second) perms) = n * Second"
  by (simp add: payloadSessionDuration_whole [OF assms] member_payload_def pin_payload_def)

theorem session_duration_roundtrip_witness:
  "payloadSessionDuration (member_payload (sample_env []) 2 RoleMember (604800 * Second)) = 604800 * Second"
  using session_duration_roundtrip [of 604800 "sample_env []" 2 RoleMember 3 1 None] by simp

section \<open>Access tokens\<close>

lemma jwt_sign_parse:
  assumes "jwt_ok X" and "jwt_sign X claims = Inr tok"
  shows "x_jwtParse X (keyFunc X) now req tok = (if exp_valid now req claims then Some claims else None)"
proof -
  have "x_jwtSign X (cf_jwtSecret X) claims = Some tok"
    using assms(2) by (simp add: jwt_sign_def split: option.splits)
  with assms(1) show ?thesis unfolding jwt_ok_def by (simp add: keyFunc_def)
qed

lemma issueTokenPair_ok:
  assumes "issueTokenPair X now m role dur w = (Inr tp, w')"
  shows "jwt_sign X (member_claims X now m role) = Inr (tp_AccessToken tp)"
    and "newRefreshToken X now = Inr (tp_RefreshToken tp)"
    and "w' = w\<lparr>w_redis := rd_Set (x_redis X) (w_redis w) now (refreshKey X (tp_RefreshToken tp))
               (RJson (VObj (member_payload X m role dur))) dur\<rparr>"
  using assms
  by (auto simp: issueTokenPair_def wbind_Inr_iff werr_Inr_iff redis_Set_def split: if_splits)

lemma IssueGatePinSession_ok:
  assumes "IssueGatePinSession X now p g dur perms w = (Inr tp, w')"
  shows "jwt_sign X (pin_claims X now p g perms) = Inr (tp_AccessToken tp)"
    and "newRefreshToken X now = Inr (tp_RefreshToken tp)"
    and "w' = w\<lparr>w_redis := rd_Set (x_redis X) (w_redis w) now (refreshKey X (tp_RefreshToken tp))
               (RJson (VObj (pin_payload X p g dur perms))) dur\<rparr>"
  using assms
  by (auto simp: IssueGatePinSession_def wbind_Inr_iff werr_Inr_iff redis_Set_def split: if_splits)

lemma IssueGateToken_sign: "IssueGateToken X now g = Inr tok \<Longrightarrow> jwt_sign X (gateTokenClaims X now g) = Inr tok"
  by (auto simp: IssueGateToken_def jwt_sign_def split: option.splits)

lemma exp_valid_num_date:
  "map_of claims ''exp'' = Some (num_date e) \<Longrightarrow> exp_valid t req claims \<longleftrightarrow> t < (e div Second) * Second"
proof -
  have "(of_int t :: rat) < of_int (e div Second) * of_int Second \<longleftrightarrow> t < (e div Second) * Second"
    unfolding of_int_mult [symmetric] of_int_less_iff ..
  then show "map_of claims ''exp'' = Some (num_date e) \<Longrightarrow> exp_valid t req claims \<longleftrightarrow> t < (e div Second) * Second"
    by (simp add: exp_valid_def num_date_def)
qed

text \<open>
  An access token identifies the member and the role it was issued for until its expiry,
  fifteen minutes later (rounded down to the second), and is refused from then on; nothing
  stored on the server can revoke it earlier.
\<close>

lemma access_token_valid:
  assumes "jwt_ok X" and "uuid_ok X" and "role \<noteq> []"
    and "issueTokenPair X now m role dur w = (Inr tp, w')"
  shows "ValidateAccessToken X t (tp_AccessToken tp) =
    (if t < ((now + 15 * Minute) div Second) * Second then Inr (m, role) else Inl ErrInvalidToken)"
proof -
  have e: "exp_valid t True (member_claims X now m role) \<longleftrightarrow> t < ((now + 15 * Minute) div Second) * Second"
    by (rule exp_valid_num_date) (simp add: member_claims_def)
  show ?thesis
    unfolding ValidateAccessToken_def jwt_sign_parse [OF assms(1) issueTokenPair_ok(1) [OF assms(4)]] e
    using assms(2,3) by (simp add: member_claims_def str_field_def uuid_ok_def)
qed

text \<open>
  C24: The three kinds of token the server signs with the same secret are never taken for
  one another: a member's access token opens no access-code session and is no gate token, a
  session token is no member or gate token, and a gate token is neither of the others, at any
  time.
\<close>

theorem token_kinds_disjoint:
  assumes "jwt_ok X"
  shows "(issueTokenPair X now m role dur w = (Inr tp, w1) \<longrightarrow>
      ValidatePinSessionToken X t (tp_AccessToken tp) = Inl ErrInvalidToken \<and> ParseGateToken X t (tp_AccessToken tp) = Inl ErrInvalidToken)
    \<and> (IssueGatePinSession X now p g dur perms w = (Inr sp, w2) \<longrightarrow>
      ValidateAccessToken X t (tp_AccessToken sp) = Inl ErrInvalidToken \<and> ParseGateToken X t (tp_AccessToken sp) = Inl ErrInvalidToken)
    \<and> (IssueGateToken X now g = Inr gt \<longrightarrow>
      ValidateAccessToken X t gt = Inl ErrInvalidToken \<and> ValidatePinSessionToken X t gt = Inl ErrInvalidToken)"
proof (intro conjI impI; (elim conjE)?)
  note P = jwt_sign_parse [OF assms]
  assume "issueTokenPair X now m role dur w = (Inr tp, w1)"
  note s = P [OF issueTokenPair_ok(1) [OF this]]
  show "ValidatePinSessionToken X t (tp_AccessToken tp) = Inl ErrInvalidToken"
    and "ParseGateToken X t (tp_AccessToken tp) = Inl ErrInvalidToken"
    by (simp_all add: ValidatePinSessionToken_def ParseGateToken_def s member_claims_def str_field_def)
next
  note P = jwt_sign_parse [OF assms]
  assume "IssueGatePinSession X now p g dur perms w = (Inr sp, w2)"
  note s = P [OF IssueGatePinSession_ok(1) [OF this]]
  show "ValidateAccessToken X t (tp_AccessToken sp) = Inl ErrInvalidToken"
    and "ParseGateToken X t (tp_AccessToken sp) = Inl ErrInvalidToken"
    by (simp_all add: ValidateAccessToken_def ParseGateToken_def s pin_claims_def str_field_def)
next
  note P = jwt_sign_parse [OF assms]
  assume "IssueGateToken X now g = Inr gt"
  note s = P [OF IssueGateToken_sign [OF this]]
  show "ValidateAccessToken X t gt = Inl ErrInvalidToken"
    and "ValidatePinSessionToken X t gt = Inl ErrInvalidToken"
    by (simp_all add: ValidateAccessToken_def ValidatePinSessionToken_def s gateTokenClaims_def str_field_def)
qed

definition sample_auth_table :: token_table where
  "sample_auth_table =
     [(''new-jwt'', ''secret'', [(''sub'', VStr (unary 6)), (''type'', VStr ''member''), (''role'', VStr RoleMember),
        (''iat'', num_date 0), (''exp'', num_date (0 + 15 * Minute))]),
      (''admin-jwt'', ''secret'', [(''sub'', VStr (unary 2)), (''type'', VStr ''member''), (''role'', VStr RoleAdmin),
        (''iat'', num_date 0), (''exp'', num_date (0 + 15 * Minute))]),
      (''member-jwt'', ''secret'', [(''sub'', VStr (unary 2)), (''type'', VStr ''member''), (''role'', VStr RoleMember),
        (''iat'', num_date 0), (''exp'', num_date (0 + 15 * Minute))]),
      (''pin-jwt'', ''secret'', [(''sub'', VStr (unary 3)), (''type'', VStr ''pin_session''), (''gate_id'', VStr (unary 1)),
        (''permissions'', VNull), (''iat'', num_date 0), (''exp'', num_date (0 + 15 * Minute))]),
      (''gate-jwt'', ''secret'', [(''jti'', VStr (unary 3)), (''sub'', VStr (unary 1)), (''iat'', num_date 0),
        (''type'', VStr ''gate_token'')])]"

lemma sample_auth_ok: "jwt_ok (sample_env sample_auth_table)"
  by (rule sample_jwt_ok) (simp add: sample_auth_table_def)

abbreviation auth_env :: "kv env" where "auth_env \<equiv> sample_env sample_auth_table"

lemma sample_issue:
  "\<exists>w1. issueTokenPair auth_env 0 2 RoleMember (60 * Second) (sample_world sample_db) =
     (Inr \<lparr>tp_AccessToken = ''member-jwt'', tp_RefreshToken = ''refresh0'', tp_SessionDuration = 60 * Second,
           tp_AccessTokenTTL = AccessTokenTTL\<rparr>, w1)"
proof -
  let ?r = "issueTokenPair auth_env 0 2 RoleMember (60 * Second) (sample_world sample_db)"
  have "fst ?r = Inr \<lparr>tp_AccessToken = ''member-jwt'', tp_RefreshToken = ''refresh0'', tp_SessionDuration = 60 * Second,
           tp_AccessTokenTTL = AccessTokenTTL\<rparr>" by code_simp
  then show ?thesis by (metis prod.collapse)
qed

theorem token_kinds_disjoint_witness:
  "ValidatePinSessionToken auth_env 5 ''member-jwt'' = Inl ErrInvalidToken
   \<and> ValidateAccessToken auth_env 5 ''gate-jwt'' = Inl ErrInvalidToken
   \<and> IssueGateToken auth_env 0 1 = Inr ''gate-jwt''"
proof -
  obtain w1 where m: "issueTokenPair auth_env 0 2 RoleMember (60 * Second) (sample_world sample_db) =
     (Inr \<lparr>tp_AccessToken = ''member-jwt'', tp_RefreshToken = ''refresh0'', tp_SessionDuration = 60 * Second,
           tp_AccessTokenTTL = AccessTokenTTL\<rparr>, w1)" using sample_issue by blast
  have g: "IssueGateToken auth_env 0 1 = Inr ''gate-jwt''" by code_simp
  have "ValidatePinSessionToken auth_env 5 ''member-jwt'' = Inl ErrInvalidToken"
    using token_kinds_disjoint [where t = 5, OF sample_auth_ok, THEN conjunct1, THEN mp, OF m] by simp
  moreover have "ValidateAccessToken auth_env 5 ''gate-jwt'' = Inl ErrInvalidToken"
    using token_kinds_disjoint [where t = 5, OF sample_auth_ok, THEN conjunct2, THEN conjunct2, THEN mp, OF g] by simp
  ultimately show ?thesis using g by simp
qed

section \<open>Refresh tokens\<close>

lemma sessions_not_confused: "str_field (member_payload X m r d) ''type'' = ''member''"
  by (simp add: member_payload_def str_field_def)

text \<open>
  Refreshing a member's session within its duration (or at any time when it has none)
  issues tokens for the same member with the role the member has now and the same session
  duration; it is refused when the member has been deleted or the session is over. The refresh
  token is consumed in every case.
\<close>

theorem refresh_follows_role:
  assumes "redis_ok (x_redis X) view" and "uuid_ok X" and "0 \<le> n" and "n \<le> 9223372036"
    and "issueTokenPair X now m role (n * Second) w = (Inr tp, w1)" and "now \<le> t"
    and "\<And>c k. \<not> x_redisFault X t c k" and "\<And>op k. \<not> x_dbFault X t op k"
  shows "Refresh X t (tp_RefreshToken tp) (w1\<lparr>w_db := d\<rparr>) =
    (if n \<noteq> 0 \<and> now + n * Second \<le> t then (Inl ErrInvalidToken, w1\<lparr>w_db := d\<rparr>)
     else let w2 = w1\<lparr>w_db := d, w_redis := rd_Del (x_redis X) (w_redis w1) t (refreshKey X (tp_RefreshToken tp))\<rparr>
          in case member_row d m of
               None \<Rightarrow> (Inl ErrInvalidToken, w2)
             | Some mem \<Rightarrow> wbind (issueTokenPair X t m (mem_Role mem) (n * Second) w2) (\<lambda>tokens w3.
                 (Inr \<lparr>rr_Tokens = tokens, rr_Type = ''member'', rr_Member = Some mem, rr_GateID = uuid_Nil,
                       rr_Permissions = None\<rparr>, w3)))"
proof -
  note R = redis_store.intro [OF assms(1)]
  let ?key = "refreshKey X (tp_RefreshToken tp)"
  note w1 = issueTokenPair_ok(3) [OF assms(5)]
  have g: "rd_Get (x_redis X) (w_redis w1) t ?key =
      (if n = 0 \<or> t < now + n * Second then Some (RJson (VObj (member_payload X m role (n * Second)))) else None)"
    unfolding w1 using redis_store.get_set [OF R assms(6), of "n * Second"] assms(3) by simp
  have p: "payloadSessionDuration (member_payload X m role (n * Second)) = n * Second"
    using assms(3,4) by (simp add: payloadSessionDuration_whole member_payload_def)
  have u: "uuid_field X (member_payload X m role (n * Second)) ''sub'' = Some m"
    using assms(2) by (simp add: uuid_field_def member_payload_def uuid_ok_def)
  show ?thesis
  proof (cases "n = 0 \<or> t < now + n * Second")
    case True
    then have g': "rd_Get (x_redis X) (w_redis w1) t ?key = Some (RJson (VObj (member_payload X m role (n * Second))))"
      and c: "\<not> (n \<noteq> 0 \<and> now + n * Second \<le> t)"
      using g by auto
    show ?thesis
      unfolding if_not_P [OF c]
      by (simp add: Refresh_def redis_GetDel_def assms(7,8) g' sessions_not_confused refresh_member_def u p Let_def
          members_GetByID_def scan_one_def member_row_def split: option.splits)
  next
    case False
    then show ?thesis by (simp add: Refresh_def redis_GetDel_def assms(7) g)
  qed
qed

text \<open>Ana opens a session as a member and is then promoted.\<close>

definition session_world :: "kv world" where
  "session_world = snd (issueTokenPair auth_env 0 2 RoleMember (60 * Second) (sample_world sample_db))"

definition promoted_db :: db where
  "promoted_db = snd (members_Update no_faults sample_db 2 None None (Some RoleAdmin))"

theorem refresh_follows_role_witness:
  "(case fst (Refresh auth_env 1 ''refresh0'' (session_world\<lparr>w_db := promoted_db\<rparr>)) of
      Inr r \<Rightarrow> tp_AccessToken (rr_Tokens r) = ''admin-jwt'' \<and> rr_Type r = ''member'' | Inl _ \<Rightarrow> False)
   \<and> fst (Refresh auth_env 60000000000 ''refresh0'' (session_world\<lparr>w_db := promoted_db\<rparr>)) = Inl ErrInvalidToken"
proof -
  obtain w1 where m: "issueTokenPair auth_env 0 2 RoleMember (60 * Second) (sample_world sample_db) =
     (Inr \<lparr>tp_AccessToken = ''member-jwt'', tp_RefreshToken = ''refresh0'', tp_SessionDuration = 60 * Second,
           tp_AccessTokenTTL = AccessTokenTTL\<rparr>, w1)" using sample_issue by blast
  then have w1: "w1 = session_world" by (simp add: session_world_def)
  note F = refresh_follows_role [OF sample_redis_ok sample_uuid_ok _ _ m, of _ promoted_db, simplified token_pair.simps w1]
  have "Refresh auth_env 60000000000 ''refresh0'' (session_world\<lparr>w_db := promoted_db\<rparr>)
      = (Inl ErrInvalidToken, session_world\<lparr>w_db := promoted_db\<rparr>)"
    using F [of 60000000000] by simp
  moreover have e: "Refresh auth_env 1 ''refresh0'' (session_world\<lparr>w_db := promoted_db\<rparr>) =
    (let w2 = session_world\<lparr>w_db := promoted_db, w_redis := rd_Del (x_redis auth_env) (w_redis session_world) 1 (refreshKey auth_env ''refresh0'')\<rparr>
          in case member_row promoted_db 2 of
               None \<Rightarrow> (Inl ErrInvalidToken, w2)
             | Some mem \<Rightarrow> wbind (issueTokenPair auth_env 1 2 (mem_Role mem) (60 * Second) w2) (\<lambda>tokens w3.
                 (Inr \<lparr>rr_Tokens = tokens, rr_Type = ''member'', rr_Member = Some mem, rr_GateID = uuid_Nil,
                       rr_Permissions = None\<rparr>, w3)))"
    using F [of 1] by simp
  moreover have "(case fst (let w2 = session_world\<lparr>w_db := promoted_db, w_redis := rd_Del (x_redis auth_env) (w_redis session_world) 1 (refreshKey auth_env ''refresh0'')\<rparr>
          in case member_row promoted_db 2 of
               None \<Rightarrow> (Inl ErrInvalidToken, w2)
             | Some mem \<Rightarrow> wbind (issueTokenPair auth_env 1 2 (mem_Role mem) (60 * Second) w2) (\<lambda>tokens w3.
                 (Inr \<lparr>rr_Tokens = tokens, rr_Type = ''member'', rr_Member = Some mem, rr_GateID = uuid_Nil,
                       rr_Permissions = None\<rparr>, w3))) of
      Inr r \<Rightarrow> tp_AccessToken (rr_Tokens r) = ''admin-jwt'' \<and> rr_Type r = ''member'' | Inl _ \<Rightarrow> False)"
    by code_simp
  ultimately show ?thesis by simp
qed

text \<open>A refresh writes Redis only at the key of the token it issues.\<close>

lemma issueTokenPair_keeps:
  assumes "redis_ok (x_redis X) view" and "now \<le> t"
    and "\<And>h. x_random X now ''refresh'' = Some h \<Longrightarrow> refreshKey X h \<noteq> k"
  shows "rd_Get (x_redis X) (w_redis (snd (issueTokenPair X now m r d w))) t k = rd_Get (x_redis X) (w_redis w) t k"
    and "rd_Get (x_redis X) (w_redis (snd (IssueGatePinSession X now p g d perms w))) t k = rd_Get (x_redis X) (w_redis w) t k"
proof -
  note O = redis_store.get_set_other [OF redis_store.intro [OF assms(1)] assms(2)]
  have N: "refreshKey X h \<noteq> k" if "newRefreshToken X now = Inr h" for h
    using that assms(3) by (simp add: newRefreshToken_def split: option.splits)
  have S: "rd_Get (x_redis X) (w_redis (snd (redis_Set X now w (refreshKey X h) v d))) t k = rd_Get (x_redis X) (w_redis w) t k"
    if "newRefreshToken X now = Inr h" for h v
    using N [OF that] O by (simp add: redis_Set_def)
  show "rd_Get (x_redis X) (w_redis (snd (issueTokenPair X now m r d w))) t k = rd_Get (x_redis X) (w_redis w) t k"
    unfolding issueTokenPair_def
    by (cases "jwt_sign X (member_claims X now m r)"; cases "newRefreshToken X now") (simp_all add: S wbind_def split: sum.splits)
  show "rd_Get (x_redis X) (w_redis (snd (IssueGatePinSession X now p g d perms w))) t k = rd_Get (x_redis X) (w_redis w) t k"
    unfolding IssueGatePinSession_def
    by (cases "jwt_sign X (pin_claims X now p g perms)"; cases "newRefreshToken X now") (simp_all add: S wbind_def split: sum.splits)
qed

lemma snd_wbind_pure: "snd (wbind r (\<lambda>a w. (Inr (f a), w))) = snd r"
  by (cases r; cases "fst r") (simp_all add: wbind_def)

lemma refresh_tail_keeps:
  assumes "redis_ok (x_redis X) view" and "now \<le> t"
    and "\<And>h. x_random X now ''refresh'' = Some h \<Longrightarrow> refreshKey X h \<noteq> k"
  shows "rd_Get (x_redis X) (w_redis (snd (refresh_member X now payload w))) t k = rd_Get (x_redis X) (w_redis w) t k"
    and "rd_Get (x_redis X) (w_redis (snd (refresh_pin X now payload w))) t k = rd_Get (x_redis X) (w_redis w) t k"
  using issueTokenPair_keeps [OF assms]
  by (simp_all add: refresh_member_def refresh_pin_def Let_def snd_wbind_pure split: option.splits sum.splits)

text \<open>
  A refresh token works once: after Redis has answered one refresh with it, successful
  or not, every later refresh with the same token is refused, whatever has become of the database
  in between (the token drawn by the first refresh is taken to be another one).
\<close>

theorem refresh_single_use:
  assumes "redis_ok (x_redis X) view" and "now \<le> t"
    and "\<not> x_redisFault X now ''GETDEL'' (refreshKey X tok)"
    and "\<And>h. x_random X now ''refresh'' = Some h \<Longrightarrow> refreshKey X h \<noteq> refreshKey X tok"
  shows "fst (Refresh X t tok ((snd (Refresh X now tok w))\<lparr>w_db := d\<rparr>)) = Inl ErrInvalidToken"
proof -
  note R = redis_store.intro [OF assms(1)]
  let ?k = "refreshKey X tok"
  note T = refresh_tail_keeps [OF assms(1,2,4)]
  have "rd_Get (x_redis X) (w_redis (snd (Refresh X now tok w))) t ?k = None"
  proof (cases "rd_Get (x_redis X) (w_redis w) now ?k")
    case None
    then have "rd_Get (x_redis X) (w_redis w) t ?k = None" by (rule redis_store.get_gone [OF R _ assms(2)])
    with None assms(3) show ?thesis by (simp add: Refresh_def redis_GetDel_def)
  next
    case (Some v)
    have g: "rd_Get (x_redis X) (rd_Del (x_redis X) (w_redis w) now ?k) t ?k = None"
      by (rule redis_store.get_del [OF R assms(2)])
    from Some assms(3) show ?thesis
      by (simp add: Refresh_def redis_GetDel_def Let_def T g split: rval.splits gval.splits)
  qed
  then show ?thesis by (simp add: Refresh_def redis_GetDel_def split: option.splits)
qed

theorem refresh_single_use_witness:
  "is_ok (fst (Refresh auth_env 1 ''refresh0'' session_world))
   \<and> fst (Refresh auth_env 2 ''refresh0'' (snd (Refresh auth_env 1 ''refresh0'' session_world))) = Inl ErrInvalidToken"
proof -
  have "is_ok (fst (Refresh auth_env 1 ''refresh0'' session_world))" by code_simp
  moreover have "x_random auth_env 1 ''refresh'' = Some ''refresh1''" by code_simp
  then have "fst (Refresh auth_env 2 ''refresh0'' ((snd (Refresh auth_env 1 ''refresh0'' session_world))
      \<lparr>w_db := w_db (snd (Refresh auth_env 1 ''refresh0'' session_world))\<rparr>)) = Inl ErrInvalidToken"
    by (intro refresh_single_use [OF sample_redis_ok]) (auto simp: refreshKey_def)
  ultimately show ?thesis by simp
qed

section \<open>Passwords\<close>

lemma creds_Create_password:
  assumes "creds_Create flt d i now m CredPassword h None None [] = (Inr c, d')"
  shows "List.find (\<lambda>c. cr_MemberID c = m \<and> cr_Type c = CredPassword) (db_creds d') = Some c"
    and "cr_HashedValue c = h" and "db_members d' = db_members d"
proof -
  from assms have no: "\<not> list_ex (\<lambda>c. cr_Type c = CredPassword \<and> cr_MemberID c = m) (db_creds d)"
    and d': "d' = d\<lparr>db_creds := db_creds d @ [c]\<rparr>"
    and c: "cr_MemberID c = m" "cr_Type c = CredPassword" "cr_HashedValue c = h"
    by (auto simp: creds_Create_def Let_def split: if_splits)
  from no have "List.find (\<lambda>c. cr_MemberID c = m \<and> cr_Type c = CredPassword) (db_creds d) = None"
    by (auto simp: find_None_iff_ball list_ex_iff)
  with d' c show "List.find (\<lambda>c. cr_MemberID c = m \<and> cr_Type c = CredPassword) (db_creds d') = Some c"
    by (simp add: find_append)
  show "cr_HashedValue c = h" "db_members d' = db_members d" using d' c by simp_all
qed

lemma Login_rows:
  assumes "\<And>op k. \<not> x_dbFault X t op k"
    and "List.find (\<lambda>m. mem_Username m = u) (db_members (w_db w)) = Some m"
    and "List.find (\<lambda>c. cr_MemberID c = mem_ID m \<and> cr_Type c = CredPassword) (db_creds (w_db w)) = Some c"
  shows "Login X t u pw w = (if x_bcryptCheck X (cr_HashedValue c) pw
    then wbind (issueTokenPair X t (mem_ID m) (mem_Role m) (cf_sessionDuration X) w) (\<lambda>tokens w. (Inr (tokens, m), w))
    else (Inl ErrInvalidCredentials, w))"
  using assms by (simp add: Login_def members_GetByUsername_def creds_GetByMemberAndType_def scan_one_def)

lemma bcryptGenerate_check:
  assumes "bcrypt_ok X" and "bcryptGenerate X now pw = Inr h" and "length pw \<le> 72" and "length pw' \<le> 72"
  shows "x_bcryptCheck X h pw' = (pw' = pw)"
  using assms unfolding bcrypt_ok_def by (auto simp: bcryptGenerate_def split: option.splits)

lemma issueTokenPair_db: "w_db (snd (issueTokenPair X now m r d w)) = w_db w"
  unfolding issueTokenPair_def
  by (cases "jwt_sign X (member_claims X now m r)"; cases "newRefreshToken X now") (simp_all add: wbind_def split: sum.splits)

lemma Register_ok:
  assumes "Register X now u pw dn w = (Inr (tp, m), w1)"
  obtains h c d1 where "bcryptGenerate X now pw = Inr h"
    and "List.find (\<lambda>m. mem_Username m = u) (db_members (w_db w)) = None"
    and "members_Create (x_dbFault X now) (w_db w) (x_newID X now ''member'') now u dn RoleMember = (Inr m, d1)"
    and "creds_Create (x_dbFault X now) d1 (x_newID X now ''credential'') now (mem_ID m) CredPassword h None None [] = (Inr c, w_db w1)"
proof -
  from assms obtain e where e: "members_GetByUsername (x_dbFault X now) (w_db w) u = Inl e" "errIs e ErrNotFound"
    and rest: "wbind (map_err (wrap ''hash password'') (bcryptGenerate X now pw), w) (\<lambda>hashed w.
            wbind (werr (wrap ''create member'')
                     (on_db (\<lambda>d. members_Create (x_dbFault X now) d (x_newID X now ''member'') now u dn RoleMember) w))
              (\<lambda>member w.
            wbind (werr (wrap ''create credential'')
                     (on_db (\<lambda>d. creds_Create (x_dbFault X now) d (x_newID X now ''credential'') now (mem_ID member) CredPassword hashed
                        None None []) w)) (\<lambda>_ w.
            wbind (issueTokenPair X now (mem_ID member) (mem_Role member) (cf_sessionDuration X) w) (\<lambda>tokens w.
              (Inr (tokens, member), w))))) = (Inr (tp, m), w1)"
    unfolding Register_def Let_def wbind_Inr_iff [of "(validatePassword _ _, _)"] by (auto split: sum.splits if_splits)
  from e have nf: "List.find (\<lambda>m. mem_Username m = u) (db_members (w_db w)) = None"
    by (auto simp: members_GetByUsername_def scan_one_def split: if_splits option.splits)
  from rest obtain h w2 w3 c w4 where h: "bcryptGenerate X now pw = Inr h"
    and m: "on_db (\<lambda>d. members_Create (x_dbFault X now) d (x_newID X now ''member'') now u dn RoleMember) w = (Inr m, w2)"
    and c: "on_db (\<lambda>d. creds_Create (x_dbFault X now) d (x_newID X now ''credential'') now (mem_ID m) CredPassword h None None []) w2 = (Inr c, w3)"
    and i: "issueTokenPair X now (mem_ID m) (mem_Role m) (cf_sessionDuration X) w3 = (Inr tp, w4)" and w1: "w4 = w1"
    by (auto simp: wbind_Inr_iff werr_Inr_iff)
  have "w_db w1 = w_db w3" using i w1 issueTokenPair_db [of X now "mem_ID m" "mem_Role m" "cf_sessionDuration X" w3] by simp
  with h nf m c show ?thesis
    by (intro that [of h "w_db w2" c]) (auto simp: on_db_def Let_def prod_eq_iff)
qed

text \<open>
  Whoever registers becomes a plain member (never an administrator) and can log in
  afterwards with the chosen password and with no other one (of at most 72 bytes, the limit of
  bcrypt): a wrong password is refused without any effect, the right one issues tokens with the
  role of a member.
\<close>

theorem register_login:
  assumes "bcrypt_ok X" and "Register X now u pw dn w = (Inr (tp, m), w1)" and "length pw \<le> 72" and "length pw' \<le> 72"
    and "\<And>op k. \<not> x_dbFault X t op k"
  shows "mem_Role m = RoleMember
    \<and> Login X t u pw' w1 = (if pw' = pw
        then wbind (issueTokenPair X t (mem_ID m) RoleMember (cf_sessionDuration X) w1) (\<lambda>tokens w. (Inr (tokens, m), w))
        else (Inl ErrInvalidCredentials, w1))"
proof -
  from assms(2) obtain h c d1 where h: "bcryptGenerate X now pw = Inr h"
    and nf: "List.find (\<lambda>m. mem_Username m = u) (db_members (w_db w)) = None"
    and m: "members_Create (x_dbFault X now) (w_db w) (x_newID X now ''member'') now u dn RoleMember = (Inr m, d1)"
    and c: "creds_Create (x_dbFault X now) d1 (x_newID X now ''credential'') now (mem_ID m) CredPassword h None None [] = (Inr c, w_db w1)"
    by (rule Register_ok)
  note C = creds_Create_password [OF c]
  from m have r: "mem_Role m = RoleMember" "mem_Username m = u" "db_members d1 = db_members (w_db w) @ [m]"
    by (auto simp: members_Create_def Let_def split: if_splits)
  then have f: "List.find (\<lambda>m. mem_Username m = u) (db_members (w_db w1)) = Some m"
    using nf C(3) by (simp add: find_append)
  show ?thesis
    using Login_rows [OF assms(5) f C(1)] bcryptGenerate_check [OF assms(1) h assms(3,4)] C(2) r by simp
qed

theorem register_login_witness:
  "let r = Register auth_env 0 ''bob'' ''Passw0rd1'' None (sample_world sample_db)
   in is_ok (fst r) \<and> is_ok (fst (Login auth_env 1 ''bob'' ''Passw0rd1'' (snd r)))
    \<and> fst (Login auth_env 1 ''bob'' ''passw0rd1'' (snd r)) = Inl ErrInvalidCredentials"
proof -
  let ?r = "Register auth_env 0 ''bob'' ''Passw0rd1'' None (sample_world sample_db)"
  have ok: "is_ok (fst ?r)" by code_simp
  then obtain tp m where r: "?r = (Inr (tp, m), snd ?r)" by (metis is_okE prod.collapse surj_pair)
  note L = register_login [OF sample_bcrypt_ok r, of _ 1]
  have "Login auth_env 1 ''bob'' ''passw0rd1'' (snd ?r) = (Inl ErrInvalidCredentials, snd ?r)"
    using L [of "''passw0rd1''"] by simp
  moreover have "is_ok (fst (Login auth_env 1 ''bob'' ''Passw0rd1'' (snd ?r)))" by code_simp
  ultimately show ?thesis using ok by (simp add: Let_def)
qed

lemma SetPassword_ok:
  assumes "member_SetPassword X now mid pw w = (Inr (), w1)"
  obtains h c d1 where "bcryptGenerate X now pw = Inr h" and "db_members d1 = db_members (w_db w)"
    and "creds_Create (x_dbFault X now) d1 (x_newID X now ''credential'') now mid CredPassword h None None [] = (Inr c, w_db w1)"
proof -
  from assms obtain h w2 c where h: "bcryptGenerate X now pw = Inr h"
    and del: "(case creds_GetByMemberAndType (x_dbFault X now) (w_db w) mid CredPassword of
               Inl e \<Rightarrow> if errIs e ErrNotFound then (Inr (), w) else (Inl (wrap ''get existing credential'' e), w)
             | Inr existing \<Rightarrow>
                 werr (wrap ''delete existing credential'') (on_db (\<lambda>d. creds_Delete (x_dbFault X now) d (cr_ID existing) mid) w))
         = (Inr (), w2)"
    and c: "on_db (\<lambda>d. creds_Create (x_dbFault X now) d (x_newID X now ''credential'') now mid CredPassword h None None []) w2 = (Inr c, w1)"
    unfolding member_SetPassword_def Let_def by (auto simp: wbind_Inr_iff werr_Inr_iff)
  from del have "db_members (w_db w2) = db_members (w_db w)"
    by (auto simp: werr_Inr_iff on_db_def Let_def creds_Delete_def split: sum.splits if_splits)
  with h c show ?thesis
    by (intro that [of h "w_db w2" c]) (auto simp: on_db_def Let_def prod_eq_iff)
qed

text \<open>
  Setting a member's password replaces it: afterwards the member logs in with the new
  password and with no other one, whether or not a password existed before.
\<close>

theorem set_password_replaces:
  assumes "bcrypt_ok X" and "member_SetPassword X now mid pw w = (Inr (), w1)" and "db_wf (w_db w)"
    and "member_row (w_db w) mid = Some m" and "length pw \<le> 72" and "length pw' \<le> 72" and "\<And>op k. \<not> x_dbFault X t op k"
  shows "Login X t (mem_Username m) pw' w1 = (if pw' = pw
        then wbind (issueTokenPair X t mid (mem_Role m) (cf_sessionDuration X) w1) (\<lambda>tokens w. (Inr (tokens, m), w))
        else (Inl ErrInvalidCredentials, w1))"
proof -
  from assms(2) obtain h c d1 where h: "bcryptGenerate X now pw = Inr h" and d1: "db_members d1 = db_members (w_db w)"
    and c: "creds_Create (x_dbFault X now) d1 (x_newID X now ''credential'') now mid CredPassword h None None [] = (Inr c, w_db w1)"
    by (rule SetPassword_ok)
  note C = creds_Create_password [OF c]
  from assms(4) have m: "m \<in> set (db_members (w_db w))" "mem_ID m = mid"
    by (auto simp: member_row_def dest: find_SomeD)
  have "distinct (List.map mem_Username (db_members (w_db w)))"
    using assms(3) by (simp add: db_wf_def members_wf_def)
  from find_distinct_key [OF this m(1)] have f: "List.find (\<lambda>x. mem_Username x = mem_Username m) (db_members (w_db w1)) = Some m"
    using C(3) d1 by simp
  show ?thesis
    using Login_rows [OF assms(7) f] C(1,2) m(2) bcryptGenerate_check [OF assms(1) h assms(5,6)] by simp
qed

theorem set_password_replaces_witness:
  "let r = member_SetPassword auth_env 0 2 ''n3w'' (sample_world sample_db)
   in fst r = Inr () \<and> fst (Login auth_env 1 ''ana'' ''old'' (snd r)) = Inl ErrInvalidCredentials
    \<and> is_ok (fst (Login auth_env 1 ''ana'' ''n3w'' (snd r)))"
proof -
  let ?r = "member_SetPassword auth_env 0 2 ''n3w'' (sample_world sample_db)"
  have f: "fst ?r = Inr ()" by code_simp
  then have r: "?r = (Inr (), snd ?r)" by (metis prod.collapse)
  have wf: "db_wf (w_db (sample_world sample_db))"
    unfolding sample_db_def by (simp add: repo_wf_ops empty_db_wf)
  have "(case member_row sample_db 2 of Some m \<Rightarrow> mem_Username m = ''ana'' | None \<Rightarrow> False)" by code_simp
  then obtain m where m: "member_row (w_db (sample_world sample_db)) 2 = Some m" "mem_Username m = ''ana''"
    by (auto split: option.splits)
  note L = set_password_replaces [OF sample_bcrypt_ok r wf m(1), of _ 1, unfolded m(2)]
  have "Login auth_env 1 ''ana'' ''old'' (snd ?r) = (Inl ErrInvalidCredentials, snd ?r)"
    using L [of "''old''"] by simp
  moreover have "is_ok (fst (Login auth_env 1 ''ana'' ''n3w'' (snd ?r)))" by code_simp
  ultimately show ?thesis using f by (simp add: Let_def)
qed

end
