(* ===== verification/Middleware.thy ===== *)
theory Middleware
  imports Http_Api Auth_Props
begin

text \<open>
  \<open>internal/middleware\<close>: the client address, the extraction of the identity from the cookie or the
  API token, the guards of the routes, the rate limiter and the resolution of custom domains;
  \<open>model/auth_config.go\<close>; and the cookies of \<open>handler/auth.go\<close>. A middleware that calls \<open>next\<close>
  returns \<open>Inr\<close>.
\<close>

section \<open>The client address\<close>

text \<open>\<open>net.SplitHostPort\<close>, of which only the host is used; it is empty on any error.\<close>

definition last_colon :: "string \<Rightarrow> (string \<times> string) option" where
  "last_colon s = (if CHR '':'' \<in> set s
     then (let r = rev s; port = rev (takeWhile (\<lambda>c. c \<noteq> CHR '':'') r)
           in Some (take (length s - length port - 1) s, port))
     else None)"

definition SplitHostPort :: "string \<Rightarrow> string" where
  "SplitHostPort s = (case last_colon s of
      None \<Rightarrow> []
    | Some (front, port) \<Rightarrow>
        if CHR ''['' \<in> set port \<or> CHR '']'' \<in> set port then []
        else case front of
          [] \<Rightarrow> []
        | c # cs \<Rightarrow>
            if c = CHR ''['' then
              (let host = takeWhile (\<lambda>c. c \<noteq> CHR '']'') cs; rest = dropWhile (\<lambda>c. c \<noteq> CHR '']'') cs
               in if rest = [CHR '']''] \<and> CHR ''['' \<notin> set host then host else [])
            else if CHR '':'' \<in> set front \<or> CHR ''['' \<in> set front \<or> CHR '']'' \<in> set front then [] else front)"

definition ClientIPInjector :: "request \<Rightarrow> req_ctx \<Rightarrow> req_ctx" where
  "ClientIPInjector rq cx = cx\<lparr>cx_ClientIP := SplitHostPort (rq_RemoteAddr rq)\<rparr>"

section \<open>The identity of the caller\<close>

definition APITokenEnabled :: "gmap \<Rightarrow> bool" where
  "APITokenEnabled memberConfig = (case map_of memberConfig ''api_token'' of Some (VBool b) \<Rightarrow> b | _ \<Rightarrow> True)"

definition cookie_pair :: "string \<Rightarrow> (string \<times> string) option" where
  "cookie_pair part0 = (let part = TrimSpace part0; name = takeWhile (\<lambda>c. c \<noteq> CHR ''='') part
     in if CHR ''='' \<in> set part \<and> name \<noteq> [] then Some (name, drop (length name + 1) part) else None)"

definition cookieValue :: "string \<Rightarrow> string \<Rightarrow> string" where
  "cookieValue header name =
     (case List.find (\<lambda>p. case cookie_pair p of Some (n, v) \<Rightarrow> n = name | None \<Rightarrow> False) (split_on CHR '';'' header) of
        None \<Rightarrow> []
      | Some p \<Rightarrow> (case cookie_pair p of Some (n, v) \<Rightarrow> v | None \<Rightarrow> []))"

definition bearerToken :: "string \<Rightarrow> string" where
  "bearerToken h = (if \<not> HasPrefix h ''Bearer '' then [] else TrimPrefix h ''Bearer '')"

definition extractJWT :: "'r env \<Rightarrow> int \<Rightarrow> string \<Rightarrow> req_ctx \<Rightarrow> req_ctx" where
  "extractJWT X now token cx = (case ValidateAccessToken X now token of
      Inl _ \<Rightarrow> cx
    | Inr (memberID, role) \<Rightarrow> cx\<lparr>cx_MemberID := Some memberID, cx_Role := Some role\<rparr>)"

definition AuthExtractor :: "'r env \<Rightarrow> int \<Rightarrow> request \<Rightarrow> db \<Rightarrow> req_ctx \<Rightarrow> req_ctx" where
  "AuthExtractor X now rq d cx =
     (let cookie = cookieValue (rq_Cookie rq) ''gatie_access''; token = bearerToken (rq_Authorization rq)
      in if cookie \<noteq> [] then extractJWT X now cookie cx
         else if token \<noteq> [] \<and> HasPrefix token ''gatie_'' then
           (case creds_FindByHashedAPIToken (x_dbFault X now) d now (x_sha256 X token) of
              Inl _ \<Rightarrow> cx
            | Inr (cred, member) \<Rightarrow>
                if APITokenEnabled (x_authConfig X member)
                then cx\<lparr>cx_MemberID := Some (mem_ID member), cx_Role := Some (mem_Role member),
                        cx_CredentialID := Some (cr_ID cred)\<rparr>
                else cx)
         else cx)"

section \<open>Guards\<close>

definition RequireAuth :: "req_ctx \<Rightarrow> unit hres" where
  "RequireAuth cx = (case cx_MemberID cx of
      Some i \<Rightarrow> if i \<noteq> uuid_Nil then Inr () else Inl (HErr 401 ''Unauthorized'')
    | None \<Rightarrow> Inl (HErr 401 ''Unauthorized''))"

definition RequireAdmin :: "req_ctx \<Rightarrow> unit hres" where
  "RequireAdmin cx =
     (if IsAPITokenAuth cx then Inl (HErr 403 ''API tokens cannot perform admin operations'')
      else if MemberRoleFromContext cx \<noteq> Some RoleAdmin then Inl (HErr 403 ''admin access required'')
      else Inr ())"

definition GateManager :: "'r env \<Rightarrow> int \<Rightarrow> request \<Rightarrow> db \<Rightarrow> req_ctx \<Rightarrow> unit hres" where
  "GateManager X now rq d cx =
     (if \<not> IsAPITokenAuth cx \<and> MemberRoleFromContext cx = Some RoleAdmin then Inr ()
      else case x_uuidParse X (rq_PathGateID rq) of
        None \<Rightarrow> Inl (HErr 400 ''invalid gate_id'')
      | Some gateID \<Rightarrow>
          (case MemberIDFromContext cx of
             None \<Rightarrow> Inl (HErr 403 ''forbidden'')
           | Some memberID \<Rightarrow>
               if policies_HasPermission (x_dbFault X now) d memberID gateID PermManage = Inr True then Inr ()
               else Inl (HErr 403 ''forbidden'')))"

definition AdminOrGateManager :: "'r env \<Rightarrow> int \<Rightarrow> db \<Rightarrow> req_ctx \<Rightarrow> unit hres" where
  "AdminOrGateManager X now d cx =
     (if MemberRoleFromContext cx = Some RoleAdmin \<and> \<not> IsAPITokenAuth cx then Inr ()
      else case MemberIDFromContext cx of
        None \<Rightarrow> Inl (HErr 403 ''forbidden'')
      | Some memberID \<Rightarrow>
          if policies_HasPermissionOnAnyGate (x_dbFault X now) d memberID PermManage = Inr True then Inr ()
          else Inl (HErr 403 ''forbidden''))"

definition rate_key :: "string \<Rightarrow> req_ctx \<Rightarrow> string" where
  "rate_key prefix cx = ''rl:'' @ prefix @ '':'' @ cx_ClientIP cx"

definition RateLimiter :: "'r env \<Rightarrow> int \<Rightarrow> string \<Rightarrow> int \<Rightarrow> int \<Rightarrow> req_ctx \<Rightarrow> 'r world \<Rightarrow> unit hres \<times> 'r world" where
  "RateLimiter X now prefix max_attempts period cx w =
     (let key = rate_key prefix cx
      in if x_redisFault X now ''EXEC'' key then (Inl (HErr 503 ''service temporarily unavailable''), w)
         else case incr_expire X now (w_redis w) key period of
           (None, s) \<Rightarrow> (Inl (HErr 503 ''service temporarily unavailable''), w\<lparr>w_redis := s\<rparr>)
         | (Some n, s) \<Rightarrow>
             if max_attempts < n then (Inl (HErr 429 ''too many requests, try again later''), w\<lparr>w_redis := s\<rparr>)
             else (Inr (), w\<lparr>w_redis := s\<rparr>))"

section \<open>Custom domains\<close>

abbreviation tenantCacheTTL :: int where "tenantCacheTTL \<equiv> 5 * Minute"
abbreviation tenantCacheNotFoundTTL :: int where "tenantCacheNotFoundTTL \<equiv> 30 * Second"
abbreviation tenantCacheNotFound :: string where "tenantCacheNotFound \<equiv> [CHR 0x00]"

definition normalizeHost :: "string \<Rightarrow> string" where
  "normalizeHost host = ToLower (TrimSpace (case last_colon host of None \<Rightarrow> host | Some (h, _) \<Rightarrow> h))"

text \<open>The text of a value; the keys of this cache hold no JSON.\<close>

definition rval_text :: "rval \<Rightarrow> string" where
  "rval_text v = (case v of RStr s \<Rightarrow> s | RInt n \<Rightarrow> Itoa n | RJson _ \<Rightarrow> [])"

definition tenant_key :: "string \<Rightarrow> string" where
  "tenant_key host = ''tenant:domain:'' @ host"

definition TenantResolver :: "'r env \<Rightarrow> int \<Rightarrow> string \<Rightarrow> 'r world \<Rightarrow> string option \<times> 'r world" where
  "TenantResolver X now rawHost w =
     (let host = normalizeHost rawHost; cacheKey = tenant_key host
      in if host = [] then (None, w)
         else case redis_Get X now w cacheKey of
           Inr val \<Rightarrow> (if rval_text val \<noteq> tenantCacheNotFound then Some (rval_text val) else None, w)
         | Inl _ \<Rightarrow>
             (case domains_GetByDomain (x_dbFault X now) (w_db w) host of
                Inr cdom \<Rightarrow>
                  if cd_VerifiedAt cdom \<noteq> None
                  then (let gateIDStr = x_uuidString X (cd_GateID cdom)
                        in (Some gateIDStr, snd (redis_Set X now w cacheKey (RStr gateIDStr) tenantCacheTTL)))
                  else (None, snd (redis_Set X now w cacheKey (RStr tenantCacheNotFound) tenantCacheNotFoundTTL))
              | Inl e \<Rightarrow>
                  if errIs e ErrNotFound
                  then (None, snd (redis_Set X now w cacheKey (RStr tenantCacheNotFound) tenantCacheNotFoundTTL))
                  else (None, w)))"

section \<open>Cookies\<close>

abbreviation accessCookieName :: string where "accessCookieName \<equiv> ''gatie_access''"
abbreviation refreshCookieName :: string where "refreshCookieName \<equiv> ''gatie_refresh''"

text \<open>A \<open>Set-Cookie\<close> header: name, value, secure flag, path and \<open>Max-Age\<close>; both are HttpOnly and SameSite=Lax.\<close>

record set_cookie =
  sk_Name :: string
  sk_Value :: string
  sk_Secure :: bool
  sk_Path :: string
  sk_MaxAge :: int

definition setAuthCookies :: "token_pair \<Rightarrow> bool \<Rightarrow> set_cookie \<times> set_cookie" where
  "setAuthCookies tokens secure =
     (let accessMaxAge = f64_to_int (dur_seconds (tp_AccessTokenTTL tokens));
          m = f64_to_int (dur_seconds (tp_SessionDuration tokens));
          refreshMaxAge = (if m \<le> 0 then 90 * 24 * 60 * 60 else m)
      in (\<lparr>sk_Name = accessCookieName, sk_Value = tp_AccessToken tokens, sk_Secure = secure, sk_Path = ''/api'',
            sk_MaxAge = accessMaxAge\<rparr>,
          \<lparr>sk_Name = refreshCookieName, sk_Value = tp_RefreshToken tokens, sk_Secure = secure, sk_Path = ''/api/auth'',
            sk_MaxAge = refreshMaxAge\<rparr>))"

definition clearAuthCookies :: "bool \<Rightarrow> set_cookie \<times> set_cookie" where
  "clearAuthCookies secure =
     (\<lparr>sk_Name = accessCookieName, sk_Value = [], sk_Secure = secure, sk_Path = ''/api'', sk_MaxAge = 0\<rparr>,
      \<lparr>sk_Name = refreshCookieName, sk_Value = [], sk_Secure = secure, sk_Path = ''/api/auth'', sk_MaxAge = 0\<rparr>)"

end
