(* ===== verification/Gate_Validation.thy ===== *)
theory Gate_Validation
  imports Gate_Model
begin

text \<open>
  The validators of \<open>internal/handler/gate_validation.go\<close>, each with the predicate it
  decides, and what the accepted configurations guarantee to the code that reads them later.
\<close>

definition validStatusRuleOps :: "string list" where
  "validStatusRuleOps = [''eq'', ''ne'', ''gt'', ''gte'', ''lt'', ''lte'']"

definition validateActionConfig :: "string \<Rightarrow> action_config option \<Rightarrow> unit res" where
  "validateActionConfig field cfg =
     (case cfg of
        None \<Rightarrow> Inr ()
      | Some c \<Rightarrow>
          if ac_Type c = DriverTypeNone then Inr ()
          else if ac_Type c = DriverTypeMQTTGatie then Inr ()
          else if ac_Type c = DriverTypeMQTTCustom then
            (if as_object (map_of (ac_Config c) ''payload'') = None
             then Inl (Errorf ''%s: MQTT_CUSTOM driver requires a non-empty 'payload' object in config'' [AStr field])
             else Inr ())
          else if ac_Type c = DriverTypeHTTP then
            (if TrimSpace (str_field (ac_Config c) ''url'') = []
             then Inl (Errorf ''%s: HTTP driver requires a non-empty url'' [AStr field])
             else Inr ())
          else Inl (Errorf ''%s: driver type %q is not valid for open/close actions (allowed: MQTT_GATIE, MQTT_CUSTOM, HTTP, NONE)''
                 [AStr field, AStr (ac_Type c)]))"

definition check_success_range :: "nat \<Rightarrow> gval \<Rightarrow> unit res" where
  "check_success_range i item =
     (case item of
        VObj m \<Rightarrow>
          (let f = ToInt (map_of m ''from''); t = ToInt (map_of m ''to'')
           in if \<not> snd f \<or> \<not> snd t
              then Inl (Errorf ''status_config: success_status_codes[%d]: 'from' and 'to' must be integers'' [AInt (int i)])
              else if fst f > fst t
              then Inl (Errorf ''status_config: success_status_codes[%d]: 'from' (%d) must be <= 'to' (%d)''
                     [AInt (int i), AInt (fst f), AInt (fst t)])
              else if fst f < 100 \<or> fst t > 599
              then Inl (Errorf ''status_config: success_status_codes[%d]: values must be between 100 and 599'' [AInt (int i)])
              else Inr ())
      | _ \<Rightarrow> Inl (Errorf (''status_config: success_status_codes[%d] must be an object with 'from' and 'to'' @ [CHR 0x27]) [AInt (int i)]))"

definition validateSuccessStatusCodes :: "gmap \<Rightarrow> unit res" where
  "validateSuccessStatusCodes cfg =
     (case map_of cfg ''success_status_codes'' of
        None \<Rightarrow> Inr ()
      | Some (VArr arr) \<Rightarrow> first_err check_success_range 0 arr
      | Some _ \<Rightarrow> Inl (Errorf ''status_config: success_status_codes must be an array of {from, to} ranges'' []))"

definition validateStatusActionConfig :: "action_config option \<Rightarrow> unit res" where
  "validateStatusActionConfig cfg =
     (case cfg of
        None \<Rightarrow> Inr ()
      | Some c \<Rightarrow>
          if ac_Type c = DriverTypeNone then Inr ()
          else if ac_Type c = DriverTypeMQTTGatie then Inr ()
          else if \<not> (ac_Type c = DriverTypeMQTTCustom \<or> ac_Type c = DriverTypeHTTPInbound
                    \<or> ac_Type c = DriverTypeHTTPWebhook)
          then Inl (Errorf ''status_config: driver type %q is not valid for status (allowed: MQTT_GATIE, MQTT_CUSTOM, HTTP_INBOUND, HTTP_WEBHOOK, NONE)''
                 [AStr (ac_Type c)])
          else case (if ac_Type c = DriverTypeHTTPWebhook then
                       (if TrimSpace (str_field (ac_Config c) ''url'') = []
                        then Inl (Errorf ''status_config: HTTP_WEBHOOK driver requires a non-empty url'' [])
                        else validateSuccessStatusCodes (ac_Config c))
                     else Inr ()) of
            Inl e \<Rightarrow> Inl e
          | Inr _ \<Rightarrow>
              (case ExtractPayloadMapping (ac_Config c) of
                 None \<Rightarrow> Inl (Errorf ''status_config: a payload mapping with a non-empty status field is required for %s mode''
                           [AStr (ac_Type c)])
               | Some mapping \<Rightarrow>
                   if sfm_Values (pm_Status mapping) = []
                   then Inl (Errorf ''status_config: status value mapping must define at least 'open' and 'closed' targets'' [])
                   else let mapped = List.map snd (sfm_Values (pm_Status mapping));
                            missing = filter (\<lambda>req. req \<notin> set mapped) [''open'', ''closed'']
                        in if missing \<noteq> []
                           then Inl (Errorf ''status_config: status value mapping is missing required targets: %s''
                                  [AStr (join_with '', '' missing)])
                           else Inr ()))"

definition validateTTLSeconds :: "int option \<Rightarrow> unit res" where
  "validateTTLSeconds v =
     (case v of
        None \<Rightarrow> Inr ()
      | Some n \<Rightarrow> if n < 1 \<or> n > 3600 then Inl (Errorf ''ttl_seconds must be between 1 and 3600'' []) else Inr ())"

definition check_transition :: "string list \<Rightarrow> nat \<Rightarrow> status_transition \<Rightarrow> unit res" where
  "check_transition known i t =
     (if st_From t = st_To t
      then Inl (Errorf ''status_transitions[%d]: 'from' and 'to' must be different'' [AInt (int i)])
      else if st_AfterSeconds t \<le> 0
      then Inl (Errorf ''status_transitions[%d]: after_seconds must be > 0'' [AInt (int i)])
      else if st_From t \<notin> set known
      then Inl (Errorf ''status_transitions[%d]: 'from' status %q is not a known status'' [AInt (int i), AStr (st_From t)])
      else if st_To t \<notin> set known
      then Inl (Errorf ''status_transitions[%d]: 'to' status %q is not a known status'' [AInt (int i), AStr (st_To t)])
      else Inr ())"

definition validateStatusTransitions :: "status_transition list \<Rightarrow> string list \<Rightarrow> unit res" where
  "validateStatusTransitions transitions customStatuses =
     first_err (check_transition (DefaultGateStatuses @ customStatuses)) 0 transitions"

fun check_custom :: "string list \<Rightarrow> string list \<Rightarrow> unit res" where
  "check_custom seen [] = Inr ()"
| "check_custom seen (s # ss) =
     (if TrimSpace s = [] then Inl (Errorf ''custom_statuses: status name must not be empty'' [])
      else if s \<in> set DefaultGateStatuses
      then Inl (Errorf ''custom_statuses: %q is a built-in status and cannot be redefined'' [AStr s])
      else if s \<in> set seen then Inl (Errorf ''custom_statuses: duplicate status %q'' [AStr s])
      else check_custom (s # seen) ss)"

definition validateCustomStatuses :: "string list \<Rightarrow> unit res" where
  "validateCustomStatuses statuses = check_custom [] statuses"

definition check_rule :: "string list \<Rightarrow> nat \<Rightarrow> status_rule \<Rightarrow> unit res" where
  "check_rule known i rule =
     (if TrimSpace (sr_Key rule) = []
      then Inl (Errorf ''status_rules[%d]: key must not be empty'' [AInt (int i)])
      else if sr_Op rule \<notin> set validStatusRuleOps
      then Inl (Errorf ''status_rules[%d]: invalid operator %q (allowed: eq, ne, gt, gte, lt, lte)'' [AInt (int i), AStr (sr_Op rule)])
      else if TrimSpace (sr_SetStatus rule) = []
      then Inl (Errorf ''status_rules[%d]: set_status must not be empty'' [AInt (int i)])
      else if sr_SetStatus rule \<notin> set known
      then Inl (Errorf ''status_rules[%d]: set_status %q is not a known status'' [AInt (int i), AStr (sr_SetStatus rule)])
      else Inr ())"

definition validateStatusRules :: "status_rule list \<Rightarrow> string list \<Rightarrow> unit res" where
  "validateStatusRules rules customStatuses =
     first_err (check_rule (DefaultGateStatuses @ customStatuses)) 0 rules"

section \<open>What the validators decide\<close>

abbreviation known_statuses :: "string list \<Rightarrow> string set" where
  "known_statuses custom \<equiv> set DefaultGateStatuses \<union> set custom"

definition transition_ok :: "string list \<Rightarrow> status_transition \<Rightarrow> bool" where
  "transition_ok custom t = (st_From t \<noteq> st_To t \<and> 0 < st_AfterSeconds t
     \<and> st_From t \<in> known_statuses custom \<and> st_To t \<in> known_statuses custom)"

definition rule_ok :: "string list \<Rightarrow> status_rule \<Rightarrow> bool" where
  "rule_ok custom r = (TrimSpace (sr_Key r) \<noteq> [] \<and> sr_Op r \<in> set validStatusRuleOps
     \<and> TrimSpace (sr_SetStatus r) \<noteq> [] \<and> sr_SetStatus r \<in> known_statuses custom)"

definition custom_ok :: "string list \<Rightarrow> bool" where
  "custom_ok ss = (distinct ss \<and> list_all (\<lambda>s. TrimSpace s \<noteq> [] \<and> s \<notin> set DefaultGateStatuses) ss)"

lemma check_custom_iff:
  "check_custom seen ss = Inr () \<longleftrightarrow> custom_ok ss \<and> set ss \<inter> set seen = {}"
  by (induction ss arbitrary: seen) (auto simp: custom_ok_def)

lemma validateStatusTransitions_iff:
  "validateStatusTransitions ts custom = Inr () \<longleftrightarrow> list_all (transition_ok custom) ts"
proof -
  have "check_transition (DefaultGateStatuses @ custom) i t = Inr () \<longleftrightarrow> transition_ok custom t" for i t
    by (auto simp: check_transition_def transition_ok_def)
  then show ?thesis
    unfolding validateStatusTransitions_def list_all_iff by (rule first_err_ok_uniform)
qed

lemma validateStatusRules_iff:
  "validateStatusRules rs custom = Inr () \<longleftrightarrow> list_all (rule_ok custom) rs"
proof -
  have "check_rule (DefaultGateStatuses @ custom) i r = Inr () \<longleftrightarrow> rule_ok custom r" for i r
    by (simp add: check_rule_def rule_ok_def)
  then show ?thesis
    unfolding validateStatusRules_def list_all_iff by (rule first_err_ok_uniform)
qed

lemma validateTTLSeconds_iff: "validateTTLSeconds v = Inr () \<longleftrightarrow> (\<forall>n \<in> set_option v. 1 \<le> n \<and> n \<le> 3600)"
  by (auto simp: validateTTLSeconds_def split: option.splits)

text \<open>
  The status validators accept exactly the intended configurations: custom statuses
  that are distinct, non-blank and not built in; rules and transitions that only name known
  statuses, with a valid operator, distinct end points and a positive delay.
\<close>

theorem status_validators_exact:
  "(validateCustomStatuses ss = Inr () \<longleftrightarrow> custom_ok ss)
   \<and> (validateStatusRules rs ss = Inr () \<longleftrightarrow> list_all (rule_ok ss) rs)
   \<and> (validateStatusTransitions ts ss = Inr () \<longleftrightarrow> list_all (transition_ok ss) ts)"
  by (simp add: validateCustomStatuses_def check_custom_iff validateStatusRules_iff validateStatusTransitions_iff)

lemma EvaluateStatusRules_known:
  assumes "validateStatusRules rs custom = Inr ()" and "EvaluateStatusRules rs meta = Some s"
  shows "s \<in> known_statuses custom"
proof -
  obtain r where "List.find (rule_hit meta) rs = Some r" "sr_SetStatus r = s"
    using assms(2) by (auto simp: EvaluateStatusRules_find)
  then show ?thesis
    using assms(1) find_SomeD [of "rule_hit meta" rs r] by (auto simp: validateStatusRules_iff list_all_iff rule_ok_def)
qed

section \<open>Success ranges that passed the validator\<close>

definition item_range :: "gval \<Rightarrow> int \<times> int" where
  "item_range item = (case item of
      VObj m \<Rightarrow> (fst (ToInt (map_of m ''from'')), fst (ToInt (map_of m ''to''))) | _ \<Rightarrow> (1, 0))"

lemma check_success_range_ok:
  "check_success_range i item = Inr () \<Longrightarrow>
     (\<exists>m. item = VObj m) \<and> 100 \<le> fst (item_range item) \<and> fst (item_range item) \<le> snd (item_range item)
     \<and> snd (item_range item) \<le> 599"
  by (auto simp: check_success_range_def item_range_def Let_def split: gval.splits if_splits)

lemma collect_ranges_checked:
  assumes "first_err check_success_range i items = Inr ()"
  shows "collect_ranges items = List.map (\<lambda>it. \<lparr>sc_From = fst (item_range it), sc_To = snd (item_range it)\<rparr>) items"
  using assms
proof (induction items arbitrary: i)
  case (Cons it items)
  then have "check_success_range i it = Inr ()" and *: "first_err check_success_range (Suc i) items = Inr ()"
    by (auto split: sum.splits)
  from check_success_range_ok [OF this(1)] obtain m where "it = VObj m"
    "0 < fst (item_range it)" "0 < snd (item_range it)" by auto
  with Cons.IH [OF *] show ?case by (simp add: item_range_def Let_def)
qed simp

text \<open>
  When the success ranges of a webhook configuration pass validation, the reader used
  at poll time drops none of them: a response code counts as a success exactly when one of the
  configured ranges contains it, and then it is between 100 and 599; without ranges the
  successes are the codes 200 to 299.
\<close>

theorem success_ranges_faithful:
  assumes "validateSuccessStatusCodes cfg = Inr ()"
  shows "IsSuccessStatus code (ExtractSuccessStatusCodes cfg) \<longleftrightarrow>
    (case map_of cfg ''success_status_codes'' of
       Some (VArr (it # items)) \<Rightarrow>
         list_ex (\<lambda>r. fst (item_range r) \<le> code \<and> code \<le> snd (item_range r)) (it # items) \<and> 100 \<le> code \<and> code \<le> 599
     | _ \<Rightarrow> 200 \<le> code \<and> code \<le> 299)"
proof (cases "map_of cfg ''success_status_codes''")
  case None
  then show ?thesis by (auto simp: ExtractSuccessStatusCodes_def IsSuccessStatus_def)
next
  case (Some v)
  with assms obtain arr where v: "v = VArr arr" and ok: "first_err check_success_range 0 arr = Inr ()"
    by (cases v) (auto simp: validateSuccessStatusCodes_def)
  have in_range: "100 \<le> fst (item_range it) \<and> snd (item_range it) \<le> 599" if "it \<in> set arr" for it
  proof -
    from that obtain k where "k < length arr" "it = arr ! k" by (auto simp: in_set_conv_nth)
    with ok have "check_success_range k it = Inr ()" by (simp add: first_err_ok_iff)
    then show ?thesis using check_success_range_ok by blast
  qed
  have ex: "ExtractSuccessStatusCodes cfg
      = List.map (\<lambda>it. \<lparr>sc_From = fst (item_range it), sc_To = snd (item_range it)\<rparr>) arr"
    by (simp add: Some v ExtractSuccessStatusCodes_def collect_ranges_checked [OF ok])
  show ?thesis
  proof (cases arr)
    case Nil
    then show ?thesis by (auto simp: ex Some v IsSuccessStatus_def)
  next
    case (Cons it items)
    have "list_ex (\<lambda>r. fst (item_range r) \<le> code \<and> code \<le> snd (item_range r)) arr \<Longrightarrow> 100 \<le> code \<and> code \<le> 599"
      using in_range by (fastforce simp: list_ex_iff)
    then show ?thesis
      by (auto simp: ex Some v IsSuccessStatus_def list_ex_iff Cons)
  qed
qed

theorem success_ranges_faithful_witness:
  "IsSuccessStatus 404 (ExtractSuccessStatusCodes
     [(''success_status_codes'', VArr [VObj [(''from'', VNum (Fin 200)), (''to'', VNum (Fin 204))],
        VObj [(''from'', VNum (Fin 404)), (''to'', VNum (Fin 404))]])])"
proof -
  let ?cfg = "[(''success_status_codes'', VArr [VObj [(''from'', VNum (Fin 200)), (''to'', VNum (Fin 204))],
        VObj [(''from'', VNum (Fin 404)), (''to'', VNum (Fin 404))]])]"
  have "validateSuccessStatusCodes ?cfg = Inr ()" by code_simp
  from success_ranges_faithful [OF this, of 404] show ?thesis
    by (simp add: item_range_def ToInt_def f64_to_int_def Let_def)
qed

section \<open>Status sources that passed the validator\<close>

text \<open>
  A status source accepted by the validator, of a kind that carries a payload
  mapping, has a mapping that reaches both open and closed: whatever payload arrives, the
  mapped status is one of the configured targets, and the two mandatory targets are among them.
\<close>

theorem status_config_mapping:
  assumes "validateStatusActionConfig (Some c) = Inr ()"
    and "ac_Type c \<in> {DriverTypeMQTTCustom, DriverTypeHTTPInbound, DriverTypeHTTPWebhook}"
  shows "\<exists>m. ExtractPayloadMapping (ac_Config c) = Some m \<and> sfm_Field (pm_Status m) \<noteq> []
    \<and> {''open'', ''closed''} \<subseteq> snd ` set (sfm_Values (pm_Status m))
    \<and> (\<forall>raw s. ApplyMapping m raw = Inr s \<longrightarrow> s \<in> snd ` set (sfm_Values (pm_Status m)))"
proof -
  from assms obtain m where m: "ExtractPayloadMapping (ac_Config c) = Some m"
    and v: "sfm_Values (pm_Status m) \<noteq> []"
    and t: "\<forall>req \<in> {''open'', ''closed''}. req \<in> snd ` set (sfm_Values (pm_Status m))"
    by (fastforce simp: validateStatusActionConfig_def Let_def filter_empty_conv
        split: sum.splits option.splits if_splits)
  from m have "sfm_Field (pm_Status m) \<noteq> []"
    by (auto simp: ExtractPayloadMapping_def split: option.splits if_splits)
  with m v t ApplyMapping_range show ?thesis by (intro exI [of _ m]) auto
qed

definition sample_inbound :: action_config where
  "sample_inbound = \<lparr>ac_Type = DriverTypeHTTPInbound, ac_Config = [(''mapping'', VObj
     [(''status'', VObj [(''field'', VStr ''state''),
        (''values'', VObj [(''1'', VStr ''open''), (''0'', VStr ''closed'')])])])]\<rparr>"

theorem status_config_mapping_witness:
  "\<exists>m. ExtractPayloadMapping (ac_Config sample_inbound) = Some m
     \<and> {''open'', ''closed''} \<subseteq> snd ` set (sfm_Values (pm_Status m))"
proof -
  have "validateStatusActionConfig (Some sample_inbound) = Inr ()" by code_simp
  then show ?thesis
    using status_config_mapping [of sample_inbound] by (auto simp: sample_inbound_def)
qed

end
