(* ===== verification/Handlers_Gate.thy ===== *)
theory Handlers_Gate
  imports Middleware Gate_Validation
begin

text \<open>
  \<open>internal/handler/gate.go\<close>, \<open>gate_pin.go\<close> and \<open>pagination.go\<close>: the gate and access-code endpoints
  behind their guards. The checks huma derives from the struct tags are not modelled: a handler
  is given inputs of any shape. The minimal duration of \<open>unlock\<close> and \<open>open\<close> is left out, and of a
  failed field validation only the common message is kept.
\<close>

section \<open>Pagination\<close>

record 'a paginated =
  pb_Items :: "'a list"
  pb_Total :: int
  pb_Limit :: int
  pb_Offset :: int

definition Params :: "pagination \<Rightarrow> pagination" where
  "Params q = Normalize q"

definition NewPaginatedBody :: "'a list \<Rightarrow> int \<Rightarrow> pagination \<Rightarrow> 'a paginated" where
  "NewPaginatedBody items n_total p =
     \<lparr>pb_Items = items, pb_Total = n_total, pb_Limit = pg_Limit p, pb_Offset = pg_Offset p\<rparr>"

definition paginate :: "pagination \<Rightarrow> ('a list \<times> int) hres \<Rightarrow> 'a paginated hres" where
  "paginate p r = (case r of Inl e \<Rightarrow> Inl e | Inr (items, n) \<Rightarrow> Inr (NewPaginatedBody items n p))"

section \<open>Gates\<close>

definition ctx_role :: "req_ctx \<Rightarrow> string" where
  "ctx_role cx = (case MemberRoleFromContext cx of None \<Rightarrow> [] | Some r \<Rightarrow> r)"

definition ctx_member :: "req_ctx \<Rightarrow> uuid" where
  "ctx_member cx = (case cx_MemberID cx of None \<Rightarrow> uuid_Nil | Some i \<Rightarrow> i)"

definition ctx_credential :: "req_ctx \<Rightarrow> uuid" where
  "ctx_credential cx = (case cx_CredentialID cx of None \<Rightarrow> uuid_Nil | Some i \<Rightarrow> i)"

definition h_gate_List :: "'r env \<Rightarrow> int \<Rightarrow> req_ctx \<Rightarrow> pagination \<Rightarrow> 'r world \<Rightarrow> gate paginated hres" where
  "h_gate_List X now cx q w =
     (let p = Params q
      in paginate p (respond (\<lambda>_. HErr 500 ''failed to list gates'') (gate_List X now (w_db w) (ctx_role cx) (ctx_member cx) p)))"

definition gateFieldErr :: herr where
  "gateFieldErr = HErr 400 ''validation failed''"

definition field_check :: "unit res \<Rightarrow> unit hres" where
  "field_check r = respond (\<lambda>_. gateFieldErr) r"

definition validate_create :: "create_gate_params \<Rightarrow> unit res" where
  "validate_create b =
     rbind (validateActionConfig ''open_config'' (cg_OpenConfig b)) (\<lambda>_.
     rbind (validateActionConfig ''close_config'' (cg_CloseConfig b)) (\<lambda>_.
     rbind (validateStatusActionConfig (cg_StatusConfig b)) (\<lambda>_.
     rbind (validateCustomStatuses (cg_CustomStatuses b)) (\<lambda>_.
     rbind (validateStatusRules (cg_StatusRules b) (cg_CustomStatuses b)) (\<lambda>_.
     rbind (validateTTLSeconds (cg_TTLSeconds b)) (\<lambda>_.
     validateStatusTransitions (cg_StatusTransitions b) (cg_CustomStatuses b)))))))"

definition h_gate_Create :: "'r env \<Rightarrow> int \<Rightarrow> create_gate_params \<Rightarrow> 'r world \<Rightarrow> gate hres \<times> 'r world" where
  "h_gate_Create X now b w =
     hbind (field_check (validate_create b), w) (\<lambda>_ w.
       wrespond (\<lambda>_. HErr 500 ''failed to create gate'') (gate_Create X now b w))"

definition gate_error :: "string \<Rightarrow> err \<Rightarrow> herr" where
  "gate_error what e = (if errIs e ErrNotFound then HErr 404 ''gate not found'' else HErr 500 what)"

definition h_gate_Get :: "'r env \<Rightarrow> int \<Rightarrow> req_ctx \<Rightarrow> uuid \<Rightarrow> 'r world \<Rightarrow> gate hres" where
  "h_gate_Get X now cx gateID w =
     respond (\<lambda>e. if errIs e ErrNotFound then HErr 404 ''gate not found''
                  else if errIs e ErrUnauthorized then HErr 403 ''access denied''
                  else HErr 500 ''failed to get gate'')
       (gate_Get X now (w_db w) gateID (ctx_role cx) (ctx_member cx))"

text \<open>
  A field of a \<open>PATCH\<close> body: \<open>UnmarshalJSON\<close> runs on the member's value, so an absent member leaves the
  field unsent. \<open>dec\<close> decodes a value over an old one.
\<close>

definition omit_UnmarshalJSON :: "(gval \<Rightarrow> 'a \<Rightarrow> 'a option) \<Rightarrow> gval \<Rightarrow> 'a omittable \<Rightarrow> 'a omittable option" where
  "omit_UnmarshalJSON dec b field =
     (if b = VNull then Some (field\<lparr>om_Sent := True, om_Null := True\<rparr>)
      else map_option (\<lambda>v. field\<lparr>om_Sent := True, om_Value := v\<rparr>) (dec b (om_Value field)))"

definition omit_field :: "(gval \<Rightarrow> 'a \<Rightarrow> 'a option) \<Rightarrow> 'a \<Rightarrow> gval option \<Rightarrow> 'a omittable option" where
  "omit_field dec zero b = (let field = \<lparr>om_Sent = False, om_Null = False, om_Value = zero\<rparr> in
     case b of None \<Rightarrow> Some field | Some v \<Rightarrow> omit_UnmarshalJSON dec v field)"

text \<open>From the body to the column: absent keeps it, null clears it, a value replaces it.\<close>

lemma omit_field_update:
  assumes "omit_field dec zero b = Some field"
  shows "omit_update field old = (case b of None \<Rightarrow> old | Some v \<Rightarrow> if v = VNull then None else dec v zero)"
  using assms by (auto simp: omit_field_def omit_UnmarshalJSON_def omit_update_def Let_def split: option.splits if_splits)

text \<open>A field is validated when it was sent and is not null; lists when they were sent.\<close>

definition sent_value :: "'a omittable \<Rightarrow> 'a option" where
  "sent_value o' = (if om_Sent o' \<and> \<not> om_Null o' then Some (om_Value o') else None)"

definition sent_list :: "'a list option \<Rightarrow> 'a list" where
  "sent_list l = (case l of None \<Rightarrow> [] | Some xs \<Rightarrow> xs)"

definition validate_update :: "update_gate_params \<Rightarrow> unit res" where
  "validate_update b =
     rbind (validateActionConfig ''open_config'' (sent_value (ug_OpenConfig b))) (\<lambda>_.
     rbind (validateActionConfig ''close_config'' (sent_value (ug_CloseConfig b))) (\<lambda>_.
     rbind (validateStatusActionConfig (sent_value (ug_StatusConfig b))) (\<lambda>_.
     rbind (case ug_CustomStatuses b of None \<Rightarrow> Inr () | Some ss \<Rightarrow> validateCustomStatuses ss) (\<lambda>_.
     rbind (case ug_StatusRules b of None \<Rightarrow> Inr ()
            | Some rs \<Rightarrow> validateStatusRules rs (sent_list (ug_CustomStatuses b))) (\<lambda>_.
     rbind (validateTTLSeconds (sent_value (ug_TTLSeconds b))) (\<lambda>_.
     case ug_StatusTransitions b of None \<Rightarrow> Inr ()
     | Some ts \<Rightarrow> validateStatusTransitions ts (sent_list (ug_CustomStatuses b))))))))"

definition h_gate_Update :: "'r env \<Rightarrow> int \<Rightarrow> uuid \<Rightarrow> update_gate_params \<Rightarrow> 'r world \<Rightarrow> gate hres \<times> 'r world" where
  "h_gate_Update X now gateID b w =
     hbind (field_check (validate_update b), w) (\<lambda>_ w.
       wrespond (gate_error ''failed to update gate'') (gate_Update X now gateID b w))"

definition h_gate_Delete :: "'r env \<Rightarrow> int \<Rightarrow> uuid \<Rightarrow> 'r world \<Rightarrow> unit hres \<times> 'r world" where
  "h_gate_Delete X now gateID w = wrespond (gate_error ''failed to delete gate'') (gate_Delete X now gateID w)"

definition action_or_open :: "string \<Rightarrow> string" where
  "action_or_open action = (if action = [] then ''open'' else action)"

definition missing_permission :: "string \<Rightarrow> herr" where
  "missing_permission action =
     HErr 403 (''missing '' @ (if action = ''close'' then ''gate:trigger_close'' else ''gate:trigger_open'') @ '' permission'')"

definition h_gate_Trigger :: "'r env \<Rightarrow> int \<Rightarrow> req_ctx \<Rightarrow> uuid \<Rightarrow> string \<Rightarrow> 'r world \<Rightarrow> unit hres \<times> 'r world" where
  "h_gate_Trigger X now cx gateID action0 w =
     (let action = action_or_open action0
      in wrespond (\<lambda>e. if errIs e ErrNotFound then HErr 404 ''gate not found''
                       else if errIs e ErrUnauthorized then missing_permission action
                       else if errIs e ErrScheduleDenied then HErr 403 ''access not allowed at this time''
                       else HErr 500 ''failed to trigger gate'')
           (gate_Trigger X now gateID (ctx_role cx) (ctx_member cx) (ctx_credential cx) action w))"

definition h_gate_GetToken :: "'r env \<Rightarrow> int \<Rightarrow> uuid \<Rightarrow> 'r world \<Rightarrow> (uuid \<times> string) hres" where
  "h_gate_GetToken X now gateID w =
     respond (gate_error ''failed to get gate token'') (map_sum id (Pair gateID) (gate_GetToken X now (w_db w) gateID))"

definition h_gate_RotateToken :: "'r env \<Rightarrow> int \<Rightarrow> uuid \<Rightarrow> 'r world \<Rightarrow> (uuid \<times> string) hres \<times> 'r world" where
  "h_gate_RotateToken X now gateID w =
     hbind (wrespond (gate_error ''failed to rotate gate token'') (gate_RotateToken X now gateID w))
       (\<lambda>token w. (Inr (gateID, token), w))"

section \<open>Access codes\<close>

definition pin_error :: "string \<Rightarrow> err \<Rightarrow> herr" where
  "pin_error what e = (if errIs e ErrNotFound then HErr 404 ''pin not found'' else HErr 500 what)"

definition h_CreatePIN :: "'r env \<Rightarrow> int \<Rightarrow> uuid \<Rightarrow> create_pin_params \<Rightarrow> 'r world \<Rightarrow> gate_pin hres \<times> 'r world" where
  "h_CreatePIN X now gateID params w =
     wrespond (\<lambda>_. HErr 400 ''invalid pin configuration'') (pin_Create X now gateID params w)"

definition h_ListPINs :: "'r env \<Rightarrow> int \<Rightarrow> uuid \<Rightarrow> pagination \<Rightarrow> 'r world \<Rightarrow> gate_pin paginated hres" where
  "h_ListPINs X now gateID q w =
     (let p = Params q
      in paginate p (respond (\<lambda>_. HErr 500 ''failed to list pins'') (pin_List X now (w_db w) gateID p)))"

definition h_UpdatePIN :: "'r env \<Rightarrow> int \<Rightarrow> uuid \<Rightarrow> uuid \<Rightarrow> string option \<Rightarrow> gmap \<Rightarrow> 'r world \<Rightarrow> gate_pin hres \<times> 'r world" where
  "h_UpdatePIN X now gateID pinID label metadata w =
     wrespond (pin_error ''failed to update pin'') (pin_Update X now pinID gateID label metadata w)"

definition h_SetPinSchedule :: "'r env \<Rightarrow> int \<Rightarrow> uuid \<Rightarrow> uuid \<Rightarrow> uuid \<Rightarrow> 'r world \<Rightarrow> gate_pin hres \<times> 'r world" where
  "h_SetPinSchedule X now gateID pinID scheduleID w =
     wrespond (pin_error ''failed to set schedule'') (pin_SetSchedule X now pinID gateID scheduleID w)"

definition h_ClearPinSchedule :: "'r env \<Rightarrow> int \<Rightarrow> uuid \<Rightarrow> uuid \<Rightarrow> 'r world \<Rightarrow> gate_pin hres \<times> 'r world" where
  "h_ClearPinSchedule X now gateID pinID w =
     wrespond (pin_error ''failed to clear schedule'') (pin_ClearSchedule X now pinID gateID w)"

definition h_DeletePIN :: "'r env \<Rightarrow> int \<Rightarrow> uuid \<Rightarrow> uuid \<Rightarrow> 'r world \<Rightarrow> unit hres \<times> 'r world" where
  "h_DeletePIN X now gateID pinID w = wrespond (pin_error ''failed to delete pin'') (pin_Delete X now pinID gateID w)"

definition mapPINError :: "err \<Rightarrow> herr" where
  "mapPINError e =
     (if errIs e ErrTooManyAttempts then HErr 429 ''too many attempts, try again later''
      else if errIs e ErrInvalidPIN then HErr 401 ''invalid pin''
      else if errIs e ErrScheduleDenied then HErr 403 ''access denied''
      else if errIs e ErrMaxUsesExceeded then HErr 403 ''pin max uses exceeded''
      else HErr 500 ''internal error'')"

definition h_Unlock :: "'r env \<Rightarrow> int \<Rightarrow> req_ctx \<Rightarrow> uuid \<Rightarrow> string \<Rightarrow> 'r world \<Rightarrow> unit hres \<times> 'r world" where
  "h_Unlock X now cx gateID pin w = wrespond mapPINError (Unlock X now gateID pin (ClientIPFromContext cx) w)"

record open_gate_body =
  og_HasSession :: bool
  og_GateID :: string
  og_Permissions :: "string list"

definition h_OpenGate :: "'r env \<Rightarrow> int \<Rightarrow> req_ctx \<Rightarrow> uuid \<Rightarrow> string \<Rightarrow> 'r world
    \<Rightarrow> ((set_cookie \<times> set_cookie) option \<times> open_gate_body) hres \<times> 'r world" where
  "h_OpenGate X now cx gateID pin w =
     hbind (wrespond mapPINError (pin_Open X now gateID pin (ClientIPFromContext cx) w)) (\<lambda>result w.
       (Inr (Some (setAuthCookies (or_Tokens result) (cf_cookieSecure X)),
             \<lparr>og_HasSession = True, og_GateID = x_uuidString X gateID, og_Permissions = or_Permissions result\<rparr>), w))"

definition h_PublicTrigger :: "'r env \<Rightarrow> int \<Rightarrow> string \<Rightarrow> string \<Rightarrow> 'r world \<Rightarrow> unit hres \<times> 'r world" where
  "h_PublicTrigger X now tokenStr action0 w =
     (let action = action_or_open action0
      in if tokenStr = [] then (Inl (HErr 401 ''missing session''), w)
         else wrespond (\<lambda>e. if e = ErrPanic then HErr 500 ''Internal Server Error''
                            else if errIs e ErrInvalidSession then HErr 401 ''invalid or expired session''
                            else if errIs e ErrUnauthorized then missing_permission action
                            else if errIs e ErrNotFound then HErr 404 ''gate not found''
                            else HErr 500 ''failed to trigger gate'')
                (TriggerWithSession X now tokenStr action w))"

end
