(* ===== verification/Handlers_Account.thy ===== *)
theory Handlers_Account
  imports Handlers_Gate
begin

text \<open>
  \<open>internal/handler/auth.go\<close>, \<open>setup.go\<close>, \<open>credential.go\<close> and \<open>member.go\<close>: login, refresh, logout, the first
  account, passwords and API tokens, and the administration of members. The cookies a handler
  sets are part of its value. \<open>init\<close> is serialised by a lock: a call is one step. Where a handler
  passes the text of an error on to the client, only the fact is kept.
\<close>

section \<open>Sessions\<close>

record auth_output =
  ao_Cookies :: "set_cookie \<times> set_cookie"
  ao_Type :: string
  ao_Member :: "member option"
  ao_GateID :: string
  ao_Permissions :: "string list option"

definition h_Login :: "'r env \<Rightarrow> int \<Rightarrow> string \<Rightarrow> string \<Rightarrow> 'r world \<Rightarrow> auth_output hres \<times> 'r world" where
  "h_Login X now username password w =
     hbind (wrespond (\<lambda>e. if errIs e ErrInvalidCredentials then HErr 401 ''invalid credentials'' else HErr 500 ''login failed'')
              (Login X now username password w)) (\<lambda>(tokens, member) w.
       (Inr \<lparr>ao_Cookies = setAuthCookies tokens (cf_cookieSecure X), ao_Type = ''member'', ao_Member = Some member,
             ao_GateID = [], ao_Permissions = None\<rparr>, w))"

definition h_Refresh :: "'r env \<Rightarrow> int \<Rightarrow> string \<Rightarrow> 'r world \<Rightarrow> auth_output hres \<times> 'r world" where
  "h_Refresh X now token w =
     (if token = [] then (Inl (HErr 401 ''missing refresh token''), w)
      else hbind (wrespond (\<lambda>e. if errIs e ErrInvalidToken then HErr 401 ''invalid or expired refresh token''
                                else HErr 500 ''refresh failed'') (Refresh X now token w)) (\<lambda>result w.
        (Inr \<lparr>ao_Cookies = setAuthCookies (rr_Tokens result) (cf_cookieSecure X), ao_Type = rr_Type result,
              ao_Member = (if rr_Type result = ''member'' then rr_Member result else None),
              ao_GateID = (if rr_Type result = ''pin_session'' then x_uuidString X (rr_GateID result) else []),
              ao_Permissions = (if rr_Type result = ''pin_session'' then rr_Permissions result else None)\<rparr>, w)))"

definition h_Logout :: "'r env \<Rightarrow> int \<Rightarrow> string \<Rightarrow> 'r world \<Rightarrow> (set_cookie \<times> set_cookie) hres \<times> 'r world" where
  "h_Logout X now refreshCookie w =
     (Inr (clearAuthCookies (cf_cookieSecure X)),
      if refreshCookie \<noteq> [] then RevokeRefreshToken X now refreshCookie w else w)"

text \<open>The identifier of the caller, or the error of a handler that needs one.\<close>

definition caller :: "string \<Rightarrow> req_ctx \<Rightarrow> uuid hres" where
  "caller msg cx = (case MemberIDFromContext cx of None \<Rightarrow> Inl (HErr 401 msg) | Some i \<Rightarrow> Inr i)"

definition h_Me :: "'r env \<Rightarrow> int \<Rightarrow> req_ctx \<Rightarrow> 'r world \<Rightarrow> member hres" where
  "h_Me X now cx w = (case caller ''not authenticated'' cx of
      Inl e \<Rightarrow> Inl e
    | Inr memberID \<Rightarrow> respond (\<lambda>_. HErr 500 ''failed to fetch member'') (member_GetByID X now (w_db w) memberID))"

section \<open>The first account\<close>

definition setup_status :: "'r env \<Rightarrow> int \<Rightarrow> 'r world \<Rightarrow> bool hres" where
  "setup_status X now w =
     (case member_HasAny X now (w_db w) of
        Inl _ \<Rightarrow> Inl (HErr 500 ''failed to check setup status'')
      | Inr hasAny \<Rightarrow> Inr (\<not> hasAny))"

definition setup_init :: "'r env \<Rightarrow> int \<Rightarrow> string \<Rightarrow> string \<Rightarrow> string option \<Rightarrow> 'r world
    \<Rightarrow> ((set_cookie \<times> set_cookie) \<times> member) hres \<times> 'r world" where
  "setup_init X now username password displayName w =
     (case member_HasAny X now (w_db w) of
        Inl _ \<Rightarrow> (Inl (HErr 500 ''failed to check setup status''), w)
      | Inr hasAny \<Rightarrow>
          if hasAny then (Inl (HErr 409 ''setup already completed''), w)
          else hbind (wrespond (\<lambda>e. if errIs e ErrWeakPassword then HErr 400 ''weak password''
                                    else HErr 500 ''failed to create admin member'')
                        (Register X now username password displayName w)) (\<lambda>(tokens, member) w.
                 (Inr (setAuthCookies tokens (cf_cookieSecure X), member), w)))"

section \<open>Credentials\<close>

record credential_view =
  cv_ID :: uuid
  cv_Type :: string
  cv_Label :: "string option"
  cv_ExpiresAt :: "int option"
  cv_Metadata :: gmap
  cv_CreatedAt :: int

definition credView :: "credential \<Rightarrow> credential_view" where
  "credView c = \<lparr>cv_ID = cr_ID c, cv_Type = cr_Type c, cv_Label = cr_Label c, cv_ExpiresAt = cr_ExpiresAt c,
     cv_Metadata = cr_Metadata c, cv_CreatedAt = cr_CreatedAt c\<rparr>"

definition list_credentials :: "'r env \<Rightarrow> int \<Rightarrow> db \<Rightarrow> uuid \<Rightarrow> pagination \<Rightarrow> credential_view list hres" where
  "list_credentials X now d memberID q =
     (let p = Params q; flt = x_dbFault X now
      in case creds_ListByMemberAndType flt d memberID CredAPIToken p of
           Inl _ \<Rightarrow> Inl (HErr 500 ''failed to list credentials'')
         | Inr (tokens, _) \<Rightarrow>
             (case creds_ListByMemberAndType flt d memberID CredSSOIdentity p of
                Inl _ \<Rightarrow> Inl (HErr 500 ''failed to list credentials'')
              | Inr (ssos, _) \<Rightarrow> Inr (List.map credView tokens @ List.map credView ssos)))"

definition h_ListMyCredentials :: "'r env \<Rightarrow> int \<Rightarrow> req_ctx \<Rightarrow> pagination \<Rightarrow> 'r world \<Rightarrow> credential_view list hres" where
  "h_ListMyCredentials X now cx q w = (case caller ''not authenticated'' cx of
      Inl e \<Rightarrow> Inl e
    | Inr memberID \<Rightarrow> list_credentials X now (w_db w) memberID q)"

text \<open>The loop over the policies of a new token stops at the first failure.\<close>

fun grant_all :: "'r env \<Rightarrow> int \<Rightarrow> uuid \<Rightarrow> (uuid \<times> string) list \<Rightarrow> 'r world \<Rightarrow> unit hres \<times> 'r world" where
  "grant_all X now credID [] w = (Inr (), w)"
| "grant_all X now credID ((gateID, code) # ps) w =
     hbind (wrespond (\<lambda>_. HErr 500 ''failed to set token policy'')
              (on_db (\<lambda>d. credPolicies_Grant (x_dbFault X now) d credID gateID code) w)) (\<lambda>_ w.
       grant_all X now credID ps w)"

definition new_token :: "'r env \<Rightarrow> int \<Rightarrow> uuid \<Rightarrow> string \<Rightarrow> int option \<Rightarrow> 'r world
    \<Rightarrow> (credential \<times> string) hres \<times> 'r world" where
  "new_token X now memberID label expiresAt w =
     hbind (respond (\<lambda>_. HErr 500 ''failed to generate token'') (GenerateAPIToken X now), w) (\<lambda>(rawToken, hash) w.
     hbind (wrespond (\<lambda>_. HErr 500 ''failed to create token'')
              (on_db (\<lambda>d. creds_Create (x_dbFault X now) d (x_newID X now ''credential'') now memberID CredAPIToken hash
                 (Some label) expiresAt []) w)) (\<lambda>cred w.
       (Inr (cred, rawToken), w)))"

definition h_CreateMyAPIToken :: "'r env \<Rightarrow> int \<Rightarrow> req_ctx \<Rightarrow> string \<Rightarrow> int option \<Rightarrow> (uuid \<times> string) list \<Rightarrow> uuid option
    \<Rightarrow> 'r world \<Rightarrow> (credential_view \<times> string) hres \<times> 'r world" where
  "h_CreateMyAPIToken X now cx label expiresAt policies scheduleID w =
     hbind (caller ''not authenticated'' cx, w) (\<lambda>memberID w.
     hbind (new_token X now memberID label expiresAt w) (\<lambda>(cred, rawToken) w.
     hbind (grant_all X now (cr_ID cred) policies w) (\<lambda>_ w.
     hbind (case scheduleID of
              None \<Rightarrow> (Inr (), w)
            | Some sid \<Rightarrow> wrespond (\<lambda>_. HErr 500 ''failed to set token schedule'')
                (on_db (\<lambda>d. credPolicies_SetSchedule (x_dbFault X now) d (cr_ID cred) sid) w)) (\<lambda>_ w.
       (Inr (credView cred, rawToken), w)))))"

definition delete_credential :: "'r env \<Rightarrow> int \<Rightarrow> string \<Rightarrow> uuid \<Rightarrow> uuid \<Rightarrow> 'r world \<Rightarrow> unit hres \<times> 'r world" where
  "delete_credential X now refusal credID memberID w =
     (let flt = x_dbFault X now in
      hbind (respond (\<lambda>e. if errIs e ErrNotFound then HErr 404 ''credential not found'' else HErr 500 ''failed to get credential'')
               (creds_GetByID flt (w_db w) credID memberID), w) (\<lambda>cred w.
      if cr_Type cred = CredPassword then (Inl (HErr 400 refusal), w)
      else let w1 = snd (on_db (\<lambda>d. credPolicies_RevokeAll flt d (cr_ID cred)) w);
               w2 = snd (on_db (\<lambda>d. credPolicies_RemoveSchedule flt d (cr_ID cred)) w1)
           in wrespond (\<lambda>_. HErr 500 ''failed to delete credential'') (on_db (\<lambda>d. creds_Delete flt d credID memberID) w2)))"

definition h_DeleteMyCredential :: "'r env \<Rightarrow> int \<Rightarrow> req_ctx \<Rightarrow> uuid \<Rightarrow> 'r world \<Rightarrow> unit hres \<times> 'r world" where
  "h_DeleteMyCredential X now cx credID w =
     hbind (caller ''not authenticated'' cx, w) (\<lambda>memberID w.
       delete_credential X now ''use PATCH /api/auth/me/password to change your password'' credID memberID w)"

definition h_ChangeMyPassword :: "'r env \<Rightarrow> int \<Rightarrow> req_ctx \<Rightarrow> string \<Rightarrow> string \<Rightarrow> 'r world \<Rightarrow> unit hres \<times> 'r world" where
  "h_ChangeMyPassword X now cx oldPassword newPassword w =
     (let flt = x_dbFault X now in
      hbind (caller ''not authenticated'' cx, w) (\<lambda>memberID w.
      hbind (respond (\<lambda>e. if errIs e ErrNotFound then HErr 400 ''no password set on this account''
                          else HErr 500 ''failed to retrieve credential'')
               (creds_GetByMemberAndType flt (w_db w) memberID CredPassword), w) (\<lambda>existing w.
      if \<not> CheckPassword X (cr_HashedValue existing) oldPassword then (Inl (HErr 401 ''incorrect current password''), w)
      else hbind (respond (\<lambda>_. HErr 500 ''failed to hash password'') (HashPassword X now newPassword), w) (\<lambda>newHash w.
           wrespond (\<lambda>_. HErr 500 ''failed to update password'')
             (on_db (\<lambda>d. creds_UpdateHashedValue flt d memberID CredPassword newHash) w)))))"

definition validateMember :: "'r env \<Rightarrow> int \<Rightarrow> db \<Rightarrow> uuid \<Rightarrow> unit hres" where
  "validateMember X now d memberID =
     respond (\<lambda>e. if errIs e ErrNotFound then HErr 404 ''member not found'' else HErr 500 ''failed to validate member'')
       (map_sum id (\<lambda>_. ()) (members_GetByID (x_dbFault X now) d memberID))"

definition h_AdminListMemberCredentials :: "'r env \<Rightarrow> int \<Rightarrow> uuid \<Rightarrow> pagination \<Rightarrow> 'r world \<Rightarrow> credential_view list hres" where
  "h_AdminListMemberCredentials X now memberID q w = (case validateMember X now (w_db w) memberID of
      Inl e \<Rightarrow> Inl e
    | Inr _ \<Rightarrow> list_credentials X now (w_db w) memberID q)"

definition h_AdminCreateMemberAPIToken :: "'r env \<Rightarrow> int \<Rightarrow> uuid \<Rightarrow> string \<Rightarrow> int option \<Rightarrow> 'r world
    \<Rightarrow> (credential_view \<times> string) hres \<times> 'r world" where
  "h_AdminCreateMemberAPIToken X now memberID label expiresAt w =
     hbind (validateMember X now (w_db w) memberID, w) (\<lambda>_ w.
     hbind (new_token X now memberID label expiresAt w) (\<lambda>(cred, rawToken) w.
       (Inr (credView cred, rawToken), w)))"

definition h_AdminDeleteMemberCredential :: "'r env \<Rightarrow> int \<Rightarrow> uuid \<Rightarrow> uuid \<Rightarrow> 'r world \<Rightarrow> unit hres \<times> 'r world" where
  "h_AdminDeleteMemberCredential X now memberID credID w =
     hbind (validateMember X now (w_db w) memberID, w) (\<lambda>_ w.
       delete_credential X now ''use the set-password endpoint to manage passwords'' credID memberID w)"

definition h_AdminSetMemberPassword :: "'r env \<Rightarrow> int \<Rightarrow> uuid \<Rightarrow> string \<Rightarrow> 'r world \<Rightarrow> unit hres \<times> 'r world" where
  "h_AdminSetMemberPassword X now memberID password w =
     (let flt = x_dbFault X now in
      hbind (validateMember X now (w_db w) memberID, w) (\<lambda>_ w.
      hbind (respond (\<lambda>_. HErr 500 ''failed to hash password'') (HashPassword X now password), w) (\<lambda>newHash w.
      case on_db (\<lambda>d. creds_UpdateHashedValue flt d memberID CredPassword newHash) w of
        (Inr _, w1) \<Rightarrow> (Inr (), w1)
      | (Inl e, w1) \<Rightarrow>
          if errIs e ErrNotFound then
            hbind (wrespond (\<lambda>_. HErr 500 ''failed to set password'')
                     (on_db (\<lambda>d. creds_Create flt d (x_newID X now ''credential'') now memberID CredPassword newHash None None []) w1))
              (\<lambda>_ w. (Inr (), w))
          else (Inl (HErr 500 ''failed to set password''), w1))))"

section \<open>Members\<close>

definition member_error :: "string \<Rightarrow> err \<Rightarrow> herr" where
  "member_error what e = (if errIs e ErrNotFound then HErr 404 ''member not found'' else HErr 500 what)"

definition h_member_Create :: "'r env \<Rightarrow> int \<Rightarrow> string \<Rightarrow> string option \<Rightarrow> string \<Rightarrow> string \<Rightarrow> 'r world \<Rightarrow> member hres \<times> 'r world" where
  "h_member_Create X now username displayName password role w =
     wrespond (\<lambda>e. if errIs e ErrUsernameTaken then HErr 409 ''username already taken'' else HErr 500 ''failed to create member'')
       (member_Create X now username displayName password role w)"

definition h_member_List :: "'r env \<Rightarrow> int \<Rightarrow> pagination \<Rightarrow> 'r world \<Rightarrow> member paginated hres" where
  "h_member_List X now q w =
     (let p = Params q
      in paginate p (respond (\<lambda>_. HErr 500 ''failed to list members'') (member_List X now (w_db w) p)))"

definition h_member_Get :: "'r env \<Rightarrow> int \<Rightarrow> uuid \<Rightarrow> 'r world \<Rightarrow> member hres" where
  "h_member_Get X now memberID w = respond (member_error ''failed to get member'') (member_GetByID X now (w_db w) memberID)"

definition h_member_Update :: "'r env \<Rightarrow> int \<Rightarrow> uuid \<Rightarrow> string option \<Rightarrow> string option \<Rightarrow> string option \<Rightarrow> 'r world
    \<Rightarrow> member hres \<times> 'r world" where
  "h_member_Update X now memberID displayName username role w =
     wrespond (\<lambda>e. if errIs e ErrNotFound then HErr 404 ''member not found''
                   else if errIs e ErrAlreadyExists then HErr 409 ''username already taken''
                   else HErr 500 ''failed to update member'')
       (member_Update X now memberID displayName username role w)"

definition h_member_Delete :: "'r env \<Rightarrow> int \<Rightarrow> uuid \<Rightarrow> 'r world \<Rightarrow> unit hres \<times> 'r world" where
  "h_member_Delete X now memberID w = wrespond (member_error ''failed to delete member'') (member_Delete X now memberID w)"

end
