(* ===== verification/Handlers_Access.thy ===== *)
theory Handlers_Access
  imports Handlers_Account
begin

text \<open>
  \<open>internal/handler/policy.go\<close>, \<open>access_schedule.go\<close> and \<open>custom_domain.go\<close>, with the operations of the
  policy and schedule services that only they use. \<open>x_lookupTXT\<close> is the DNS.
\<close>

section \<open>Policies\<close>

definition svc_ListForGate :: "faults \<Rightarrow> db \<Rightarrow> uuid \<Rightarrow> pagination \<Rightarrow> (policy_row list \<times> int) res" where
  "svc_ListForGate = policies_ListForGate"

definition svc_ListForMember :: "faults \<Rightarrow> db \<Rightarrow> uuid \<Rightarrow> pagination \<Rightarrow> (policy_row list \<times> int) res" where
  "svc_ListForMember = policies_ListForMember"

definition svc_Grant :: "faults \<Rightarrow> db \<Rightarrow> uuid \<Rightarrow> uuid \<Rightarrow> string \<Rightarrow> unit res \<times> db" where
  "svc_Grant = policies_Grant"

definition svc_Revoke :: "faults \<Rightarrow> db \<Rightarrow> uuid \<Rightarrow> uuid \<Rightarrow> unit res \<times> db" where
  "svc_Revoke = policies_Revoke"

definition svc_RevokePermission :: "faults \<Rightarrow> db \<Rightarrow> uuid \<Rightarrow> uuid \<Rightarrow> string \<Rightarrow> unit res \<times> db" where
  "svc_RevokePermission = policies_RevokePermission"

definition svc_SetMemberGateSchedule :: "faults \<Rightarrow> db \<Rightarrow> uuid \<Rightarrow> uuid \<Rightarrow> uuid \<Rightarrow> unit res \<times> db" where
  "svc_SetMemberGateSchedule = policies_SetSchedule"

definition svc_RemoveMemberGateSchedule :: "faults \<Rightarrow> db \<Rightarrow> uuid \<Rightarrow> uuid \<Rightarrow> unit res \<times> db" where
  "svc_RemoveMemberGateSchedule = policies_RemoveSchedule"

definition h_policy_List :: "'r env \<Rightarrow> int \<Rightarrow> uuid \<Rightarrow> pagination \<Rightarrow> 'r world \<Rightarrow> policy_row paginated hres" where
  "h_policy_List X now gateID q w =
     (let p = Params q
      in paginate p (respond (\<lambda>_. HErr 500 ''failed to list policies'') (svc_ListForGate (x_dbFault X now) (w_db w) gateID p)))"

definition h_policy_ListByMember :: "'r env \<Rightarrow> int \<Rightarrow> uuid \<Rightarrow> pagination \<Rightarrow> 'r world \<Rightarrow> policy_row paginated hres" where
  "h_policy_ListByMember X now memberID q w =
     (let p = Params q
      in paginate p (respond (\<lambda>_. HErr 500 ''failed to list member policies'')
           (svc_ListForMember (x_dbFault X now) (w_db w) memberID p)))"

definition h_policy_ListMine :: "'r env \<Rightarrow> int \<Rightarrow> req_ctx \<Rightarrow> pagination \<Rightarrow> 'r world \<Rightarrow> policy_row paginated hres" where
  "h_policy_ListMine X now cx q w = (case caller ''not authenticated'' cx of
      Inl e \<Rightarrow> Inl e
    | Inr memberID \<Rightarrow>
        (let p = Params q
         in paginate p (respond (\<lambda>_. HErr 500 ''failed to list policies'')
              (svc_ListForMember (x_dbFault X now) (w_db w) memberID p))))"

definition h_policy_Grant :: "'r env \<Rightarrow> int \<Rightarrow> uuid \<Rightarrow> uuid \<Rightarrow> string \<Rightarrow> 'r world \<Rightarrow> unit hres \<times> 'r world" where
  "h_policy_Grant X now gateID memberID code w =
     wrespond (\<lambda>_. HErr 500 ''failed to grant policy'') (on_db (\<lambda>d. svc_Grant (x_dbFault X now) d memberID gateID code) w)"

definition h_policy_Revoke :: "'r env \<Rightarrow> int \<Rightarrow> uuid \<Rightarrow> uuid \<Rightarrow> 'r world \<Rightarrow> unit hres \<times> 'r world" where
  "h_policy_Revoke X now gateID memberID w =
     wrespond (\<lambda>_. HErr 500 ''failed to revoke policy'') (on_db (\<lambda>d. svc_Revoke (x_dbFault X now) d memberID gateID) w)"

definition h_policy_RevokePermission :: "'r env \<Rightarrow> int \<Rightarrow> uuid \<Rightarrow> uuid \<Rightarrow> string \<Rightarrow> 'r world \<Rightarrow> unit hres \<times> 'r world" where
  "h_policy_RevokePermission X now gateID memberID code w =
     wrespond (\<lambda>e. if errIs e ErrNotFound then HErr 404 ''policy not found'' else HErr 500 ''failed to revoke permission'')
       (on_db (\<lambda>d. svc_RevokePermission (x_dbFault X now) d memberID gateID code) w)"

definition h_policy_GetMemberGateSchedule :: "'r env \<Rightarrow> int \<Rightarrow> uuid \<Rightarrow> uuid \<Rightarrow> 'r world \<Rightarrow> access_schedule option hres" where
  "h_policy_GetMemberGateSchedule X now gateID memberID w =
     (case svc_GetMemberGateSchedule (x_dbFault X now) (w_db w) memberID gateID of
        Inl e \<Rightarrow> if errIs e ErrNotFound then Inr None else Inl (HErr 500 ''failed to get schedule'')
      | Inr schedule \<Rightarrow> Inr (Some schedule))"

definition h_policy_SetMemberGateSchedule :: "'r env \<Rightarrow> int \<Rightarrow> uuid \<Rightarrow> uuid \<Rightarrow> uuid \<Rightarrow> 'r world \<Rightarrow> unit hres \<times> 'r world" where
  "h_policy_SetMemberGateSchedule X now gateID memberID scheduleID w =
     wrespond (\<lambda>_. HErr 500 ''failed to set schedule'')
       (on_db (\<lambda>d. svc_SetMemberGateSchedule (x_dbFault X now) d memberID gateID scheduleID) w)"

definition h_policy_RemoveMemberGateSchedule :: "'r env \<Rightarrow> int \<Rightarrow> uuid \<Rightarrow> uuid \<Rightarrow> 'r world \<Rightarrow> unit hres \<times> 'r world" where
  "h_policy_RemoveMemberGateSchedule X now gateID memberID w =
     wrespond (\<lambda>_. HErr 500 ''failed to remove schedule'')
       (on_db (\<lambda>d. svc_RemoveMemberGateSchedule (x_dbFault X now) d memberID gateID) w)"

section \<open>Schedules\<close>

definition schedule_List :: "faults \<Rightarrow> db \<Rightarrow> pagination \<Rightarrow> (access_schedule list \<times> int) res" where
  "schedule_List = schedules_List"

definition schedule_ListMine :: "faults \<Rightarrow> db \<Rightarrow> uuid \<Rightarrow> pagination \<Rightarrow> (access_schedule list \<times> int) res" where
  "schedule_ListMine = schedules_ListByMember"

definition schedule_Get :: "faults \<Rightarrow> db \<Rightarrow> uuid \<Rightarrow> access_schedule res" where
  "schedule_Get = schedules_GetByID"

definition invalid_expr :: "err \<Rightarrow> herr" where
  "invalid_expr e = HErr 400 ''validation failed''"

definition schedule_error :: "string \<Rightarrow> err \<Rightarrow> herr" where
  "schedule_error what e = (if errIs e ErrNotFound then HErr 404 ''schedule not found'' else HErr 500 what)"

definition update_error :: "err \<Rightarrow> herr" where
  "update_error e = (if errIs e ErrNotFound then HErr 404 ''schedule not found'' else invalid_expr e)"

definition h_schedule_Create :: "'r env \<Rightarrow> int \<Rightarrow> string \<Rightarrow> string option \<Rightarrow> expr_node option \<Rightarrow> 'r world
    \<Rightarrow> access_schedule hres \<times> 'r world" where
  "h_schedule_Create X now name description expr w =
     wrespond invalid_expr (on_db (\<lambda>d. schedule_Create X now d name description expr) w)"

definition h_schedule_List :: "'r env \<Rightarrow> int \<Rightarrow> pagination \<Rightarrow> 'r world \<Rightarrow> access_schedule paginated hres" where
  "h_schedule_List X now q w =
     (let p = Params q
      in paginate p (respond (\<lambda>_. HErr 500 ''failed to list schedules'') (schedule_List (x_dbFault X now) (w_db w) p)))"

definition h_schedule_Get :: "'r env \<Rightarrow> int \<Rightarrow> uuid \<Rightarrow> 'r world \<Rightarrow> access_schedule hres" where
  "h_schedule_Get X now scheduleID w =
     respond (schedule_error ''failed to get schedule'') (schedule_Get (x_dbFault X now) (w_db w) scheduleID)"

definition h_schedule_Update :: "'r env \<Rightarrow> int \<Rightarrow> uuid \<Rightarrow> string \<Rightarrow> string option \<Rightarrow> expr_node option \<Rightarrow> 'r world
    \<Rightarrow> access_schedule hres \<times> 'r world" where
  "h_schedule_Update X now scheduleID name description expr w =
     wrespond update_error (on_db (\<lambda>d. schedule_Update X now d scheduleID name description expr) w)"

definition h_schedule_Delete :: "'r env \<Rightarrow> int \<Rightarrow> uuid \<Rightarrow> 'r world \<Rightarrow> unit hres \<times> 'r world" where
  "h_schedule_Delete X now scheduleID w =
     wrespond (schedule_error ''failed to delete schedule'') (on_db (\<lambda>d. schedule_Delete X now d scheduleID) w)"

definition h_schedule_ListMine :: "'r env \<Rightarrow> int \<Rightarrow> req_ctx \<Rightarrow> pagination \<Rightarrow> 'r world \<Rightarrow> access_schedule paginated hres" where
  "h_schedule_ListMine X now cx q w = (case caller ''unauthorized'' cx of
      Inl e \<Rightarrow> Inl e
    | Inr memberID \<Rightarrow>
        (let p = Params q
         in paginate p (respond (\<lambda>_. HErr 500 ''failed to list personal schedules'')
              (schedule_ListMine (x_dbFault X now) (w_db w) memberID p))))"

definition h_schedule_CreateMine :: "'r env \<Rightarrow> int \<Rightarrow> req_ctx \<Rightarrow> string \<Rightarrow> string option \<Rightarrow> expr_node option \<Rightarrow> 'r world
    \<Rightarrow> access_schedule hres \<times> 'r world" where
  "h_schedule_CreateMine X now cx name description expr w =
     hbind (caller ''unauthorized'' cx, w) (\<lambda>memberID w.
       wrespond invalid_expr (on_db (\<lambda>d. schedule_CreateMember X now d memberID name description expr) w))"

definition h_schedule_UpdateMine :: "'r env \<Rightarrow> int \<Rightarrow> req_ctx \<Rightarrow> uuid \<Rightarrow> string \<Rightarrow> string option \<Rightarrow> expr_node option \<Rightarrow> 'r world
    \<Rightarrow> access_schedule hres \<times> 'r world" where
  "h_schedule_UpdateMine X now cx scheduleID name description expr w =
     hbind (caller ''unauthorized'' cx, w) (\<lambda>memberID w.
     hbind (respond (schedule_error ''failed to get schedule'') (schedule_Get (x_dbFault X now) (w_db w) scheduleID), w) (\<lambda>existing w.
     if as_MemberID existing \<noteq> Some memberID then (Inl (HErr 403 ''you can only edit your own schedules''), w)
     else wrespond update_error (on_db (\<lambda>d. schedule_Update X now d scheduleID name description expr) w)))"

definition h_schedule_DeleteMine :: "'r env \<Rightarrow> int \<Rightarrow> req_ctx \<Rightarrow> uuid \<Rightarrow> 'r world \<Rightarrow> unit hres \<times> 'r world" where
  "h_schedule_DeleteMine X now cx scheduleID w =
     hbind (caller ''unauthorized'' cx, w) (\<lambda>memberID w.
     hbind (respond (schedule_error ''failed to get schedule'') (schedule_Get (x_dbFault X now) (w_db w) scheduleID), w) (\<lambda>existing w.
     if as_MemberID existing \<noteq> Some memberID then (Inl (HErr 403 ''you can only delete your own schedules''), w)
     else wrespond (\<lambda>_. HErr 500 ''failed to delete schedule'') (on_db (\<lambda>d. schedule_Delete X now d scheduleID) w)))"

definition h_schedule_GetMine :: "'r env \<Rightarrow> int \<Rightarrow> req_ctx \<Rightarrow> uuid \<Rightarrow> 'r world \<Rightarrow> access_schedule hres" where
  "h_schedule_GetMine X now cx scheduleID w = (case caller ''unauthorized'' cx of
      Inl e \<Rightarrow> Inl e
    | Inr memberID \<Rightarrow>
        (case respond (schedule_error ''failed to get schedule'') (schedule_Get (x_dbFault X now) (w_db w) scheduleID) of
           Inl e \<Rightarrow> Inl e
         | Inr s \<Rightarrow> if as_MemberID s \<noteq> Some memberID then Inl (HErr 404 ''schedule not found'') else Inr s))"

section \<open>Custom domains\<close>

definition clean_domain :: "string \<Rightarrow> string" where
  "clean_domain s = ToLower (TrimSpace s)"

definition domain_error :: "err \<Rightarrow> herr" where
  "domain_error e = (if errIs e ErrNotFound then HErr 404 ''domain not found'' else HErr 500 ''internal error'')"

definition addDomain :: "'r env \<Rightarrow> int \<Rightarrow> uuid \<Rightarrow> string \<Rightarrow> 'r world \<Rightarrow> custom_domain hres \<times> 'r world" where
  "addDomain X now gateID raw w =
     (let domain = clean_domain raw
      in if domain = [] then (Inl (HErr 400 ''domain is required''), w)
         else wrespond (\<lambda>e. if errIs e ErrAlreadyExists then HErr 409 ''domain already registered'' else HErr 500 ''internal error'')
           (on_db (\<lambda>d. domains_Create (x_dbFault X now) d (x_newID X now ''domain'') (db_random X now ''challenge'') now gateID domain) w))"

definition listDomains :: "'r env \<Rightarrow> int \<Rightarrow> uuid \<Rightarrow> pagination \<Rightarrow> 'r world \<Rightarrow> custom_domain paginated hres" where
  "listDomains X now gateID q w =
     (let p = Params q
      in paginate p (respond (\<lambda>_. HErr 500 ''internal error'') (domains_ListByGate (x_dbFault X now) (w_db w) gateID p)))"

definition deleteDomain :: "'r env \<Rightarrow> int \<Rightarrow> uuid \<Rightarrow> uuid \<Rightarrow> 'r world \<Rightarrow> unit hres \<times> 'r world" where
  "deleteDomain X now gateID domainID w =
     wrespond domain_error (on_db (\<lambda>d. domains_Delete (x_dbFault X now) d domainID gateID) w)"

text \<open>Whether the domain is verified now, and a message when it is not.\<close>

definition verifyDomain :: "'r env \<Rightarrow> int \<Rightarrow> uuid \<Rightarrow> uuid \<Rightarrow> 'r world \<Rightarrow> (bool \<times> string) hres \<times> 'r world" where
  "verifyDomain X now gateID domainID w =
     hbind (respond domain_error (domains_GetByID (x_dbFault X now) (w_db w) domainID gateID), w) (\<lambda>dm w.
     case x_lookupTXT X now (''_gatie.'' @ cd_Domain dm) of
       None \<Rightarrow> (Inr (False, ''DNS lookup failed''), w)
     | Some records \<Rightarrow>
         if cd_DNSChallengeToken dm \<notin> set records then (Inr (False, ''TXT record not found or token mismatch''), w)
         else hbind (wrespond (\<lambda>_. HErr 500 ''internal error'')
                       (on_db (\<lambda>d. domains_SetVerified (x_dbFault X now) d (cd_ID dm) now) w)) (\<lambda>_ w.
                (Inr (True, []), w)))"

definition verifyDomainPublic :: "'r env \<Rightarrow> int \<Rightarrow> string \<Rightarrow> 'r world \<Rightarrow> unit hres" where
  "verifyDomainPublic X now raw w =
     (case domains_GetByDomain (x_dbFault X now) (w_db w) (clean_domain raw) of
        Inl _ \<Rightarrow> Inl (HErr 403 ''domain not allowed'')
      | Inr dm \<Rightarrow> if cd_VerifiedAt dm = None then Inl (HErr 403 ''domain not verified'') else Inr ())"

definition resolveDomain :: "'r env \<Rightarrow> int \<Rightarrow> string \<Rightarrow> 'r world \<Rightarrow> gate_info hres" where
  "resolveDomain X now raw w =
     respond (\<lambda>e. if errIs e ErrNotFound then HErr 404 ''domain not found or not verified'' else HErr 500 ''internal error'')
       (domains_ResolveByDomain (x_dbFault X now) (w_db w) (clean_domain raw))"

definition publicDomainsList :: "'r env \<Rightarrow> int \<Rightarrow> 'r world \<Rightarrow> string list hres" where
  "publicDomainsList X now w =
     respond (\<lambda>_. HErr 500 ''internal error'')
       (map_sum id (List.map cd_Domain) (domains_ListAllVerified (x_dbFault X now) (w_db w)))"

definition resolveGate :: "'r env \<Rightarrow> int \<Rightarrow> uuid \<Rightarrow> 'r world \<Rightarrow> gate_info hres" where
  "resolveGate X now gateID w =
     respond (\<lambda>e. if errIs e ErrNotFound then HErr 404 ''gate not found'' else HErr 500 ''internal error'')
       (gates_GetPublicInfo (x_dbFault X now) (w_db w) gateID)"

end
