(* ===== verification/Middleware_Props.thy ===== *)
theory Middleware_Props
  imports Middleware
begin

text \<open>
  What the middlewares guarantee: the cookies of a login identify the member until the access
  token expires, an identity in the context is always backed by a token, the exact conditions of
  the route guards, the bound of the rate limiter and the behaviour of the domain cache.
\<close>

section \<open>The client address\<close>

lemma last_colon_none: "CHR '':'' \<notin> set s \<Longrightarrow> last_colon s = None"
  by (simp add: last_colon_def)

lemma takeWhile_stop: "(\<And>x. x \<in> set p \<Longrightarrow> P x) \<Longrightarrow> \<not> P y \<Longrightarrow> takeWhile P (p @ y # q) = p"
  by (subst takeWhile_append2) auto

lemma last_colon_append: "CHR '':'' \<notin> set p \<Longrightarrow> last_colon (h @ '':'' @ p) = Some (h, p)"
proof -
  assume "CHR '':'' \<notin> set p"
  then have "takeWhile (\<lambda>c. c \<noteq> CHR '':'') (rev p @ CHR '':'' # rev h) = rev p"
    by (intro takeWhile_stop) auto
  then show ?thesis by (simp add: last_colon_def Let_def)
qed

text \<open>
  The client address: a remote address \<open>host:port\<close> gives the host, but an address
  without a port, which is what the proxy middleware leaves behind for every proxied request,
  gives the empty string; then all these clients have the same key in every rate limiter.
\<close>

theorem client_address:
  "(set (ip @ port) \<inter> {CHR '':'', CHR ''['', CHR '']''} = {} \<and> ip \<noteq> [] \<and> rq_RemoteAddr rq = ip @ '':'' @ port \<longrightarrow>
      ClientIPFromContext (ClientIPInjector rq cx) = ip)
   \<and> (CHR '':'' \<notin> set (rq_RemoteAddr rq) \<union> set (rq_RemoteAddr rq') \<longrightarrow>
      ClientIPFromContext (ClientIPInjector rq cx) = ''unknown''
      \<and> rate_key prefix (ClientIPInjector rq cx) = rate_key prefix (ClientIPInjector rq' cx'))"
proof -
  have "SplitHostPort (ip @ '':'' @ port) = ip" if "set (ip @ port) \<inter> {CHR '':'', CHR ''['', CHR '']''} = {}" "ip \<noteq> []"
    using that last_colon_append [of port ip] by (cases ip) (auto simp: SplitHostPort_def)
  then show ?thesis
    by (auto simp: ClientIPInjector_def ClientIPFromContext_def rate_key_def SplitHostPort_def last_colon_none)
qed

section \<open>Cookies\<close>

text \<open>The \<open>Cookie\<close> header a browser sends for the cookies it keeps.\<close>

definition cookie_header :: "set_cookie list \<Rightarrow> string" where
  "cookie_header cs = join_with ''; '' (List.map (\<lambda>c. sk_Name c @ ''='' @ sk_Value c) cs)"

definition cookie_text :: "string \<Rightarrow> bool" where
  "cookie_text s \<longleftrightarrow> s \<noteq> [] \<and> (\<forall>c \<in> set s. c \<noteq> CHR '';'' \<and> \<not> is_space c)"

lemma TrimSpace_solid:
  assumes "s \<noteq> []" and "\<And>c. c \<in> set s \<Longrightarrow> \<not> is_space c"
  shows "TrimSpace s = s" and "TrimSpace (CHR '' '' # s) = s"
proof -
  have d: "dropWhile is_space t = t" if "set t \<subseteq> set s" for t
    using that assms(2) by (cases t) auto
  show "TrimSpace s = s" by (simp add: TrimSpace_def d)
  have "is_space CHR '' ''" by (simp add: is_space_def)
  then show "TrimSpace (CHR '' '' # s) = s" by (simp add: TrimSpace_def d)
qed

lemma cookie_pair_of:
  assumes "n \<noteq> []" and "CHR ''='' \<notin> set n" and "cookie_text (n @ ''='' @ v)"
  shows "cookie_pair (n @ ''='' @ v) = Some (n, v)" and "cookie_pair (CHR '' '' # n @ ''='' @ v) = Some (n, v)"
proof -
  have t: "TrimSpace (n @ ''='' @ v) = n @ ''='' @ v" "TrimSpace (CHR '' '' # n @ ''='' @ v) = n @ ''='' @ v"
    by (rule TrimSpace_solid; use assms(3) in \<open>auto simp: cookie_text_def\<close>)+
  have w: "takeWhile (\<lambda>c. c \<noteq> CHR ''='') (n @ ''='' @ v) = n"
    using assms(2) by simp (rule takeWhile_stop, auto)
  show "cookie_pair (n @ ''='' @ v) = Some (n, v)" "cookie_pair (CHR '' '' # n @ ''='' @ v) = Some (n, v)"
    unfolding cookie_pair_def Let_def t w using assms(1) by simp_all
qed

lemma cookieValue_header:
  assumes "sk_Name c = name" "name \<noteq> []" "CHR ''='' \<notin> set name"
    and "cookie_text (name @ ''='' @ sk_Value c)" and "\<forall>c' \<in> set cs. cookie_text (sk_Name c' @ ''='' @ sk_Value c')"
  shows "cookieValue (cookie_header (c # cs)) name = sk_Value c"
proof -
  let ?p = "name @ ''='' @ sk_Value c"
  have no: "CHR '';'' \<notin> set ?p" using assms(4) unfolding cookie_text_def by blast
  have "\<exists>ps. split_on CHR '';'' (cookie_header (c # cs)) = ?p # ps"
  proof (cases cs)
    case Nil
    with no assms(1) show ?thesis by (simp add: cookie_header_def split_on_no_sep)
  next
    case (Cons c' cs')
    then have "cookie_header (c # cs) = ?p @ CHR '';'' # CHR '' '' # cookie_header cs"
      using assms(1) by (simp add: cookie_header_def)
    with split_on_append [OF no] show ?thesis by simp
  qed
  then show ?thesis
    using cookie_pair_of(1) [OF assms(2,3,4)] by (auto simp: cookieValue_def)
qed

lemma setAuthCookies_sel [simp]:
  "sk_Name (fst (setAuthCookies tp s)) = ''gatie_access''" "sk_Value (fst (setAuthCookies tp s)) = tp_AccessToken tp"
  "sk_Name (snd (setAuthCookies tp s)) = ''gatie_refresh''" "sk_Value (snd (setAuthCookies tp s)) = tp_RefreshToken tp"
  by (simp_all add: setAuthCookies_def Let_def)

definition no_identity :: "string \<Rightarrow> req_ctx" where
  "no_identity ip = \<lparr>cx_MemberID = None, cx_Role = None, cx_CredentialID = None, cx_ClientIP = ip\<rparr>"

text \<open>
  A login round trip: when the browser sends back the cookies that were set for an
  issued pair of tokens, the request carries the member and the role the pair was issued for,
  not as an API token, until fifteen minutes after the issue (rounded down to the second), and
  no identity from then on, whatever the \<open>Authorization\<close> header says.
\<close>

theorem session_cookie_identifies:
  assumes "jwt_ok X" and "uuid_ok X" and "role \<noteq> []"
    and "issueTokenPair X now m role dur w = (Inr tp, w')"
    and "cookie_text (tp_AccessToken tp)" and "cookie_text (tp_RefreshToken tp)"
    and "rq_Cookie rq = cookie_header [fst (setAuthCookies tp secure), snd (setAuthCookies tp secure)]"
  shows "AuthExtractor X t rq d (no_identity ip) =
    (if t < ((now + 15 * Minute) div Second) * Second
     then (no_identity ip)\<lparr>cx_MemberID := Some m, cx_Role := Some role\<rparr> else no_identity ip)"
proof -
  have "cookieValue (rq_Cookie rq) ''gatie_access'' = tp_AccessToken tp"
    unfolding assms(7)
    using assms(5,6) by (subst cookieValue_header) (auto simp: cookie_text_def is_space_def)
  moreover have "tp_AccessToken tp \<noteq> []" using assms(5) by (simp add: cookie_text_def)
  ultimately show ?thesis
    by (simp add: AuthExtractor_def extractJWT_def access_token_valid [OF assms(1-4)])
qed

text \<open>
  C7: Where an identity comes from: the context names a member only if the access cookie is
  a valid access token for it, or, without such a cookie, the bearer token is an API token whose
  hash is stored, has not expired and belongs to that member, and tokens are enabled; the role
  is then the member's current one and the context carries the token's identifier.
\<close>

theorem identity_is_backed:
  assumes "AuthExtractor X t rq d (no_identity ip) = cx" and "cx_MemberID cx = Some m"
  shows "(cx_CredentialID cx = None
      \<and> (\<exists>role. ValidateAccessToken X t (cookieValue (rq_Cookie rq) ''gatie_access'') = Inr (m, role) \<and> cx_Role cx = Some role))
    \<or> (cookieValue (rq_Cookie rq) ''gatie_access'' = []
      \<and> (\<exists>tok cred mem. rq_Authorization rq = ''Bearer '' @ tok \<and> HasPrefix tok ''gatie_''
          \<and> cred \<in> set (db_creds d) \<and> cr_HashedValue cred = x_sha256 X tok \<and> cr_Type cred = CredAPIToken
          \<and> not_expired t (cr_ExpiresAt cred) \<and> member_row d m = Some mem \<and> cr_MemberID cred = m
          \<and> APITokenEnabled (x_authConfig X mem)
          \<and> cx_CredentialID cx = Some (cr_ID cred) \<and> cx_Role cx = Some (mem_Role mem)))"
proof (cases "cookieValue (rq_Cookie rq) ''gatie_access'' = []")
  case False
  with assms show ?thesis
    by (auto simp: AuthExtractor_def extractJWT_def no_identity_def Let_def split: sum.splits)
next
  case True
  let ?tok = "bearerToken (rq_Authorization rq)"
  from True assms obtain cred mem where t: "?tok \<noteq> []" "HasPrefix ?tok ''gatie_''"
    and f: "creds_FindByHashedAPIToken (x_dbFault X t) d t (x_sha256 X ?tok) = Inr (cred, mem)"
    and e: "APITokenEnabled (x_authConfig X mem)"
    and cx: "cx = (no_identity ip)\<lparr>cx_MemberID := Some (mem_ID mem), cx_Role := Some (mem_Role mem), cx_CredentialID := Some (cr_ID cred)\<rparr>"
    by (auto simp: AuthExtractor_def no_identity_def Let_def split: sum.splits if_splits)
  from f have c: "cred \<in> set (db_creds d)" "cr_HashedValue cred = x_sha256 X ?tok" "cr_Type cred = CredAPIToken"
    "not_expired t (cr_ExpiresAt cred)" "member_row d (cr_MemberID cred) = Some mem"
    by (auto simp: creds_FindByHashedAPIToken_def dest!: find_SomeD split: if_splits option.splits)
  have m: "mem_ID mem = cr_MemberID cred" using c(5) by (auto simp: member_row_def dest: find_SomeD)
  have "rq_Authorization rq = ''Bearer '' @ ?tok"
    using t(1) by (auto simp: bearerToken_def TrimPrefix_def HasPrefix_def split: if_splits)
      (metis append_take_drop_id append_Cons append_Nil)
  with True c m e t cx assms(2) show ?thesis by auto
qed

section \<open>The guards of the routes\<close>

definition session_admin :: "req_ctx \<Rightarrow> bool" where
  "session_admin cx \<longleftrightarrow> CredentialIDFromContext cx = None \<and> MemberRoleFromContext cx = Some RoleAdmin"

lemma HasPermissionOnAnyGate_iff:
  "policies_HasPermissionOnAnyGate flt d m c = Inr True \<longleftrightarrow>
     \<not> flt ''policies.HasPermissionOnAnyGate'' m \<and> (\<exists>g. member_has d m g c)"
proof -
  have "list_ex (\<lambda>p. po_Subject p = Membership m \<and> po_PermissionCode p = c) (db_policies d) \<longleftrightarrow> (\<exists>g. member_has d m g c)"
    unfolding member_has_def list_ex_iff by (metis policy_row_eq)
  then show ?thesis by (simp add: policies_HasPermissionOnAnyGate_def)
qed


section \<open>The rate limiter\<close>

text \<open>Requests in the order in which they arrive, with the address of each.\<close>

fun rate_run :: "'r env \<Rightarrow> string \<Rightarrow> int \<Rightarrow> int \<Rightarrow> (int \<times> req_ctx) list \<Rightarrow> 'r world \<Rightarrow> (string \<times> unit hres) list" where
  "rate_run X prefix n d [] w = []"
| "rate_run X prefix n d ((t, cx) # rs) w =
     (cx_ClientIP cx, fst (RateLimiter X t prefix n d cx w)) # rate_run X prefix n d rs (snd (RateLimiter X t prefix n d cx w))"

definition passed :: "string \<Rightarrow> (string \<times> unit hres) list \<Rightarrow> nat" where
  "passed ip rs = length (filter (\<lambda>r. r = (ip, Inr ())) rs)"

text \<open>How many more requests a state of the counter lets through.\<close>

definition budget :: "int \<Rightarrow> int \<Rightarrow> (rval \<times> int option) option \<Rightarrow> int \<Rightarrow> bool" where
  "budget n e v b \<longleftrightarrow> (v = None \<and> b = n) \<or> (\<exists>m x. v = Some (RInt m, Some x) \<and> e \<le> x \<and> b = max 0 (n - m))"

lemma rate_key_eq [simp]: "rate_key p a = rate_key p b \<longleftrightarrow> cx_ClientIP a = cx_ClientIP b"
  by (simp add: rate_key_def)

lemma RateLimiter_other:
  assumes "redis_ok (x_redis X) view" and "0 < d" and "rate_key prefix cx \<noteq> k"
  shows "view (w_redis (snd (RateLimiter X t prefix n d cx w))) t k = view (w_redis w) t k"
  using incr_expire_view(3) [OF assms(1,2) order_refl, of k "rate_key prefix cx" t "w_redis w"] assms(3)
  by (cases "incr_expire X t (w_redis w) (rate_key prefix cx) d")
     (auto simp: RateLimiter_def Let_def split: option.splits)

lemma RateLimiter_step:
  assumes "redis_ok (x_redis X) view" and "0 < d" "0 \<le> n" "t < e" "e \<le> t + d"
    and "budget n e (view (w_redis w) t (rate_key prefix cx)) b"
  defines "r \<equiv> RateLimiter X t prefix n d cx w"
  shows "\<exists>b'. budget n e (view (w_redis (snd r)) t (rate_key prefix cx)) b' \<and> (if fst r = Inr () then b' + 1 \<le> b else b' \<le> b)"
proof (cases "x_redisFault X t ''EXEC'' (rate_key prefix cx)")
  case True
  with assms(6) show ?thesis by (auto simp: r_def RateLimiter_def)
next
  case False
  let ?k = "rate_key prefix cx"
  note I = incr_expire_view [OF assms(1,2) order_refl]
  from assms(6) consider "view (w_redis w) t ?k = None" "b = n"
    | m x where "view (w_redis w) t ?k = Some (RInt m, Some x)" "e \<le> x" "b = max 0 (n - m)"
    by (auto simp: budget_def)
  then show ?thesis
  proof cases
    case 1
    from I(2) [OF 1(1)] assms(2,5) obtain s' where i: "incr_expire X t (w_redis w) ?k d = (Some 1, s')"
      and v: "view s' t ?k = Some (RInt 1, Some (t + d))"
      by (cases "incr_expire X t (w_redis w) ?k d") (auto simp: alive_def)
    have "budget n e (view s' t ?k) (max 0 (n - 1))" using v assms(5) by (simp add: budget_def)
    with i False 1(2) assms(3) show ?thesis
      by (intro exI [of _ "max 0 (n - 1)"]) (auto simp: r_def RateLimiter_def)
  next
    case (2 m x)
    from I(1) [OF 2(1)] assms(4) 2(2) obtain s' where i: "incr_expire X t (w_redis w) ?k d = (Some (m + 1), s')"
      and v: "view s' t ?k = Some (RInt (m + 1), Some x)"
      by (cases "incr_expire X t (w_redis w) ?k d") (auto simp: alive_def)
    have "budget n e (view s' t ?k) (max 0 (n - (m + 1)))" using v 2(2) by (simp add: budget_def)
    with i False 2(3) show ?thesis
      by (intro exI [of _ "max 0 (n - (m + 1))"]) (auto simp: r_def RateLimiter_def)
  qed
qed

lemma budget_later:
  assumes "redis_ok (x_redis X) view" and "budget n e (view s t k) b" and "t \<le> t'" "t' < e"
  shows "budget n e (view s t' k) b"
proof -
  note R = redis_store.intro [OF assms(1)]
  from assms(2) consider "view s t k = None" "b = n"
    | m x where "view s t k = Some (RInt m, Some x)" "e \<le> x" "b = max 0 (n - m)"
    by (auto simp: budget_def)
  then show ?thesis
  proof cases
    case 1
    have "view s t' k = None" by (rule redis_store.view_gone [OF R 1(1) assms(3)])
    then show ?thesis using 1(2) unfolding budget_def by blast
  next
    case (2 m x)
    have "view s t' k = Some (RInt m, Some x)"
      unfolding redis_store.view_later [OF R 2(1) assms(3)] using assms(4) 2(2) by (simp add: alive_def)
    then show ?thesis using 2(2,3) unfolding budget_def by blast
  qed
qed

lemma rate_run_budget:
  assumes "redis_ok (x_redis X) view" and "0 < d" "0 \<le> n"
  shows "budget n e (view (w_redis w) t0 (''rl:'' @ prefix @ '':'' @ ip)) b \<Longrightarrow> 0 \<le> b \<Longrightarrow> sorted (t0 # List.map fst rs) \<Longrightarrow>
    list_all (\<lambda>r. fst r < e \<and> e \<le> fst r + d) rs \<Longrightarrow> int (passed ip (rate_run X prefix n d rs w)) \<le> b"
proof (induction rs arbitrary: w t0 b)
  case Nil
  then show ?case by (simp add: passed_def)
next
  case (Cons r rs)
  obtain t cx where r: "r = (t, cx)" by (cases r)
  let ?k = "''rl:'' @ prefix @ '':'' @ ip" and ?w' = "snd (RateLimiter X t prefix n d cx w)"
  have t: "t0 \<le> t" "t < e" "e \<le> t + d" and rest: "sorted (t # List.map fst rs)" "list_all (\<lambda>r. fst r < e \<and> e \<le> fst r + d) rs"
    using Cons.prems(3,4) r by simp_all
  have bud: "budget n e (view (w_redis w) t ?k) b" by (rule budget_later [OF assms(1), OF Cons.prems(1) t(1,2)])
  show ?case
  proof (cases "cx_ClientIP cx = ip")
    case True
    then have k: "?k = rate_key prefix cx" by (simp add: rate_key_def)
    from RateLimiter_step [OF assms(1), OF assms(2,3) t(2,3) bud [unfolded k]] obtain b' where
      b': "budget n e (view (w_redis ?w') t ?k) b'" "if fst (RateLimiter X t prefix n d cx w) = Inr () then b' + 1 \<le> b else b' \<le> b"
      unfolding k by blast
    then have "0 \<le> b'" using assms(3) by (auto simp: budget_def)
    note IH = Cons.IH [OF b'(1) this rest]
    show ?thesis
    proof (cases "fst (RateLimiter X t prefix n d cx w) = Inr ()")
      case passes: True
      with IH b'(2) show ?thesis by (simp add: r True passed_def)
    next
      case False
      with IH b'(2) show ?thesis by (simp add: r True passed_def)
    qed
  next
    case False
    then have "rate_key prefix cx \<noteq> ?k" by (simp add: rate_key_def)
    from RateLimiter_other [OF assms(1), OF assms(2) this, of t n w] bud have "budget n e (view (w_redis ?w') t ?k) b" by simp
    from Cons.IH [OF this Cons.prems(2) rest] False show ?thesis by (simp add: r passed_def)
  qed
qed

text \<open>
  C33: The rate limiter: among all requests that arrive within one period after the
  counter of an address was empty, from any number of clients in any order, at most the allowed
  number of this address pass; also when Redis fails in between, because a failure refuses.
\<close>

theorem rate_limit_bounded:
  assumes "redis_ok (x_redis X) view" and "0 < d" and "0 \<le> n"
    and "view (w_redis w) t0 (''rl:'' @ prefix @ '':'' @ ip) = None"
    and "sorted (t0 # List.map fst requests)" and "list_all (\<lambda>r. fst r < t0 + d) requests"
  shows "int (passed ip (rate_run X prefix n d requests w)) \<le> n"
proof -
  have "\<forall>r \<in> set requests. t0 \<le> fst r" using assms(5) by auto
  then have "list_all (\<lambda>r. fst r < t0 + d \<and> t0 + d \<le> fst r + d) requests" using assms(6) by (auto simp: list_all_iff)
  then show ?thesis
    using assms(3,4,5) by (intro rate_run_budget [OF assms(1-3), of "t0 + d" w t0]) (simp_all add: budget_def)
qed

section \<open>Custom domains\<close>

definition tenant_lookup :: "'r env \<Rightarrow> db \<Rightarrow> string \<Rightarrow> string option" where
  "tenant_lookup X d host = (case List.find (\<lambda>c. cd_Domain c = host) (db_domains d) of
      Some c \<Rightarrow> if cd_VerifiedAt c \<noteq> None then Some (x_uuidString X (cd_GateID c)) else None
    | None \<Rightarrow> None)"

definition tenant_ttl :: "string option \<Rightarrow> int" where
  "tenant_ttl v = (if v = None then 30 * Second else 5 * Minute)"

definition answers :: "'r env \<Rightarrow> bool" where
  "answers X \<longleftrightarrow> (\<forall>t cmd k. \<not> x_redisFault X t cmd k) \<and> (\<forall>t op key. \<not> x_dbFault X t op key)"

lemma answersD [simp]: "answers X \<Longrightarrow> \<not> x_redisFault X t cmd k" "answers X \<Longrightarrow> \<not> x_dbFault X t op key"
  by (simp_all add: answers_def)

definition cache_text :: "string option \<Rightarrow> string" where
  "cache_text v = (case v of None \<Rightarrow> tenantCacheNotFound | Some g \<Rightarrow> g)"

lemma tenant_miss:
  assumes "answers X" and "rd_Get (x_redis X) (w_redis w) t (tenant_key (normalizeHost raw)) = None" and "normalizeHost raw \<noteq> []"
  defines "v \<equiv> tenant_lookup X (w_db w) (normalizeHost raw)"
  shows "TenantResolver X t raw w = (v, w\<lparr>w_redis := rd_Set (x_redis X) (w_redis w) t (tenant_key (normalizeHost raw))
           (RStr (cache_text v)) (tenant_ttl v)\<rparr>)"
  using assms
  by (auto simp: TenantResolver_def Let_def redis_Get_def redis_Set_def domains_GetByDomain_def scan_one_def tenant_lookup_def
      cache_text_def tenant_ttl_def split: option.splits)

lemma tenant_hit:
  assumes "answers X" and "rd_Get (x_redis X) (w_redis w) t (tenant_key (normalizeHost raw)) = Some (RStr (cache_text v))"
    and "normalizeHost raw \<noteq> []" and "v \<noteq> Some tenantCacheNotFound"
  shows "fst (TenantResolver X t raw w) = v"
  using assms by (auto simp: TenantResolver_def Let_def redis_Get_def rval_text_def cache_text_def split: option.splits)

text \<open>
  The domain cache, when Redis and the database answer: a host that is not cached
  resolves to the gate of its verified domain and to nothing otherwise. That answer is then given
  for five minutes (30 seconds when it was negative), whatever happens to the domain meanwhile,
  its deletion included; afterwards the database decides again.
\<close>

theorem tenant_cache_staleness:
  assumes "redis_ok (x_redis X) view" and "answers X" and "\<And>u. x_uuidString X u \<noteq> tenantCacheNotFound"
    and "rd_Get (x_redis X) (w_redis w) now (tenant_key (normalizeHost raw)) = None" and "normalizeHost raw \<noteq> []"
  defines "r \<equiv> TenantResolver X now raw w" and "v \<equiv> tenant_lookup X (w_db w) (normalizeHost raw)"
  shows "fst r = v \<and> (\<forall>now' d'. now \<le> now' \<longrightarrow>
    fst (TenantResolver X now' raw ((snd r)\<lparr>w_db := d'\<rparr>)) =
      (if now' < now + tenant_ttl v then v else tenant_lookup X d' (normalizeHost raw)))"
proof -
  have r: "r = (v, w\<lparr>w_redis := rd_Set (x_redis X) (w_redis w) now (tenant_key (normalizeHost raw))
           (RStr (cache_text v)) (tenant_ttl v)\<rparr>)"
    unfolding r_def v_def by (rule tenant_miss [OF assms(2,4,5)])
  have nv: "v \<noteq> Some tenantCacheNotFound"
    using assms(3) by (auto simp: v_def tenant_lookup_def split: option.splits)
  have pos: "0 < tenant_ttl v" by (simp add: tenant_ttl_def)
  have "fst (TenantResolver X now' raw ((snd r)\<lparr>w_db := d'\<rparr>)) =
      (if now' < now + tenant_ttl v then v else tenant_lookup X d' (normalizeHost raw))" if "now \<le> now'" for now' d'
  proof -
    have g: "rd_Get (x_redis X) (w_redis ((snd r)\<lparr>w_db := d'\<rparr>)) now' (tenant_key (normalizeHost raw))
        = (if now' < now + tenant_ttl v then Some (RStr (cache_text v)) else None)"
      using redis_store.get_set [OF redis_store.intro [OF assms(1)] that] pos by (simp add: r)
    show ?thesis
    proof (cases "now' < now + tenant_ttl v")
      case True
      with g have "rd_Get (x_redis X) (w_redis ((snd r)\<lparr>w_db := d'\<rparr>)) now' (tenant_key (normalizeHost raw)) = Some (RStr (cache_text v))"
        by simp
      from tenant_hit [OF assms(2) this assms(5) nv] True show ?thesis by simp
    next
      case False
      with g have "rd_Get (x_redis X) (w_redis ((snd r)\<lparr>w_db := d'\<rparr>)) now' (tenant_key (normalizeHost raw)) = None"
        by simp
      from tenant_miss [OF assms(2) this assms(5)] False show ?thesis by simp
    qed
  qed
  with r show ?thesis by simp
qed

section \<open>The lifetime of the cookies\<close>

text \<open>
  The lifetime of the cookies follows the session: fifteen minutes for the access
  token and, for a session of a whole positive number of seconds, exactly that for the refresh
  token (90 days for a session without expiry). For a session opened with an access code the
  refresh cookie always lives 90 days, because the issued pair does not carry its duration.
\<close>

theorem cookie_lifetimes:
  "(issueTokenPair X now m role (n * Second) w = (Inr tp, w') \<and> 0 \<le> n \<and> n \<le> 9223372036 \<longrightarrow>
      sk_MaxAge (fst (setAuthCookies tp secure)) = 900
      \<and> sk_MaxAge (snd (setAuthCookies tp secure)) = (if n = 0 then 7776000 else n))
   \<and> (IssueGatePinSession X now p g dur perms w = (Inr sp, w'') \<longrightarrow>
      sk_MaxAge (fst (setAuthCookies sp secure)) = 900 \<and> sk_MaxAge (snd (setAuthCookies sp secure)) = 7776000)"
proof (intro conjI impI; (elim conjE)?)
  have secs: "f64_to_int (dur_seconds (k * Second)) = k" if "0 \<le> k" "k \<le> 9223372036" for k
    using that by (simp add: dur_seconds_whole f64_to_int_def Let_def)
  have a: "f64_to_int (dur_seconds AccessTokenTTL) = 900" using secs [of 900] by simp
  {
    assume "issueTokenPair X now m role (n * Second) w = (Inr tp, w')" and n: "0 \<le> n" "n \<le> 9223372036"
    then have "tp_AccessTokenTTL tp = AccessTokenTTL" "tp_SessionDuration tp = n * Second"
      by (auto simp: issueTokenPair_def wbind_Inr_iff)
    with a secs [OF n] n show "sk_MaxAge (fst (setAuthCookies tp secure)) = 900"
      "sk_MaxAge (snd (setAuthCookies tp secure)) = (if n = 0 then 7776000 else n)"
      by (simp_all add: setAuthCookies_def)
  }
  {
    assume "IssueGatePinSession X now p g dur perms w = (Inr sp, w'')"
    then have "tp_AccessTokenTTL sp = AccessTokenTTL" "tp_SessionDuration sp = 0"
      by (auto simp: IssueGatePinSession_def wbind_Inr_iff)
    with a secs [of 0] show "sk_MaxAge (fst (setAuthCookies sp secure)) = 900"
      "sk_MaxAge (snd (setAuthCookies sp secure)) = 7776000"
      by (simp_all add: setAuthCookies_def)
  }
qed

section \<open>Witnesses\<close>

definition sample_request :: "string \<Rightarrow> string \<Rightarrow> request" where
  "sample_request addr cookie = \<lparr>rq_RemoteAddr = addr, rq_Host = ''gate.example:443'', rq_Cookie = cookie,
     rq_Authorization = [], rq_PathGateID = ''i''\<rparr>"

theorem client_address_witness:
  "ClientIPFromContext (ClientIPInjector (sample_request ''10.0.0.7:51000'' []) (no_identity [])) = ''10.0.0.7''
   \<and> rate_key ''auth'' (ClientIPInjector (sample_request ''10.0.0.7'' []) (no_identity []))
     = rate_key ''auth'' (ClientIPInjector (sample_request ''10.0.0.8'' []) (no_identity []))"
  using client_address [of "''10.0.0.7''" "''51000''" "sample_request ''10.0.0.7:51000'' []" "no_identity []"]
    client_address [of "[]" "[]" "sample_request ''10.0.0.7'' []" "no_identity []" "sample_request ''10.0.0.8'' []" "''auth''" "no_identity []"]
  by (simp add: sample_request_def)

theorem session_cookie_identifies_witness:
  "AuthExtractor auth_env 5 (sample_request ''a:1'' ''gatie_access=member-jwt; gatie_refresh=refresh0'') sample_db (no_identity [])
   = (no_identity [])\<lparr>cx_MemberID := Some 2, cx_Role := Some RoleMember\<rparr>"
proof -
  obtain w1 where i: "issueTokenPair auth_env 0 2 RoleMember (60 * Second) (sample_world sample_db) =
     (Inr \<lparr>tp_AccessToken = ''member-jwt'', tp_RefreshToken = ''refresh0'', tp_SessionDuration = 60 * Second,
           tp_AccessTokenTTL = AccessTokenTTL\<rparr>, w1)" using sample_issue by blast
  have c: "cookie_text ''member-jwt''" "cookie_text ''refresh0''" by code_simp+
  show ?thesis
    using session_cookie_identifies [OF sample_auth_ok sample_uuid_ok _ i, of "sample_request ''a:1'' ''gatie_access=member-jwt; gatie_refresh=refresh0''" True 5] c
    by (simp add: sample_request_def cookie_header_def)
qed

theorem identity_is_backed_witness:
  "\<exists>cx. AuthExtractor auth_env 5 (sample_request ''a:1'' ''gatie_access=admin-jwt'') sample_db (no_identity []) = cx
     \<and> cx_MemberID cx = Some 2 \<and> cx_CredentialID cx = None \<and> cx_Role cx = Some RoleAdmin"
proof -
  let ?rq = "sample_request ''a:1'' ''gatie_access=admin-jwt''"
  let ?cx = "AuthExtractor auth_env 5 ?rq sample_db (no_identity [])"
  have m: "cx_MemberID ?cx = Some 2" "cookieValue (rq_Cookie ?rq) ''gatie_access'' = ''admin-jwt''"
    "ValidateAccessToken auth_env 5 ''admin-jwt'' = Inr (2, RoleAdmin)" by code_simp+
  from identity_is_backed [OF refl m(1)] m show ?thesis by auto
qed


theorem rate_limit_bounded_witness:
  "rate_run (sample_env []) ''auth'' 1 Minute [(1, no_identity ''a''), (2, no_identity ''b''), (3, no_identity ''a'')] (sample_world empty_db)
     = [(''a'', Inr ()), (''b'', Inr ()), (''a'', Inl (HErr 429 ''too many requests, try again later''))]
   \<and> int (passed ''a'' (rate_run (sample_env []) ''auth'' 1 Minute [(1, no_identity ''a''), (2, no_identity ''b''), (3, no_identity ''a'')]
        (sample_world empty_db))) \<le> 1"
proof
  show "rate_run (sample_env []) ''auth'' 1 Minute [(1, no_identity ''a''), (2, no_identity ''b''), (3, no_identity ''a'')] (sample_world empty_db)
     = [(''a'', Inr ()), (''b'', Inr ()), (''a'', Inl (HErr 429 ''too many requests, try again later''))]" by code_simp
  show "int (passed ''a'' (rate_run (sample_env []) ''auth'' 1 Minute [(1, no_identity ''a''), (2, no_identity ''b''), (3, no_identity ''a'')]
        (sample_world empty_db))) \<le> 1"
    by (rule rate_limit_bounded [OF sample_redis_ok, where ?t0.0 = 0]) (simp_all add: kv_view_def)
qed

definition sample_domain :: custom_domain where
  "sample_domain = \<lparr>cd_ID = 4, cd_GateID = 1, cd_Domain = ''gate.example'', cd_DNSChallengeToken = ''c'', cd_VerifiedAt = Some 0,
     cd_CreatedAt = 0\<rparr>"

theorem tenant_cache_staleness_witness:
  "let X = sample_env []; w = sample_world (empty_db\<lparr>db_domains := [sample_domain]\<rparr>); r = TenantResolver X 0 ''Gate.example:443'' w
   in fst r = Some ''i''
     \<and> fst (TenantResolver X (4 * Minute) ''Gate.example:443'' ((snd r)\<lparr>w_db := empty_db\<rparr>)) = Some ''i''
     \<and> fst (TenantResolver X (5 * Minute) ''Gate.example:443'' ((snd r)\<lparr>w_db := empty_db\<rparr>)) = None"
proof -
  let ?X = "sample_env []" and ?w = "sample_world (empty_db\<lparr>db_domains := [sample_domain]\<rparr>)"
  have n: "normalizeHost ''Gate.example:443'' = ''gate.example''" by code_simp
  have v: "tenant_lookup ?X (empty_db\<lparr>db_domains := [sample_domain]\<rparr>) ''gate.example'' = Some ''i''" "tenant_lookup ?X empty_db ''gate.example'' = None"
    by code_simp+
  have u: "x_uuidString ?X i \<noteq> tenantCacheNotFound" for i
  proof -
    have "CHR 0x00 \<notin> set (unary i)" by (simp add: unary_def)
    then show ?thesis by (metis list.set_intros(1) sample_env_sel(7))
  qed
  have "answers ?X" by (simp add: answers_def)
  note T = tenant_cache_staleness [OF sample_redis_ok this u, of ?w 0 "''Gate.example:443''"]
  have "fst (TenantResolver ?X 0 ''Gate.example:443'' ?w) = Some ''i''"
    using T by (simp add: n v kv_redis_def kv_view_def)
  moreover have "fst (TenantResolver ?X t ''Gate.example:443'' ((snd (TenantResolver ?X 0 ''Gate.example:443'' ?w))\<lparr>w_db := empty_db\<rparr>))
      = (if t < 5 * Minute then Some ''i'' else None)" if "0 \<le> t" for t
    using T that by (simp add: n v kv_redis_def kv_view_def tenant_ttl_def)
  ultimately show ?thesis by (simp add: Let_def)
qed

theorem cookie_lifetimes_witness:
  "sk_MaxAge (snd (setAuthCookies \<lparr>tp_AccessToken = ''member-jwt'', tp_RefreshToken = ''refresh0'', tp_SessionDuration = 60 * Second,
      tp_AccessTokenTTL = AccessTokenTTL\<rparr> True)) = 60"
proof -
  obtain w1 where i: "issueTokenPair auth_env 0 2 RoleMember (60 * Second) (sample_world sample_db) =
     (Inr \<lparr>tp_AccessToken = ''member-jwt'', tp_RefreshToken = ''refresh0'', tp_SessionDuration = 60 * Second,
           tp_AccessTokenTTL = AccessTokenTTL\<rparr>, w1)" using sample_issue by blast
  with cookie_lifetimes [of auth_env 0 2 RoleMember 60 "sample_world sample_db" _ w1 True] show ?thesis by simp
qed

end
