(* ===== verification/Sso.thy ===== *)
theory Sso
  imports Handlers_Access Middleware_Props
begin

text \<open>
  \<open>internal/service/sso.go\<close>, \<open>sso_oidc.go\<close> and \<open>handler/sso.go\<close>: single sign-on. The OIDC and OAuth2
  libraries are parameters: \<open>x_discover\<close> is the (cached) discovery of an issuer, \<open>x_authCodeURL\<close> the
  URL of the provider and \<open>x_oidcExchange\<close> the exchange of a code up to the verified claims. A
  redirect to the frontend keeps its query parameters instead of the encoded URL.
\<close>

section \<open>Providers\<close>

text \<open>\<open>NewSSOService\<close> fills in the default role.\<close>

definition with_default_role :: "sso_provider \<Rightarrow> sso_provider" where
  "with_default_role p = (if sp_DefaultRole p = [] then p\<lparr>sp_DefaultRole := RoleMember\<rparr> else p)"

definition sso_providers :: "'r env \<Rightarrow> sso_provider list" where
  "sso_providers X = List.map with_default_role (cf_ssoProviders X)"

definition findProvider :: "sso_provider list \<Rightarrow> string \<Rightarrow> sso_provider res" where
  "findProvider providers providerID = (case List.find (\<lambda>p. sp_ID p = providerID) providers of
      None \<Rightarrow> Inl (Errorf ''provider %q not found'' [AStr providerID])
    | Some p \<Rightarrow> Inr p)"

definition newOIDCProvider :: "'r env \<Rightarrow> int \<Rightarrow> sso_provider \<Rightarrow> unit res" where
  "newOIDCProvider X now cfg =
     (if sp_ClientID cfg = [] then Inl ErrSSONotConfigured
      else if sp_AuthEndpoint cfg \<noteq> [] \<and> sp_TokenEndpoint cfg \<noteq> [] then
        (if sp_JwksURL cfg = [] then Inl (Errorf ''jwks_uri is required when using manual OAuth2 endpoints'' []) else Inr ())
      else if sp_Issuer cfg = [] then Inl ErrSSONotConfigured
      else x_discover X now (sp_Issuer cfg))"

definition newProvider :: "'r env \<Rightarrow> int \<Rightarrow> sso_provider \<Rightarrow> unit res" where
  "newProvider X now cfg =
     (if sp_Type cfg = ''oidc'' \<or> sp_Type cfg = [] then newOIDCProvider X now cfg
      else Inl (Errorf ''unsupported SSO provider type: %q'' [AStr (sp_Type cfg)]))"

definition ListPublicProviders :: "'r env \<Rightarrow> (string \<times> string \<times> string) list res" where
  "ListPublicProviders X =
     (if sso_providers X = [] then Inl ErrSSONotConfigured
      else Inr (List.map (\<lambda>p. (sp_ID p, sp_Name p, sp_Type p)) (sso_providers X)))"

section \<open>The flow with the provider\<close>

abbreviation ssoStateTTL :: int where "ssoStateTTL \<equiv> 10 * Minute"

definition state_key :: "string \<Rightarrow> string" where
  "state_key state = ''sso:state:'' @ state"

text \<open>\<open>gate_id\<close> is omitted from the stored state when it is empty.\<close>

definition state_json :: "string \<Rightarrow> gval" where
  "state_json gateID = VObj (if gateID = [] then [] else [(''gate_id'', VStr gateID)])"

definition state_gate :: "rval \<Rightarrow> string" where
  "state_gate v = (case v of RJson (VObj m) \<Rightarrow> str_field m ''gate_id'' | _ \<Rightarrow> [])"

definition oidc_AuthURL :: "'r env \<Rightarrow> int \<Rightarrow> sso_provider \<Rightarrow> string \<Rightarrow> 'r world \<Rightarrow> string res \<times> 'r world" where
  "oidc_AuthURL X now cfg gateID w =
     (case x_random X now ''sso_state'' of
        None \<Rightarrow> (Inl (wrap ''generate state'' (ErrExternal ''rand'')), w)
      | Some state \<Rightarrow>
          wbind (werr (wrap ''store SSO state'') (redis_Set X now w (state_key state) (RJson (state_json gateID)) ssoStateTTL))
            (\<lambda>_ w. (Inr (x_authCodeURL X cfg state), w)))"

definition oidc_Exchange :: "'r env \<Rightarrow> int \<Rightarrow> sso_provider \<Rightarrow> string \<Rightarrow> string \<Rightarrow> 'r world \<Rightarrow> (sso_identity \<times> string) res \<times> 'r world" where
  "oidc_Exchange X now cfg code state w =
     (case redis_GetDel X now w (state_key state) of
        (Inl _, w1) \<Rightarrow> (Inl ErrSSOInvalidState, w1)
      | (Inr v, w1) \<Rightarrow>
          (case x_oidcExchange X now cfg code of
             Inl e \<Rightarrow> (Inl e, w1)
           | Inr identity \<Rightarrow> (Inr (identity, state_gate v), w1)))"

definition GenerateAuthURL :: "'r env \<Rightarrow> int \<Rightarrow> string \<Rightarrow> string \<Rightarrow> 'r world \<Rightarrow> string res \<times> 'r world" where
  "GenerateAuthURL X now providerID gateID w =
     (if sso_providers X = [] then (Inl ErrSSONotConfigured, w)
      else case findProvider (sso_providers X) providerID of
        Inl _ \<Rightarrow> (Inl ErrSSONotConfigured, w)
      | Inr cfg \<Rightarrow>
          wbind (map_err (wrap ''init SSO provider'') (newProvider X now cfg), w) (\<lambda>_ w. oidc_AuthURL X now cfg gateID w))"

definition sso_role :: "sso_provider \<Rightarrow> sso_identity \<Rightarrow> string" where
  "sso_role cfg identity =
     (if sp_RoleClaim cfg = [] then sp_DefaultRole cfg
      else case map_of (si_Claims identity) (sp_RoleClaim cfg) of
        Some (VStr claimVal) \<Rightarrow>
          (case map_of (sp_RoleMapping cfg) claimVal of Some mapped \<Rightarrow> mapped | None \<Rightarrow> sp_DefaultRole cfg)
      | _ \<Rightarrow> sp_DefaultRole cfg)"

definition sso_username :: "sso_identity \<Rightarrow> string" where
  "sso_username identity = (if si_Email identity = [] then si_Subject identity else si_Email identity)"

definition create_sso_member :: "'r env \<Rightarrow> int \<Rightarrow> sso_identity \<Rightarrow> string \<Rightarrow> 'r world \<Rightarrow> member res \<times> 'r world" where
  "create_sso_member X now identity role w =
     (let flt = x_dbFault X now; username = sso_username identity;
          displayName = (if si_DisplayName identity = [] then None else Some (si_DisplayName identity));
          create = (\<lambda>u. on_db (\<lambda>d. members_Create flt d (x_newID X now ''member'') now u displayName role))
      in case create username w of
           (Inr member, w1) \<Rightarrow> (Inr member, w1)
         | (Inl e, w1) \<Rightarrow>
             if errIs e ErrAlreadyExists
             then create (username @ ''_'' @ take 8 (si_Subject identity)) w1
             else (Inl e, w1))"

definition resolveOrProvision :: "'r env \<Rightarrow> int \<Rightarrow> sso_provider \<Rightarrow> sso_identity \<Rightarrow> 'r world \<Rightarrow> member res \<times> 'r world" where
  "resolveOrProvision X now cfg identity w =
     (let flt = x_dbFault X now
      in case creds_FindBySSOIdentity flt (w_db w) (si_Subject identity) of
           Inr cred \<Rightarrow> (members_GetByID flt (w_db w) (cr_MemberID cred), w)
         | Inl e \<Rightarrow>
             if \<not> errIs e ErrNotFound then (Inl (wrap ''lookup sso identity'' e), w)
             else if \<not> sp_AutoProvision cfg then (Inl ErrSSOAccessDenied, w)
             else wbind (werr (wrap ''create member'') (create_sso_member X now identity (sso_role cfg identity) w)) (\<lambda>member w.
                  wbind (werr (wrap ''create sso identity credential'')
                           (on_db (\<lambda>d. creds_Create flt d (x_newID X now ''credential'') now (mem_ID member) CredSSOIdentity
                              (si_Subject identity) None None
                              [(''email'', VStr (si_Email identity)), (''issuer'', VStr (sp_Issuer cfg))]) w)) (\<lambda>_ w.
                    (Inr member, w))))"

text \<open>The result and the gate that was remembered with the state.\<close>

definition svc_Callback :: "'r env \<Rightarrow> int \<Rightarrow> string \<Rightarrow> string \<Rightarrow> string \<Rightarrow> 'r world \<Rightarrow> (member res \<times> string) \<times> 'r world" where
  "svc_Callback X now providerID code state w =
     (if sso_providers X = [] then ((Inl ErrSSONotConfigured, []), w)
      else case findProvider (sso_providers X) providerID of
        Inl _ \<Rightarrow> ((Inl ErrSSONotConfigured, []), w)
      | Inr cfg \<Rightarrow>
          (case newProvider X now cfg of
             Inl e \<Rightarrow> ((Inl (wrap ''init SSO provider'' e), []), w)
           | Inr _ \<Rightarrow>
               (case oidc_Exchange X now cfg code state w of
                  (Inl e, w1) \<Rightarrow> ((Inl e, []), w1)
                | (Inr (identity, gateID), w1) \<Rightarrow>
                    (let r = resolveOrProvision X now cfg identity w1 in ((fst r, gateID), snd r)))))"

definition ConsumeState :: "'r env \<Rightarrow> int \<Rightarrow> string \<Rightarrow> 'r world \<Rightarrow> string \<times> 'r world" where
  "ConsumeState X now state w =
     (if state = [] then ([], w)
      else case redis_GetDel X now w (state_key state) of
        (Inl _, w1) \<Rightarrow> ([], w1)
      | (Inr v, w1) \<Rightarrow> (state_gate v, w1))"

section \<open>The handlers\<close>

abbreviation ssoCodeTTL :: int where "ssoCodeTTL \<equiv> 60 * Second"

definition code_key :: "string \<Rightarrow> string" where
  "code_key code = ''sso:code:'' @ code"

text \<open>\<open>frontendCallbackURL(code, gateID, errCode)\<close>.\<close>

datatype redirect = ToProvider string | ToFrontend string string string

definition sso_ListProviders :: "'r env \<Rightarrow> (string \<times> string \<times> string) list hres" where
  "sso_ListProviders X = (case ListPublicProviders X of
      Inl e \<Rightarrow> if errIs e ErrSSONotConfigured then Inr [] else Inl (HErr 500 ''failed to list SSO providers'')
    | Inr ps \<Rightarrow> Inr ps)"

definition sso_Authorize :: "'r env \<Rightarrow> int \<Rightarrow> string \<Rightarrow> string \<Rightarrow> 'r world \<Rightarrow> redirect \<times> 'r world" where
  "sso_Authorize X now providerID gateID w =
     (case GenerateAuthURL X now providerID gateID w of
        (Inl e, w1) \<Rightarrow>
          (if errIs e ErrSSONotConfigured then ToFrontend [] gateID ''not_configured'' else ToFrontend [] gateID ''config_error'', w1)
      | (Inr url, w1) \<Rightarrow> (ToProvider url, w1))"

definition code_payload :: "token_pair \<Rightarrow> string \<Rightarrow> string \<Rightarrow> gmap" where
  "code_payload tokens memberID gateID =
     [(''access_token'', VStr (tp_AccessToken tokens)), (''refresh_token'', VStr (tp_RefreshToken tokens)),
      (''session_duration'', VNum (dur_seconds (tp_SessionDuration tokens))),
      (''member_id'', VStr memberID), (''gate_id'', VStr gateID)]"

definition storeSSOCode :: "'r env \<Rightarrow> int \<Rightarrow> token_pair \<Rightarrow> string \<Rightarrow> string \<Rightarrow> 'r world \<Rightarrow> string res \<times> 'r world" where
  "storeSSOCode X now tokens memberID gateID w =
     (case x_random X now ''sso_code'' of
        None \<Rightarrow> (Inl (ErrExternal ''rand''), w)
      | Some code \<Rightarrow>
          wbind (redis_Set X now w (code_key code) (RJson (VObj (code_payload tokens memberID gateID))) ssoCodeTTL)
            (\<lambda>_ w. (Inr code, w)))"

definition callback_error :: "string \<Rightarrow> err \<Rightarrow> redirect" where
  "callback_error gateID e =
     (if errIs e ErrSSOInvalidState then ToFrontend [] [] ''invalid_state''
      else if errIs e ErrSSOAccessDenied then ToFrontend [] gateID ''access_denied''
      else ToFrontend [] gateID ''server_error'')"

definition sso_Callback :: "'r env \<Rightarrow> int \<Rightarrow> string \<Rightarrow> string \<Rightarrow> string \<Rightarrow> string \<Rightarrow> 'r world \<Rightarrow> redirect \<times> 'r world" where
  "sso_Callback X now providerID code state error w =
     (if error \<noteq> [] then (let (gateID, w1) = ConsumeState X now state w in (ToFrontend [] gateID error, w1))
      else case svc_Callback X now providerID code state w of
        ((Inl e, gateID), w1) \<Rightarrow> (callback_error gateID e, w1)
      | ((Inr member, gateID), w1) \<Rightarrow>
          (case IssueTokenPair X now (mem_ID member) (mem_Role member) w1 of
             (Inl _, w2) \<Rightarrow> (ToFrontend [] gateID ''server_error'', w2)
           | (Inr tokens, w2) \<Rightarrow>
               (case storeSSOCode X now tokens (x_uuidString X (mem_ID member)) gateID w2 of
                  (Inl _, w3) \<Rightarrow> (ToFrontend [] gateID ''server_error'', w3)
                | (Inr oneTime, w3) \<Rightarrow> (ToFrontend oneTime gateID [], w3))))"

record sso_exchange_output =
  so_Cookies :: "set_cookie \<times> set_cookie"
  so_MemberID :: string
  so_GateID :: string

text \<open>The tokens are taken out of the payload with type assertions that panic.\<close>

definition payload_tokens :: "gmap \<Rightarrow> token_pair option" where
  "payload_tokens m = (case (map_of m ''access_token'', map_of m ''refresh_token'') of
      (Some (VStr a), Some (VStr r)) \<Rightarrow>
        Some \<lparr>tp_AccessToken = a, tp_RefreshToken = r,
              tp_SessionDuration = (case map_of m ''session_duration'' of Some (VNum s) \<Rightarrow> seconds (f64_to_int s) | _ \<Rightarrow> 0),
              tp_AccessTokenTTL = 0\<rparr>
    | _ \<Rightarrow> None)"

definition sso_Exchange :: "'r env \<Rightarrow> int \<Rightarrow> string \<Rightarrow> 'r world \<Rightarrow> sso_exchange_output hres \<times> 'r world" where
  "sso_Exchange X now code w =
     (case redis_GetDel X now w (code_key code) of
        (Inl _, w1) \<Rightarrow> (Inl (HErr 401 ''invalid or expired code''), w1)
      | (Inr v, w1) \<Rightarrow>
          (case v of
             RJson (VObj m) \<Rightarrow>
               (case payload_tokens m of
                  None \<Rightarrow> (Inl (HErr 500 ''Internal Server Error''), w1)
                | Some tokens \<Rightarrow>
                    (Inr \<lparr>so_Cookies = setAuthCookies tokens (cf_cookieSecure X), so_MemberID = str_field m ''member_id'',
                          so_GateID = str_field m ''gate_id''\<rparr>, w1))
           | RJson VNull \<Rightarrow> (Inl (HErr 500 ''Internal Server Error''), w1)
           | _ \<Rightarrow> (Inl (HErr 500 ''corrupt code payload''), w1)))"

text \<open>The settings with the secret of each provider masked.\<close>

definition sso_GetSettings :: "'r env \<Rightarrow> sso_provider list" where
  "sso_GetSettings X = List.map (\<lambda>p. if sp_ClientSecret p \<noteq> [] then p\<lparr>sp_ClientSecret := ''***''\<rparr> else p) (sso_providers X)"

section \<open>The one-time code\<close>

text \<open>
  C32: The one-time code of a sign-on: for 60 seconds it can be exchanged for exactly the
  tokens, the member and the gate it was stored for, once: a second exchange is refused, and so
  is any exchange from the 60th second on. The refresh cookie gets the session's duration, but
  the access cookie always gets \<open>Max-Age=0\<close>, because the lifetime is not part of the payload:
  the browser drops it at once.
\<close>

theorem sso_code_single_use:
  fixes w w1 :: "'r world"
  assumes "redis_ok (x_redis X) view" and "answers X"
    and "storeSSOCode X now tokens memberID gateID w = (Inr code, w1)"
    and "tp_SessionDuration tokens = n * Second" and "0 \<le> n" and "n \<le> 9223372036" and "now \<le> t" and "t \<le> t'"
  defines "r \<equiv> sso_Exchange X t code w1"
  shows "(if t < now + 60 * Second
     then (\<exists>out. fst r = Inr out \<and> so_MemberID out = memberID \<and> so_GateID out = gateID
        \<and> sk_Value (fst (so_Cookies out)) = tp_AccessToken tokens \<and> sk_Value (snd (so_Cookies out)) = tp_RefreshToken tokens
        \<and> sk_MaxAge (fst (so_Cookies out)) = 0
        \<and> sk_MaxAge (snd (so_Cookies out)) = (if n = 0 then 7776000 else n))
     else fst r = Inl (HErr 401 ''invalid or expired code''))
    \<and> fst (sso_Exchange X t' code (snd r)) = Inl (HErr 401 ''invalid or expired code'')"
proof -
  note R = redis_store.intro [OF assms(1)]
  let ?p = "code_payload tokens memberID gateID"
  have w1: "w_redis w1 = rd_Set (x_redis X) (w_redis w) now (code_key code) (RJson (VObj ?p)) ssoCodeTTL"
    using assms(2,3) by (auto simp: storeSSOCode_def redis_Set_def wbind_Inr_iff split: option.splits)
  have g: "rd_Get (x_redis X) (w_redis w1) u (code_key code) = (if u < now + 60 * Second then Some (RJson (VObj ?p)) else None)"
    if "now \<le> u" for u
    unfolding w1 using redis_store.get_set [OF R that] by simp
  have secs: "f64_to_int (dur_seconds (n * Second)) = n" "seconds n = n * Second"
    using assms(5,6) by (simp_all add: dur_seconds_whole f64_to_int_def Let_def seconds_exact)
  have zero: "f64_to_int (dur_seconds 0) = 0" using dur_seconds_whole [of 0] by (simp add: f64_to_int_def)
  have pt: "payload_tokens ?p = Some (tokens\<lparr>tp_AccessTokenTTL := 0\<rparr>)"
    using assms(4) secs by (simp add: payload_tokens_def code_payload_def)
  show ?thesis
  proof (cases "t < now + 60 * Second")
    case True
    have r: "r = (Inr \<lparr>so_Cookies = setAuthCookies (tokens\<lparr>tp_AccessTokenTTL := 0\<rparr>) (cf_cookieSecure X),
          so_MemberID = memberID, so_GateID = gateID\<rparr>, w1\<lparr>w_redis := rd_Del (x_redis X) (w_redis w1) t (code_key code)\<rparr>)"
      using g [OF assms(7)] True assms(2) pt
      by (simp add: r_def sso_Exchange_def redis_GetDel_def code_payload_def str_field_def)
    have "rd_Get (x_redis X) (w_redis (snd r)) t' (code_key code) = None"
      using redis_store.get_del [OF R assms(8)] by (simp add: r)
    then have "fst (sso_Exchange X t' code (snd r)) = Inl (HErr 401 ''invalid or expired code'')"
      using assms(2) by (simp add: sso_Exchange_def redis_GetDel_def)
    with True assms(4,5) secs zero show ?thesis by (simp add: r setAuthCookies_def)
  next
    case False
    have r: "r = (Inl (HErr 401 ''invalid or expired code''), w1)"
      using g [OF assms(7)] False assms(2) by (simp add: r_def sso_Exchange_def redis_GetDel_def)
    have "rd_Get (x_redis X) (w_redis w1) t' (code_key code) = None" using g [of t'] False assms(7,8) by simp
    with False assms(2) r show ?thesis by (simp add: sso_Exchange_def redis_GetDel_def)
  qed
qed

definition sample_tokens :: token_pair where
  "sample_tokens = \<lparr>tp_AccessToken = ''a'', tp_RefreshToken = ''r'', tp_SessionDuration = 60 * Second,
     tp_AccessTokenTTL = AccessTokenTTL\<rparr>"

theorem sso_code_single_use_witness:
  "let X = sample_env []; w1 = snd (storeSSOCode X 0 sample_tokens ''ii'' [] (sample_world empty_db));
       r = sso_Exchange X 5 ''sso_code0'' w1
   in (\<exists>out. fst r = Inr out \<and> so_MemberID out = ''ii'' \<and> sk_MaxAge (fst (so_Cookies out)) = 0)
     \<and> fst (sso_Exchange X 6 ''sso_code0'' (snd r)) = Inl (HErr 401 ''invalid or expired code'')"
proof -
  let ?X = "sample_env []"
  let ?s = "storeSSOCode ?X 0 sample_tokens ''ii'' [] (sample_world empty_db)"
  have "fst ?s = Inr ''sso_code0''" by code_simp
  then have "?s = (Inr ''sso_code0'', snd ?s)" by (metis prod.collapse)
  moreover have "answers ?X" by (simp add: answers_def)
  ultimately show ?thesis
    using sso_code_single_use [OF sample_redis_ok [of "[]"], of 0 sample_tokens "''ii''" "[]" "sample_world empty_db" "''sso_code0''" "snd ?s" 60 5 6]
    by (auto simp: Let_def sample_tokens_def)
qed

end
