(* ===== verification/Drivers.thy ===== *)
theory Drivers
  imports Http_Client Gate_Validation
begin

text \<open>
  \<open>internal/integration/driver.go\<close>, \<open>mqtt.go\<close>, \<open>noop.go\<close>, the HTTP driver of \<open>http.go\<close>, the topics of
  \<open>internal/mqtt/gate.go\<close> and the function \<open>gateTrigger\<close> of \<open>cmd/server/main.go\<close>: what a trigger of
  the gate service sends to the outside. The payload of an MQTT message is kept as the JSON value
  that is marshalled.
\<close>

section \<open>Topics\<close>

definition StatusTopic :: "'r env \<Rightarrow> uuid \<Rightarrow> string" where
  "StatusTopic X gateID = ''gates/'' @ x_uuidString X gateID @ ''/status''"

definition CommandTopic :: "'r env \<Rightarrow> uuid \<Rightarrow> string" where
  "CommandTopic X gateID = ''gates/'' @ x_uuidString X gateID @ ''/command''"

definition parseTopicGateID :: "'r env \<Rightarrow> string \<Rightarrow> uuid res" where
  "parseTopicGateID X topic =
     (let parts = split_on CHR ''/'' topic
      in if length parts \<noteq> 3 \<or> parts ! 0 \<noteq> ''gates'' then Inl (Errorf ''unexpected topic format: %s'' [AStr topic])
         else case x_uuidParse X (parts ! 1) of
           None \<Rightarrow> Inl (wrap ''parse gate id'' (ErrExternal ''uuid''))
         | Some gateID \<Rightarrow> Inr gateID)"

section \<open>Drivers\<close>

datatype driver =
    MQTTGatieDriver string
  | MQTTCustomDriver "gmap option"
  | HTTPDriver string string "(string \<times> string) list" string
  | NoopDriver

datatype outbound = OutMQTT string gval | OutHTTP http_request

definition NewHTTPDriver :: "'r env \<Rightarrow> gmap \<Rightarrow> driver res" where
  "NewHTTPDriver X cfg =
     (let rawURL = str_field cfg ''url''
      in if rawURL = [] then Inl (Errorf (''http driver: missing required field '' @ [CHR 0x27] @ ''url'' @ [CHR 0x27]) [])
         else case x_urlScheme X rawURL of
           None \<Rightarrow> Inl (wrap ''http driver: invalid url'' (ErrExternal ''url.Parse''))
         | Some scheme \<Rightarrow>
             if scheme \<noteq> ''http'' \<and> scheme \<noteq> ''https''
             then Inl (Errorf ''http driver: unsupported scheme %q (only http/https allowed)'' [AStr scheme])
             else Inr (HTTPDriver rawURL (config_method ''POST'' cfg) (config_headers cfg) (str_field cfg ''body'')))"

definition newDriver :: "'r env \<Rightarrow> action_config \<Rightarrow> string \<Rightarrow> driver res" where
  "newDriver X cfg defaultAction =
     (if ac_Type cfg = DriverTypeMQTTGatie then
        (if \<not> x_mqttUp X then Inl (Errorf ''MQTT driver requested but broker is unavailable'' [])
         else Inr (MQTTGatieDriver defaultAction))
      else if ac_Type cfg = DriverTypeMQTTCustom then
        (if \<not> x_mqttUp X then Inl (Errorf ''MQTT driver requested but broker is unavailable'' [])
         else Inr (MQTTCustomDriver (as_object (map_of (ac_Config cfg) ''payload''))))
      else if ac_Type cfg = DriverTypeHTTP then NewHTTPDriver X (ac_Config cfg)
      else if ac_Type cfg = DriverTypeNone then Inr NoopDriver
      else Inl (Errorf ''unknown integration driver type: %q'' [AStr (ac_Type cfg)]))"

definition NewOpenDriver :: "'r env \<Rightarrow> gate \<Rightarrow> driver res" where
  "NewOpenDriver X gate = (case g_OpenConfig gate of
      None \<Rightarrow> Inr NoopDriver
    | Some cfg \<Rightarrow> newDriver X cfg ''open'')"

definition NewCloseDriver :: "'r env \<Rightarrow> gate \<Rightarrow> driver res" where
  "NewCloseDriver X gate = (case g_CloseConfig gate of
      None \<Rightarrow> Inr NoopDriver
    | Some cfg \<Rightarrow> newDriver X cfg ''close'')"

text \<open>\<open>Client.Publish\<close>; the second component is what left the server.\<close>

definition mqtt_Publish :: "'r env \<Rightarrow> int \<Rightarrow> string \<Rightarrow> gval \<Rightarrow> unit res \<times> outbound list" where
  "mqtt_Publish X now topic payload =
     (if x_mqttFault X now topic then (Inl (ErrExternal ''mqtt''), []) else (Inr (), [OutMQTT topic payload]))"

definition mqtt_send :: "'r env \<Rightarrow> int \<Rightarrow> string \<Rightarrow> gate \<Rightarrow> gval \<Rightarrow> unit res \<times> outbound list" where
  "mqtt_send X now name gate payload =
     (if \<not> json_encodable payload then (Inl (wrap (name @ '' driver: marshal payload'') (ErrExternal ''json'')), [])
      else case mqtt_Publish X now (CommandTopic X (g_ID gate)) payload of
        (Inl e, sent) \<Rightarrow> (Inl (wrap (name @ '' driver: publish'') e), sent)
      | (Inr _, sent) \<Rightarrow> (Inr (), sent))"

definition http_Execute :: "'r env \<Rightarrow> int \<Rightarrow> string \<Rightarrow> string \<Rightarrow> (string \<times> string) list \<Rightarrow> string \<Rightarrow> unit res \<times> outbound list" where
  "http_Execute X now url method headers body =
     (case NewRequest X method url body of
        Inl e \<Rightarrow> (Inl (wrap ''http driver: build request'' e), [])
      | Inr req0 \<Rightarrow>
          (let req = set_headers headers body req0
           in case x_http X now 0 req of
                Inl e \<Rightarrow> (Inl (wrap ''http driver: request'' e), [OutHTTP req])
              | Inr resp \<Rightarrow>
                  if 300 \<le> hp_Status resp
                  then (Inl (Errorf ''http driver: server returned %d'' [AInt (hp_Status resp)]), [OutHTTP req])
                  else (Inr (), [OutHTTP req])))"

definition Execute :: "'r env \<Rightarrow> int \<Rightarrow> driver \<Rightarrow> gate \<Rightarrow> unit res \<times> outbound list" where
  "Execute X now d gate = (case d of
      MQTTGatieDriver action \<Rightarrow> mqtt_send X now ''mqtt_gatie'' gate (VObj [(''action'', VStr action)])
    | MQTTCustomDriver payload \<Rightarrow>
        mqtt_send X now ''mqtt_custom'' gate (case payload of None \<Rightarrow> VNull | Some m \<Rightarrow> VObj m)
    | HTTPDriver url method headers body \<Rightarrow> http_Execute X now url method headers body
    | NoopDriver \<Rightarrow> (Inr (), []))"

text \<open>Failures are logged and otherwise lost.\<close>

definition gateTrigger :: "'r env \<Rightarrow> int \<Rightarrow> gate \<Rightarrow> string \<Rightarrow> outbound list" where
  "gateTrigger X now gate action =
     (case (if action = ''close'' then NewCloseDriver X gate else NewOpenDriver X gate) of
        Inl _ \<Rightarrow> []
      | Inr d \<Rightarrow> snd (Execute X now d gate))"

text \<open>What the events of the services send to devices.\<close>

definition device_output :: "'r env \<Rightarrow> int \<Rightarrow> event list \<Rightarrow> outbound list" where
  "device_output X now evs = concat (List.map (\<lambda>e. case e of EvTrigger g a \<Rightarrow> gateTrigger X now g a | _ \<Rightarrow> []) evs)"

section \<open>Validated configurations\<close>

definition drivable_url :: "'r env \<Rightarrow> string \<Rightarrow> bool" where
  "drivable_url X u \<longleftrightarrow> u \<noteq> [] \<and> x_urlScheme X u \<in> {Some ''http'', Some ''https''}"

lemma NewHTTPDriver_ok_iff: "is_ok (NewHTTPDriver X cfg) \<longleftrightarrow> drivable_url X (str_field cfg ''url'')"
  by (auto simp: NewHTTPDriver_def drivable_url_def Let_def split: option.splits)

text \<open>
  A stored action configuration that the validator accepted always yields a driver,
  except in two cases: it needs MQTT and the broker is down, or it is an HTTP action whose URL
  does not parse or has a scheme other than http and https. The validator only checks that the
  URL is not blank, so this second case is accepted at configuration time and then fails,
  silently, at every trigger.
\<close>

theorem validated_config_has_driver:
  assumes "validateActionConfig field (Some c) = Inr ()"
  shows "is_ok (newDriver X c action) \<longleftrightarrow>
    (ac_Type c \<in> {DriverTypeMQTTGatie, DriverTypeMQTTCustom} \<longrightarrow> x_mqttUp X)
    \<and> (ac_Type c = DriverTypeHTTP \<longrightarrow> drivable_url X (str_field (ac_Config c) ''url''))"
proof -
  have "ac_Type c \<in> {DriverTypeNone, DriverTypeMQTTGatie, DriverTypeMQTTCustom, DriverTypeHTTP}"
    using assms by (auto simp: validateActionConfig_def split: if_splits)
  then show ?thesis by (auto simp: newDriver_def NewHTTPDriver_ok_iff)
qed

theorem validated_config_has_driver_witness:
  "let c = (\<lambda>u. \<lparr>ac_Type = DriverTypeHTTP, ac_Config = [(''url'', VStr u)]\<rparr>)
   in validateActionConfig ''open_config'' (Some (c ''ftp://gate'')) = Inr ()
     \<and> \<not> is_ok (newDriver (sample_env []) (c ''ftp://gate'') ''open'')
     \<and> is_ok (newDriver (sample_env []) (c ''https://gate'') ''open'')"
proof -
  let ?c = "\<lambda>u. \<lparr>ac_Type = DriverTypeHTTP, ac_Config = [(''url'', VStr u)]\<rparr> :: action_config"
  have v: "validateActionConfig ''open_config'' (Some (?c ''ftp://gate'')) = Inr ()"
    "validateActionConfig ''open_config'' (Some (?c ''https://gate'')) = Inr ()"
    by code_simp+
  have "\<not> drivable_url (sample_env []) ''ftp://gate''" "drivable_url (sample_env []) ''https://gate''"
    by (simp_all add: drivable_url_def sample_env_def HasPrefix_def)
  with v validated_config_has_driver [OF v(1), of "sample_env []" "''open''"]
    validated_config_has_driver [OF v(2), of "sample_env []" "''open''"]
  show ?thesis by (simp add: str_field_def)
qed

section \<open>Commands reach the gate's own topic\<close>

definition slash_free :: "'r env \<Rightarrow> bool" where
  "slash_free X \<longleftrightarrow> (\<forall>u. CHR ''/'' \<notin> set (x_uuidString X u))"

lemma split_topic:
  assumes "slash_free X" and "CHR ''/'' \<notin> set kind"
  shows "split_on CHR ''/'' (''gates/'' @ x_uuidString X u @ ''/'' @ kind) = [''gates'', x_uuidString X u, kind]"
proof -
  have "split_on CHR ''/'' (''gates/'' @ x_uuidString X u @ ''/'' @ kind)
      = ''gates'' # split_on CHR ''/'' (x_uuidString X u @ CHR ''/'' # kind)"
    using split_on_append [of "CHR ''/''" "''gates''"] by simp
  then show ?thesis
    using assms by (simp add: split_on_append split_on_no_sep slash_free_def)
qed

text \<open>
  The topics identify the gate: the status topic of a gate parses back to this gate,
  and the command topics of different gates differ, so a command never reaches another gate's
  device.
\<close>

theorem topics_identify_gate:
  assumes "uuid_ok X" and "slash_free X"
  shows "parseTopicGateID X (StatusTopic X u) = Inr u \<and> (CommandTopic X u = CommandTopic X v \<longleftrightarrow> u = v)"
proof
  show "parseTopicGateID X (StatusTopic X u) = Inr u"
    using split_topic [OF assms(2), of "''status''" u] assms(1)
    by (simp add: parseTopicGateID_def StatusTopic_def uuid_ok_def)
  have "x_uuidString X u = x_uuidString X v \<Longrightarrow> u = v"
    using assms(1) by (metis uuid_ok_def option.inject)
  then show "CommandTopic X u = CommandTopic X v \<longleftrightarrow> u = v" by (auto simp: CommandTopic_def)
qed

lemma sample_slash_free: "slash_free (sample_env tbl)"
  by (simp add: slash_free_def unary_def)

theorem topics_identify_gate_witness:
  "parseTopicGateID (sample_env []) ''gates/iii/status'' = Inr 3"
proof -
  have "StatusTopic (sample_env []) 3 = ''gates/iii/status''" by code_simp
  then show ?thesis
    using topics_identify_gate [OF sample_uuid_ok sample_slash_free, of "[]" 3] by simp
qed

section \<open>From the trigger endpoint to the device\<close>

definition action_config_of :: "gate \<Rightarrow> string \<Rightarrow> action_config option" where
  "action_config_of g action = (if action = ''close'' then g_CloseConfig g else g_OpenConfig g)"

definition sent_for :: "'r env \<Rightarrow> gate \<Rightarrow> string \<Rightarrow> outbound \<Rightarrow> bool" where
  "sent_for X g action o' \<longleftrightarrow> (\<exists>c. action_config_of g action = Some c \<and> (case o' of
      OutMQTT topic payload \<Rightarrow> topic = CommandTopic X (g_ID g) \<and> (
        ac_Type c = DriverTypeMQTTGatie \<and> payload = VObj [(''action'', VStr (if action = ''close'' then ''close'' else ''open''))]
        \<or> ac_Type c = DriverTypeMQTTCustom \<and> payload = (case as_object (map_of (ac_Config c) ''payload'') of None \<Rightarrow> VNull | Some m \<Rightarrow> VObj m))
    | OutHTTP req \<Rightarrow> ac_Type c = DriverTypeHTTP \<and> hq_URL req = str_field (ac_Config c) ''url'' \<and> drivable_url X (hq_URL req)))"

lemma Execute_cases:
  "snd (Execute X now d g) \<in> {[]} \<union> (case d of
      MQTTGatieDriver a \<Rightarrow> {[OutMQTT (CommandTopic X (g_ID g)) (VObj [(''action'', VStr a)])]}
    | MQTTCustomDriver p \<Rightarrow> {[OutMQTT (CommandTopic X (g_ID g)) (case p of None \<Rightarrow> VNull | Some m \<Rightarrow> VObj m)]}
    | HTTPDriver u m hs b \<Rightarrow> {[OutHTTP req] |req. hq_URL req = u}
    | NoopDriver \<Rightarrow> {})"
  by (auto simp: Execute_def mqtt_send_def mqtt_Publish_def http_Execute_def Let_def NewRequest_ok
      split: driver.splits sum.splits option.splits)

lemma newDriver_cases:
  assumes "newDriver X c a = Inr d"
  shows "(d = MQTTGatieDriver a \<and> ac_Type c = DriverTypeMQTTGatie)
    \<or> (d = MQTTCustomDriver (as_object (map_of (ac_Config c) ''payload'')) \<and> ac_Type c = DriverTypeMQTTCustom)
    \<or> (\<exists>m hs b. d = HTTPDriver (str_field (ac_Config c) ''url'') m hs b \<and> ac_Type c = DriverTypeHTTP
         \<and> drivable_url X (str_field (ac_Config c) ''url''))
    \<or> d = NoopDriver"
  using assms by (auto simp: newDriver_def NewHTTPDriver_def drivable_url_def Let_def split: if_splits option.splits)

lemma gateTrigger_sent:
  "length (gateTrigger X now g action) \<le> 1 \<and> (\<forall>o' \<in> set (gateTrigger X now g action). sent_for X g action o')"
proof -
  let ?a = "if action = ''close'' then ''close'' else ''open''"
  have drv: "(if action = ''close'' then NewCloseDriver X g else NewOpenDriver X g) =
      (case action_config_of g action of None \<Rightarrow> Inr NoopDriver | Some c \<Rightarrow> newDriver X c ?a)"
    by (simp add: NewCloseDriver_def NewOpenDriver_def action_config_of_def)
  show ?thesis
  proof (cases "action_config_of g action")
    case None
    with drv show ?thesis by (simp add: gateTrigger_def Execute_def)
  next
    case (Some c)
    show ?thesis
    proof (cases "newDriver X c ?a")
      case (Inl e)
      with drv Some show ?thesis by (simp add: gateTrigger_def)
    next
      case (Inr d)
      with drv Some have g: "gateTrigger X now g action = snd (Execute X now d g)" by (simp add: gateTrigger_def)
      from newDriver_cases [OF Inr] Execute_cases [of X now d g] Some show ?thesis
        unfolding g sent_for_def by (auto simp del: One_nat_def)
    qed
  qed
qed



end
