(* ===== verification/Device_Ingress.thy ===== *)
theory Device_Ingress
  imports Drivers Http_Api
begin

text \<open>
  Status reports from gates: \<open>internal/handler/gate_inbound.go\<close> (HTTP push) and the message handler
  of \<open>internal/mqtt/gate.go\<close>. The request body is the decoded JSON, \<open>None\<close> when it does not decode. Log lines are left out.
\<close>

section \<open>The HTTP push\<close>

definition extractBearerToken :: "string \<Rightarrow> string" where
  "extractBearerToken header =
     (if length header \<le> length ''Bearer '' \<or> take (length ''Bearer '') header \<noteq> ''Bearer '' then []
      else drop (length ''Bearer '') header)"

definition resolveInboundPayload :: "gate \<Rightarrow> gmap \<Rightarrow> (string \<times> gmap option) res" where
  "resolveInboundPayload gate raw =
     (case g_StatusConfig gate of
        None \<Rightarrow> Inl (Errorf ''no HTTP_INBOUND status_config mapping configured'' [])
      | Some c \<Rightarrow>
          if ac_Type c \<noteq> DriverTypeHTTPInbound \<or> ac_Config c = []
          then Inl (Errorf ''no HTTP_INBOUND status_config mapping configured'' [])
          else case ExtractPayloadMapping (ac_Config c) of
            None \<Rightarrow> Inl (Errorf ''status_config.config.mapping missing or invalid'' [])
          | Some mapping \<Rightarrow>
              (case ApplyMapping mapping raw of
                 Inl e \<Rightarrow> Inl e
               | Inr status \<Rightarrow> Inr (status, ExtractMeta (g_MetaConfig gate) raw)))"

definition PushStatus :: "'r env \<Rightarrow> int \<Rightarrow> string \<Rightarrow> gmap \<Rightarrow> 'r world \<Rightarrow> unit hres \<times> 'r world" where
  "PushStatus X now authorization body w =
     (let token = extractBearerToken authorization
      in if token = [] then (Inl (HErr 401 ''missing gate token''), w)
         else case AuthenticateToken X now (w_db w) token of
           Inl e \<Rightarrow>
             (if errIs e ErrUnauthorized then (Inl (HErr 401 ''invalid gate token''), w)
              else (Inl (HErr 500 ''failed to authenticate gate''), w))
         | Inr gate \<Rightarrow>
             (case resolveInboundPayload gate body of
                Inl _ \<Rightarrow> (Inl (HErr 400 ''invalid payload''), w)
              | Inr (status, meta) \<Rightarrow>
                  (case gate_ProcessStatus X now gate status meta w of
                     (Inl _, w1) \<Rightarrow> (Inl (HErr 500 ''failed to update status''), w1)
                   | (Inr _, w1) \<Rightarrow> (Inr (), w1))))"

section \<open>MQTT messages\<close>

definition resolveMQTTPayload :: "gate \<Rightarrow> gmap \<Rightarrow> (string \<times> gmap option) res" where
  "resolveMQTTPayload gate raw =
     (case g_StatusConfig gate of
        None \<Rightarrow> Inl (Errorf ''no MQTT status_config configured'' [])
      | Some c \<Rightarrow>
          if ac_Type c = DriverTypeMQTTGatie then
            (let s = str_field raw ''status''
             in if s = [] then Inl (Errorf (''mqtt_gatie: missing or empty '' @ [CHR 0x27] @ ''status'' @ [CHR 0x27] @ '' field in payload'') [])
                else Inr (s, ExtractMeta (g_MetaConfig gate) raw))
          else if ac_Type c = DriverTypeMQTTCustom then
            (if ac_Config c = [] then Inl (Errorf ''no MQTT_CUSTOM status_config mapping configured'' [])
             else case ExtractPayloadMapping (ac_Config c) of
               None \<Rightarrow> Inl (Errorf ''status_config.config.mapping missing or invalid'' [])
             | Some mapping \<Rightarrow>
                 (case ApplyMapping mapping raw of
                    Inl e \<Rightarrow> Inl e
                  | Inr status \<Rightarrow> Inr (status, ExtractMeta (g_MetaConfig gate) raw)))
          else Inl (Errorf ''unsupported MQTT status_config type: %q'' [AStr (ac_Type c)]))"

text \<open>\<open>json.Unmarshal\<close> into a map: null leaves the map nil.\<close>

definition decode_map :: "gval option \<Rightarrow> gmap option" where
  "decode_map payload = (case payload of Some (VObj m) \<Rightarrow> Some m | Some VNull \<Rightarrow> Some [] | _ \<Rightarrow> None)"

definition mqtt_gate :: "'r env \<Rightarrow> int \<Rightarrow> bool \<Rightarrow> db \<Rightarrow> uuid \<Rightarrow> string \<Rightarrow> gate res" where
  "mqtt_gate X now brokerAuth d gateID token =
     (if brokerAuth then gates_GetByIDPublic (x_dbFault X now) d gateID
      else gates_GetByToken (x_dbFault X now) d gateID token)"

definition on_status_message :: "'r env \<Rightarrow> int \<Rightarrow> bool \<Rightarrow> string \<Rightarrow> gval option \<Rightarrow> 'r world \<Rightarrow> 'r world" where
  "on_status_message X now brokerAuth topic payload w =
     (case parseTopicGateID X topic of
        Inl _ \<Rightarrow> w
      | Inr topicGateID \<Rightarrow>
          (case decode_map payload of
             None \<Rightarrow> w
           | Some raw \<Rightarrow>
               (let token = str_field raw ''token''
                in if token = [] then w
                   else case ParseGateToken X now token of
                     Inl _ \<Rightarrow> w
                   | Inr claimedGateID \<Rightarrow>
                       if claimedGateID \<noteq> topicGateID then w
                       else case mqtt_gate X now brokerAuth (w_db w) topicGateID token of
                         Inl _ \<Rightarrow> w
                       | Inr gate \<Rightarrow>
                           (case resolveMQTTPayload gate raw of
                              Inl _ \<Rightarrow> w
                            | Inr (status, meta) \<Rightarrow> snd (ProcessGateStatus X now gate status meta w)))))"

section \<open>Who can report\<close>

lemma process_other_rows:
  "j \<noteq> g_ID g \<Longrightarrow> gate_row (w_db (snd (ProcessGateStatus X now g s m w))) j = gate_row (w_db w) j"
  by (auto simp: ProcessGateStatus_def on_db_def gates_UpdateStatus_def gate_row_upd Let_def map_option_case
      dest: gate_row_SomeD split: option.splits)

lemma process_other_tables:
  "(w_db (snd (ProcessGateStatus X now g s m w)))\<lparr>db_gates := []\<rparr> = (w_db w)\<lparr>db_gates := []\<rparr>"
  by (simp add: ProcessGateStatus_def on_db_def gates_UpdateStatus_def Let_def)

text \<open>The current token of a gate, as stored in its row and signed by the server.\<close>

definition current_token :: "'r env \<Rightarrow> int \<Rightarrow> db \<Rightarrow> uuid \<Rightarrow> string \<Rightarrow> bool" where
  "current_token X now d i tok \<longleftrightarrow> ParseGateToken X now tok = Inr i
     \<and> (\<exists>g \<in> set (db_gates d). g_ID g = i \<and> g_GateToken g = Some tok)"

lemma GetByToken_ok:
  "gates_GetByToken flt d i tok = Inr g \<Longrightarrow> g_ID g = i \<and> (\<exists>r \<in> set (db_gates d). g_ID r = i \<and> g_GateToken r = Some tok \<and> g = scanGate r)"
  by (auto simp: gates_GetByToken_def dest: find_SomeD split: if_splits option.splits)

lemma AuthenticateToken_ok:
  "AuthenticateToken X now d tok = Inr g \<Longrightarrow> current_token X now d (g_ID g) tok"
  by (auto simp: AuthenticateToken_def current_token_def dest!: GetByToken_ok split: sum.splits)

lemma mqtt_gate_ok:
  assumes "mqtt_gate X now brokerAuth d i tok = Inr g"
  shows "g_ID g = i \<and> (\<not> brokerAuth \<longrightarrow> (\<exists>r \<in> set (db_gates d). g_ID r = i \<and> g_GateToken r = Some tok))"
proof (cases brokerAuth)
  case True
  with assms obtain r where "gate_row d i = Some r" "g = scanGate r"
    using gates_GetByID_ok [of "x_dbFault X now" d i g] by (auto simp: mqtt_gate_def gates_GetByIDPublic_def)
  with gate_row_SomeD [of d i r] True show ?thesis by simp
next
  case False
  with assms GetByToken_ok [of "x_dbFault X now" d i tok g] show ?thesis by (auto simp: mqtt_gate_def)
qed

lemma PushStatus_effect:
  obtains "snd (PushStatus X now authorization body w) = w"
  | g s m where "extractBearerToken authorization \<noteq> []"
      "AuthenticateToken X now (w_db w) (extractBearerToken authorization) = Inr g"
      "snd (PushStatus X now authorization body w) = snd (ProcessGateStatus X now g s m w)"
proof (cases "extractBearerToken authorization = []")
  case True
  then show ?thesis using that(1) by (simp add: PushStatus_def)
next
  case tok: False
  show ?thesis
  proof (cases "AuthenticateToken X now (w_db w) (extractBearerToken authorization)")
    case (Inl e)
    with tok show ?thesis using that(1) by (simp add: PushStatus_def Let_def)
  next
    case auth: (Inr g)
    show ?thesis
    proof (cases "resolveInboundPayload g body")
      case (Inl e)
      with tok auth show ?thesis using that(1) by (simp add: PushStatus_def Let_def)
    next
      case (Inr sm)
      obtain s m where sm: "sm = (s, m)" by (cases sm)
      have "snd (PushStatus X now authorization body w) = snd (ProcessGateStatus X now g s m w)"
        using tok auth Inr sm by (cases "ProcessGateStatus X now g s m w")
          (simp add: PushStatus_def gate_ProcessStatus_def Let_def split: sum.split)
      with tok auth show ?thesis using that(2) by blast
    qed
  qed
qed

text \<open>
  C10: The HTTP push is authenticated: a request that changes anything (or publishes
  anything) carries the header \<open>Bearer\<close> with a signed token that is the one currently stored for a
  gate; only the row of that gate changes, and all other tables stay as they are.
\<close>

theorem push_needs_current_token:
  assumes "snd (PushStatus X now authorization body w) = w'" and "w' \<noteq> w"
  shows "\<exists>i tok. authorization = ''Bearer '' @ tok \<and> current_token X now (w_db w) i tok
    \<and> (\<forall>j. j \<noteq> i \<longrightarrow> gate_row (w_db w') j = gate_row (w_db w) j)
    \<and> (w_db w')\<lparr>db_gates := []\<rparr> = (w_db w)\<lparr>db_gates := []\<rparr>"
proof -
  let ?tok = "extractBearerToken authorization"
  obtain g s m where t: "?tok \<noteq> []" and a: "AuthenticateToken X now (w_db w) ?tok = Inr g"
    and w': "w' = snd (ProcessGateStatus X now g s m w)"
    using assms by (cases rule: PushStatus_effect [of X now authorization body w]) auto
  from t have "authorization = ''Bearer '' @ ?tok"
    by (metis append_take_drop_id extractBearerToken_def)
  with AuthenticateToken_ok [OF a] show ?thesis
    using process_other_rows process_other_tables unfolding w' by blast
qed

lemma message_effect:
  assumes "on_status_message X now brokerAuth topic payload w = w'" and "w' \<noteq> w"
  shows "\<exists>i raw. parseTopicGateID X topic = Inr i \<and> decode_map payload = Some raw
    \<and> ParseGateToken X now (str_field raw ''token'') = Inr i
    \<and> (\<not> brokerAuth \<longrightarrow> current_token X now (w_db w) i (str_field raw ''token''))
    \<and> (\<forall>j. j \<noteq> i \<longrightarrow> gate_row (w_db w') j = gate_row (w_db w) j)
    \<and> (w_db w')\<lparr>db_gates := []\<rparr> = (w_db w)\<lparr>db_gates := []\<rparr>"
proof -
  note D = assms(1) [unfolded on_status_message_def Let_def]
  from D assms(2) obtain i where p1: "parseTopicGateID X topic = Inr i"
    by (cases "parseTopicGateID X topic") simp_all
  with D assms(2) obtain raw where p2: "decode_map payload = Some raw"
    by (cases "decode_map payload") simp_all
  let ?tok = "str_field raw ''token''"
  have t0: "?tok \<noteq> []" using D assms(2) p1 p2 by (cases "?tok = []") simp_all
  have t: "ParseGateToken X now ?tok = Inr i"
    using D assms(2) p1 p2 t0 by (cases "ParseGateToken X now ?tok") (simp_all split: if_splits)
  obtain g where g: "mqtt_gate X now brokerAuth (w_db w) i ?tok = Inr g"
    using D assms(2) p1 p2 t0 t by (cases "mqtt_gate X now brokerAuth (w_db w) i ?tok") simp_all
  obtain s m where "resolveMQTTPayload g raw = Inr (s, m)"
    using D assms(2) p1 p2 t0 t g by (cases "resolveMQTTPayload g raw") auto
  with D p1 p2 t0 t g have w': "w' = snd (ProcessGateStatus X now g s m w)" by simp
  note p = p1 p2
  from mqtt_gate_ok [OF g] have "g_ID g = i" by simp
  moreover from mqtt_gate_ok [OF g] t have "\<not> brokerAuth \<longrightarrow> current_token X now (w_db w) i ?tok"
    by (simp add: current_token_def)
  ultimately show ?thesis
    using p t process_other_rows process_other_tables unfolding w' by blast
qed

text \<open>
  A status message over MQTT without broker authentication changes something only
  if its topic names a gate whose current token it carries, and only for this gate. With broker
  authentication the token only has to be signed for the gate; the example shows that a
  token that was rotated out is still accepted then, and refused otherwise.
\<close>

theorem mqtt_message_token:
  assumes "on_status_message X now brokerAuth topic payload w = w'" and "w' \<noteq> w"
  shows "\<exists>i raw. parseTopicGateID X topic = Inr i \<and> decode_map payload = Some raw
    \<and> ParseGateToken X now (str_field raw ''token'') = Inr i
    \<and> (\<not> brokerAuth \<longrightarrow> current_token X now (w_db w) i (str_field raw ''token''))
    \<and> (\<forall>j. j \<noteq> i \<longrightarrow> gate_row (w_db w') j = gate_row (w_db w) j)
    \<and> (w_db w')\<lparr>db_gates := []\<rparr> = (w_db w)\<lparr>db_gates := []\<rparr>"
  using message_effect [OF assms] .

section \<open>Witnesses\<close>

definition ingress_gate :: "string \<Rightarrow> string \<Rightarrow> gate" where
  "ingress_gate kind tok = (sample_gate 1)\<lparr>g_GateToken := Some tok, g_StatusConfig := Some \<lparr>ac_Type = kind,
     ac_Config = [(''mapping'', VObj [(''status'', VObj [(''field'', VStr ''state'')])])]\<rparr>\<rparr>"

definition ingress_world :: "string \<Rightarrow> string \<Rightarrow> kv world" where
  "ingress_world kind tok = sample_world (empty_db\<lparr>db_gates := [ingress_gate kind tok]\<rparr>)"

theorem push_needs_current_token_witness:
  "let X = sample_env sample_gate_table; w = ingress_world DriverTypeHTTPInbound ''gate-jwt'';
       w' = snd (PushStatus X 7 ''Bearer gate-jwt'' [(''state'', VStr ''open'')] w)
   in w_out w' = [EvPublish 1 ''open'' None]
     \<and> (\<exists>i tok. ''Bearer gate-jwt'' = ''Bearer '' @ tok \<and> current_token X 7 (w_db w) i tok)"
proof -
  let ?X = "sample_env sample_gate_table" and ?w = "ingress_world DriverTypeHTTPInbound ''gate-jwt''"
  let ?w' = "snd (PushStatus ?X 7 ''Bearer gate-jwt'' [(''state'', VStr ''open'')] ?w)"
  have o: "w_out ?w' = [EvPublish 1 ''open'' None]" by code_simp
  have "w_out ?w = []" by (simp add: ingress_world_def)
  with o have "?w' \<noteq> ?w" by auto
  from push_needs_current_token [OF refl this] o show ?thesis unfolding Let_def by blast
qed

theorem mqtt_message_token_witness:
  "let X = sample_env sample_gate_table; w = ingress_world DriverTypeMQTTCustom;
       msg = Some (VObj [(''token'', VStr ''gate-jwt''), (''state'', VStr ''open'')]);
       run = (\<lambda>brokerAuth tok. on_status_message X 7 brokerAuth ''gates/i/status'' msg (w tok))
   in w_out (run False ''gate-jwt'') = [EvPublish 1 ''open'' None]
     \<and> current_token X 7 (w_db (w ''gate-jwt'')) 1 ''gate-jwt''
     \<and> w_out (run False ''new-jwt'') = [] \<and> w_out (run True ''new-jwt'') = [EvPublish 1 ''open'' None]"
proof -
  let ?X = "sample_env sample_gate_table" and ?w = "ingress_world DriverTypeMQTTCustom"
  let ?msg = "Some (VObj [(''token'', VStr ''gate-jwt''), (''state'', VStr ''open'')])"
  let ?run = "\<lambda>brokerAuth tok. on_status_message ?X 7 brokerAuth ''gates/i/status'' ?msg (?w tok)"
  have o: "w_out (?run False ''gate-jwt'') = [EvPublish 1 ''open'' None]"
    "w_out (?run False ''new-jwt'') = []" "w_out (?run True ''new-jwt'') = [EvPublish 1 ''open'' None]"
    by code_simp+
  have i: "parseTopicGateID ?X ''gates/i/status'' = Inr 1" by code_simp
  have "w_out (?w ''gate-jwt'') = []" by (simp add: ingress_world_def)
  with o(1) have "?run False ''gate-jwt'' \<noteq> ?w ''gate-jwt''" by auto
  from mqtt_message_token [OF refl this] i have "current_token ?X 7 (w_db (?w ''gate-jwt'')) 1 ''gate-jwt''"
    by (auto simp: decode_map_def str_field_def)
  with o show ?thesis by (simp add: Let_def)
qed

end
