(* ===== verification/Ttl_Worker.thy ===== *)
theory Ttl_Worker
  imports Gate_Service Gate_Validation
begin

text \<open>
  \<open>internal/service/gate_ttl.go\<close>: the sweep that marks silent gates unresponsive and the sweep that
  applies the automatic status transitions, with the Redis keys that remember when a persistent
  transition was armed. The server always runs the worker with Redis. A sweep has one instant.
\<close>

section \<open>Marking gates unresponsive\<close>

definition DefaultGateTTL :: int where
  "DefaultGateTTL = 30 * Second"

definition markExpired :: "'r env \<Rightarrow> int \<Rightarrow> 'r world \<Rightarrow> 'r world" where
  "markExpired X now w =
     (case on_db (\<lambda>d. gates_MarkUnresponsiveWithIDs (x_dbFault X now) d now DefaultGateTTL) w of
        (Inl _, w1) \<Rightarrow> w1
      | (Inr affected, w1) \<Rightarrow>
          fold (\<lambda>i. publishGateStatusEvent X now i GateStatusUnresponsive None) affected w1)"

section \<open>Automatic transitions\<close>

definition transitionRedisKey :: "string \<Rightarrow> string \<Rightarrow> string \<Rightarrow> string" where
  "transitionRedisKey gateID from to = ''gate:tr:'' @ gateID @ '':'' @ from @ '':'' @ to"

abbreviation tr_key :: "'r env \<Rightarrow> gate \<Rightarrow> status_transition \<Rightarrow> string" where
  "tr_key X g t \<equiv> transitionRedisKey (x_uuidString X (g_ID g)) (st_From t) (st_To t)"

text \<open>\<open>Cmd.Int64()\<close>: a counter, or a string that is a number.\<close>

definition rval_Int64 :: "rval \<Rightarrow> int option" where
  "rval_Int64 v = (case v of RInt n \<Rightarrow> Some n | RStr s \<Rightarrow> Atoi s | RJson _ \<Rightarrow> None)"

text \<open>
  The part of the loop body before \<open>UpdateStatus\<close>: whether the transition is due, and the
  world with the key of the transition set, removed or left alone. \<open>seen\<close> is the gate's last
  contact; \<open>UnixMicro\<close> keeps whole microseconds.
\<close>

definition transition_due :: "'r env \<Rightarrow> int \<Rightarrow> gate \<Rightarrow> int \<Rightarrow> status_transition \<Rightarrow> 'r world \<Rightarrow> bool \<times> 'r world" where
  "transition_due X now g seen t w =
     (let rKey = tr_key X g t; afterDur = seconds (st_AfterSeconds t)
      in if g_Status g \<noteq> st_From t then
           (if \<not> st_PersistOnChange t then (False, redis_Del X now w rKey)
            else case redis_Get X now w rKey of
              Inl _ \<Rightarrow> (False, w)
            | Inr v \<Rightarrow>
                (case rval_Int64 v of
                   None \<Rightarrow> (False, w)
                 | Some armed \<Rightarrow>
                     if now < armed * 1000 + afterDur then (False, w)
                     else (True, redis_Del X now w rKey)))
         else
           (let w1 = (if st_PersistOnChange t then snd (redis_Set X now w rKey (RInt (seen div 1000)) 0) else w)
            in if now < seen + afterDur then (False, w1) else (True, redis_Del X now w1 rKey)))"

fun run_transitions :: "'r env \<Rightarrow> int \<Rightarrow> gate \<Rightarrow> int \<Rightarrow> status_transition list \<Rightarrow> 'r world \<Rightarrow> 'r world" where
  "run_transitions X now g seen [] w = w"
| "run_transitions X now g seen (t # ts) w =
     (case transition_due X now g seen t w of
        (False, w1) \<Rightarrow> run_transitions X now g seen ts w1
      | (True, w1) \<Rightarrow>
          (case on_db (\<lambda>d. gates_UpdateStatus (x_dbFault X now) d now (g_ID g) (st_To t) (g_StatusMetadata g)) w1 of
             (Inl _, w2) \<Rightarrow> run_transitions X now g seen ts w2
           | (Inr _, w2) \<Rightarrow> publishGateStatusEvent X now (g_ID g) (st_To t) None w2))"

definition check_gate_transitions :: "'r env \<Rightarrow> int \<Rightarrow> gate \<Rightarrow> 'r world \<Rightarrow> 'r world" where
  "check_gate_transitions X now g w = (case g_LastSeenAt g of
      None \<Rightarrow> w
    | Some seen \<Rightarrow> run_transitions X now g seen (g_StatusTransitions g) w)"

definition checkTransitions :: "'r env \<Rightarrow> int \<Rightarrow> 'r world \<Rightarrow> 'r world" where
  "checkTransitions X now w = (case gates_ListTransitionCandidates (x_dbFault X now) (w_db w) of
      Inl _ \<Rightarrow> w
    | Inr gates \<Rightarrow> fold (check_gate_transitions X now) gates w)"

definition tick :: "'r env \<Rightarrow> int \<Rightarrow> 'r world \<Rightarrow> 'r world" where
  "tick X now w = checkTransitions X now (markExpired X now w)"

section \<open>The sweep of silent gates\<close>

lemma fold_publish:
  "\<not> x_redisFault X now ''PUBLISH'' ''gate:events'' \<Longrightarrow>
   fold (\<lambda>i. publishGateStatusEvent X now i s None) is' w = w\<lparr>w_out := w_out w @ List.map (\<lambda>i. EvPublish i s None) is'\<rparr>"
  by (induction is' arbitrary: w) (simp_all add: publishGateStatusEvent_def emit_def)

lemma fold_publish_db: "w_db (fold (\<lambda>i. publishGateStatusEvent X now i s None) is' w) = w_db w"
  by (induction is' arbitrary: w) simp_all

definition silent :: "int \<Rightarrow> gate \<Rightarrow> bool" where
  "silent now g \<longleftrightarrow> (\<exists>seen. g_LastSeenAt g = Some seen
     \<and> (case g_TTLSeconds g of Some t \<Rightarrow> t | None \<Rightarrow> 30) * Second < now - seen)
     \<and> g_Status g \<notin> {GateStatusUnresponsive, GateStatusUnknown, GateStatusOffline}"

lemma ttl_expired_silent: "ttl_expired now 30 = silent now"
  by (auto simp: fun_eq_iff ttl_expired_def silent_def split: option.splits)

lemma mark_expired_db:
  assumes "\<not> x_dbFault X now ''gates.MarkUnresponsive'' 0"
  shows "w_db (markExpired X now w) = (w_db w)\<lparr>db_gates :=
    List.map (\<lambda>g. if silent now g then g\<lparr>g_Status := GateStatusUnresponsive\<rparr> else g) (db_gates (w_db w))\<rparr>"
  using assms
  by (simp add: markExpired_def on_db_def gates_MarkUnresponsiveWithIDs_def fold_publish_db DefaultGateTTL_def
      ttl_expired_silent upd_where_def)

text \<open>
  The TTL sweep, when the database and Redis answer: exactly the gates that have been
  silent for longer than their own TTL (30 seconds when they have none), and are in none of the
  states unresponsive, unknown and offline, become unresponsive, nothing else in the database
  changes, and one event is published for each of them, in the order of the rows. A second
  sweep at the same instant changes and publishes nothing.
\<close>

theorem markExpired_exact:
  assumes "\<not> x_dbFault X now ''gates.MarkUnresponsive'' 0" and "\<not> x_redisFault X now ''PUBLISH'' ''gate:events''"
  shows "markExpired X now w = w\<lparr>w_db := (w_db w)\<lparr>db_gates :=
             List.map (\<lambda>g. if silent now g then g\<lparr>g_Status := GateStatusUnresponsive\<rparr> else g) (db_gates (w_db w))\<rparr>,
           w_out := w_out w @ List.map (\<lambda>g. EvPublish (g_ID g) GateStatusUnresponsive None)
             (filter (silent now) (db_gates (w_db w)))\<rparr>
    \<and> markExpired X now (markExpired X now w) = markExpired X now w"
proof -
  have eq: "markExpired X now v = v\<lparr>w_db := (w_db v)\<lparr>db_gates :=
             List.map (\<lambda>g. if silent now g then g\<lparr>g_Status := GateStatusUnresponsive\<rparr> else g) (db_gates (w_db v))\<rparr>,
           w_out := w_out v @ List.map (\<lambda>g. EvPublish (g_ID g) GateStatusUnresponsive None)
             (filter (silent now) (db_gates (w_db v)))\<rparr>" for v :: "'a world"
    using assms by (simp add: markExpired_def on_db_def gates_MarkUnresponsiveWithIDs_def fold_publish DefaultGateTTL_def
        ttl_expired_silent upd_where_def comp_def)
  have calm: "\<not> silent now (g\<lparr>g_Status := GateStatusUnresponsive\<rparr>)" for g
    by (simp add: silent_def)
  have "filter (silent now) (db_gates (w_db (markExpired X now w))) = []"
    unfolding eq by (auto simp: filter_empty_conv calm)
  moreover from this have "List.map (\<lambda>g. if silent now g then g\<lparr>g_Status := GateStatusUnresponsive\<rparr> else g)
      (db_gates (w_db (markExpired X now w))) = db_gates (w_db (markExpired X now w))"
    by (auto simp: filter_empty_conv intro!: map_idI)
  ultimately have "markExpired X now (markExpired X now w) = markExpired X now w"
    by (subst eq) simp
  with eq show ?thesis by blast
qed

theorem markExpired_exact_witness:
  "let w = sample_world (empty_db\<lparr>db_gates := [(sample_gate 1)\<lparr>g_LastSeenAt := Some 0\<rparr>,
         (sample_gate 2)\<lparr>g_LastSeenAt := Some 0, g_TTLSeconds := Some 60\<rparr>]\<rparr>);
       w' = markExpired (sample_env []) (31 * Second) w
   in w_out w' = [EvPublish 1 GateStatusUnresponsive None] \<and> markExpired (sample_env []) (31 * Second) w' = w'"
proof -
  let ?w = "sample_world (empty_db\<lparr>db_gates := [(sample_gate 1)\<lparr>g_LastSeenAt := Some 0\<rparr>,
         (sample_gate 2)\<lparr>g_LastSeenAt := Some 0, g_TTLSeconds := Some 60\<rparr>]\<rparr>)"
  have h: "\<not> x_dbFault (sample_env []) (31 * Second) ''gates.MarkUnresponsive'' 0"
    "\<not> x_redisFault (sample_env []) (31 * Second) ''PUBLISH'' ''gate:events''" by simp_all
  have "w_out (markExpired (sample_env []) (31 * Second) ?w) = [EvPublish 1 GateStatusUnresponsive None]"
    by code_simp
  then show ?thesis
    unfolding Let_def using markExpired_exact [OF h, of ?w, THEN conjunct2] by (rule conjI)
qed

section \<open>Which transition fires\<close>

text \<open>A transition is due in a Redis state \<open>s\<close>.\<close>

definition fires :: "'r env \<Rightarrow> int \<Rightarrow> gate \<Rightarrow> int \<Rightarrow> 'r \<Rightarrow> status_transition \<Rightarrow> bool" where
  "fires X now g seen s t \<longleftrightarrow>
     (if g_Status g = st_From t then seen + seconds (st_AfterSeconds t) \<le> now
      else st_PersistOnChange t
        \<and> (\<exists>v armed. rd_Get (x_redis X) s now (tr_key X g t) = Some v \<and> rval_Int64 v = Some armed
             \<and> armed * 1000 + seconds (st_AfterSeconds t) \<le> now))"

lemma fires_cong:
  "rd_Get (x_redis X) s now (tr_key X g t) = rd_Get (x_redis X) s' now (tr_key X g t)
   \<Longrightarrow> fires X now g seen s t = fires X now g seen s' t"
  by (simp add: fires_def)

definition calm :: "'r env \<Rightarrow> int \<Rightarrow> bool" where
  "calm X now \<longleftrightarrow> (\<forall>cmd k. \<not> x_redisFault X now cmd k) \<and> (\<forall>op key. \<not> x_dbFault X now op key)"

lemma calmD [simp]: "calm X now \<Longrightarrow> \<not> x_redisFault X now cmd k" "calm X now \<Longrightarrow> \<not> x_dbFault X now op key"
  by (simp_all add: calm_def)

lemma due_fires: "calm X now \<Longrightarrow> fst (transition_due X now g seen t w) = fires X now g seen (w_redis w) t"
  by (auto simp: transition_due_def fires_def redis_Get_def Let_def split: option.splits)

lemma due_frame [simp]:
  "w_db (snd (transition_due X now g seen t w)) = w_db w" "w_out (snd (transition_due X now g seen t w)) = w_out w"
  by (auto simp: transition_due_def Let_def split: sum.splits option.splits)

lemma due_redis:
  assumes "calm X now"
  shows "w_redis (snd (transition_due X now g seen t w)) \<in>
    {w_redis w, rd_Del (x_redis X) (w_redis w) now (tr_key X g t),
     rd_Set (x_redis X) (w_redis w) now (tr_key X g t) (RInt (seen div 1000)) 0,
     rd_Del (x_redis X) (rd_Set (x_redis X) (w_redis w) now (tr_key X g t) (RInt (seen div 1000)) 0) now (tr_key X g t)}"
  using assms by (auto simp: transition_due_def redis_Get_def redis_Del_def redis_Set_def Let_def split: option.splits)

lemma due_other_key:
  assumes "redis_ok (x_redis X) view" and "calm X now" and "k \<noteq> tr_key X g t" and "now \<le> now'"
  shows "rd_Get (x_redis X) (w_redis (snd (transition_due X now g seen t w))) now' k = rd_Get (x_redis X) (w_redis w) now' k"
proof -
  note R = redis_store.get [OF redis_store.intro [OF assms(1)]] redis_store.view_set [OF redis_store.intro [OF assms(1)]]
    redis_store.view_del [OF redis_store.intro [OF assms(1)]]
  from due_redis [OF assms(2), of g seen t w] show ?thesis
    by (elim insertE emptyE) (simp_all add: R assms(3,4))
qed

lemma run_transitions_find:
  fixes w :: "'r world" and seen :: int
  assumes "redis_ok (x_redis X) view" and "calm X now" and "distinct (List.map (tr_key X g) ts)"
  shows "case List.find (fires X now g seen (w_redis w)) ts of
      None \<Rightarrow> w_db (run_transitions X now g seen ts w) = w_db w \<and> w_out (run_transitions X now g seen ts w) = w_out w
    | Some t \<Rightarrow> (\<forall>j. gate_row (w_db (run_transitions X now g seen ts w)) j = map_option (\<lambda>r. if j = g_ID g
          then r\<lparr>g_Status := st_To t, g_LastSeenAt := Some now,
                 g_StatusMetadata := Some (case g_StatusMetadata g of None \<Rightarrow> [] | Some m \<Rightarrow> m)\<rparr>
          else r) (gate_row (w_db w) j))
        \<and> w_out (run_transitions X now g seen ts w) = w_out w @ [EvPublish (g_ID g) (st_To t) None]"
  using assms(3)
proof (induction ts arbitrary: w)
  case Nil
  then show ?case by simp
next
  case (Cons t ts)
  obtain b w1 where d: "transition_due X now g seen t w = (b, w1)" by (cases "transition_due X now g seen t w")
  then have b: "b = fires X now g seen (w_redis w) t" using due_fires [OF assms(2), of g seen t w] by simp
  have fr: "w_db w1 = w_db w" "w_out w1 = w_out w" using d due_frame [of X now g seen t w] by simp_all
  show ?case
  proof (cases b)
    case True
    with b d fr assms(2) show ?thesis
      by (auto simp: on_db_def gates_UpdateStatus_def publishGateStatusEvent_def gate_row_upd map_option_case
          dest: gate_row_SomeD split: option.splits)
  next
    case False
    have "fires X now g seen (w_redis w1) u = fires X now g seen (w_redis w) u" if "u \<in> set ts" for u
    proof -
      from that Cons.prems have "tr_key X g u \<noteq> tr_key X g t" by (auto simp: image_iff)
      from fires_cong [OF due_other_key [OF assms(1,2) this order_refl, of seen w]] d show ?thesis by simp
    qed
    then have "List.find (fires X now g seen (w_redis w1)) ts = List.find (fires X now g seen (w_redis w)) ts"
      by (rule find_cong [OF refl])
    with Cons.IH [of w1] Cons.prems False b d fr show ?thesis by (simp split: option.splits)
  qed
qed

text \<open>
  C14: The transitions of a gate, when the database and Redis answer and the keys of its
  transitions differ: at most one transition is applied in a sweep, the first of the list that is
  due. It is due when the gate is in its source status and was last seen \<open>after_seconds\<close> ago, or,
  if it is persistent, when the gate left the status but the remembered instant is that old. The
  row then gets the target status (and a new last contact), and that status is published; when
  none is due, nothing happens.
\<close>

theorem transitions_first_due:
  fixes w :: "'r world" and seen :: int
  assumes "redis_ok (x_redis X) view" and "calm X now" and "distinct (List.map (tr_key X g) ts)"
  defines "w' \<equiv> run_transitions X now g seen ts w"
  shows "case List.find (fires X now g seen (w_redis w)) ts of
      None \<Rightarrow> w_db w' = w_db w \<and> w_out w' = w_out w
    | Some t \<Rightarrow> (\<forall>j. gate_row (w_db w') j = map_option (\<lambda>r. if j = g_ID g
          then r\<lparr>g_Status := st_To t, g_LastSeenAt := Some now,
                 g_StatusMetadata := Some (case g_StatusMetadata g of None \<Rightarrow> [] | Some m \<Rightarrow> m)\<rparr>
          else r) (gate_row (w_db w) j))
        \<and> w_out w' = w_out w @ [EvPublish (g_ID g) (st_To t) None]"
  unfolding w'_def using assms(1-3) by (rule run_transitions_find)

lemma armed_after:
  assumes "redis_ok (x_redis X) view" and "calm X now" and "distinct (List.map (tr_key X g) ts)"
    and "\<forall>u \<in> set ts. \<not> fires X now g seen (w_redis w) u"
    and "t \<in> set ts" "st_PersistOnChange t" "g_Status g = st_From t" "now \<le> now'"
  shows "rd_Get (x_redis X) (w_redis (run_transitions X now g seen ts w)) now' (tr_key X g t) = Some (RInt (seen div 1000))"
  using assms(3-7)
proof (induction ts arbitrary: w)
  case (Cons u us)
  note R = redis_store.get_set [OF redis_store.intro [OF assms(1)] assms(8)]
  obtain b w1 where d: "transition_due X now g seen u w = (b, w1)" by (cases "transition_due X now g seen u w")
  have b: "\<not> b" using due_fires [OF assms(2), of g seen u w] d Cons.prems(2) by simp
  have same: "rd_Get (x_redis X) (w_redis w1) n (tr_key X g v) = rd_Get (x_redis X) (w_redis w) n (tr_key X g v)"
    if "v \<in> set us" "now \<le> n" for v n
  proof -
    from that Cons.prems(1) have "tr_key X g v \<noteq> tr_key X g u" by (auto simp: image_iff)
    from due_other_key [OF assms(1,2) this that(2), of seen w] d show ?thesis by simp
  qed
  have nf: "\<forall>v \<in> set us. \<not> fires X now g seen (w_redis w1) v"
  proof
    fix v assume v: "v \<in> set us"
    with Cons.prems(2) have "\<not> fires X now g seen (w_redis w) v" by simp
    with fires_cong [OF same [OF v order_refl]] show "\<not> fires X now g seen (w_redis w1) v" by simp
  qed
  show ?case
  proof (cases "t \<in> set us")
    case True
    with Cons.IH [of w1] nf Cons.prems b d show ?thesis by simp
  next
    case False
    then have "t = u" using Cons.prems(3) by simp
    have keep: "rd_Get (x_redis X) (w_redis (run_transitions X now g seen vs v)) now' (tr_key X g t)
        = rd_Get (x_redis X) (w_redis v) now' (tr_key X g t)"
      if "tr_key X g t \<notin> set (List.map (tr_key X g) vs)" for vs v
      using that
    proof (induction vs arbitrary: v)
      case (Cons x xs)
      obtain c v1 where dx: "transition_due X now g seen x v = (c, v1)" by (cases "transition_due X now g seen x v")
      have "rd_Get (x_redis X) (w_redis v1) now' (tr_key X g t) = rd_Get (x_redis X) (w_redis v) now' (tr_key X g t)"
        using due_other_key [OF assms(1,2) _ assms(8), of "tr_key X g t" g x seen v] Cons.prems dx by auto
      with Cons dx assms(2) show ?case
        by (cases c) (auto simp: on_db_def gates_UpdateStatus_def)
    qed simp
    have "w_redis w1 = rd_Set (x_redis X) (w_redis w) now (tr_key X g t) (RInt (seen div 1000)) 0"
      using d b \<open>t = u\<close> Cons.prems(4,5) assms(2)
      by (auto simp: transition_due_def Let_def redis_Set_def split: if_splits)
    with keep [of us w1] Cons.prems(1) \<open>t = u\<close> b d R [of 0 "w_redis w" "tr_key X g t" "RInt (seen div 1000)"]
    show ?thesis by (auto simp: image_iff)
  qed
qed simp

text \<open>
  Persistence across a change of status: after a sweep that found the gate in the
  source status and applied nothing, a persistent transition is remembered. When the gate has
  another status at a later sweep it fires exactly once \<open>after_seconds\<close> have passed since the
  remembered contact (cut to microseconds), whatever was reported in between; a transition that
  is not persistent never fires then.
\<close>

theorem persistent_transition_armed:
  fixes w :: "'r world" and seen :: int
  assumes "redis_ok (x_redis X) view" and "calm X now" and "distinct (List.map (tr_key X g) ts)"
    and "\<forall>u \<in> set ts. \<not> fires X now g seen (w_redis w) u"
    and "t \<in> set ts" and "g_Status g = st_From t" and "now \<le> now'"
    and "g_ID g' = g_ID g" and "g_Status g' \<noteq> st_From t"
  defines "s \<equiv> w_redis (run_transitions X now g seen ts w)"
  shows "fires X now' g' seen' s t \<longleftrightarrow>
    st_PersistOnChange t \<and> seen div 1000 * 1000 + seconds (st_AfterSeconds t) \<le> now'"
proof (cases "st_PersistOnChange t")
  case True
  have "rd_Get (x_redis X) s now' (tr_key X g t) = Some (RInt (seen div 1000))"
    unfolding s_def by (rule armed_after [OF assms(1-5) True assms(6,7)])
  with True assms(8,9) show ?thesis by (simp add: fires_def rval_Int64_def)
next
  case False
  with assms(9) show ?thesis by (simp add: fires_def)
qed

text \<open>
  Long delays overflow: the validator accepts a transition after 9223372037 seconds,
  but with \<open>after_seconds\<close> between 9223372037 and 18446744073 the delay wraps to a negative
  duration, so the transition is due at once; delays up to 9223372036 are exact.
\<close>

theorem transition_delay_overflow:
  "(st_AfterSeconds t \<in> {9223372037..18446744073} \<and> g_Status g = st_From t \<and> seen \<le> now \<longrightarrow> fires X now g seen s t)
   \<and> (st_AfterSeconds t \<in> {0..9223372036} \<and> g_Status g = st_From t \<longrightarrow>
        fires X now g seen s t = (st_AfterSeconds t * Second \<le> now - seen))
   \<and> validateStatusTransitions [\<lparr>st_From = ''open'', st_To = ''closed'', st_AfterSeconds = 9223372037,
        st_PersistOnChange = False\<rparr>] [''open''] = Inr ()"
proof -
  have wrapped: "seconds n \<le> 0" if "n \<in> {9223372037..18446744073}" for n
  proof -
    have "(n * Second + 2 ^ 63) mod 2 ^ 64 = n * Second + 2 ^ 63 - 2 ^ 64"
      using that by (intro int_mod_pos_eq [where q = 1]) auto
    with that show ?thesis by (simp add: seconds_def wrap64_def)
  qed
  have "fires X now g seen s t" if "st_AfterSeconds t \<in> {9223372037..18446744073}" "g_Status g = st_From t" "seen \<le> now"
    using wrapped [OF that(1)] that(2,3) by (simp add: fires_def)
  moreover have "fires X now g seen s t = (st_AfterSeconds t * Second \<le> now - seen)"
    if "st_AfterSeconds t \<in> {0..9223372036}" "g_Status g = st_From t"
  proof -
    have "seconds (st_AfterSeconds t) = st_AfterSeconds t * Second" using that(1) by (simp add: seconds_exact)
    then show ?thesis using that(2) by (auto simp: fires_def)
  qed
  moreover have "validateStatusTransitions [\<lparr>st_From = ''open'', st_To = ''closed'', st_AfterSeconds = 9223372037,
        st_PersistOnChange = False\<rparr>] [''open''] = Inr ()"
    by code_simp
  ultimately show ?thesis by (intro conjI impI; (elim conjE)?) simp_all
qed

section \<open>Witnesses\<close>

definition sample_transition :: "bool \<Rightarrow> status_transition" where
  "sample_transition persist = \<lparr>st_From = ''open'', st_To = ''closed'', st_AfterSeconds = 10, st_PersistOnChange = persist\<rparr>"

definition open_gate :: gate where
  "open_gate = (sample_gate 1)\<lparr>g_Status := ''open'', g_LastSeenAt := Some 0\<rparr>"

lemma sample_calm: "calm (sample_env tbl) now"
  by (simp add: calm_def)

theorem transitions_first_due_witness:
  "w_out (run_transitions (sample_env []) (10 * Second) open_gate 0 [sample_transition False]
      (sample_world (empty_db\<lparr>db_gates := [open_gate]\<rparr>))) = [EvPublish 1 ''closed'' None]"
proof -
  let ?X = "sample_env []" and ?w = "sample_world (empty_db\<lparr>db_gates := [open_gate]\<rparr>)"
  have "List.find (fires ?X (10 * Second) open_gate 0 (w_redis ?w)) [sample_transition False] = Some (sample_transition False)"
    by (simp add: fires_def open_gate_def sample_transition_def seconds_exact)
  with transitions_first_due [where ts = "[sample_transition False]" and g = open_gate and w = ?w and seen = 0,
      OF sample_redis_ok [of "[]"] sample_calm [of "[]" "10 * Second"]]
  show ?thesis by (simp add: open_gate_def sample_gate_def sample_transition_def)
qed

theorem persistent_transition_armed_witness:
  "let s = w_redis (run_transitions (sample_env []) (5 * Second) open_gate 0 [sample_transition True] (sample_world empty_db));
       g = open_gate\<lparr>g_Status := ''unavailable''\<rparr>
   in \<not> fires (sample_env []) (9 * Second) g 0 s (sample_transition True)
      \<and> fires (sample_env []) (10 * Second) g 0 s (sample_transition True)"
proof -
  let ?X = "sample_env []" and ?w = "sample_world empty_db" and ?t = "sample_transition True"
  let ?g = "open_gate\<lparr>g_Status := ''unavailable''\<rparr>"
  have "\<forall>u \<in> set [?t]. \<not> fires ?X (5 * Second) open_gate 0 (w_redis ?w) u"
    by (simp add: fires_def open_gate_def sample_transition_def seconds_exact)
  note armed = persistent_transition_armed [where ts = "[?t]" and g = open_gate and w = ?w and seen = 0 and g' = ?g and t = ?t,
      OF sample_redis_ok [of "[]"] sample_calm [of "[]" "5 * Second"] _ this]
  have f: "fires ?X now' ?g 0 (w_redis (run_transitions ?X (5 * Second) open_gate 0 [?t] ?w)) ?t = (10 * Second \<le> now')"
    if "5 * Second \<le> now'" for now'
    using armed [of now' 0] that by (simp add: open_gate_def sample_transition_def seconds_exact)
  show ?thesis using f [of "9 * Second"] f [of "10 * Second"] by (simp add: Let_def)
qed

theorem transition_delay_overflow_witness:
  "fires (sample_env []) 0 open_gate 0 [] ((sample_transition False)\<lparr>st_AfterSeconds := 9223372037\<rparr>)
   \<and> \<not> fires (sample_env []) 0 open_gate 0 [] ((sample_transition False)\<lparr>st_AfterSeconds := 9223372036\<rparr>)"
proof -
  note o1 = transition_delay_overflow [of "(sample_transition False)\<lparr>st_AfterSeconds := 9223372037\<rparr>" open_gate 0 0 "sample_env []" "[]"]
  note o2 = transition_delay_overflow [of "(sample_transition False)\<lparr>st_AfterSeconds := 9223372036\<rparr>" open_gate 0 0 "sample_env []" "[]"]
  show ?thesis using o1 o2 by (simp add: open_gate_def sample_transition_def)
qed

end
