(* ===== verification/Webhook_Worker.thy ===== *)
theory Webhook_Worker
  imports Http_Client "HOL-Library.Multiset"
begin

text \<open>
  \<open>internal/service/gate_webhook_worker.go\<close>: one sweep of the webhook poller. The gates that are
  due are polled concurrently; a poll only touches the row of its own gate, so the model runs
  the polls one after another in any order, and \<open>pollAll_order_independent\<close> shows that the
  order does not matter. \<open>x_http\<close> gives the answer to each attempt, \<open>x_cancelled\<close> tells whether
  the context ends while waiting before an attempt. A sweep has one instant.
\<close>

definition poll_interval :: "gate \<Rightarrow> int" where
  "poll_interval gate = (case g_StatusConfig gate of
      None \<Rightarrow> seconds 60
    | Some sc \<Rightarrow> (case map_of (ac_Config sc) ''interval_seconds'' of
          Some (VNum f) \<Rightarrow> seconds (f64_to_int f)
        | Some (VInt n) \<Rightarrow> seconds n
        | _ \<Rightarrow> seconds 60))"

definition isDue :: "int \<Rightarrow> gate \<Rightarrow> bool" where
  "isDue now gate = (case g_LastSeenAt gate of
      None \<Rightarrow> True
    | Some seen \<Rightarrow> poll_interval gate \<le> now - seen)"

definition fetchJSON :: "'r env \<Rightarrow> int \<Rightarrow> nat \<Rightarrow> string \<Rightarrow> string \<Rightarrow> (string \<times> string) list \<Rightarrow> string
    \<Rightarrow> status_code_range list \<Rightarrow> gmap res" where
  "fetchJSON X now attempt method url headers body successRanges =
     (case NewRequest X method url body of
        Inl e \<Rightarrow> Inl (wrap ''build request'' e)
      | Inr req \<Rightarrow>
          (case x_http X now attempt (set_headers headers body req) of
             Inl e \<Rightarrow> Inl (wrap ''request'' e)
           | Inr resp \<Rightarrow>
               if \<not> IsSuccessStatus (hp_Status resp) successRanges
               then Inl (Errorf ''server returned %d'' [AInt (hp_Status resp)])
               else case hp_Body resp of
                 Some (VObj m) \<Rightarrow> Inr m
               | Some VNull \<Rightarrow> Inr []
               | _ \<Rightarrow> Inl (wrap ''decode JSON response'' (ErrExternal ''json''))))"

text \<open>
  The retry loop, from attempt number \<open>attempt\<close> with \<open>left\<close> attempts to go; \<open>fetch\<close> performs
  one attempt.
\<close>

fun retry_loop :: "(nat \<Rightarrow> 'a res) \<Rightarrow> (nat \<Rightarrow> bool) \<Rightarrow> nat \<Rightarrow> nat \<Rightarrow> err \<Rightarrow> 'a res + err" where
  "retry_loop fetch cancelled attempt 0 lastErr = Inr lastErr"
| "retry_loop fetch cancelled attempt (Suc left) lastErr =
     (if 0 < attempt \<and> cancelled attempt then Inl (Inl (ErrExternal ''context''))
      else case fetch attempt of
        Inr result \<Rightarrow> Inl (Inr result)
      | Inl e \<Rightarrow> retry_loop fetch cancelled (Suc attempt) left e)"

definition fetchWithRetry :: "'r env \<Rightarrow> int \<Rightarrow> string \<Rightarrow> string \<Rightarrow> (string \<times> string) list \<Rightarrow> string
    \<Rightarrow> status_code_range list \<Rightarrow> gmap res" where
  "fetchWithRetry X now method url headers body successRanges =
     (case retry_loop (\<lambda>a. fetchJSON X now a method url headers body successRanges) (x_cancelled X now)
             0 (nat (cf_maxRetries X + 1)) (ErrExternal ''nil'') of
        Inl r \<Rightarrow> r
      | Inr lastErr \<Rightarrow> Inl (Wrapf ''all %d attempts failed: %w'' [AInt (cf_maxRetries X + 1)] lastErr))"

text \<open>\<open>ListWebhookGates\<close> only returns gates with a status configuration.\<close>

definition pollGate :: "'r env \<Rightarrow> int \<Rightarrow> gate \<Rightarrow> 'r world \<Rightarrow> 'r world" where
  "pollGate X now gate w =
     (case g_StatusConfig gate of
        None \<Rightarrow> w
      | Some sc \<Rightarrow>
          (let cfg = ac_Config sc; url = str_field cfg ''url''
           in if url = [] then w
              else case ExtractPayloadMapping cfg of
                None \<Rightarrow> w
              | Some mapping \<Rightarrow>
                  (case fetchWithRetry X now (config_method ''GET'' cfg) url (config_headers cfg)
                          (str_field cfg ''body'') (ExtractSuccessStatusCodes cfg) of
                     Inl _ \<Rightarrow> w
                   | Inr raw \<Rightarrow>
                       (case ApplyMapping mapping raw of
                          Inl _ \<Rightarrow> w
                        | Inr status \<Rightarrow>
                            snd (ProcessGateStatus X now gate status (ExtractMeta (g_MetaConfig gate) raw) w)))))"

definition due_gates :: "'r env \<Rightarrow> int \<Rightarrow> db \<Rightarrow> gate list" where
  "due_gates X now d = (case gates_ListWebhookGates (x_dbFault X now) d of
      Inl _ \<Rightarrow> []
    | Inr gates \<Rightarrow> filter (isDue now) gates)"

definition pollAll :: "'r env \<Rightarrow> int \<Rightarrow> 'r world \<Rightarrow> 'r world" where
  "pollAll X now w = fold (pollGate X now) (due_gates X now (w_db w)) w"

section \<open>Retries\<close>

text \<open>The attempts before the first success fail and the loop is not cancelled on the way.\<close>

definition first_success :: "(nat \<Rightarrow> 'a res) \<Rightarrow> (nat \<Rightarrow> bool) \<Rightarrow> nat \<Rightarrow> nat \<Rightarrow> 'a \<Rightarrow> bool" where
  "first_success fetch cancelled from n a \<longleftrightarrow> (\<exists>k < n. fetch (from + k) = Inr a
     \<and> (\<forall>j < k. \<not> is_ok (fetch (from + j))) \<and> (\<forall>j \<le> k. 0 < from + j \<longrightarrow> \<not> cancelled (from + j)))"

lemma first_success_Suc:
  "first_success fetch cancelled i (Suc n) a \<longleftrightarrow> \<not> (0 < i \<and> cancelled i) \<and>
     (case fetch i of Inr b \<Rightarrow> b = a | Inl _ \<Rightarrow> first_success fetch cancelled (Suc i) n a)"
proof -
  have split_le: "(\<forall>j \<le> Suc k. P j) \<longleftrightarrow> P 0 \<and> (\<forall>j \<le> k. P (Suc j))" for P :: "nat \<Rightarrow> bool" and k
    by (metis Suc_le_mono not0_implies_Suc zero_le)
  show ?thesis
    unfolding first_success_def Ex_less_Suc2 split_le All_less_Suc2
    by (cases "fetch i") auto
qed

lemma retry_loop_success:
  "retry_loop fetch cancelled i n e = Inl (Inr a) \<longleftrightarrow> first_success fetch cancelled i n a"
proof (induction n arbitrary: i e)
  case 0
  then show ?case by (simp add: first_success_def)
next
  case (Suc n)
  then show ?case by (auto simp: first_success_Suc split: sum.split)
qed

text \<open>
  C17: The webhook retry loop, for any number of configured retries: it returns a payload
  exactly when one of its at most \<open>maxRetries + 1\<close> attempts succeeds before the context is
  cancelled, and the payload is that of the first success; otherwise it returns an error. It
  always ends.
\<close>

theorem fetchWithRetry_first_success:
  "fetchWithRetry X now m u hs b rs = Inr payload \<longleftrightarrow>
     first_success (\<lambda>a. fetchJSON X now a m u hs b rs) (x_cancelled X now) 0 (nat (cf_maxRetries X + 1)) payload"
proof -
  let ?loop = "retry_loop (\<lambda>a. fetchJSON X now a m u hs b rs) (x_cancelled X now) 0 (nat (cf_maxRetries X + 1)) (ErrExternal ''nil'')"
  have "fetchWithRetry X now m u hs b rs = Inr payload \<longleftrightarrow> ?loop = Inl (Inr payload)"
    by (auto simp: fetchWithRetry_def split: sum.splits)
  then show ?thesis by (simp add: retry_loop_success)
qed

section \<open>Polls do not interfere\<close>

text \<open>What a poll stores and publishes does not depend on the state it runs in.\<close>

definition poll_outcome :: "'r env \<Rightarrow> int \<Rightarrow> gate \<Rightarrow> (string \<times> gmap option) option" where
  "poll_outcome X now gate = (case g_StatusConfig gate of
      None \<Rightarrow> None
    | Some sc \<Rightarrow>
        (if str_field (ac_Config sc) ''url'' = [] then None
         else case ExtractPayloadMapping (ac_Config sc) of
           None \<Rightarrow> None
         | Some mapping \<Rightarrow>
             (case fetchWithRetry X now (config_method ''GET'' (ac_Config sc)) (str_field (ac_Config sc) ''url'')
                 (config_headers (ac_Config sc)) (str_field (ac_Config sc) ''body'') (ExtractSuccessStatusCodes (ac_Config sc)) of
                Inl _ \<Rightarrow> None
              | Inr raw \<Rightarrow>
                  (case ApplyMapping mapping raw of
                     Inl _ \<Rightarrow> None
                   | Inr status \<Rightarrow> Some (status, ExtractMeta (g_MetaConfig gate) raw)))))"

lemma pollGate_outcome:
  "pollGate X now gate w = (case poll_outcome X now gate of
     None \<Rightarrow> w | Some (s, meta) \<Rightarrow> snd (ProcessGateStatus X now gate s meta w))"
  by (auto simp: pollGate_def poll_outcome_def Let_def split: option.splits sum.splits)

definition final_status :: "gate \<Rightarrow> string \<Rightarrow> gmap option \<Rightarrow> string" where
  "final_status gate s meta = (case EvaluateStatusRules (g_StatusRules gate) (case meta of None \<Rightarrow> [] | Some m \<Rightarrow> m) of
     Some override \<Rightarrow> override | None \<Rightarrow> s)"

text \<open>The observable part of the world: the events as a multiset.\<close>

type_synonym 'r observation = "db \<times> 'r \<times> event multiset"

definition observe :: "'r world \<Rightarrow> 'r observation" where
  "observe w = (w_db w, w_redis w, mset (w_out w))"

definition store_status :: "int \<Rightarrow> gate \<Rightarrow> string \<Rightarrow> gmap option \<Rightarrow> db \<Rightarrow> db" where
  "store_status now gate s meta d = d\<lparr>db_gates := upd_where (\<lambda>r. g_ID r = g_ID gate)
     (\<lambda>r. r\<lparr>g_Status := s, g_LastSeenAt := Some now,
        g_StatusMetadata := Some (case meta of None \<Rightarrow> [] | Some m \<Rightarrow> m)\<rparr>) (db_gates d)\<rparr>"

definition poll_step :: "'r env \<Rightarrow> int \<Rightarrow> gate \<Rightarrow> 'r observation \<Rightarrow> 'r observation" where
  "poll_step X now gate = (\<lambda>(d, r, evs). case poll_outcome X now gate of
      None \<Rightarrow> (d, r, evs)
    | Some (s, meta) \<Rightarrow>
        if x_dbFault X now ''gates.UpdateStatus'' (g_ID gate) then (d, r, evs)
        else (store_status now gate (final_status gate s meta) meta d, r,
          if x_redisFault X now ''PUBLISH'' ''gate:events'' then evs
          else add_mset (EvPublish (g_ID gate) (final_status gate s meta) meta) evs))"

lemma observe_pollGate: "observe (pollGate X now gate w) = poll_step X now gate (observe w)"
proof (cases "poll_outcome X now gate")
  case None
  then show ?thesis by (simp add: pollGate_outcome poll_step_def observe_def)
next
  case (Some p)
  obtain s meta where p: "p = (s, meta)" by (cases p)
  have "w\<lparr>w_db := w_db w\<rparr> = w" by simp
  with Some p show ?thesis
    by (simp add: pollGate_outcome poll_step_def observe_def ProcessGateStatus_def on_db_def gates_UpdateStatus_def
        publishGateStatusEvent_def store_status_def final_status_def [symmetric] Let_def)
qed

lemma observe_fold: "observe (fold (pollGate X now) gs w) = fold (poll_step X now) gs (observe w)"
  by (induction gs arbitrary: w) (simp_all add: observe_pollGate)

lemma upd_where_commute:
  assumes "\<And>r. P r \<Longrightarrow> \<not> Q r" and "\<And>r. P (f r) = P r" "\<And>r. Q (f r) = Q r" "\<And>r. P (h r) = P r" "\<And>r. Q (h r) = Q r"
  shows "upd_where P f (upd_where Q h rows) = upd_where Q h (upd_where P f rows)"
  using assms by (induction rows) auto

lemma store_status_commute:
  "g_ID a \<noteq> g_ID b \<Longrightarrow> store_status now a s m (store_status now b t n d) = store_status now b t n (store_status now a s m d)"
  unfolding store_status_def by (simp add: upd_where_commute [where P = "\<lambda>r. g_ID r = g_ID a"])

lemma poll_step_commute: "g_ID a \<noteq> g_ID b \<Longrightarrow> poll_step X now a \<circ> poll_step X now b = poll_step X now b \<circ> poll_step X now a"
  by (auto simp: fun_eq_iff poll_step_def store_status_commute add_mset_commute split: option.splits)

lemma poll_steps_commute:
  assumes "distinct (List.map g_ID gs)" and "a \<in> set gs" and "b \<in> set gs"
  shows "poll_step X now a \<circ> poll_step X now b = poll_step X now b \<circ> poll_step X now a"
proof (cases "a = b")
  case False
  with assms have "g_ID a \<noteq> g_ID b" by (auto simp: distinct_map dest: inj_onD)
  then show ?thesis by (rule poll_step_commute)
qed simp

lemma due_gates_distinct: "db_wf d \<Longrightarrow> distinct (List.map g_ID (due_gates X now d))"
proof -
  assume "db_wf d"
  then have d: "distinct (List.map g_ID (db_gates d))" by (simp add: db_wfD)
  have "g_ID \<circ> scanGate = g_ID" by (simp add: fun_eq_iff)
  with d show ?thesis
    by (auto simp: due_gates_def gates_ListWebhookGates_def distinct_map_filter split: sum.splits if_splits)
qed

text \<open>
  The concurrent polls of a sweep do not interfere: whatever order the goroutines
  finish in, the rows of all tables and the Redis state are the same as in \<open>pollAll\<close>, and the
  same status events are published.
\<close>

theorem pollAll_order_independent:
  assumes "db_wf (w_db w)" and "mset order = mset (due_gates X now (w_db w))"
  shows "observe (fold (pollGate X now) order w) = observe (pollAll X now w)"
proof -
  have "distinct (List.map g_ID order)"
    using due_gates_distinct [OF assms(1)] mset_eq_imp_distinct_iff [of "List.map g_ID order"] assms(2)
    by (metis mset_map)
  then have "fold (poll_step X now) order = fold (poll_step X now) (due_gates X now (w_db w))"
    using assms(2) by (intro fold_multiset_equiv poll_steps_commute)
  then show ?thesis by (simp add: observe_fold pollAll_def)
qed

definition sample_webhook_gate :: "uuid \<Rightarrow> gate" where
  "sample_webhook_gate i = (sample_gate i)\<lparr>g_StatusConfig := Some \<lparr>ac_Type = DriverTypeHTTPWebhook, ac_Config = [(''url'', VStr ''https://gate''),
       (''mapping'', VObj [(''status'', VObj [(''field'', VStr ''state''), (''values'', VObj [(''up'', VStr ''open'')])])])]\<rparr>\<rparr>"

definition sample_webhook_world :: "kv world" where
  "sample_webhook_world = sample_world (empty_db\<lparr>db_gates := [sample_webhook_gate 1, sample_webhook_gate 2]\<rparr>)"

theorem pollAll_order_independent_witness:
  "let gs = [scanGate (sample_webhook_gate 2), scanGate (sample_webhook_gate 1)]; w = sample_webhook_world
   in observe (fold (pollGate (sample_env []) 7) gs w) = observe (pollAll (sample_env []) 7 w)
     \<and> w_out (fold (pollGate (sample_env []) 7) gs w) = [EvPublish 2 ''open'' None, EvPublish 1 ''open'' None]
     \<and> w_out (pollAll (sample_env []) 7 w) = [EvPublish 1 ''open'' None, EvPublish 2 ''open'' None]"
proof -
  let ?w = sample_webhook_world
  have d: "due_gates (sample_env []) 7 (w_db ?w) = [scanGate (sample_webhook_gate 1), scanGate (sample_webhook_gate 2)]"
    by code_simp
  have "db_wf (w_db ?w)" by code_simp
  moreover have "mset [scanGate (sample_webhook_gate 2), scanGate (sample_webhook_gate 1)] = mset (due_gates (sample_env []) 7 (w_db ?w))"
    unfolding d by simp
  ultimately have "observe (fold (pollGate (sample_env []) 7) [scanGate (sample_webhook_gate 2), scanGate (sample_webhook_gate 1)] ?w)
      = observe (pollAll (sample_env []) 7 ?w)"
    by (rule pollAll_order_independent)
  moreover have "w_out (fold (pollGate (sample_env []) 7) [scanGate (sample_webhook_gate 2), scanGate (sample_webhook_gate 1)] ?w)
      = [EvPublish 2 ''open'' None, EvPublish 1 ''open'' None]"
    by code_simp
  moreover have "w_out (pollAll (sample_env []) 7 ?w) = [EvPublish 1 ''open'' None, EvPublish 2 ''open'' None]"
    by code_simp
  ultimately show ?thesis by (simp add: Let_def)
qed

end
