(* ===== verification/Api.thy ===== *)
theory Api
  imports Sso Device_Ingress Ttl_Worker Webhook_Worker
begin

text \<open>
  The HTTP API as one step function: the calls of all \<open>RegisterRoutes\<close> functions of
  \<open>internal/handler\<close> with their decoded inputs, the guards of each route, and \<open>serve\<close>, which runs
  the middlewares in the order of \<open>cmd/server/main.go\<close> and then the handler. The answer is
  reduced to its status: the bodies are the values of the handlers. The health check and the
  event stream have no call here.
\<close>

section \<open>Calls\<close>

datatype setup_call =
    SetupStatus
  | SetupInit string string "string option"

datatype auth_call =
    AuthLogin string string
  | AuthRefresh string
  | AuthLogout string
  | AuthMe

datatype gate_call =
    GateList pagination
  | GateCreate create_gate_params
  | GateGet uuid
  | GateUpdate uuid update_gate_params
  | GateDelete uuid
  | GateTrigger uuid string
  | GateGetToken uuid
  | GateRotateToken uuid

datatype policy_call =
    PolicyListMine pagination
  | PolicyList uuid pagination
  | PolicyListByMember uuid pagination
  | PolicyGrant uuid uuid string
  | PolicyRevoke uuid uuid
  | PolicyRevokePermission uuid uuid string
  | PolicyGetSchedule uuid uuid
  | PolicySetSchedule uuid uuid uuid
  | PolicyRemoveSchedule uuid uuid

datatype member_call =
    MemberCreate string "string option" string string
  | MemberList pagination
  | MemberGet uuid
  | MemberUpdate uuid "string option" "string option" "string option"
  | MemberDelete uuid

datatype pin_call =
    PinCreate uuid create_pin_params
  | PinList uuid pagination
  | PinUpdate uuid uuid "string option" gmap
  | PinDelete uuid uuid
  | PinSetSchedule uuid uuid uuid
  | PinClearSchedule uuid uuid
  | PublicUnlock uuid string
  | PublicOpen uuid string
  | PublicTrigger string string

datatype schedule_call =
    ScheduleCreate string "string option" "expr_node option"
  | ScheduleList pagination
  | ScheduleGet uuid
  | ScheduleUpdate uuid string "string option" "expr_node option"
  | ScheduleDelete uuid
  | ScheduleCreateMine string "string option" "expr_node option"
  | ScheduleListMine pagination
  | ScheduleGetMine uuid
  | ScheduleUpdateMine uuid string "string option" "expr_node option"
  | ScheduleDeleteMine uuid

datatype sso_call =
    SsoProviders
  | SsoAuthorize string string
  | SsoCallback string string string string
  | SsoExchange string
  | SsoSettings

datatype credential_call =
    CredListMine pagination
  | CredCreateMine string "int option" "(uuid \<times> string) list" "uuid option"
  | CredDeleteMine uuid
  | CredChangePassword string string
  | CredAdminList uuid pagination
  | CredAdminCreate uuid string "int option"
  | CredAdminDelete uuid uuid
  | CredAdminSetPassword uuid string

datatype domain_call =
    DomainAdd uuid string
  | DomainList uuid pagination
  | DomainDelete uuid uuid
  | DomainVerify uuid uuid
  | DomainVerifyPublic string
  | DomainResolve string
  | DomainListPublic
  | GateResolve uuid

datatype inbound_call =
    InboundStatus gmap

datatype api_call =
    SetupCall setup_call
  | AuthCall auth_call
  | GateCall gate_call
  | PolicyCall policy_call
  | MemberCall member_call
  | PinCall pin_call
  | ScheduleCall schedule_call
  | SsoCall sso_call
  | CredCall credential_call
  | DomainCall domain_call
  | InboundCall inbound_call

section \<open>Guards\<close>

datatype guard = Auth | Admin | GateManagerOnly | AdminOrManager | RateLimit string int int

definition auth_routes :: "auth_call \<Rightarrow> guard list" where
  "auth_routes call = (case call of
      AuthLogin _ _ \<Rightarrow> [RateLimit ''auth'' 10 (10 * Minute)] | AuthMe \<Rightarrow> [Auth] | _ \<Rightarrow> [])"

definition gate_routes :: "gate_call \<Rightarrow> guard list" where
  "gate_routes call = (case call of
      GateList _ \<Rightarrow> [Auth] | GateCreate _ \<Rightarrow> [Admin] | GateGet _ \<Rightarrow> [Auth] | GateUpdate _ _ \<Rightarrow> [Auth, GateManagerOnly]
    | GateDelete _ \<Rightarrow> [Admin] | GateTrigger _ _ \<Rightarrow> [Auth] | GateGetToken _ \<Rightarrow> [Admin] | GateRotateToken _ \<Rightarrow> [Admin])"

definition policy_routes :: "policy_call \<Rightarrow> guard list" where
  "policy_routes call = (case call of
      PolicyListMine _ \<Rightarrow> [Auth] | PolicyList _ _ \<Rightarrow> [Auth, GateManagerOnly] | PolicyListByMember _ _ \<Rightarrow> [Admin]
    | PolicyGrant _ _ _ \<Rightarrow> [Auth, GateManagerOnly] | PolicyRevoke _ _ \<Rightarrow> [Auth, GateManagerOnly]
    | PolicyRevokePermission _ _ _ \<Rightarrow> [Auth, GateManagerOnly] | PolicyGetSchedule _ _ \<Rightarrow> [Auth, GateManagerOnly]
    | PolicySetSchedule _ _ _ \<Rightarrow> [Auth, GateManagerOnly] | PolicyRemoveSchedule _ _ \<Rightarrow> [Auth, GateManagerOnly])"

definition member_routes :: "member_call \<Rightarrow> guard list" where
  "member_routes call = (case call of
      MemberCreate _ _ _ _ \<Rightarrow> [Admin] | MemberList _ \<Rightarrow> [Admin] | MemberGet _ \<Rightarrow> [Admin] | MemberUpdate _ _ _ _ \<Rightarrow> [Admin]
    | MemberDelete _ \<Rightarrow> [Admin])"

definition pin_routes :: "pin_call \<Rightarrow> guard list" where
  "pin_routes call = (case call of
      PinCreate _ _ \<Rightarrow> [Auth, GateManagerOnly] | PinList _ _ \<Rightarrow> [Auth, GateManagerOnly] | PinUpdate _ _ _ _ \<Rightarrow> [Auth, GateManagerOnly]
    | PinDelete _ _ \<Rightarrow> [Auth, GateManagerOnly] | PinSetSchedule _ _ _ \<Rightarrow> [Auth, GateManagerOnly]
    | PinClearSchedule _ _ \<Rightarrow> [Auth, GateManagerOnly] | _ \<Rightarrow> [])"

definition schedule_routes :: "schedule_call \<Rightarrow> guard list" where
  "schedule_routes call = (case call of
      ScheduleCreate _ _ _ \<Rightarrow> [Admin] | ScheduleList _ \<Rightarrow> [AdminOrManager] | ScheduleGet _ \<Rightarrow> [AdminOrManager]
    | ScheduleUpdate _ _ _ _ \<Rightarrow> [Admin] | ScheduleDelete _ \<Rightarrow> [Admin] | ScheduleCreateMine _ _ _ \<Rightarrow> [Auth]
    | ScheduleListMine _ \<Rightarrow> [Auth] | ScheduleGetMine _ \<Rightarrow> [Auth] | ScheduleUpdateMine _ _ _ _ \<Rightarrow> [Auth]
    | ScheduleDeleteMine _ \<Rightarrow> [Auth])"

definition sso_routes :: "sso_call \<Rightarrow> guard list" where
  "sso_routes call = (case call of
      SsoExchange _ \<Rightarrow> [RateLimit ''sso-exchange'' 10 (10 * Minute)] | SsoSettings \<Rightarrow> [Admin] | _ \<Rightarrow> [])"

definition credential_routes :: "credential_call \<Rightarrow> guard list" where
  "credential_routes call = (case call of
      CredListMine _ \<Rightarrow> [Auth] | CredCreateMine _ _ _ _ \<Rightarrow> [Auth] | CredDeleteMine _ \<Rightarrow> [Auth] | CredChangePassword _ _ \<Rightarrow> [Auth]
    | CredAdminList _ _ \<Rightarrow> [Admin] | CredAdminCreate _ _ _ \<Rightarrow> [Admin] | CredAdminDelete _ _ \<Rightarrow> [Admin]
    | CredAdminSetPassword _ _ \<Rightarrow> [Admin])"

definition domain_routes :: "domain_call \<Rightarrow> guard list" where
  "domain_routes call = (case call of
      DomainAdd _ _ \<Rightarrow> [Auth, GateManagerOnly] | DomainList _ _ \<Rightarrow> [Auth, GateManagerOnly]
    | DomainDelete _ _ \<Rightarrow> [Auth, GateManagerOnly] | DomainVerify _ _ \<Rightarrow> [Auth, GateManagerOnly] | _ \<Rightarrow> [])"

definition route_guards :: "api_call \<Rightarrow> guard list" where
  "route_guards call = (case call of
      AuthCall c \<Rightarrow> auth_routes c | GateCall c \<Rightarrow> gate_routes c | PolicyCall c \<Rightarrow> policy_routes c
    | MemberCall c \<Rightarrow> member_routes c | PinCall c \<Rightarrow> pin_routes c | ScheduleCall c \<Rightarrow> schedule_routes c
    | SsoCall c \<Rightarrow> sso_routes c | CredCall c \<Rightarrow> credential_routes c | DomainCall c \<Rightarrow> domain_routes c
    | SetupCall _ \<Rightarrow> [] | InboundCall _ \<Rightarrow> [])"

text \<open>The gate in the path of a call.\<close>

definition call_gate :: "api_call \<Rightarrow> uuid option" where
  "call_gate call = (case call of
      GateCall c \<Rightarrow> (case c of GateGet g \<Rightarrow> Some g | GateUpdate g _ \<Rightarrow> Some g | GateDelete g \<Rightarrow> Some g | GateTrigger g _ \<Rightarrow> Some g
        | GateGetToken g \<Rightarrow> Some g | GateRotateToken g \<Rightarrow> Some g | _ \<Rightarrow> None)
    | PolicyCall c \<Rightarrow> (case c of PolicyList g _ \<Rightarrow> Some g | PolicyGrant g _ _ \<Rightarrow> Some g | PolicyRevoke g _ \<Rightarrow> Some g
        | PolicyRevokePermission g _ _ \<Rightarrow> Some g | PolicyGetSchedule g _ \<Rightarrow> Some g | PolicySetSchedule g _ _ \<Rightarrow> Some g
        | PolicyRemoveSchedule g _ \<Rightarrow> Some g | _ \<Rightarrow> None)
    | PinCall c \<Rightarrow> (case c of PinCreate g _ \<Rightarrow> Some g | PinList g _ \<Rightarrow> Some g | PinUpdate g _ _ _ \<Rightarrow> Some g
        | PinDelete g _ \<Rightarrow> Some g | PinSetSchedule g _ _ \<Rightarrow> Some g | PinClearSchedule g _ \<Rightarrow> Some g | _ \<Rightarrow> None)
    | DomainCall c \<Rightarrow> (case c of DomainAdd g _ \<Rightarrow> Some g | DomainList g _ \<Rightarrow> Some g | DomainDelete g _ \<Rightarrow> Some g
        | DomainVerify g _ \<Rightarrow> Some g | GateResolve g \<Rightarrow> Some g | _ \<Rightarrow> None)
    | _ \<Rightarrow> None)"

definition run_guard :: "'r env \<Rightarrow> int \<Rightarrow> request \<Rightarrow> req_ctx \<Rightarrow> guard \<Rightarrow> 'r world \<Rightarrow> unit hres \<times> 'r world" where
  "run_guard X now rq cx g w = (case g of
      Auth \<Rightarrow> (RequireAuth cx, w)
    | Admin \<Rightarrow> (RequireAdmin cx, w)
    | GateManagerOnly \<Rightarrow> (GateManager X now rq (w_db w) cx, w)
    | AdminOrManager \<Rightarrow> (AdminOrGateManager X now (w_db w) cx, w)
    | RateLimit prefix n d \<Rightarrow> RateLimiter X now prefix n d cx w)"

fun run_guards :: "'r env \<Rightarrow> int \<Rightarrow> request \<Rightarrow> req_ctx \<Rightarrow> guard list \<Rightarrow> 'r world \<Rightarrow> unit hres \<times> 'r world" where
  "run_guards X now rq cx [] w = (Inr (), w)"
| "run_guards X now rq cx (g # gs) w = hbind (run_guard X now rq cx g w) (\<lambda>_ w. run_guards X now rq cx gs w)"

section \<open>Handling a call\<close>

definition status :: "'a hres \<times> 'w \<Rightarrow> unit hres \<times> 'w" where
  "status r = (map_sum id (\<lambda>_. ()) (fst r), snd r)"

definition query :: "'a hres \<Rightarrow> 'w \<Rightarrow> unit hres \<times> 'w" where
  "query r w = (map_sum id (\<lambda>_. ()) r, w)"

definition redirected :: "redirect \<times> 'w \<Rightarrow> unit hres \<times> 'w" where
  "redirected r = (Inr (), snd r)"

fun handle_setup :: "'r env \<Rightarrow> int \<Rightarrow> request \<Rightarrow> req_ctx \<Rightarrow> setup_call \<Rightarrow> 'r world \<Rightarrow> unit hres \<times> 'r world" where
  "handle_setup X now rq cx SetupStatus w = query (setup_status X now w) w"
| "handle_setup X now rq cx (SetupInit u p n) w = status (setup_init X now u p n w)"

fun handle_auth :: "'r env \<Rightarrow> int \<Rightarrow> request \<Rightarrow> req_ctx \<Rightarrow> auth_call \<Rightarrow> 'r world \<Rightarrow> unit hres \<times> 'r world" where
  "handle_auth X now rq cx (AuthLogin u p) w = status (h_Login X now u p w)"
| "handle_auth X now rq cx (AuthRefresh c) w = status (h_Refresh X now c w)"
| "handle_auth X now rq cx (AuthLogout c) w = status (h_Logout X now c w)"
| "handle_auth X now rq cx AuthMe w = query (h_Me X now cx w) w"

fun handle_gate :: "'r env \<Rightarrow> int \<Rightarrow> request \<Rightarrow> req_ctx \<Rightarrow> gate_call \<Rightarrow> 'r world \<Rightarrow> unit hres \<times> 'r world" where
  "handle_gate X now rq cx (GateList q) w = query (h_gate_List X now cx q w) w"
| "handle_gate X now rq cx (GateCreate b) w = status (h_gate_Create X now b w)"
| "handle_gate X now rq cx (GateGet g) w = query (h_gate_Get X now cx g w) w"
| "handle_gate X now rq cx (GateUpdate g b) w = status (h_gate_Update X now g b w)"
| "handle_gate X now rq cx (GateDelete g) w = h_gate_Delete X now g w"
| "handle_gate X now rq cx (GateTrigger g a) w = h_gate_Trigger X now cx g a w"
| "handle_gate X now rq cx (GateGetToken g) w = query (h_gate_GetToken X now g w) w"
| "handle_gate X now rq cx (GateRotateToken g) w = status (h_gate_RotateToken X now g w)"

fun handle_policy :: "'r env \<Rightarrow> int \<Rightarrow> request \<Rightarrow> req_ctx \<Rightarrow> policy_call \<Rightarrow> 'r world \<Rightarrow> unit hres \<times> 'r world" where
  "handle_policy X now rq cx (PolicyListMine q) w = query (h_policy_ListMine X now cx q w) w"
| "handle_policy X now rq cx (PolicyList g q) w = query (h_policy_List X now g q w) w"
| "handle_policy X now rq cx (PolicyListByMember m q) w = query (h_policy_ListByMember X now m q w) w"
| "handle_policy X now rq cx (PolicyGrant g m c) w = h_policy_Grant X now g m c w"
| "handle_policy X now rq cx (PolicyRevoke g m) w = h_policy_Revoke X now g m w"
| "handle_policy X now rq cx (PolicyRevokePermission g m c) w = h_policy_RevokePermission X now g m c w"
| "handle_policy X now rq cx (PolicyGetSchedule g m) w = query (h_policy_GetMemberGateSchedule X now g m w) w"
| "handle_policy X now rq cx (PolicySetSchedule g m s) w = h_policy_SetMemberGateSchedule X now g m s w"
| "handle_policy X now rq cx (PolicyRemoveSchedule g m) w = h_policy_RemoveMemberGateSchedule X now g m w"

fun handle_member :: "'r env \<Rightarrow> int \<Rightarrow> request \<Rightarrow> req_ctx \<Rightarrow> member_call \<Rightarrow> 'r world \<Rightarrow> unit hres \<times> 'r world" where
  "handle_member X now rq cx (MemberCreate u n p r) w = status (h_member_Create X now u n p r w)"
| "handle_member X now rq cx (MemberList q) w = query (h_member_List X now q w) w"
| "handle_member X now rq cx (MemberGet m) w = query (h_member_Get X now m w) w"
| "handle_member X now rq cx (MemberUpdate m n u r) w = status (h_member_Update X now m n u r w)"
| "handle_member X now rq cx (MemberDelete m) w = h_member_Delete X now m w"

fun handle_pin :: "'r env \<Rightarrow> int \<Rightarrow> request \<Rightarrow> req_ctx \<Rightarrow> pin_call \<Rightarrow> 'r world \<Rightarrow> unit hres \<times> 'r world" where
  "handle_pin X now rq cx (PinCreate g b) w = status (h_CreatePIN X now g b w)"
| "handle_pin X now rq cx (PinList g q) w = query (h_ListPINs X now g q w) w"
| "handle_pin X now rq cx (PinUpdate g i l m) w = status (h_UpdatePIN X now g i l m w)"
| "handle_pin X now rq cx (PinDelete g i) w = h_DeletePIN X now g i w"
| "handle_pin X now rq cx (PinSetSchedule g i s) w = status (h_SetPinSchedule X now g i s w)"
| "handle_pin X now rq cx (PinClearSchedule g i) w = status (h_ClearPinSchedule X now g i w)"
| "handle_pin X now rq cx (PublicUnlock g p) w = h_Unlock X now cx g p w"
| "handle_pin X now rq cx (PublicOpen g p) w = status (h_OpenGate X now cx g p w)"
| "handle_pin X now rq cx (PublicTrigger c a) w = h_PublicTrigger X now c a w"

fun handle_schedule :: "'r env \<Rightarrow> int \<Rightarrow> request \<Rightarrow> req_ctx \<Rightarrow> schedule_call \<Rightarrow> 'r world \<Rightarrow> unit hres \<times> 'r world" where
  "handle_schedule X now rq cx (ScheduleCreate n d e) w = status (h_schedule_Create X now n d e w)"
| "handle_schedule X now rq cx (ScheduleList q) w = query (h_schedule_List X now q w) w"
| "handle_schedule X now rq cx (ScheduleGet s) w = query (h_schedule_Get X now s w) w"
| "handle_schedule X now rq cx (ScheduleUpdate s n d e) w = status (h_schedule_Update X now s n d e w)"
| "handle_schedule X now rq cx (ScheduleDelete s) w = h_schedule_Delete X now s w"
| "handle_schedule X now rq cx (ScheduleCreateMine n d e) w = status (h_schedule_CreateMine X now cx n d e w)"
| "handle_schedule X now rq cx (ScheduleListMine q) w = query (h_schedule_ListMine X now cx q w) w"
| "handle_schedule X now rq cx (ScheduleGetMine s) w = query (h_schedule_GetMine X now cx s w) w"
| "handle_schedule X now rq cx (ScheduleUpdateMine s n d e) w = status (h_schedule_UpdateMine X now cx s n d e w)"
| "handle_schedule X now rq cx (ScheduleDeleteMine s) w = h_schedule_DeleteMine X now cx s w"

fun handle_sso :: "'r env \<Rightarrow> int \<Rightarrow> request \<Rightarrow> req_ctx \<Rightarrow> sso_call \<Rightarrow> 'r world \<Rightarrow> unit hres \<times> 'r world" where
  "handle_sso X now rq cx SsoProviders w = query (sso_ListProviders X) w"
| "handle_sso X now rq cx (SsoAuthorize p g) w = redirected (sso_Authorize X now p g w)"
| "handle_sso X now rq cx (SsoCallback p c s e) w = redirected (sso_Callback X now p c s e w)"
| "handle_sso X now rq cx (SsoExchange c) w = status (sso_Exchange X now c w)"
| "handle_sso X now rq cx SsoSettings w = (Inr (), w)"

fun handle_credential :: "'r env \<Rightarrow> int \<Rightarrow> request \<Rightarrow> req_ctx \<Rightarrow> credential_call \<Rightarrow> 'r world \<Rightarrow> unit hres \<times> 'r world" where
  "handle_credential X now rq cx (CredListMine q) w = query (h_ListMyCredentials X now cx q w) w"
| "handle_credential X now rq cx (CredCreateMine l e ps s) w = status (h_CreateMyAPIToken X now cx l e ps s w)"
| "handle_credential X now rq cx (CredDeleteMine c) w = h_DeleteMyCredential X now cx c w"
| "handle_credential X now rq cx (CredChangePassword p p') w = h_ChangeMyPassword X now cx p p' w"
| "handle_credential X now rq cx (CredAdminList m q) w = query (h_AdminListMemberCredentials X now m q w) w"
| "handle_credential X now rq cx (CredAdminCreate m l e) w = status (h_AdminCreateMemberAPIToken X now m l e w)"
| "handle_credential X now rq cx (CredAdminDelete m c) w = h_AdminDeleteMemberCredential X now m c w"
| "handle_credential X now rq cx (CredAdminSetPassword m p) w = h_AdminSetMemberPassword X now m p w"

fun handle_domain :: "'r env \<Rightarrow> int \<Rightarrow> request \<Rightarrow> req_ctx \<Rightarrow> domain_call \<Rightarrow> 'r world \<Rightarrow> unit hres \<times> 'r world" where
  "handle_domain X now rq cx (DomainAdd g d) w = status (addDomain X now g d w)"
| "handle_domain X now rq cx (DomainList g q) w = query (listDomains X now g q w) w"
| "handle_domain X now rq cx (DomainDelete g d) w = deleteDomain X now g d w"
| "handle_domain X now rq cx (DomainVerify g d) w = status (verifyDomain X now g d w)"
| "handle_domain X now rq cx (DomainVerifyPublic d) w = query (verifyDomainPublic X now d w) w"
| "handle_domain X now rq cx (DomainResolve d) w = query (resolveDomain X now d w) w"
| "handle_domain X now rq cx DomainListPublic w = query (publicDomainsList X now w) w"
| "handle_domain X now rq cx (GateResolve g) w = query (resolveGate X now g w) w"

fun handle_inbound :: "'r env \<Rightarrow> int \<Rightarrow> request \<Rightarrow> req_ctx \<Rightarrow> inbound_call \<Rightarrow> 'r world \<Rightarrow> unit hres \<times> 'r world" where
  "handle_inbound X now rq cx (InboundStatus b) w = PushStatus X now (rq_Authorization rq) b w"

definition handle :: "'r env \<Rightarrow> int \<Rightarrow> request \<Rightarrow> req_ctx \<Rightarrow> api_call \<Rightarrow> 'r world \<Rightarrow> unit hres \<times> 'r world" where
  "handle X now rq cx call w = (case call of
      SetupCall c \<Rightarrow> handle_setup X now rq cx c w
    | AuthCall c \<Rightarrow> handle_auth X now rq cx c w
    | GateCall c \<Rightarrow> handle_gate X now rq cx c w
    | PolicyCall c \<Rightarrow> handle_policy X now rq cx c w
    | MemberCall c \<Rightarrow> handle_member X now rq cx c w
    | PinCall c \<Rightarrow> handle_pin X now rq cx c w
    | ScheduleCall c \<Rightarrow> handle_schedule X now rq cx c w
    | SsoCall c \<Rightarrow> handle_sso X now rq cx c w
    | CredCall c \<Rightarrow> handle_credential X now rq cx c w
    | DomainCall c \<Rightarrow> handle_domain X now rq cx c w
    | InboundCall c \<Rightarrow> handle_inbound X now rq cx c w)"

section \<open>Serving a request\<close>

definition path_ok :: "'r env \<Rightarrow> request \<Rightarrow> api_call \<Rightarrow> bool" where
  "path_ok X rq call = (case call_gate call of None \<Rightarrow> True | Some g \<Rightarrow> x_uuidParse X (rq_PathGateID rq) = Some g)"

definition request_ctx :: "'r env \<Rightarrow> int \<Rightarrow> request \<Rightarrow> db \<Rightarrow> req_ctx" where
  "request_ctx X now rq d = AuthExtractor X now rq d (ClientIPInjector rq (no_identity []))"

definition serve :: "'r env \<Rightarrow> int \<Rightarrow> request \<Rightarrow> api_call \<Rightarrow> 'r world \<Rightarrow> unit hres \<times> 'r world" where
  "serve X now rq call w0 =
     (let w = snd (TenantResolver X now (rq_Host rq) w0); cx = request_ctx X now rq (w_db w)
      in hbind (run_guards X now rq cx (route_guards call) w) (\<lambda>_ w.
           if \<not> path_ok X rq call then (Inl (HErr 422 ''validation failed''), w)
           else handle X now rq cx call w))"

end
