(* ===== verification/Events.thy ===== *)
theory Events
  imports Api
begin

text \<open>
  The event stream: \<open>internal/handler/sse.go\<close> and the writer of \<open>internal/middleware/cookie.go\<close> that
  every response goes through. What the stream waits for (the end of the request, a message of
  the Redis channel, the channel's end, the ticker) is a list of events; what it writes is a list
  of chunks.
\<close>

section \<open>Headers\<close>

text \<open>An \<open>http.Header\<close> with canonical names: the values of a name in order.\<close>

type_synonym header = "(string \<times> string) list"

definition Values :: "header \<Rightarrow> string \<Rightarrow> string list" where
  "Values h k = List.map snd (filter (\<lambda>p. fst p = k) h)"

definition Add :: "header \<Rightarrow> string \<Rightarrow> string \<Rightarrow> header" where
  "Add h k v = h @ [(k, v)]"

definition Del :: "header \<Rightarrow> string \<Rightarrow> header" where
  "Del h k = filter (\<lambda>p. fst p \<noteq> k) h"

lemma Values_Add [simp]: "Values (Add h k v) k' = Values h k' @ (if k' = k then [v] else [])"
  by (simp add: Values_def Add_def)

lemma Values_Del [simp]: "Values (Del h k) k' = (if k' = k then [] else Values h k')"
  by (auto simp: Values_def Del_def intro!: arg_cong [where f = "List.map snd"] filter_cong)

section \<open>The cookie writer\<close>

record cookie_writer =
  cw_Header :: header
  cw_headerFixed :: bool

definition fixHeaders :: "cookie_writer \<Rightarrow> cookie_writer" where
  "fixHeaders w = (if cw_headerFixed w then w
     else let vals = Values (cw_Header w) ''Set-Cookie2''
          in w\<lparr>cw_headerFixed := True,
               cw_Header := (if vals = [] then cw_Header w
                 else Del (fold (\<lambda>v h. Add h ''Set-Cookie'' v) vals (cw_Header w)) ''Set-Cookie2'')\<rparr>)"

text \<open>
  \<open>WriteHeader\<close> and \<open>Write\<close> fix the headers and pass on; the wrapped writer keeps the headers, the
  status of the first \<open>WriteHeader\<close> (200 when the body comes first) and the body.
\<close>

record response =
  re_Status :: "int option"
  re_Sent :: header
  re_Body :: "string list"

definition send_header :: "int \<Rightarrow> header \<Rightarrow> response \<Rightarrow> response" where
  "send_header code h r = (if re_Status r = None then r\<lparr>re_Status := Some code, re_Sent := h\<rparr> else r)"

definition WriteHeader :: "int \<Rightarrow> cookie_writer \<times> response \<Rightarrow> cookie_writer \<times> response" where
  "WriteHeader code s = (let w = fixHeaders (fst s) in (w, send_header code (cw_Header w) (snd s)))"

definition Write :: "string \<Rightarrow> cookie_writer \<times> response \<Rightarrow> cookie_writer \<times> response" where
  "Write b s = (let w = fixHeaders (fst s); r = send_header 200 (cw_Header w) (snd s) in (w, r\<lparr>re_Body := re_Body r @ [b]\<rparr>))"

definition new_writer :: "header \<Rightarrow> cookie_writer" where
  "new_writer h = \<lparr>cw_Header = h, cw_headerFixed = False\<rparr>"

definition no_response :: response where
  "no_response = \<lparr>re_Status = None, re_Sent = [], re_Body = []\<rparr>"

text \<open>
  The interfaces a writer implements: the wrapper declares \<open>WriteHeader\<close>, \<open>Write\<close>, \<open>fixHeaders\<close> and
  \<open>Unwrap\<close> and gets \<open>Header\<close> from the embedded \<open>http.ResponseWriter\<close>, whatever else the wrapped
  writer has.
\<close>

datatype writer = OtherWriter "string list" | CookieFixerWriter writer

fun method_set :: "writer \<Rightarrow> string list" where
  "method_set (OtherWriter ms) = ms"
| "method_set (CookieFixerWriter w) = [''Header'', ''Write'', ''WriteHeader'', ''fixHeaders'', ''Unwrap'']"

definition is_Flusher :: "writer \<Rightarrow> bool" where
  "is_Flusher w = (''Flush'' \<in> set (method_set w))"

section \<open>The handler\<close>

definition sseTicketTTL :: int where
  "sseTicketTTL = 30 * Second"

definition ticket_key :: "string \<Rightarrow> string" where
  "ticket_key ticket = ''sse:ticket:'' @ ticket"

text \<open>\<open>r.Cookie(name)\<close>: the first cookie of the name whose value has only valid bytes, without its quotes.\<close>

definition cookie_byte :: "char \<Rightarrow> bool" where
  "cookie_byte c = (let n = (of_char c :: nat) in 0x20 \<le> n \<and> n < 0x7f \<and> n \<notin> {0x22, 0x3B, 0x5C})"

definition unquote_cookie :: "string \<Rightarrow> string" where
  "unquote_cookie v = (if 2 \<le> length v \<and> hd v = CHR 0x22 \<and> last v = CHR 0x22 then butlast (tl v) else v)"

definition request_cookie :: "string \<Rightarrow> string \<Rightarrow> string option" where
  "request_cookie header name =
     (let cut = (\<lambda>part. (TrimSpace (takeWhile (\<lambda>c. c \<noteq> CHR ''='') part), unquote_cookie (tl (dropWhile (\<lambda>c. c \<noteq> CHR ''='') part))))
      in map_option snd (List.find (\<lambda>(n, v). n = name \<and> list_all cookie_byte v)
           (List.map cut (List.map TrimSpace (split_on CHR '';'' header)))))"

definition validateSSEAuth :: "'r env \<Rightarrow> int \<Rightarrow> request \<Rightarrow> bool" where
  "validateSSEAuth X now rq =
     (let token = (case request_cookie (rq_Cookie rq) ''gatie_access'' of Some v \<Rightarrow> v | None \<Rightarrow> [])
      in token \<noteq> [] \<and> (case ValidateAccessToken X now token of Inl _ \<Rightarrow> False | Inr _ \<Rightarrow> True))"

definition issueTicket :: "'r env \<Rightarrow> int \<Rightarrow> request \<Rightarrow> 'r world \<Rightarrow> string hres \<times> 'r world" where
  "issueTicket X now rq w =
     (if \<not> validateSSEAuth X now rq then (Inl (HErr 401 ''unauthorized''), w)
      else case x_random X now ''sse_ticket'' of
        None \<Rightarrow> (Inl (HErr 500 ''internal error''), w)
      | Some ticket \<Rightarrow>
          (case redis_Set X now w (ticket_key ticket) (RStr ''ok'') sseTicketTTL of
             (Inl _, w1) \<Rightarrow> (Inl (HErr 500 ''internal error''), w1)
           | (Inr _, w1) \<Rightarrow> (Inr ticket, w1)))"

text \<open>
  What the loop selects from, in the order it does, and what it writes. A run that is still
  open is the prefix of events so far.
\<close>

datatype sse_event = CtxDone | Msg string | ChannelClosed | KeepAlive

datatype sse_chunk = Chunk string | Flush

fun sse_loop :: "sse_event list \<Rightarrow> sse_chunk list" where
  "sse_loop [] = []"
| "sse_loop (CtxDone # es) = []"
| "sse_loop (ChannelClosed # es) = []"
| "sse_loop (Msg payload # es) = Chunk (''data: '' @ payload @ [CHR 0x0A, CHR 0x0A]) # Flush # sse_loop es"
| "sse_loop (KeepAlive # es) = Chunk ('': keepalive'' @ [CHR 0x0A, CHR 0x0A]) # Flush # sse_loop es"

definition sse_headers :: header where
  "sse_headers = [(''Content-Type'', ''text/event-stream''), (''Cache-Control'', ''no-cache''),
     (''Connection'', ''keep-alive''), (''X-Accel-Buffering'', ''no'')]"

definition sse_body :: "writer \<Rightarrow> sse_event list \<Rightarrow> sse_chunk list" where
  "sse_body writer es = (if \<not> is_Flusher writer then []
     else Chunk ('': connected to gate:events'' @ [CHR 0x0A, CHR 0x0A]) # Flush # sse_loop es)"

text \<open>The status 200 and its headers are sent before the writer is looked at.\<close>

definition stream :: "'r env \<Rightarrow> int \<Rightarrow> writer \<Rightarrow> request \<Rightarrow> string \<Rightarrow> sse_event list \<Rightarrow> 'r world
    \<Rightarrow> (header \<times> sse_chunk list) hres \<times> 'r world" where
  "stream X now writer rq ticket es w =
     (if ticket \<noteq> [] then
        (case redis_GetDel X now w (ticket_key ticket) of
           (Inl e, w1) \<Rightarrow>
             (if errIs e (ErrExternal ''redis: nil'') then (Inl (HErr 401 ''unauthorized''), w1)
              else (Inl (HErr 500 ''internal error''), w1))
         | (Inr _, w1) \<Rightarrow> (Inr (sse_headers, sse_body writer es), w1))
      else if \<not> validateSSEAuth X now rq then (Inl (HErr 401 ''unauthorized''), w)
      else (Inr (sse_headers, sse_body writer es), w))"

text \<open>
  The route as \<open>main\<close> mounts it: the router's middlewares wrap the writer with \<open>CookieFixer\<close> and
  resolve the tenant before the handler runs.
\<close>

definition CookieFixer :: "(writer \<Rightarrow> 'a) \<Rightarrow> writer \<Rightarrow> 'a" where
  "CookieFixer next' w = next' (CookieFixerWriter w)"

definition events_route :: "'r env \<Rightarrow> int \<Rightarrow> writer \<Rightarrow> request \<Rightarrow> string \<Rightarrow> sse_event list \<Rightarrow> 'r world
    \<Rightarrow> (header \<times> sse_chunk list) hres \<times> 'r world" where
  "events_route X now writer rq ticket es w =
     CookieFixer (\<lambda>wr. stream X now wr rq ticket es (snd (TenantResolver X now (rq_Host rq) w))) writer"

section \<open>Both cookies\<close>

lemma Values_fold_Add: "Values (fold (\<lambda>v h. Add h k v) vs h) k' = Values h k' @ (if k' = k then vs else [])"
  by (induction vs arbitrary: h) auto

text \<open>
  A response with both cookies: whatever the handler set under \<open>Set-Cookie2\<close> is sent as
  further \<open>Set-Cookie\<close> values after those already there, no \<open>Set-Cookie2\<close> leaves the server, the
  other headers stay, and a second write changes nothing of what was sent.
\<close>

theorem cookies_both_sent:
  "Values (re_Sent (snd (WriteHeader code (new_writer h, no_response)))) ''Set-Cookie'' = Values h ''Set-Cookie'' @ Values h ''Set-Cookie2''
   \<and> Values (re_Sent (snd (WriteHeader code (new_writer h, no_response)))) ''Set-Cookie2'' = []
   \<and> (k \<notin> {''Set-Cookie'', ''Set-Cookie2''} \<longrightarrow> Values (re_Sent (snd (WriteHeader code (new_writer h, no_response)))) k = Values h k)
   \<and> re_Sent (snd (Write b (WriteHeader code (new_writer h, no_response)))) = re_Sent (snd (WriteHeader code (new_writer h, no_response)))
   \<and> re_Status (snd (Write b (WriteHeader code (new_writer h, no_response)))) = Some code"
  by (simp add: WriteHeader_def Write_def send_header_def fixHeaders_def new_writer_def no_response_def Let_def Values_fold_Add)

theorem cookies_both_sent_witness:
  "Values (re_Sent (snd (WriteHeader 200 (new_writer [(''Set-Cookie'', ''a=1''), (''Set-Cookie2'', ''r=2''), (''Vary'', ''x'')], no_response)))) ''Set-Cookie''
     = [''a=1'', ''r=2'']
   \<and> Values (re_Sent (snd (WriteHeader 200 (new_writer [(''Set-Cookie'', ''a=1''), (''Set-Cookie2'', ''r=2''), (''Vary'', ''x'')], no_response)))) ''Vary'' = [''x'']"
  using cookies_both_sent [of 200 "[(''Set-Cookie'', ''a=1''), (''Set-Cookie2'', ''r=2''), (''Vary'', ''x'')]" "''Vary''" "''b''"]
  by (simp add: Values_def)

section \<open>Tickets\<close>

text \<open>
  A ticket opens one stream, within 30 seconds of its issue: the first use before its expiry
  is accepted whatever cookie the request has, every later use, and every use from the 30th
  second on, is refused with 401.
\<close>

theorem ticket_single_use:
  fixes w w1 :: "'r world"
  assumes "redis_ok (x_redis X) view" and "answers X"
    and "issueTicket X now rq w = (Inr ticket, w1)" and "ticket \<noteq> []" and "now \<le> t" and "t \<le> t'"
    and "r = stream X t wr rq' ticket es w1"
  shows "fst r = (if t < now + 30 * Second then Inr (sse_headers, sse_body wr es) else Inl (HErr 401 ''unauthorized''))
    \<and> fst (stream X t' wr' rq'' ticket es' (snd r)) = Inl (HErr 401 ''unauthorized'')"
proof -
  note R = redis_store.intro [OF assms(1)]
  have w1: "w_redis w1 = rd_Set (x_redis X) (w_redis w) now (ticket_key ticket) (RStr ''ok'') sseTicketTTL"
    using assms(2,3) by (auto simp: issueTicket_def redis_Set_def split: if_splits option.splits)
  have g: "rd_Get (x_redis X) (w_redis w1) u (ticket_key ticket) = (if u < now + 30 * Second then Some (RStr ''ok'') else None)"
    if "now \<le> u" for u
    unfolding w1 using redis_store.get_set [OF R that] by (simp add: sseTicketTTL_def)
  have d: "rd_Get (x_redis X) (rd_Del (x_redis X) (w_redis w1) t (ticket_key ticket)) t' (ticket_key ticket) = None"
    using redis_store.get_del [OF R assms(6)] .
  show ?thesis
    using g [OF assms(5)] g [of t'] d assms(2,4,5,6) by (simp add: assms(7) stream_def redis_GetDel_def)
qed

theorem ticket_single_use_witness:
  "let X = auth_env; rq = sample_request ''a:1'' ''gatie_access=member-jwt'';
       w1 = snd (issueTicket X 5 rq (sample_world sample_db)); r = stream X 10 (OtherWriter [''Flush'']) rq ''sse_ticket5'' [Msg ''m''] w1
   in (\<exists>out. fst r = Inr out) \<and> fst (stream X 11 (OtherWriter []) rq ''sse_ticket5'' [] (snd r)) = Inl (HErr 401 ''unauthorized'')"
proof -
  let ?rq = "sample_request ''a:1'' ''gatie_access=member-jwt''"
  let ?s = "issueTicket auth_env 5 ?rq (sample_world sample_db)"
  have "fst ?s = Inr ''sse_ticket5''" by code_simp
  then have "?s = (Inr ''sse_ticket5'', snd ?s)" by (metis prod.collapse)
  moreover have "answers auth_env" by (simp add: answers_def)
  ultimately show ?thesis
    using ticket_single_use [OF sample_redis_ok [of sample_auth_table], of 5 ?rq "sample_world sample_db" "''sse_ticket5''" "snd ?s" 10 11
      "stream auth_env 10 (OtherWriter [''Flush'']) ?rq ''sse_ticket5'' [Msg ''m''] (snd ?s)"
      "OtherWriter [''Flush'']" ?rq "[Msg ''m'']" "OtherWriter []" ?rq "[]"] by (simp add: Let_def)
qed

section \<open>What reaches the client\<close>

definition ends_stream :: "sse_event \<Rightarrow> bool" where
  "ends_stream e = (e = CtxDone \<or> e = ChannelClosed)"

lemma sse_loop_forwards:
  "Msg payload \<in> set (takeWhile (\<lambda>e. \<not> ends_stream e) es) \<Longrightarrow> Chunk (''data: '' @ payload @ [CHR 0x0A, CHR 0x0A]) \<in> set (sse_loop es)"
  by (induction es rule: sse_loop.induct) (auto simp: ends_stream_def)

lemma stream_Inr:
  "fst (stream X now wr rq ticket es w) = Inr (h, out) \<Longrightarrow>
     out = sse_body wr es \<and> (\<forall>wr'. fst (stream X now wr' rq ticket es w) = Inr (h, sse_body wr' es))"
  by (auto simp: stream_def split: if_splits prod.splits sum.splits)

text \<open>
  C30: No event reaches a client. The handler would forward every message that arrives before the
  stream ends if its writer could flush; but the route hands it the cookie writer, which
  implements no \<open>http.Flusher\<close> whatever it wraps, so an accepted request gets the headers of a
  stream, no chunk, and the end of the response.
\<close>

theorem events_route_silent:
  assumes "fst (events_route X now writer rq ticket es w) = Inr (h, out)"
  shows "out = [] \<and> (is_Flusher writer \<longrightarrow>
     (\<exists>out'. fst (stream X now writer rq ticket es (snd (TenantResolver X now (rq_Host rq) w))) = Inr (h, out')
        \<and> (\<forall>payload. Msg payload \<in> set (takeWhile (\<lambda>e. \<not> ends_stream e) es)
             \<longrightarrow> Chunk (''data: '' @ payload @ [CHR 0x0A, CHR 0x0A]) \<in> set out')))"
proof -
  note s = stream_Inr [OF assms [unfolded events_route_def CookieFixer_def]]
  have "out = []" using s by (simp add: sse_body_def is_Flusher_def)
  moreover have "Chunk (''data: '' @ payload @ [CHR 0x0A, CHR 0x0A]) \<in> set (sse_body writer es)"
    if "is_Flusher writer" "Msg payload \<in> set (takeWhile (\<lambda>e. \<not> ends_stream e) es)" for payload
    using sse_loop_forwards [OF that(2)] that(1) by (simp add: sse_body_def)
  ultimately show ?thesis using s by blast
qed

theorem events_route_silent_witness:
  "let X = auth_env; rq = sample_request ''a:1'' ''gatie_access=member-jwt'';
       r = events_route X 5 (OtherWriter [''Header'', ''Write'', ''WriteHeader'', ''Flush'']) rq [] [Msg ''opened'', CtxDone] (sample_world sample_db)
   in fst r = Inr (sse_headers, [])"
proof -
  let ?rq = "sample_request ''a:1'' ''gatie_access=member-jwt''"
  let ?r = "events_route auth_env 5 (OtherWriter [''Header'', ''Write'', ''WriteHeader'', ''Flush'']) ?rq [] [Msg ''opened'', CtxDone] (sample_world sample_db)"
  have "case fst ?r of Inl _ \<Rightarrow> False | Inr (h, _) \<Rightarrow> h = sse_headers" by code_simp
  then obtain out where "fst ?r = Inr (sse_headers, out)" by (cases "fst ?r") auto
  with events_route_silent [OF this] show ?thesis by (simp add: Let_def)
qed

end
