(* ===== verification/Broker.thy ===== *)
theory Broker
  imports Device_Ingress
begin

text \<open>
  \<open>internal/mqtt/dynsec.go\<close>: the credentials of the gates at the MQTT broker, kept through the
  broker's dynamic-security commands, and the two implementations of \<open>BrokerAuthManager\<close>. The
  broker is a parameter: a state and the answer to a list of commands. The link delivers the
  answers: for every exchange it says whether publishing fails, how many answers still under way
  arrive before it starts, and whether an answer arrives before the deadline.
\<close>

section \<open>Commands\<close>

definition gateRoleName :: string where
  "gateRoleName = ''gate-device''"

definition acl_entry :: "string \<Rightarrow> string \<Rightarrow> gval" where
  "acl_entry acltype topic = VObj [(''acltype'', VStr acltype), (''topic'', VStr topic), (''priority'', VNum (Fin (- 1))), (''allow'', VBool True)]"

definition role_acls :: "(string \<times> string) list" where
  "role_acls = [(''publishClientSend'', ''+/gates/%u/status''), (''subscribePattern'', ''+/gates/%u/command'')]"

definition createRole_cmd :: gmap where
  "createRole_cmd = [(''command'', VStr ''createRole''), (''rolename'', VStr gateRoleName),
     (''acls'', VArr (List.map (\<lambda>(t, p). acl_entry t p) role_acls))]"

definition defaultACL_cmd :: "string \<Rightarrow> gmap" where
  "defaultACL_cmd acltype = [(''command'', VStr ''setDefaultACLAccess''), (''acltype'', VStr acltype), (''allow'', VBool False)]"

definition createClient_cmd :: "string \<Rightarrow> string \<Rightarrow> gmap" where
  "createClient_cmd username token = [(''command'', VStr ''createClient''), (''username'', VStr username), (''password'', VStr token),
     (''roles'', VArr [VObj [(''rolename'', VStr gateRoleName), (''priority'', VNum (Fin (- 1)))]])]"

definition setClientPassword_cmd :: "string \<Rightarrow> string \<Rightarrow> gmap" where
  "setClientPassword_cmd username token = [(''command'', VStr ''setClientPassword''), (''username'', VStr username), (''password'', VStr token)]"

definition deleteClient_cmd :: "string \<Rightarrow> gmap" where
  "deleteClient_cmd username = [(''command'', VStr ''deleteClient''), (''username'', VStr username)]"

section \<open>Answers\<close>

text \<open>
  \<open>json.Unmarshal\<close> into a struct with a list \<open>responses\<close> of structs with a string \<open>error\<close>; a payload
  that does not decode has no errors. Keys are the ones the plugin writes.
\<close>

definition response_error :: "gval \<Rightarrow> string option" where
  "response_error r = (case r of
      VNull \<Rightarrow> Some []
    | VObj m \<Rightarrow> (case map_of m ''error'' of None \<Rightarrow> Some [] | Some VNull \<Rightarrow> Some [] | Some (VStr s) \<Rightarrow> Some s | _ \<Rightarrow> None)
    | _ \<Rightarrow> None)"

definition response_errors :: "gval option \<Rightarrow> string list option" where
  "response_errors resp = (case resp of
      Some VNull \<Rightarrow> Some []
    | Some (VObj m) \<Rightarrow> (case map_of m ''responses'' of
        None \<Rightarrow> Some [] | Some VNull \<Rightarrow> Some [] | Some (VArr rs) \<Rightarrow> those (List.map response_error rs) | _ \<Rightarrow> None)
    | _ \<Rightarrow> None)"

definition dynsecHasError :: "gval option \<Rightarrow> string \<Rightarrow> bool" where
  "dynsecHasError resp target = (case response_errors resp of None \<Rightarrow> False | Some es \<Rightarrow> target \<in> set es)"

definition dynsecFirstError :: "gval option \<Rightarrow> string" where
  "dynsecFirstError resp = (case response_errors resp of
      None \<Rightarrow> [] | Some es \<Rightarrow> (case List.find (\<lambda>e. e \<noteq> []) es of None \<Rightarrow> [] | Some e \<Rightarrow> e))"

section \<open>The exchange\<close>

text \<open>
  The manager's channel holds one answer; answers the broker has published and the link has not
  delivered are under way. \<open>dy_step\<close> counts the exchanges.
\<close>

record 'b dynsec =
  dy_broker :: 'b
  dy_underway :: "gval option list"
  dy_respCh :: "gval option option"
  dy_subscribed :: bool
  dy_step :: nat

record 'b link =
  li_control :: "'b \<Rightarrow> gmap list \<Rightarrow> gval option \<times> 'b"
  li_subFails :: bool
  li_pubFails :: "nat \<Rightarrow> bool"
  li_early :: "nat \<Rightarrow> nat"
  li_arrives :: "nat \<Rightarrow> bool"

text \<open>The message handler: an answer that finds the channel full is dropped.\<close>

definition on_response :: "gval option \<Rightarrow> 'b dynsec \<Rightarrow> 'b dynsec" where
  "on_response msg s = (if dy_respCh s = None then s\<lparr>dy_respCh := Some msg\<rparr> else s)"

definition deliver_early :: "nat \<Rightarrow> 'b dynsec \<Rightarrow> 'b dynsec" where
  "deliver_early n s = fold on_response (take n (dy_underway s)) (s\<lparr>dy_underway := drop n (dy_underway s)\<rparr>)"

definition execWithResponse :: "'b link \<Rightarrow> gmap list \<Rightarrow> 'b dynsec \<Rightarrow> gval option res \<times> 'b dynsec" where
  "execWithResponse L commands s0 =
     (let k = dy_step s0;
          s = (deliver_early (li_early L k) s0)\<lparr>dy_respCh := None, dy_step := Suc k\<rparr>
      in if li_pubFails L k then (Inl (Wrapf ''dynsec publish: %w'' [] (ErrExternal ''mqtt'')), s)
         else let (answer, b) = li_control L (dy_broker s) commands;
                  s1 = s\<lparr>dy_broker := b, dy_underway := dy_underway s @ (if dy_subscribed s then [answer] else [])\<rparr>
              in case dy_underway s1 of
                   first # rest \<Rightarrow>
                     if li_arrives L k then (Inr first, s1\<lparr>dy_underway := rest\<rparr>)
                     else (Inl (Errorf ''dynsec: timeout waiting for response'' []), s1)
                 | [] \<Rightarrow> (Inl (Errorf ''dynsec: timeout waiting for response'' []), s1))"

definition dynsec_exec :: "'b link \<Rightarrow> gmap list \<Rightarrow> 'b dynsec \<Rightarrow> unit res \<times> 'b dynsec" where
  "dynsec_exec L commands s = wbind (execWithResponse L commands s) (\<lambda>resp s1.
     let errMsg = dynsecFirstError resp
     in if errMsg \<noteq> [] then (Inl (Errorf ''%s'' [AStr errMsg]), s1) else (Inr (), s1))"

definition execIgnoreExists :: "'b link \<Rightarrow> gmap list \<Rightarrow> 'b dynsec \<Rightarrow> unit res \<times> 'b dynsec" where
  "execIgnoreExists L commands s = wbind (execWithResponse L commands s) (\<lambda>resp s1.
     let errMsg = dynsecFirstError resp
     in if errMsg \<noteq> [] \<and> errMsg \<noteq> ''Client already exists'' \<and> errMsg \<noteq> ''Role already exists'' \<and> errMsg \<noteq> ''Client not found''
        then (Inl (Errorf ''%s'' [AStr errMsg]), s1) else (Inr (), s1))"

section \<open>The manager\<close>

definition NewDynSecManager :: "'b \<Rightarrow> 'b dynsec" where
  "NewDynSecManager b = \<lparr>dy_broker = b, dy_underway = [], dy_respCh = None, dy_subscribed = False, dy_step = 0\<rparr>"

text \<open>Both exchanges may fail: the first failure is logged, the second is ignored.\<close>

definition Setup :: "'b link \<Rightarrow> 'b dynsec \<Rightarrow> unit res \<times> 'b dynsec" where
  "Setup L s =
     (if li_subFails L then (Inl (Wrapf ''dynsec: subscribe response topic: %w'' [] (ErrExternal ''mqtt'')), s)
      else let s1 = snd (execIgnoreExists L [createRole_cmd] (s\<lparr>dy_subscribed := True\<rparr>))
           in (Inr (), snd (dynsec_exec L [defaultACL_cmd ''publishClientSend'', defaultACL_cmd ''subscribe''] s1)))"

definition SyncCredentials :: "'r env \<Rightarrow> 'b link \<Rightarrow> uuid \<Rightarrow> string \<Rightarrow> 'b dynsec \<Rightarrow> unit res \<times> 'b dynsec" where
  "SyncCredentials X L gateID token s =
     (let username = x_uuidString X gateID
      in wbind (werr (Wrapf ''dynsec: create client %s: %w'' [AStr username])
             (execWithResponse L [createClient_cmd username token] s)) (\<lambda>resp s1.
         if dynsecHasError resp ''Client already exists''
         then werr (Wrapf ''dynsec: set password %s: %w'' [AStr username]) (dynsec_exec L [setClientPassword_cmd username token] s1)
         else if dynsecFirstError resp \<noteq> []
         then (Inl (Errorf ''dynsec: create client %s: %s'' [AStr username, AStr (dynsecFirstError resp)]), s1)
         else (Inr (), s1)))"

definition RemoveCredentials :: "'r env \<Rightarrow> 'b link \<Rightarrow> uuid \<Rightarrow> 'b dynsec \<Rightarrow> unit res \<times> 'b dynsec" where
  "RemoveCredentials X L gateID s = (Inr (), snd (execIgnoreExists L [deleteClient_cmd (x_uuidString X gateID)] s))"

text \<open>\<open>service.BrokerAuthManager\<close> and the choice of \<open>main\<close>: the manager, and whether the ingress trusts the broker.\<close>

datatype broker_auth = NoopBrokerAuth | DynSec

definition broker_SyncCredentials :: "broker_auth \<Rightarrow> 'r env \<Rightarrow> 'b link \<Rightarrow> uuid \<Rightarrow> string \<Rightarrow> 'b dynsec \<Rightarrow> unit res \<times> 'b dynsec" where
  "broker_SyncCredentials m X L gateID token s =
     (case m of NoopBrokerAuth \<Rightarrow> (Inr (), s) | DynSec \<Rightarrow> SyncCredentials X L gateID token s)"

definition broker_RemoveCredentials :: "broker_auth \<Rightarrow> 'r env \<Rightarrow> 'b link \<Rightarrow> uuid \<Rightarrow> 'b dynsec \<Rightarrow> unit res \<times> 'b dynsec" where
  "broker_RemoveCredentials m X L gateID s =
     (case m of NoopBrokerAuth \<Rightarrow> (Inr (), s) | DynSec \<Rightarrow> RemoveCredentials X L gateID s)"

definition select_broker_auth :: "string \<Rightarrow> bool \<Rightarrow> 'b link \<Rightarrow> 'b dynsec \<Rightarrow> (broker_auth \<times> bool) \<times> 'b dynsec" where
  "select_broker_auth mqttMode mqttUp L s =
     (if mqttMode = ''dynsec'' \<and> mqttUp then
        (case Setup L s of (Inl _, s1) \<Rightarrow> ((NoopBrokerAuth, False), s1) | (Inr _, s1) \<Rightarrow> ((DynSec, True), s1))
      else ((NoopBrokerAuth, mqttMode = ''dynsec''), s))"

section \<open>What the broker documents\<close>

text \<open>
  \<open>pw b u\<close> is the password the broker accepts for the client \<open>u\<close>: creating a client that exists is
  refused with an error, setting a password needs the client, deleting removes it.
\<close>

definition broker_ok :: "('b \<Rightarrow> gmap list \<Rightarrow> gval option \<times> 'b) \<Rightarrow> ('b \<Rightarrow> string \<Rightarrow> string option) \<Rightarrow> bool" where
  "broker_ok control pw \<longleftrightarrow> (\<forall>b u p.
     (pw b u = None \<longrightarrow> response_errors (fst (control b [createClient_cmd u p])) = Some [[]]
        \<and> pw (snd (control b [createClient_cmd u p])) = (pw b)(u \<mapsto> p))
   \<and> (pw b u \<noteq> None \<longrightarrow> response_errors (fst (control b [createClient_cmd u p])) = Some [''Client already exists'']
        \<and> pw (snd (control b [createClient_cmd u p])) = pw b)
   \<and> (pw b u \<noteq> None \<longrightarrow> response_errors (fst (control b [setClientPassword_cmd u p])) = Some [[]]
        \<and> pw (snd (control b [setClientPassword_cmd u p])) = (pw b)(u \<mapsto> p))
   \<and> pw (snd (control b [deleteClient_cmd u])) = (pw b)(u := None))"

text \<open>Every answer arrives before its deadline, and none is under way.\<close>

definition prompt :: "'b link \<Rightarrow> bool" where
  "prompt L \<longleftrightarrow> (\<forall>k. \<not> li_pubFails L k \<and> li_arrives L k)"

definition idle :: "'b dynsec \<Rightarrow> bool" where
  "idle s \<longleftrightarrow> dy_underway s = [] \<and> dy_subscribed s"

lemma deliver_early_idle: "dy_underway s = [] \<Longrightarrow> deliver_early n s = s"
  by (simp add: deliver_early_def)

lemma exchange_prompt:
  assumes "prompt L" "idle s"
  obtains s' where "execWithResponse L cmds s = (Inr (fst (li_control L (dy_broker s) cmds)), s')"
    and "dy_broker s' = snd (li_control L (dy_broker s) cmds)" and "idle s'"
  using assms by (cases "li_control L (dy_broker s) cmds")
    (auto simp: execWithResponse_def Let_def prompt_def idle_def deliver_early_idle)

text \<open>Synchronising a client: its password is the token, the others keep theirs.\<close>

lemma sync_prompt:
  assumes "prompt L" "idle s" and ok: "broker_ok (li_control L) pw"
    and u_def: "u = x_uuidString X g"
  shows "fst (SyncCredentials X L g tok s) = Inr ()"
    and "pw (dy_broker (snd (SyncCredentials X L g tok s))) = (pw (dy_broker s))(u \<mapsto> tok)"
    and "idle (snd (SyncCredentials X L g tok s))"
proof -
  obtain s1 where c: "execWithResponse L [createClient_cmd u tok] s = (Inr (fst (li_control L (dy_broker s) [createClient_cmd u tok])), s1)"
    and b1: "dy_broker s1 = snd (li_control L (dy_broker s) [createClient_cmd u tok])" and i1: "idle s1"
    by (rule exchange_prompt [OF assms(1,2)])
  have goal: "fst (SyncCredentials X L g tok s) = Inr () \<and> pw (dy_broker (snd (SyncCredentials X L g tok s))) = (pw (dy_broker s))(u \<mapsto> tok)
      \<and> idle (snd (SyncCredentials X L g tok s))"
  proof (cases "pw (dy_broker s) u")
    case None
    then have "response_errors (fst (li_control L (dy_broker s) [createClient_cmd u tok])) = Some [[]]"
      and "pw (dy_broker s1) = (pw (dy_broker s))(u \<mapsto> tok)"
      using ok b1 by (simp_all add: broker_ok_def)
    with c i1 show ?thesis
      by (simp add: SyncCredentials_def u_def [symmetric] werr_def Let_def dynsecHasError_def dynsecFirstError_def)
  next
    case (Some old)
    then have e: "response_errors (fst (li_control L (dy_broker s) [createClient_cmd u tok])) = Some [''Client already exists'']"
      and p1: "pw (dy_broker s1) = pw (dy_broker s)"
      using ok b1 by (simp_all add: broker_ok_def)
    obtain s2 where c2: "execWithResponse L [setClientPassword_cmd u tok] s1 = (Inr (fst (li_control L (dy_broker s1) [setClientPassword_cmd u tok])), s2)"
      and b2: "dy_broker s2 = snd (li_control L (dy_broker s1) [setClientPassword_cmd u tok])" and i2: "idle s2"
      by (rule exchange_prompt [OF assms(1) i1])
    have "response_errors (fst (li_control L (dy_broker s1) [setClientPassword_cmd u tok])) = Some [[]]"
      and "pw (dy_broker s2) = (pw (dy_broker s))(u \<mapsto> tok)"
      using ok b2 p1 Some by (simp_all add: broker_ok_def)
    with c e c2 i2 show ?thesis
      by (simp add: SyncCredentials_def u_def [symmetric] werr_def Let_def dynsecHasError_def dynsecFirstError_def dynsec_exec_def)
  qed
  then show "fst (SyncCredentials X L g tok s) = Inr ()"
    and "pw (dy_broker (snd (SyncCredentials X L g tok s))) = (pw (dy_broker s))(u \<mapsto> tok)"
    and "idle (snd (SyncCredentials X L g tok s))" by simp_all
qed

lemma remove_prompt:
  assumes "prompt L" "idle s" and "broker_ok (li_control L) pw"
  shows "pw (dy_broker (snd (RemoveCredentials X L g s))) = (pw (dy_broker s))(x_uuidString X g := None)"
    and "idle (snd (RemoveCredentials X L g s))"
proof -
  obtain s1 where "execWithResponse L [deleteClient_cmd (x_uuidString X g)] s
      = (Inr (fst (li_control L (dy_broker s) [deleteClient_cmd (x_uuidString X g)])), s1)"
    and "dy_broker s1 = snd (li_control L (dy_broker s) [deleteClient_cmd (x_uuidString X g)])" and "idle s1"
    by (rule exchange_prompt [OF assms(1,2)])
  with assms(3) show "pw (dy_broker (snd (RemoveCredentials X L g s))) = (pw (dy_broker s))(x_uuidString X g := None)"
    and "idle (snd (RemoveCredentials X L g s))"
    by (simp_all add: RemoveCredentials_def execIgnoreExists_def Let_def broker_ok_def)
qed

section \<open>From the gate service to the broker\<close>

text \<open>The manager's calls behind the events the gate service emits, in their order.\<close>

definition replay_event :: "broker_auth \<Rightarrow> 'r env \<Rightarrow> 'b link \<Rightarrow> event \<Rightarrow> 'b dynsec \<Rightarrow> 'b dynsec" where
  "replay_event m X L e s = (case e of
      EvBrokerSync g tok \<Rightarrow> snd (broker_SyncCredentials m X L g tok s)
    | EvBrokerRemove g \<Rightarrow> snd (broker_RemoveCredentials m X L g s)
    | _ \<Rightarrow> s)"

definition replay :: "broker_auth \<Rightarrow> 'r env \<Rightarrow> 'b link \<Rightarrow> event list \<Rightarrow> 'b dynsec \<Rightarrow> 'b dynsec" where
  "replay m X L es s = fold (replay_event m X L) es s"

lemma rotate_emits:
  assumes "fst (gate_RotateToken X now gateID w) = Inr tok" and "\<not> x_brokerFault X now gateID"
  shows "w_out (snd (gate_RotateToken X now gateID w)) = w_out w @ [EvBrokerSync gateID tok]"
proof -
  obtain g where g: "gates_GetByID (x_dbFault X now) (w_db w) gateID = Inr g"
    using assms(1) by (auto simp: gate_RotateToken_def Let_def split: sum.splits)
  then have "g_ID g = gateID" using gates_GetByID_ok gate_row_SomeD by fastforce
  with g assms show ?thesis
    by (auto simp: gate_RotateToken_def Let_def on_db_def syncBroker_def split: sum.splits)
qed

lemma delete_emits:
  assumes "fst (gate_Delete X now gateID w) = Inr ()" and "\<not> x_brokerFault X now gateID"
  shows "w_out (snd (gate_Delete X now gateID w)) = w_out w @ [EvBrokerRemove gateID]"
  using assms by (auto simp: gate_Delete_def on_db_def removeBroker_def Let_def split: sum.splits)

lemma uuid_text_inj: "uuid_ok X \<Longrightarrow> x_uuidString X i = x_uuidString X j \<longleftrightarrow> i = j"
  by (metis option.inject uuid_ok_def)

text \<open>A deleted gate is refused by the broker, the other gates are not affected.\<close>

lemma broker_forgets_gate:
  assumes "prompt L" "idle s" "broker_ok (li_control L) pw" "uuid_ok X"
    and "fst (gate_Delete X now gateID w) = Inr ()" and "\<not> x_brokerFault X now gateID"
  shows "\<exists>es. w_out (snd (gate_Delete X now gateID w)) = w_out w @ es
      \<and> (\<forall>j. pw (dy_broker (replay DynSec X L es s)) (x_uuidString X j) = (if j = gateID then None else pw (dy_broker s) (x_uuidString X j)))"
proof -
  have "pw (dy_broker (replay DynSec X L [EvBrokerRemove gateID] s)) = (pw (dy_broker s))(x_uuidString X gateID := None)"
    using remove_prompt(1) [OF assms(1-3), of X gateID] by (simp add: replay_def replay_event_def broker_RemoveCredentials_def)
  then show ?thesis
    using delete_emits [OF assms(5,6)]
    by (intro exI [of _ "[EvBrokerRemove gateID]"]) (auto simp: uuid_text_inj [OF assms(4)])
qed

text \<open>
  C25: The broker follows the database: when its answers arrive in time, the synchronisation that
  rotating a gate's token starts leaves the broker accepting for that gate exactly the token the
  database accepts, and the clients of the other gates keep their passwords.
\<close>

theorem broker_follows_rotation:
  assumes "prompt L" "idle s" "broker_ok (li_control L) pw" "uuid_ok X"
    and "fst (gate_RotateToken X now gateID w) = Inr tok" and "\<not> x_brokerFault X now gateID"
  shows "\<exists>es. w_out (snd (gate_RotateToken X now gateID w)) = w_out w @ es
      \<and> (\<forall>t. pw (dy_broker (replay DynSec X L es s)) (x_uuidString X gateID) = Some t
            \<longleftrightarrow> token_matches (w_db (snd (gate_RotateToken X now gateID w))) gateID t)
      \<and> (\<forall>j. j \<noteq> gateID \<longrightarrow> pw (dy_broker (replay DynSec X L es s)) (x_uuidString X j) = pw (dy_broker s) (x_uuidString X j))"
proof -
  note R = RotateToken_ok [OF assms(5)]
  have t: "token_matches (w_db (snd (gate_RotateToken X now gateID w))) gateID t \<longleftrightarrow> t = tok" for t
    unfolding R(3) using gt.accepts_set [OF R(2), of gateID t] by simp
  have "pw (dy_broker (replay DynSec X L [EvBrokerSync gateID tok] s)) = (pw (dy_broker s))(x_uuidString X gateID \<mapsto> tok)"
    using sync_prompt(2) [OF assms(1-3) refl] by (simp add: replay_def replay_event_def broker_SyncCredentials_def)
  then show ?thesis
    using rotate_emits [OF assms(5,6)] t
    by (intro exI [of _ "[EvBrokerSync gateID tok]"]) (auto simp: uuid_text_inj [OF assms(4)])
qed

section \<open>A concrete broker\<close>

definition answer_error :: "string \<Rightarrow> gval option" where
  "answer_error e = Some (VObj [(''responses'', VArr [VObj (if e = [] then [] else [(''error'', VStr e)])])])"

definition sample_control :: "(string \<times> string) list \<Rightarrow> gmap list \<Rightarrow> gval option \<times> (string \<times> string) list" where
  "sample_control b cmds = (case cmds of
      [m] \<Rightarrow> (let c = str_field m ''command''; u = str_field m ''username''; p = str_field m ''password''
        in if c = ''createClient'' then
             (if map_of b u = None then (answer_error [], (u, p) # b) else (answer_error ''Client already exists'', b))
           else if c = ''setClientPassword'' then
             (if map_of b u = None then (answer_error ''Client not found'', b) else (answer_error [], (u, p) # b))
           else if c = ''deleteClient'' then
             (answer_error (if map_of b u = None then ''Client not found'' else []), filter (\<lambda>e. fst e \<noteq> u) b)
           else (answer_error [], b))
    | _ \<Rightarrow> (answer_error [], b))"

lemma sample_broker_ok: "broker_ok sample_control map_of"
proof -
  have "map_of (filter (\<lambda>e. fst e \<noteq> u) b) = (map_of b)(u := None)" for b :: "(string \<times> string) list" and u
    by (induction b) (auto simp: fun_eq_iff)
  then show ?thesis
    by (auto simp: broker_ok_def sample_control_def createClient_cmd_def setClientPassword_cmd_def deleteClient_cmd_def
        str_field_def Let_def answer_error_def response_errors_def response_error_def)
qed

definition sample_link :: "(nat \<Rightarrow> bool) \<Rightarrow> (string \<times> string) list link" where
  "sample_link arrives = \<lparr>li_control = sample_control, li_subFails = False, li_pubFails = (\<lambda>_. False), li_early = (\<lambda>_. 0), li_arrives = arrives\<rparr>"

definition sample_manager :: "(string \<times> string) list \<Rightarrow> (string \<times> string) list dynsec" where
  "sample_manager b = \<lparr>dy_broker = b, dy_underway = [], dy_respCh = None, dy_subscribed = True, dy_step = 0\<rparr>"

theorem broker_follows_rotation_witness:
  "let X = sample_env sample_gate_table; r = gate_RotateToken X 0 1 (sample_world sample_db)
   in fst r = Inr ''gate-jwt''
     \<and> (\<exists>es. w_out (snd r) = es \<and> map_of (dy_broker (replay DynSec X (sample_link (\<lambda>_. True)) es (sample_manager [(''i'', ''old'')]))) ''i'' = Some ''gate-jwt'')"
proof -
  let ?X = "sample_env sample_gate_table"
  let ?r = "gate_RotateToken ?X 0 1 (sample_world sample_db)"
  have r: "fst ?r = Inr ''gate-jwt''" by code_simp
  have u: "x_uuidString ?X 1 = ''i''" by code_simp
  have t: "token_matches (w_db (snd ?r)) 1 ''gate-jwt''" by code_simp
  have f: "\<not> x_brokerFault ?X 0 1" by (simp add: sample_env_def)
  have L: "prompt (sample_link (\<lambda>_. True))" "idle (sample_manager [(''i'', ''old'')])" "broker_ok (li_control (sample_link (\<lambda>_. True))) map_of"
    by (simp_all add: prompt_def idle_def sample_link_def sample_manager_def sample_broker_ok)
  show ?thesis
    using broker_follows_rotation [OF L sample_uuid_ok r f] r t u by (auto simp: Let_def)
qed

section \<open>Answers that come late\<close>

text \<open>
  Answers carry nothing that ties them to a command: when the answer to one synchronisation
  misses its deadline, the next one reads it as its own. If that next gate already has a client, the
  manager reports success although the broker still accepts the gate's previous token and never
  learns the new one.
\<close>

theorem late_answer_misread:
  assumes "idle s" "broker_ok (li_control L) pw" "x_uuidString X g1 \<noteq> x_uuidString X g2"
    and "\<And>k. \<not> li_pubFails L k" "li_early L (Suc (dy_step s)) = 0"
    and "\<not> li_arrives L (dy_step s)" "li_arrives L (Suc (dy_step s))"
    and "pw (dy_broker s) (x_uuidString X g1) = None" "pw (dy_broker s) (x_uuidString X g2) = Some old"
  shows "isl (fst (SyncCredentials X L g1 tok1 s))
      \<and> fst (SyncCredentials X L g2 tok2 (snd (SyncCredentials X L g1 tok1 s))) = Inr ()
      \<and> pw (dy_broker (snd (SyncCredentials X L g2 tok2 (snd (SyncCredentials X L g1 tok1 s))))) (x_uuidString X g2) = Some old"
proof -
  let ?u1 = "x_uuidString X g1" and ?u2 = "x_uuidString X g2"
  obtain a1 b1 where c1: "li_control L (dy_broker s) [createClient_cmd ?u1 tok1] = (a1, b1)" by fastforce
  then have ok1: "response_errors a1 = Some [[]]" "pw b1 = (pw (dy_broker s))(?u1 \<mapsto> tok1)"
    using assms(2,8) unfolding broker_ok_def by (metis fst_conv snd_conv)+
  define s1 where "s1 = snd (SyncCredentials X L g1 tok1 s)"
  have 1: "isl (fst (SyncCredentials X L g1 tok1 s))" "dy_broker s1 = b1" "dy_underway s1 = [a1]" "dy_step s1 = Suc (dy_step s)" "dy_subscribed s1"
    using assms(1,4,6) c1
    by (simp_all add: s1_def SyncCredentials_def execWithResponse_def Let_def idle_def deliver_early_idle werr_def)
  have old: "pw b1 ?u2 = Some old" using ok1(2) assms(3,9) by simp
  obtain a2 b2 where c2: "li_control L b1 [createClient_cmd ?u2 tok2] = (a2, b2)" by fastforce
  then have "pw b2 = pw b1"
    using assms(2) old unfolding broker_ok_def by (metis option.distinct(1) snd_conv)
  moreover have "fst (SyncCredentials X L g2 tok2 s1) = Inr () \<and> dy_broker (snd (SyncCredentials X L g2 tok2 s1)) = b2"
    using 1 ok1(1) assms(4,5,7) c2
    by (simp add: SyncCredentials_def execWithResponse_def Let_def deliver_early_def werr_def dynsecHasError_def dynsecFirstError_def)
  ultimately show ?thesis using 1(1) old by (simp add: s1_def)
qed

theorem late_answer_misread_witness:
  "let X = sample_env []; L = sample_link (\<lambda>k. k \<noteq> 0); s1 = snd (SyncCredentials X L 1 ''new1'' (sample_manager [(''ii'', ''old2'')]));
       r = SyncCredentials X L 2 ''new2'' s1
   in fst r = Inr () \<and> map_of (dy_broker (snd r)) ''ii'' = Some ''old2''"
proof -
  let ?X = "sample_env []" and ?L = "sample_link (\<lambda>k. k \<noteq> 0)" and ?s = "sample_manager [(''ii'', ''old2'')]"
  have u: "x_uuidString ?X 1 = ''i''" "x_uuidString ?X 2 = ''ii''" by code_simp+
  have "broker_ok (li_control ?L) map_of" by (simp add: sample_link_def sample_broker_ok)
  moreover have "idle ?s" "dy_step ?s = 0" "dy_broker ?s = [(''ii'', ''old2'')]" by (simp_all add: idle_def sample_manager_def)
  moreover have "\<not> li_pubFails ?L k" "li_early ?L k = 0" "li_arrives ?L k = (k \<noteq> 0)" for k by (simp_all add: sample_link_def)
  ultimately show ?thesis
    using late_answer_misread [of ?s ?L map_of ?X 1 2 "''old2''" "''new1''" "''new2''"] u by (simp add: Let_def)
qed

section \<open>The topics the role may use\<close>

text \<open>
  The documented matching of an access rule: \<open>+\<close> stands for one level and \<open>%u\<close> for the client's
  name, which has no slash, so a pattern without \<open>#\<close> only matches topics with as many levels.
\<close>

definition acl_ok :: "(string \<Rightarrow> string \<Rightarrow> string \<Rightarrow> bool) \<Rightarrow> bool" where
  "acl_ok matches \<longleftrightarrow> (\<forall>pattern user topic. CHR ''#'' \<notin> set pattern \<longrightarrow> CHR ''/'' \<notin> set user \<longrightarrow> matches pattern user topic
     \<longrightarrow> length (split_on CHR ''/'' topic) = length (split_on CHR ''/'' pattern))"

text \<open>
  The access rules of the gates' role match none of the topics of the program: a gate's
  status and command topics have three levels and the patterns have four. With everything else
  denied, no gate can publish its status or receive a command through the broker.
\<close>

theorem role_acls_match_nothing:
  assumes "acl_ok matches" and "CHR ''/'' \<notin> set user" and "CHR ''/'' \<notin> set (x_uuidString X g)"
    and "(acltype, pattern) \<in> set role_acls"
  shows "\<not> matches pattern user (StatusTopic X g) \<and> \<not> matches pattern user (CommandTopic X g)"
proof -
  have three: "length (split_on CHR ''/'' (''gates/'' @ x_uuidString X g @ CHR ''/'' # s)) = 3" if "CHR ''/'' \<notin> set s" for s
    using assms(3) that by (simp add: split_on_append split_on_no_sep)
  have "length (split_on CHR ''/'' (StatusTopic X g)) = 3" "length (split_on CHR ''/'' (CommandTopic X g)) = 3"
    using three [of "''status''"] three [of "''command''"] by (simp_all add: StatusTopic_def CommandTopic_def)
  moreover have "CHR ''#'' \<notin> set pattern" "length (split_on CHR ''/'' pattern) = 4"
    using assms(4) by (auto simp: role_acls_def)
  ultimately show ?thesis using assms(1,2) unfolding acl_ok_def by fastforce
qed

definition level_match :: "string \<Rightarrow> string \<Rightarrow> string \<Rightarrow> bool" where
  "level_match pattern user topic =
     list_all2 (\<lambda>p t. p = ''+'' \<or> (if p = ''%u'' then user else p) = t) (split_on CHR ''/'' pattern) (split_on CHR ''/'' topic)"

theorem role_acls_match_nothing_witness:
  "level_match ''+/gates/%u/status'' ''ii'' ''site/gates/ii/status'' \<and> \<not> level_match ''+/gates/%u/status'' ''ii'' (StatusTopic (sample_env []) 2)"
proof -
  have "acl_ok level_match" by (auto simp: acl_ok_def level_match_def dest: list_all2_lengthD)
  moreover have "CHR ''/'' \<notin> set (x_uuidString (sample_env []) 2)" "level_match ''+/gates/%u/status'' ''ii'' ''site/gates/ii/status''"
    by code_simp+
  ultimately show ?thesis
    using role_acls_match_nothing [of level_match "''ii''" "sample_env []" 2 "''publishClientSend''" "''+/gates/%u/status''"]
    by (simp add: role_acls_def)
qed

end
