(* ===== verification/Server.thy ===== *)
theory Server
  imports Api
begin

text \<open>
  The server as a state machine: requests, the sweeps of the two background workers and MQTT
  messages, in any order and with any failures, act on one world. The first part collects what
  the operations leave alone; the second shows that every step keeps the constraints of the
  schema.
\<close>

section \<open>Frames\<close>

lemma hbind_db: "(\<And>a w. V (w_db (snd (f a w))) = V (w_db w)) \<Longrightarrow> V (w_db (snd (hbind r f))) = V (w_db (snd r))"
  by (cases r; cases "fst r") (simp_all add: hbind_def)

lemma wbind_db: "(\<And>a w. V (w_db (snd (f a w))) = V (w_db w)) \<Longrightarrow> V (w_db (snd (wbind r f))) = V (w_db (snd r))"
  by (cases r; cases "fst r") (simp_all add: wbind_def)

lemma answer_db [simp]:
  "snd (status r) = snd r" "snd (query q w) = w" "snd (redirected r') = snd r'"
  by (simp_all add: status_def query_def redirected_def)

lemma TenantResolver_db: "w_db (snd (TenantResolver X now h w)) = w_db w"
  by (auto simp: TenantResolver_def Let_def split: sum.splits)

lemma RateLimiter_db: "w_db (snd (RateLimiter X now p n d cx w)) = w_db w"
  by (auto simp: RateLimiter_def Let_def split: option.splits prod.splits)

lemma run_guard_db: "w_db (snd (run_guard X now rq cx g w)) = w_db w"
  by (simp add: run_guard_def RateLimiter_db split: guard.splits)

lemma run_guards_db: "w_db (snd (run_guards X now rq cx gs w)) = w_db w"
  by (induction gs arbitrary: w) (simp_all add: hbind_db [of id, simplified] run_guard_db)

lemma run_guards_passed:
  "fst (run_guards X now rq cx gs w) = Inr () \<Longrightarrow> g \<in> set gs \<Longrightarrow>
   \<exists>w'. w_db w' = w_db w \<and> fst (run_guard X now rq cx g w') = Inr ()"
proof (induction gs arbitrary: w)
  case (Cons a gs)
  then obtain w1 where a: "run_guard X now rq cx a w = (Inr (), w1)" and r: "fst (run_guards X now rq cx gs w1) = Inr ()"
    by (auto simp: hbind_ok_iff)
  have d: "w_db w1 = w_db w" using run_guard_db [of X now rq cx a w] a by simp
  show ?case
  proof (cases "g = a")
    case True
    with a show ?thesis by (intro exI [of _ w]) simp
  next
    case False
    with Cons.IH [OF r] Cons.prems(2) d show ?thesis by auto
  qed
qed simp

text \<open>The services that only use Redis and the event stream.\<close>

lemma tokens_db:
  "w_db (snd (issueTokenPair X now m r sd w)) = w_db w"
  "w_db (snd (IssueGatePinSession X now i g sd ps w)) = w_db w"
  by (simp_all add: issueTokenPair_def IssueGatePinSession_def wbind_db [of id, simplified])

lemma auth_db:
  "w_db (snd (Login X now u p w)) = w_db w"
  "w_db (snd (Refresh X now tok w)) = w_db w"
  "w_db (RevokeRefreshToken X now tok w) = w_db w"
proof -
  show "w_db (snd (Login X now u p w)) = w_db w"
    by (simp add: Login_def Let_def wbind_db [of id, simplified] tokens_db split: sum.splits)
  have m: "w_db (snd (refresh_member X now pl w1)) = w_db w1" for pl and w1 :: "'a world"
    by (simp add: refresh_member_def wbind_db [of id, simplified] tokens_db split: option.splits sum.splits)
  have p: "w_db (snd (refresh_pin X now pl w1)) = w_db w1" for pl and w1 :: "'a world"
    by (simp add: refresh_pin_def Let_def wbind_db [of id, simplified] tokens_db split: option.splits sum.splits)
  have g: "w_db w1 = w_db w" if "redis_GetDel X now w k = (r, w1)" for r w1 k
    using redis_frame(1) [of X now w k] that by simp
  show "w_db (snd (Refresh X now tok w)) = w_db w"
    by (auto simp: Refresh_def Let_def m p g split: prod.splits sum.splits rval.splits gval.splits)
  show "w_db (RevokeRefreshToken X now tok w) = w_db w"
    by (simp add: RevokeRefreshToken_def)
qed

lemma count_attempt_db: "w_db (snd (count_attempt X now g ip w)) = w_db w"
  by (simp add: count_attempt_def Let_def split: prod.splits)

lemma validatePIN_db: "w_db (snd (validatePIN X now g p ip w)) = w_db w"
proof -
  obtain r w1 where e: "count_attempt X now g ip w = (r, w1)" by fastforce
  with count_attempt_db [of X now g ip w] have "w_db w1 = w_db w" by simp
  with e show ?thesis
    by (simp add: validatePIN_def wbind_db [of id, simplified] split: option.splits prod.splits)
qed

lemma count_use_db: "w_db (snd (count_use X now m mt w)) = w_db w"
proof -
  have "w_db w1 = w_db w" if "use_script X now k n w = (r, w1)" for r w1 k n
    using that by (auto simp: use_script_def split: if_splits option.splits prod.splits)
  then show ?thesis by (auto simp: count_use_def split: prod.splits option.splits)
qed

lemma pin_db:
  "w_db (triggerGate X now g w) = w_db w"
  "w_db (snd (Unlock X now g p ip w)) = w_db w" "w_db (snd (pin_Open X now g p ip w)) = w_db w"
  "w_db (snd (TriggerWithSession X now tok a w)) = w_db w"
proof -
  show t: "w_db (triggerGate X now g w) = w_db w" for w
    by (simp add: triggerGate_def split: sum.splits)
  show "w_db (snd (Unlock X now g p ip w)) = w_db w"
    by (simp add: Unlock_def wbind_db [of id, simplified] validatePIN_db t)
  show "w_db (snd (pin_Open X now g p ip w)) = w_db w"
    by (simp add: pin_Open_def wbind_db [of id, simplified] validatePIN_db t count_use_db tokens_db split: prod.splits)
  show "w_db (snd (TriggerWithSession X now tok a w)) = w_db w"
    by (simp add: TriggerWithSession_def Let_def wbind_db [of id, simplified] split: sum.splits prod.splits)
qed

lemma gate_Trigger_db: "w_db (snd (gate_Trigger X now g r m c a w)) = w_db w"
  by (simp add: gate_Trigger_def audit_Insert_def split: sum.splits)

lemma ConsumeState_db: "w_db (snd (ConsumeState X now st w)) = w_db w"
proof -
  have "w_db w1 = w_db w" if "redis_GetDel X now w k = (r, w1)" for r w1 k
    using redis_frame(1) [of X now w k] that by simp
  then show ?thesis by (auto simp: ConsumeState_def split: prod.splits sum.splits)
qed

lemma sso_db:
  "w_db (snd (sso_Authorize X now p g w)) = w_db w" "w_db (snd (sso_Exchange X now c w)) = w_db w"
proof -
  have "w_db (snd (GenerateAuthURL X now p g w)) = w_db w"
    by (simp add: GenerateAuthURL_def oidc_AuthURL_def wbind_db [of id, simplified] split: sum.splits option.splits)
  then show "w_db (snd (sso_Authorize X now p g w)) = w_db w"
    by (cases "GenerateAuthURL X now p g w") (auto simp: sso_Authorize_def split: sum.splits)
  have "w_db w1 = w_db w" if "redis_GetDel X now w k = (r, w1)" for r w1 k
    using redis_frame(1) [of X now w k] that by simp
  then show "w_db (snd (sso_Exchange X now c w)) = w_db w"
    by (auto simp: sso_Exchange_def split: prod.splits sum.splits rval.splits gval.splits option.splits)
qed

section \<open>Every step keeps the constraints\<close>

named_theorems wf_rules

lemma hbind_wf [wf_rules]:
  "db_wf (w_db (snd r)) \<Longrightarrow> (\<And>a w. db_wf (w_db w) \<Longrightarrow> db_wf (w_db (snd (f a w)))) \<Longrightarrow> db_wf (w_db (snd (hbind r f)))"
  by (cases r; cases "fst r") (simp_all add: hbind_def)

lemma wbind_wf [wf_rules]:
  "db_wf (w_db (snd r)) \<Longrightarrow> (\<And>a w. db_wf (w_db w) \<Longrightarrow> db_wf (w_db (snd (f a w)))) \<Longrightarrow> db_wf (w_db (snd (wbind r f)))"
  by (cases r; cases "fst r") (simp_all add: wbind_def)

lemma on_db_wf: "on_db f w = (r, w1) \<Longrightarrow> db_wf (snd (f (w_db w))) \<Longrightarrow> db_wf (w_db w1)"
  by (auto simp: on_db_def Let_def)

declare repo_wf_ops [wf_rules]

lemma gate_service_wf [wf_rules]:
  assumes "db_wf (w_db w)"
  shows "db_wf (w_db (snd (gate_Create X now p w)))" and "db_wf (w_db (snd (gate_Update X now g up w)))"
    and "db_wf (w_db (snd (gate_Delete X now g w)))" and "db_wf (w_db (snd (gate_RotateToken X now g w)))"
    and "db_wf (w_db (snd (ProcessGateStatus X now gt s m w)))"
proof -
  have b: "w_db (syncBroker X now g tok w) = w_db w" "w_db (removeBroker X now g w) = w_db w" for g tok w
    by (simp_all add: syncBroker_def removeBroker_def)
  show "db_wf (w_db (snd (gate_Create X now p w)))"
    using assms by (auto simp: gate_Create_def Let_def b intro!: wf_rules dest!: on_db_wf split: prod.splits sum.splits)
  show "db_wf (w_db (snd (gate_Update X now g up w)))"
    using assms by (auto simp: gate_Update_def intro!: wf_rules dest!: on_db_wf split: prod.splits sum.splits)
  show "db_wf (w_db (snd (gate_Delete X now g w)))"
    using assms by (auto simp: gate_Delete_def b intro!: wf_rules dest!: on_db_wf split: prod.splits sum.splits)
  show "db_wf (w_db (snd (gate_RotateToken X now g w)))"
    using assms by (auto simp: gate_RotateToken_def Let_def b intro!: wf_rules dest!: on_db_wf split: prod.splits sum.splits)
  show "db_wf (w_db (snd (ProcessGateStatus X now gt s m w)))"
    using assms by (auto simp: ProcessGateStatus_def Let_def intro!: wf_rules dest!: on_db_wf split: prod.splits sum.splits)
qed

lemma account_service_wf [wf_rules]:
  assumes "db_wf (w_db w)"
  shows "db_wf (w_db (snd (Register X now u p n w)))" and "db_wf (w_db (snd (member_Create X now u n p r w)))"
    and "db_wf (w_db (snd (member_Update X now i no uo ro w)))" and "db_wf (w_db (snd (member_Delete X now i w)))"
    and "db_wf (w_db (snd (new_token X now i l e w)))" and "db_wf (w_db (snd (delete_credential X now rf i m w)))"
proof -
  show "db_wf (w_db (snd (Register X now u p n w)))"
    using assms by (auto simp: Register_def Let_def tokens_db intro!: wf_rules split: sum.splits)
  show "db_wf (w_db (snd (member_Create X now u n p r w)))"
    using assms by (auto simp: member_Create_def Let_def intro!: wf_rules)
  show "db_wf (w_db (snd (member_Update X now i no uo ro w)))"
    using assms by (auto simp: member_Update_def Let_def intro!: wf_rules dest!: on_db_wf split: prod.splits sum.splits)
  show "db_wf (w_db (snd (member_Delete X now i w)))"
    using assms by (auto simp: member_Delete_def intro!: wf_rules)
  show "db_wf (w_db (snd (new_token X now i l e w)))"
    using assms by (auto simp: new_token_def intro!: wf_rules split: prod.splits)
  show "db_wf (w_db (snd (delete_credential X now rf i m w)))"
    using assms by (auto simp: delete_credential_def Let_def intro!: wf_rules)
qed

lemma grant_all_wf [wf_rules]: "db_wf (w_db w) \<Longrightarrow> db_wf (w_db (snd (grant_all X now c ps w)))"
  by (induction X now c ps w rule: grant_all.induct) (auto intro!: wf_rules)

lemma schedule_service_wf [wf_rules]:
  assumes "db_wf d"
  shows "db_wf (snd (schedule_Create X now d n de e))" and "db_wf (snd (schedule_CreateMember X now d m n de e))"
    and "db_wf (snd (schedule_Update X now d i n de e))" and "db_wf (snd (schedule_Delete X now d i))"
  using assms by (auto simp: schedule_Create_def schedule_CreateMember_def schedule_Update_def schedule_Delete_def
      intro!: wf_rules split: sum.splits)

lemma create_sso_member_wf [wf_rules]:
  assumes "db_wf (w_db w)"
  shows "db_wf (w_db (snd (create_sso_member X now i r w)))"
proof -
  let ?name = "if si_DisplayName i = [] then None else Some (si_DisplayName i)"
  let ?create = "\<lambda>u. on_db (\<lambda>d. members_Create (x_dbFault X now) d (x_newID X now ''member'') now u ?name r)"
  have k: "db_wf (w_db (snd (?create u w)))" if "db_wf (w_db w)" for u w
    using that by (auto intro!: wf_rules)
  obtain q w1 where e: "?create (sso_username i) w = (q, w1)" by fastforce
  with k [OF assms, of "sso_username i"] have o: "db_wf (w_db w1)" by simp
  show ?thesis
    using o k [OF o, of "sso_username i @ ''_'' @ take 8 (si_Subject i)"]
    by (cases q) (simp_all only: create_sso_member_def Let_def e prod.case sum.case snd_conv split: if_split, blast)
qed

lemma storeSSOCode_db: "w_db (snd (storeSSOCode X now tp mi gi w)) = w_db w"
  by (simp add: storeSSOCode_def wbind_db [of id, simplified] split: option.splits)

lemma oidc_Exchange_db: "oidc_Exchange X now cfg c st w = (q, w1) \<Longrightarrow> w_db w1 = w_db w"
  using redis_frame(1) [of X now w "state_key st"]
  by (cases "redis_GetDel X now w (state_key st)") (auto simp: oidc_Exchange_def split: sum.splits)

text \<open>A callback changes the database only where it finds or provisions the member.\<close>

lemma sso_Callback_cases:
  assumes "\<And>cfg i w'. w_db w' = w_db w \<Longrightarrow> P (w_db (snd (resolveOrProvision X now cfg i w')))" and "P (w_db w)"
  shows "P (w_db (snd (sso_Callback X now p c st e w)))"
proof (cases "e = []")
  case False
  then show ?thesis
    using ConsumeState_db [of X now st w] assms(2) by (cases "ConsumeState X now st w") (simp add: sso_Callback_def)
next
  case True
  obtain mr gi w1 where e1: "svc_Callback X now p c st w = ((mr, gi), w1)" by (metis surj_pair)
  have "P (w_db (snd (svc_Callback X now p c st w)))"
    using assms by (auto simp: svc_Callback_def Let_def dest: oidc_Exchange_db split: sum.splits prod.splits)
  with e1 have o: "P (w_db w1)" by simp
  show ?thesis
  proof (cases mr)
    case (Inl err)
    with True e1 o show ?thesis by (simp add: sso_Callback_def)
  next
    case (Inr mem)
    obtain tr w2 where e2: "IssueTokenPair X now (mem_ID mem) (mem_Role mem) w1 = (tr, w2)" by fastforce
    then have "w_db w2 = w_db w1" using tokens_db(1) [of X now "mem_ID mem" "mem_Role mem" "cf_sessionDuration X" w1]
      by (simp add: IssueTokenPair_def)
    moreover have "w_db w3 = w_db w2" if "storeSSOCode X now tp mi gi w2 = (q, w3)" for tp mi gi q w3
      using storeSSOCode_db [of X now tp mi gi w2] that by simp
    ultimately show ?thesis
      using True e1 Inr e2 o by (auto simp: sso_Callback_def split: sum.splits prod.splits)
  qed
qed

lemma sso_wf [wf_rules]: "db_wf (w_db w) \<Longrightarrow> db_wf (w_db (snd (sso_Callback X now p c st e w)))"
  by (rule sso_Callback_cases) (auto simp: resolveOrProvision_def Let_def intro!: wf_rules split: sum.splits)

lemma handle_wf:
  assumes "db_wf (w_db w)"
  shows "db_wf (w_db (snd (handle X now rq cx call w)))"
proof (cases call)
  case (SetupCall c)
  have "db_wf (w_db (snd (setup_init X now u p n w)))" for u p n
    using assms by (auto simp: setup_init_def intro!: wf_rules split: sum.splits)
  with assms SetupCall show ?thesis by (cases c) (simp_all add: handle_def)
next
  case (AuthCall c)
  with assms show ?thesis
    by (cases c) (auto simp: handle_def h_Login_def h_Refresh_def h_Logout_def auth_db intro!: wf_rules)
next
  case (GateCall c)
  with assms show ?thesis
    by (cases c) (auto simp: handle_def h_gate_Create_def h_gate_Update_def h_gate_Delete_def h_gate_Trigger_def
        h_gate_RotateToken_def Let_def gate_Trigger_db intro!: wf_rules)
next
  case (PolicyCall c)
  with assms show ?thesis
    by (cases c) (auto simp: handle_def h_policy_Grant_def h_policy_Revoke_def h_policy_RevokePermission_def
        h_policy_SetMemberGateSchedule_def h_policy_RemoveMemberGateSchedule_def svc_Grant_def svc_Revoke_def
        svc_RevokePermission_def svc_SetMemberGateSchedule_def svc_RemoveMemberGateSchedule_def intro!: wf_rules)
next
  case (MemberCall c)
  with assms show ?thesis
    by (cases c) (auto simp: handle_def h_member_Create_def h_member_Update_def h_member_Delete_def intro!: wf_rules)
next
  case (PinCall c)
  with assms show ?thesis
    by (cases c) (auto simp: handle_def h_CreatePIN_def h_UpdatePIN_def h_DeletePIN_def h_SetPinSchedule_def
        h_ClearPinSchedule_def pin_Create_def pin_Update_def pin_Delete_def pin_SetSchedule_def pin_ClearSchedule_def
        h_Unlock_def h_OpenGate_def h_PublicTrigger_def Let_def pin_db intro!: wf_rules)
next
  case (ScheduleCall c)
  with assms show ?thesis
    by (cases c) (auto simp: handle_def h_schedule_Create_def h_schedule_Update_def h_schedule_Delete_def
        h_schedule_CreateMine_def h_schedule_UpdateMine_def h_schedule_DeleteMine_def intro!: wf_rules)
next
  case (SsoCall c)
  with assms show ?thesis by (cases c) (simp_all add: handle_def sso_db sso_wf)
next
  case (CredCall c)
  with assms show ?thesis
    by (cases c) (auto simp: handle_def h_CreateMyAPIToken_def h_DeleteMyCredential_def h_ChangeMyPassword_def
        h_AdminCreateMemberAPIToken_def h_AdminDeleteMemberCredential_def h_AdminSetMemberPassword_def Let_def
        intro!: wf_rules dest!: on_db_wf split: option.splits prod.splits sum.splits)
next
  case (DomainCall c)
  with assms show ?thesis
    by (cases c) (auto simp: handle_def addDomain_def deleteDomain_def verifyDomain_def Let_def intro!: wf_rules split: option.splits)
next
  case (InboundCall c)
  have "db_wf (w_db w1)" if "ProcessGateStatus X now g s m w = (r, w1)" for g s m r w1
    using gate_service_wf(5) [OF assms, of X now g s m] that by simp
  with assms InboundCall show ?thesis
    by (cases c) (auto simp: handle_def PushStatus_def gate_ProcessStatus_def Let_def split: sum.splits prod.splits)
qed

lemma serve_wf: "db_wf (w_db w) \<Longrightarrow> db_wf (w_db (snd (serve X now rq call w)))"
  unfolding serve_def Let_def
  by (rule hbind_wf) (simp_all add: run_guards_db TenantResolver_db handle_wf)

lemma fold_wf: "(\<And>x w. db_wf (w_db w) \<Longrightarrow> db_wf (w_db (f x w))) \<Longrightarrow> db_wf (w_db w) \<Longrightarrow> db_wf (w_db (fold f xs w))"
  by (induction xs arbitrary: w) simp_all

lemma transition_due_db: "transition_due X now g seen t w = (b, w1) \<Longrightarrow> w_db w1 = w_db w"
  by (auto simp: transition_due_def Let_def split: if_splits sum.splits option.splits)

lemma run_transitions_wf: "db_wf (w_db w) \<Longrightarrow> db_wf (w_db (run_transitions X now g seen ts w))"
proof (induction ts arbitrary: w)
  case (Cons t ts)
  obtain b w1 where e: "transition_due X now g seen t w = (b, w1)" by fastforce
  then have w1: "db_wf (w_db w1)" using Cons.prems transition_due_db by metis
  obtain r w2 where u: "on_db (\<lambda>d. gates_UpdateStatus (x_dbFault X now) d now (g_ID g) (st_To t) (g_StatusMetadata g)) w1 = (r, w2)"
    by fastforce
  have w2: "db_wf (w_db w2)" by (rule on_db_wf [OF u]) (simp add: w1 repo_wf_ops)
  show ?case
    using e u Cons.IH [OF w1] Cons.IH [OF w2] w2 by (cases b; cases r) simp_all
qed simp

lemma worker_wf:
  assumes "db_wf (w_db w)"
  shows "db_wf (w_db (tick X now w))" and "db_wf (w_db (pollAll X now w))"
    and "db_wf (w_db (on_status_message X now ba topic payload w))"
proof -
  have "db_wf (w_db (markExpired X now w))"
    using assms by (auto simp: markExpired_def fold_publish_db intro!: wf_rules dest!: on_db_wf split: prod.splits sum.splits)
  then show "db_wf (w_db (tick X now w))"
    by (auto simp: tick_def checkTransitions_def check_gate_transitions_def intro!: fold_wf run_transitions_wf
        split: sum.splits option.splits)
  have "db_wf (w_db (pollGate X now g w))" if "db_wf (w_db w)" for g w
    using gate_service_wf(5) [OF that] that by (simp add: pollGate_def Let_def split: option.splits sum.splits)
  then show "db_wf (w_db (pollAll X now w))"
    unfolding pollAll_def using assms by (rule fold_wf)
  show "db_wf (w_db (on_status_message X now ba topic payload w))"
    using gate_service_wf(5) [OF assms] assms by (auto simp: on_status_message_def Let_def split: sum.splits option.splits)
qed

section \<open>The server\<close>

text \<open>
  One step of the server: a request, a sweep of the TTL worker, a sweep of the webhook
  worker, or a message of the broker. A run starts on the empty schema.
\<close>

inductive server_step :: "'r env \<Rightarrow> 'r world \<Rightarrow> 'r world \<Rightarrow> bool" for X where
  request: "server_step X w (snd (serve X now rq call w))"
| ttl: "server_step X w (tick X now w)"
| webhook: "server_step X w (pollAll X now w)"
| mqtt: "server_step X w (on_status_message X now brokerAuth topic payload w)"

inductive_cases server_stepE: "server_step X w w'"

inductive server_reach :: "'r env \<Rightarrow> 'r world \<Rightarrow> bool" for X where
  start: "w_db w = empty_db \<Longrightarrow> server_reach X w"
| step: "server_reach X w \<Longrightarrow> server_step X w w' \<Longrightarrow> server_reach X w'"

text \<open>
  However requests, sweeps of the workers and messages of the broker interleave, and
  whatever fails on the way, the database satisfies the constraints of the schema at every
  moment: no step leaves a dangling reference, a duplicate key, a gate without a token or a
  second password behind.
\<close>

theorem server_reach_wf:
  assumes "server_reach X w"
  shows "db_wf (w_db w)"
  using assms
proof (induction rule: server_reach.induct)
  case (start w)
  then show ?case by (simp add: empty_db_wf)
next
  case (step w w')
  from step.hyps(2) show ?case
    by (rule server_stepE) (simp_all add: serve_wf worker_wf step.IH)
qed

theorem server_reach_wf_witness:
  "let w = snd (serve auth_env 0 (sample_request ''a:1'' []) (SetupCall (SetupInit ''bob'' ''Passw0rd1'' None)) (sample_world empty_db));
       w' = tick auth_env (60 * Second) w
   in db_wf (w_db w') \<and> length (db_members (w_db w')) = 1"
proof -
  let ?w = "snd (serve auth_env 0 (sample_request ''a:1'' []) (SetupCall (SetupInit ''bob'' ''Passw0rd1'' None)) (sample_world empty_db))"
  have "server_reach auth_env (sample_world empty_db)" by (rule server_reach.start) simp
  from server_reach.step [OF server_reach.step [OF this server_step.request] server_step.ttl]
  have "server_reach auth_env (tick auth_env (60 * Second) ?w)" .
  moreover have "length (db_members (w_db (tick auth_env (60 * Second) ?w))) = 1" by code_simp
  ultimately show ?thesis using server_reach_wf by (simp add: Let_def)
qed

end
