(* ===== verification/Startup.thy ===== *)
theory Startup
  imports Config Events Broker Server
begin

text \<open>
  The life of the process: \<open>cmd/server/main.go\<close> with \<open>internal/db/db.go\<close>, \<open>internal/cache/redis.go\<close> and
  \<open>internal/mqtt/client.go\<close>. What the libraries answer while the process starts is a record of
  functions; starting gives an error or the process, whose services run in the configured
  environment. The second half has the panic recoverer (\<open>internal/middleware/recover.go\<close>), the error
  hook and the health check.
\<close>

section \<open>Connections\<close>

record pool_config =
  pc_URL :: string
  pc_MaxConns :: int
  pc_MinConns :: int
  pc_MaxConnLifetime :: int
  pc_MaxConnIdleTime :: int
  pc_HealthCheckPeriod :: int

record mqtt_options =
  mo_Broker :: string
  mo_ClientID :: string
  mo_AutoReconnect :: bool
  mo_ConnectTimeout :: int
  mo_Credentials :: "(string \<times> string) option"

text \<open>The answers of pgx, go-redis and paho; \<open>bo_link\<close> and \<open>bo_broker\<close> are the dynamic-security plugin.\<close>

record 'b boot_env =
  bo_parseDB :: "string \<Rightarrow> pool_config option"
  bo_openDB :: "pool_config \<Rightarrow> bool"
  bo_pingDB :: "pool_config \<Rightarrow> bool"
  bo_parseRedis :: "string \<Rightarrow> bool"
  bo_pingRedis :: "string \<Rightarrow> bool"
  bo_connect :: "mqtt_options \<Rightarrow> bool"
  bo_subFails :: "string \<Rightarrow> bool"
  bo_link :: "'b link"
  bo_broker :: 'b

definition NewPool :: "'b boot_env \<Rightarrow> string \<Rightarrow> pool_config res" where
  "NewPool E databaseURL = (case bo_parseDB E databaseURL of
      None \<Rightarrow> Inl (wrap ''parse db config'' (ErrExternal ''pgx''))
    | Some parsed \<Rightarrow>
        (let cfg = parsed\<lparr>pc_MaxConns := 20, pc_MinConns := 2, pc_MaxConnLifetime := 30 * Minute,
                          pc_MaxConnIdleTime := 10 * Minute, pc_HealthCheckPeriod := Minute\<rparr>
         in if \<not> bo_openDB E cfg then Inl (wrap ''create db pool'' (ErrExternal ''pgx''))
            else if \<not> bo_pingDB E cfg then Inl (wrap ''ping db'' (ErrExternal ''pgx''))
            else Inr cfg))"

definition NewRedis :: "'b boot_env \<Rightarrow> string \<Rightarrow> string res" where
  "NewRedis E redisURL =
     (if \<not> bo_parseRedis E redisURL then Inl (wrap ''parse redis url'' (ErrExternal ''redis''))
      else if \<not> bo_pingRedis E redisURL then Inl (wrap ''ping redis'' (ErrExternal ''redis''))
      else Inr redisURL)"

definition mqtt_New :: "'b boot_env \<Rightarrow> string \<Rightarrow> string \<Rightarrow> string \<Rightarrow> mqtt_options res" where
  "mqtt_New E brokerURL username password =
     (let opts = \<lparr>mo_Broker = brokerURL, mo_ClientID = ''gatie-server'', mo_AutoReconnect = True, mo_ConnectTimeout = 5 * Second,
                  mo_Credentials = (if username \<noteq> [] then Some (username, password) else None)\<rparr>
      in if \<not> bo_connect E opts then Inl (wrap ''mqtt connect'' (ErrExternal ''mqtt'')) else Inr opts)"

definition mqtt_Subscribe :: "'b boot_env \<Rightarrow> string \<Rightarrow> unit res" where
  "mqtt_Subscribe E topic = (if bo_subFails E topic then Inl (ErrExternal ''mqtt'') else Inr ())"

definition dynsecRespTopic :: string where
  "dynsecRespTopic = ''$CONTROL/dynamic-security/v1/response''"

text \<open>The plugin's link as the manager sees it: its subscription is one of the client's.\<close>

definition manager_link :: "'b boot_env \<Rightarrow> 'b link" where
  "manager_link E = (bo_link E)\<lparr>li_subFails := isl (mqtt_Subscribe E dynsecRespTopic)\<rparr>"

section \<open>The process\<close>

text \<open>
  The deferred calls of \<open>main\<close>, in the order in which they are deferred. \<open>ps_messages\<close> is the flag
  under which status messages are handled, if the subscription stands.
\<close>

datatype cleanup = ClosePool | CloseRedis | DisconnectMQTT | CancelTTL | CancelWebhook | CancelTimeout

record 'b process =
  ps_config :: config
  ps_pool :: pool_config
  ps_redisURL :: string
  ps_client :: "mqtt_options option"
  ps_brokerAuth :: broker_auth
  ps_manager :: "'b dynsec"
  ps_messages :: "bool option"
  ps_defers :: "cleanup list"

definition SubscribeGateStatuses :: "'b boot_env \<Rightarrow> bool \<Rightarrow> bool option" where
  "SubscribeGateStatuses E brokerAuth =
     (case mqtt_Subscribe E ''gates/+/status'' of Inl _ \<Rightarrow> None | Inr _ \<Rightarrow> Some brokerAuth)"

text \<open>From the open connections on nothing can fail any more.\<close>

definition boot_services :: "'b boot_env \<Rightarrow> config \<Rightarrow> pool_config \<Rightarrow> string \<Rightarrow> 'b process" where
  "boot_services E cfg pool redis =
     (let client = (case mqtt_New E (co_MQTTBroker cfg) (co_MQTTUsername cfg) (co_MQTTPassword cfg) of
            Inl _ \<Rightarrow> None | Inr c \<Rightarrow> Some c);
          ((brokerAuth, brokerAuthEnabled), manager) =
            select_broker_auth (co_MQTTAuthMode cfg) (client \<noteq> None) (manager_link E) (NewDynSecManager (bo_broker E));
          messages = (if client \<noteq> None then SubscribeGateStatuses E brokerAuthEnabled else None)
      in \<lparr>ps_config = cfg, ps_pool = pool, ps_redisURL = redis, ps_client = client, ps_brokerAuth = brokerAuth,
          ps_manager = manager, ps_messages = messages,
          ps_defers = [ClosePool, CloseRedis] @ (if client \<noteq> None then [DisconnectMQTT] else []) @ [CancelTTL, CancelWebhook]\<rparr>)"

definition boot :: "getenv \<Rightarrow> 'b boot_env \<Rightarrow> 'b process res" where
  "boot getenv E =
     rbind (Load getenv) (\<lambda>cfg.
     rbind (NewPool E (co_DatabaseURL cfg)) (\<lambda>pool.
     rbind (NewRedis E (co_RedisURL cfg)) (\<lambda>redis.
     Inr (boot_services E cfg pool redis))))"

text \<open>The environment the services of a process run in.\<close>

definition process_env :: "'b process \<Rightarrow> 'r env \<Rightarrow> 'r env" where
  "process_env p X = (configure (ps_config p) X)\<lparr>x_mqttUp := ps_client p \<noteq> None\<rparr>"

text \<open>
  The end: a start or a listener that fails leaves through \<open>os.Exit\<close>, which runs no deferred call; a
  signal shuts the listener down and returns from \<open>main\<close>, which runs them, the last one first.
\<close>

datatype ending = ListenFailed | Signalled

definition server_main :: "getenv \<Rightarrow> 'b boot_env \<Rightarrow> ending \<Rightarrow> int \<times> cleanup list" where
  "server_main getenv E e = (case boot getenv E of
      Inl _ \<Rightarrow> (1, [])
    | Inr p \<Rightarrow> (case e of ListenFailed \<Rightarrow> (1, []) | Signalled \<Rightarrow> (0, rev (ps_defers p @ [CancelTimeout]))))"

section \<open>When the process starts\<close>

definition db_reachable :: "'b boot_env \<Rightarrow> string \<Rightarrow> bool" where
  "db_reachable E url = (\<not> isl (NewPool E url))"

lemma NewPool_settings:
  "NewPool E url = Inr pool \<Longrightarrow> pc_MaxConns pool = 20 \<and> pc_MinConns pool = 2 \<and> bo_pingDB E pool"
  by (auto simp: NewPool_def Let_def split: option.splits if_splits)

lemma NewRedis_ok: "NewRedis E url = Inr r \<longleftrightarrow> r = url \<and> bo_parseRedis E url \<and> bo_pingRedis E url"
  by (auto simp: NewRedis_def)

lemma boot_ok:
  assumes "boot getenv E = Inr p"
  obtains cfg pool where "Load getenv = Inr cfg" and "NewPool E (co_DatabaseURL cfg) = Inr pool"
    and "p = boot_services E cfg pool (co_RedisURL cfg)"
  using assms by (auto simp: boot_def rbind_Inr_iff NewRedis_ok)

lemma boot_services_sel [simp]:
  "ps_config (boot_services E cfg pool redis) = cfg" "ps_pool (boot_services E cfg pool redis) = pool"
  "ps_redisURL (boot_services E cfg pool redis) = redis"
  by (simp_all add: boot_services_def Let_def split: prod.splits)


section \<open>Whom a running process trusts\<close>

text \<open>The steps of a process: status messages are handled under the flag chosen while starting.\<close>

inductive process_step :: "'b process \<Rightarrow> 'r env \<Rightarrow> 'r world \<Rightarrow> 'r world \<Rightarrow> bool" for p X where
  request: "process_step p X w (snd (serve (process_env p X) now rq call w))"
| ttl: "process_step p X w (tick (process_env p X) now w)"
| webhook: "process_step p X w (pollAll (process_env p X) now w)"
| status_message: "ps_messages p = Some brokerAuth \<Longrightarrow>
    process_step p X w (on_status_message (process_env p X) now brokerAuth topic payload w)"

inductive_cases process_stepE: "process_step p X w w'"

text \<open>A process is an instance of the server with its environment fixed.\<close>

lemma process_step_server: "process_step p X w w' \<Longrightarrow> server_step (process_env p X) w w'"
  by (elim process_stepE) (auto intro: server_step.intros)

lemma Setup_subscribes:
  "Setup L s = (Inr (), s') \<Longrightarrow> \<not> li_subFails L \<and> dy_subscribed s'"
proof -
  assume S: "Setup L s = (Inr (), s')"
  have sub: "dy_subscribed (snd (execWithResponse L cmds s)) = dy_subscribed s" for cmds and s :: "'a dynsec"
  proof -
    have f: "dy_subscribed (fold on_response ms s) = dy_subscribed s" for ms and s :: "'a dynsec"
      by (induction ms arbitrary: s) (simp_all add: on_response_def)
    show ?thesis
      by (simp add: execWithResponse_def deliver_early_def f Let_def split: prod.splits list.splits)
  qed
  have "dy_subscribed (snd (execIgnoreExists L cmds s)) = dy_subscribed s"
    "dy_subscribed (snd (dynsec_exec L cmds s)) = dy_subscribed s" for cmds and s :: "'a dynsec"
    using sub [of cmds s] by (simp_all add: execIgnoreExists_def dynsec_exec_def wbind_def Let_def split: sum.splits)
  with S show "\<not> li_subFails L \<and> dy_subscribed s'" by (auto simp: Setup_def Let_def split: if_splits)
qed

lemma select_trust:
  assumes "select_broker_auth mode up L s = ((m, True), s')" and up
  shows "mode = ''dynsec'' \<and> m = DynSec \<and> dy_subscribed s'"
  using assms by (auto simp: select_broker_auth_def split: if_splits prod.splits sum.splits dest: Setup_subscribes)

lemma boot_services_trust:
  assumes "ps_messages (boot_services E cfg pool redis) = Some brokerAuth"
  shows "ps_client (boot_services E cfg pool redis) \<noteq> None"
    and "brokerAuth \<Longrightarrow> co_MQTTAuthMode cfg = ''dynsec'' \<and> ps_brokerAuth (boot_services E cfg pool redis) = DynSec
      \<and> dy_subscribed (ps_manager (boot_services E cfg pool redis))"
proof -
  let ?client = "case mqtt_New E (co_MQTTBroker cfg) (co_MQTTUsername cfg) (co_MQTTPassword cfg) of Inl _ \<Rightarrow> None | Inr c \<Rightarrow> Some c"
  obtain m flag d where sel: "select_broker_auth (co_MQTTAuthMode cfg) (?client \<noteq> None) (manager_link E) (NewDynSecManager (bo_broker E)) = ((m, flag), d)"
    by (metis prod.collapse)
  then have p: "ps_client (boot_services E cfg pool redis) = ?client" "ps_brokerAuth (boot_services E cfg pool redis) = m"
    "ps_manager (boot_services E cfg pool redis) = d"
    "ps_messages (boot_services E cfg pool redis) = (if ?client \<noteq> None then SubscribeGateStatuses E flag else None)"
    by (simp_all add: boot_services_def Let_def)
  with assms have c: "?client \<noteq> None" and flag: "flag = brokerAuth"
    by (auto simp: SubscribeGateStatuses_def split: if_splits sum.splits)
  from c p(1) show "ps_client (boot_services E cfg pool redis) \<noteq> None" by simp
  show "co_MQTTAuthMode cfg = ''dynsec'' \<and> ps_brokerAuth (boot_services E cfg pool redis) = DynSec
      \<and> dy_subscribed (ps_manager (boot_services E cfg pool redis))" if brokerAuth
    using select_trust [of "co_MQTTAuthMode cfg" "?client \<noteq> None" "manager_link E" "NewDynSecManager (bo_broker E)" m d] sel flag c that p
    by simp
qed

text \<open>
  C11: In a started process a status message changes something only for the gate of its topic, and only with
  a token signed for it. That the token is also the one stored now is waived in one case: the mode is
  dynamic security, the client is connected and the manager's answers are subscribed. A process without a
  broker, or whose setup failed, never trusts a token that was rotated out.
\<close>

theorem process_trusts_current:
  assumes "boot getenv E = Inr p" and "ps_messages p = Some brokerAuth"
    and "on_status_message (process_env p X) now brokerAuth topic payload w = w'" and "w' \<noteq> w"
  shows "\<exists>i raw. parseTopicGateID (process_env p X) topic = Inr i \<and> decode_map payload = Some raw
    \<and> ParseGateToken (process_env p X) now (str_field raw ''token'') = Inr i
    \<and> (\<forall>j. j \<noteq> i \<longrightarrow> gate_row (w_db w') j = gate_row (w_db w) j)
    \<and> ps_client p \<noteq> None
    \<and> (\<not> (co_MQTTAuthMode (ps_config p) = ''dynsec'' \<and> ps_brokerAuth p = DynSec \<and> dy_subscribed (ps_manager p))
        \<longrightarrow> current_token (process_env p X) now (w_db w) i (str_field raw ''token''))"
proof -
  from assms(1) obtain cfg pool where p: "p = boot_services E cfg pool (co_RedisURL cfg)" by (rule boot_ok)
  note B = boot_services_trust [OF assms(2) [unfolded p]]
  from message_effect [OF assms(3,4)] B show ?thesis
    by (auto simp: p)
qed

text \<open>
  Setup succeeds as soon as the answers are subscribed, whether or not any command is answered: with a
  broker on which every command times out the process still hands the check of the current token to it.
\<close>

lemma mute_broker_trusted:
  assumes "boot getenv E = Inr p" and "ps_client p \<noteq> None" and "co_MQTTAuthMode (ps_config p) = ''dynsec''"
    and "\<not> bo_subFails E dynsecRespTopic" and "\<not> bo_subFails E ''gates/+/status''"
  shows "ps_messages p = Some True \<and> ps_brokerAuth p = DynSec"
proof -
  from assms(1) obtain cfg pool where p: "p = boot_services E cfg pool (co_RedisURL cfg)" by (rule boot_ok)
  have "fst (Setup (manager_link E) (NewDynSecManager (bo_broker E))) = Inr ()"
    using assms(4) by (simp add: Setup_def manager_link_def mqtt_Subscribe_def Let_def)
  then obtain d where "Setup (manager_link E) (NewDynSecManager (bo_broker E)) = (Inr (), d)"
    by (metis prod.collapse)
  moreover have "co_MQTTAuthMode cfg = ''dynsec''" using assms(3) by (simp add: p)
  ultimately show ?thesis using assms(2,5)
    by (auto simp: p boot_services_def select_broker_auth_def SubscribeGateStatuses_def mqtt_Subscribe_def Let_def
        split: sum.splits)
qed

text \<open>On a signal both workers are told to stop before the connections they use are closed.\<close>

lemma shutdown_order:
  "fst (server_main getenv E e) = 0 \<Longrightarrow> \<exists>mid. snd (server_main getenv E e) = [CancelTimeout, CancelWebhook, CancelTTL] @ mid @ [CloseRedis, ClosePool]
     \<and> set mid \<subseteq> {DisconnectMQTT}"
  by (auto simp: server_main_def boot_services_def Let_def elim!: boot_ok split: sum.splits ending.splits prod.splits)

section \<open>The workers\<close>

text \<open>The loops of the two workers over what their \<open>select\<close> sees: an instant of the ticker or the end of the context.\<close>

datatype worker_event = Ticked int | ContextDone

fun ttl_Run :: "'r env \<Rightarrow> worker_event list \<Rightarrow> 'r world \<Rightarrow> 'r world" where
  "ttl_Run X [] w = w"
| "ttl_Run X (Ticked now # es) w = ttl_Run X es (checkTransitions X now (markExpired X now w))"
| "ttl_Run X (ContextDone # es) w = w"

fun webhook_Run :: "'r env \<Rightarrow> worker_event list \<Rightarrow> 'r world \<Rightarrow> 'r world" where
  "webhook_Run X [] w = w"
| "webhook_Run X (Ticked now # es) w = webhook_Run X es (pollAll X now w)"
| "webhook_Run X (ContextDone # es) w = w"

text \<open>A worker only takes steps of the process, and none after it was cancelled.\<close>

lemma workers_step:
  "(process_step p X)\<^sup>*\<^sup>* w (ttl_Run (process_env p X) es w)" "(process_step p X)\<^sup>*\<^sup>* w (webhook_Run (process_env p X) es w)"
proof -
  have "process_step p X w (checkTransitions (process_env p X) t (markExpired (process_env p X) t w))" for t w
    using process_step.ttl [of p X w t] by (simp add: tick_def)
  then show "(process_step p X)\<^sup>*\<^sup>* w (ttl_Run (process_env p X) es w)"
    by (induction "process_env p X" es w rule: ttl_Run.induct) (auto intro: converse_rtranclp_into_rtranclp)
  show "(process_step p X)\<^sup>*\<^sup>* w (webhook_Run (process_env p X) es w)"
    by (induction "process_env p X" es w rule: webhook_Run.induct)
      (auto intro: converse_rtranclp_into_rtranclp process_step.webhook)
qed

lemma worker_cancelled: "ttl_Run X (es @ ContextDone # fs) w = ttl_Run X es w" "webhook_Run X (es @ ContextDone # fs) w = webhook_Run X es w"
proof -
  show "ttl_Run X (es @ ContextDone # fs) w = ttl_Run X es w"
    by (induction X es w rule: ttl_Run.induct) simp_all
  show "webhook_Run X (es @ ContextDone # fs) w = webhook_Run X es w"
    by (induction X es w rule: webhook_Run.induct) simp_all
qed

section \<open>Errors and panics on the way out\<close>

text \<open>
  The hook \<open>huma.NewError\<close>: an error whose chain has a \<open>huma.ErrorDetail\<close> is shown as this detail
  (\<open>asDetail\<close> is \<open>errors.As\<close>), nil is skipped, any other error is only logged, for a status of 500 or
  more. The second component is what is logged.
\<close>

record error_detail =
  ed_Message :: string
  ed_Location :: string
  ed_Value :: gval

record error_model =
  em_Status :: int
  em_Title :: string
  em_Detail :: string
  em_Errors :: "error_detail list"

fun add_errors :: "('e \<Rightarrow> error_detail option) \<Rightarrow> 'e option list \<Rightarrow> error_model \<times> 'e list \<Rightarrow> error_model \<times> 'e list" where
  "add_errors asDetail [] r = r"
| "add_errors asDetail (None # errs) r = add_errors asDetail errs r"
| "add_errors asDetail (Some e # errs) (m, logged) = (case asDetail e of
      Some d \<Rightarrow> add_errors asDetail errs (m\<lparr>em_Errors := em_Errors m @ [d]\<rparr>, logged)
    | None \<Rightarrow> add_errors asDetail errs (m, if 500 \<le> em_Status m then logged @ [e] else logged))"

definition NewError :: "(int \<Rightarrow> string) \<Rightarrow> ('e \<Rightarrow> error_detail option) \<Rightarrow> int \<Rightarrow> string \<Rightarrow> 'e option list \<Rightarrow> error_model \<times> 'e list" where
  "NewError statusText asDetail code message errs =
     add_errors asDetail errs (\<lparr>em_Status = code, em_Title = statusText code, em_Detail = message, em_Errors = []\<rparr>, [])"

text \<open>
  \<open>JSONRecoverer\<close> around a handler that writes its response and then returns or panics; the writer is
  the one outside the cookie writer, \<open>render\<close> is \<open>json.Marshal\<close>.
\<close>

datatype 'v outcome = Returned | Panicked 'v

definition Set_header :: "header \<Rightarrow> string \<Rightarrow> string \<Rightarrow> header" where
  "Set_header h k v = Add (Del h k) k v"

definition JSONRecoverer :: "(int \<Rightarrow> string) \<Rightarrow> (error_model \<Rightarrow> string) \<Rightarrow> (header \<times> response \<Rightarrow> 'v outcome \<times> header \<times> response)
    \<Rightarrow> header \<times> response \<Rightarrow> header \<times> response" where
  "JSONRecoverer statusText render handler s = (case handler s of
      (Returned, s') \<Rightarrow> s'
    | (Panicked _, h, r) \<Rightarrow>
        (let model = fst (NewError statusText (\<lambda>_ :: unit. None) 500 ''Internal Server Error'' []);
             h' = Set_header h ''Content-Type'' ''application/problem+json'';
             r' = send_header 500 h' r
         in (h', r'\<lparr>re_Body := re_Body r' @ [render model]\<rparr>)))"

text \<open>The health check: reachability is reported in the body, the status never changes.\<close>

record health =
  hb_Status :: string
  hb_Database :: string
  hb_Redis :: string

definition health_check :: "bool \<Rightarrow> bool \<Rightarrow> health hres" where
  "health_check dbAnswers redisAnswers = Inr
     \<lparr>hb_Status = ''ok'',
      hb_Database = (if dbAnswers then ''ok'' else ''unreachable''),
      hb_Redis = (if redisAnswers then ''ok'' else ''unreachable'')\<rparr>"

definition details :: "('e \<Rightarrow> error_detail option) \<Rightarrow> 'e option list \<Rightarrow> error_detail list" where
  "details asDetail errs = List.map_filter (\<lambda>e. Option.bind e asDetail) errs"

lemma add_errors_exact:
  "add_errors asDetail errs (m, logged) = (m\<lparr>em_Errors := em_Errors m @ details asDetail errs\<rparr>,
     logged @ (if 500 \<le> em_Status m then filter (\<lambda>e. asDetail e = None) (List.map_filter id errs) else []))"
  by (induction asDetail errs "(m, logged)" arbitrary: m logged rule: add_errors.induct)
    (auto simp: details_def map_filter_simps split: option.splits)

text \<open>
  No raw error reaches a client: the answer depends on the errors a handler passes along only through
  their validation details, and every other error behind a server error is logged. A panic before
  anything was sent is answered with the generic model and status 500, whatever the panic carried;
  after the headers were sent their status stays and the model is appended to what was written.
\<close>

theorem errors_stay_inside:
  "fst (NewError statusText asDetail code message errs)
     = \<lparr>em_Status = code, em_Title = statusText code, em_Detail = message, em_Errors = details asDetail errs\<rparr>
   \<and> (500 \<le> code \<longrightarrow> set (snd (NewError statusText asDetail code message errs)) = {e. Some e \<in> set errs \<and> asDetail e = None})
   \<and> (\<forall>v h r. handler s = (Panicked v, h, r) \<longrightarrow>
        re_Body (snd (JSONRecoverer statusText render handler s))
          = re_Body r @ [render \<lparr>em_Status = 500, em_Title = statusText 500, em_Detail = ''Internal Server Error'', em_Errors = []\<rparr>]
        \<and> re_Status (snd (JSONRecoverer statusText render handler s)) = (case re_Status r of None \<Rightarrow> Some 500 | Some c \<Rightarrow> Some c)
        \<and> (re_Status r = None \<longrightarrow> Values (re_Sent (snd (JSONRecoverer statusText render handler s))) ''Content-Type'' = [''application/problem+json'']))"
proof -
  have "set (List.map_filter id xs) = {e. Some e \<in> set xs}" for xs :: "'a option list"
    by (induction xs) (auto simp: map_filter_simps split: option.splits)
  then show ?thesis
    by (auto simp: NewError_def add_errors_exact JSONRecoverer_def Let_def send_header_def Set_header_def details_def
        map_filter_simps split: option.splits)
qed

section \<open>Examples\<close>

definition boot_table :: token_table where
  "boot_table = [(''gate-jwt'', ''0123456789abcdef0123456789abcdef'',
     [(''jti'', VStr (unary 3)), (''sub'', VStr (unary 1)), (''iat'', num_date 0), (''type'', VStr ''gate_token'')])]"

definition sample_boot :: "bool \<Rightarrow> bool \<Rightarrow> (string \<times> string) list boot_env" where
  "sample_boot brokerUp control = \<lparr>
     bo_parseDB = (\<lambda>url. Some \<lparr>pc_URL = url, pc_MaxConns = 99, pc_MinConns = 0, pc_MaxConnLifetime = 0,
       pc_MaxConnIdleTime = 0, pc_HealthCheckPeriod = 0\<rparr>),
     bo_openDB = (\<lambda>_. True), bo_pingDB = (\<lambda>_. True), bo_parseRedis = (\<lambda>_. True), bo_pingRedis = (\<lambda>_. True),
     bo_connect = (\<lambda>_. brokerUp), bo_subFails = (\<lambda>t. t = dynsecRespTopic \<and> \<not> control),
     bo_link = sample_link (\<lambda>_. False), bo_broker = []\<rparr>"

text \<open>
  Without the plugin's topic the process falls back to checking the stored token; with it, and with no
  command ever answered, the rotated token passes.
\<close>

theorem process_trusts_current_witness:
  "\<exists>p q. boot sample_vars (sample_boot True False) = Inr p \<and> boot sample_vars (sample_boot True True) = Inr q
     \<and> ps_messages p = Some False \<and> ps_messages q = Some True
     \<and> current_token (process_env p (sample_env boot_table)) 7 (w_db (ingress_world DriverTypeMQTTCustom ''gate-jwt'')) 1 ''gate-jwt''
     \<and> w_out (on_status_message (process_env q (sample_env boot_table)) 7 True ''gates/i/status''
          (Some (VObj [(''token'', VStr ''gate-jwt''), (''state'', VStr ''open'')])) (ingress_world DriverTypeMQTTCustom ''new-jwt''))
        = [EvPublish 1 ''open'' None]"
proof -
  let ?msg = "Some (VObj [(''token'', VStr ''gate-jwt''), (''state'', VStr ''open'')])"
  let ?run = "\<lambda>p flag tok. on_status_message (process_env p (sample_env boot_table)) 7 flag ''gates/i/status'' ?msg (ingress_world DriverTypeMQTTCustom tok)"
  have "case boot sample_vars (sample_boot True False) of Inl _ \<Rightarrow> False | Inr p \<Rightarrow> ps_messages p = Some False \<and> ps_brokerAuth p = NoopBrokerAuth
      \<and> w_out (?run p False ''gate-jwt'') = [EvPublish 1 ''open'' None] \<and> parseTopicGateID (process_env p (sample_env boot_table)) ''gates/i/status'' = Inr 1" by code_simp
  then obtain p where p: "boot sample_vars (sample_boot True False) = Inr p" "ps_messages p = Some False" "ps_brokerAuth p = NoopBrokerAuth"
    "w_out (?run p False ''gate-jwt'') = [EvPublish 1 ''open'' None]" "parseTopicGateID (process_env p (sample_env boot_table)) ''gates/i/status'' = Inr 1"
    by (auto split: sum.splits)
  have "case boot sample_vars (sample_boot True True) of Inl _ \<Rightarrow> False | Inr q \<Rightarrow> ps_messages q = Some True
      \<and> w_out (?run q True ''new-jwt'') = [EvPublish 1 ''open'' None]" by code_simp
  then obtain q where q: "boot sample_vars (sample_boot True True) = Inr q" "ps_messages q = Some True"
    "w_out (?run q True ''new-jwt'') = [EvPublish 1 ''open'' None]"
    by (auto split: sum.splits)
  have "w_out (ingress_world DriverTypeMQTTCustom ''gate-jwt'') = []" by (simp add: ingress_world_def)
  with p(4) have "?run p False ''gate-jwt'' \<noteq> ingress_world DriverTypeMQTTCustom ''gate-jwt''" by auto
  from process_trusts_current [OF p(1,2) refl this] p(3,5)
  have "current_token (process_env p (sample_env boot_table)) 7 (w_db (ingress_world DriverTypeMQTTCustom ''gate-jwt'')) 1 ''gate-jwt''"
    by (auto simp: decode_map_def str_field_def)
  with p q show ?thesis by blast
qed

theorem errors_stay_inside_witness:
  "let asDetail = (\<lambda>e :: string. if HasPrefix e ''detail:'' then Some \<lparr>ed_Message = drop 7 e, ed_Location = ''body'', ed_Value = VNull\<rparr> else None);
       text = (\<lambda>c. if c = 500 then ''Internal Server Error'' else []);
       r = NewError text asDetail 500 ''failed'' [Some ''pq: password'', None, Some ''detail:name'']
   in List.map ed_Message (em_Errors (fst r)) = [''name''] \<and> set (snd r) = {''pq: password''}
     \<and> re_Status (snd (JSONRecoverer text em_Detail (\<lambda>(h, r). (Panicked ''secret'', h, r)) ([], no_response))) = Some 500"
proof -
  let ?asDetail = "\<lambda>e :: string. if HasPrefix e ''detail:'' then Some \<lparr>ed_Message = drop 7 e, ed_Location = ''body'', ed_Value = VNull\<rparr> else None"
  let ?text = "\<lambda>c :: int. if c = 500 then ''Internal Server Error'' else []"
  let ?errs = "[Some ''pq: password'', None, Some ''detail:name'']"
  let ?h = "\<lambda>(h, r). (Panicked ''secret'', h, r)"
  note E = errors_stay_inside [of ?text ?asDetail 500 "''failed''" ?errs ?h "([], no_response)" em_Detail]
  have "re_Status no_response = None" by (simp add: no_response_def)
  with E have "re_Status (snd (JSONRecoverer ?text em_Detail ?h ([], no_response))) = Some 500" by auto
  moreover have "{e. Some e \<in> set ?errs \<and> ?asDetail e = None} = {''pq: password''}"
    by (auto simp: HasPrefix_def)
  with E have "set (snd (NewError ?text ?asDetail 500 ''failed'' ?errs)) = {''pq: password''}" by auto
  moreover from E have "List.map ed_Message (em_Errors (fst (NewError ?text ?asDetail 500 ''failed'' ?errs))) = [''name'']"
    by (simp add: details_def map_filter_simps HasPrefix_def)
  ultimately show ?thesis by (simp add: Let_def)
qed

end
