(* ===== verification/Threads.thy ===== *)
theory Threads
  imports Platform
begin

text \<open>
  Handlers that run beside each other. A handler is a program of atomic actions on the shared state: one
  statement of a repository, one Redis command, one lock operation, each at its own instant. A pool
  holds the programs of the requests under way, and any of them may take the next step. The laws at
  the end are those the concurrent properties rest on: a key that is taken once, and a mutex.
\<close>

section \<open>Programs\<close>

text \<open>An action waits for its guard, changes the state and goes on with the rest of the program.\<close>

datatype ('w, 'a) prog =
    Ret 'a
  | Act "'w \<Rightarrow> bool" "int \<Rightarrow> 'w \<Rightarrow> 'w" "int \<Rightarrow> 'w \<Rightarrow> ('w, 'a) prog"

lemma prog_induct [case_names Ret Act, consumes 0]:
  assumes "\<And>a. P (Ret a)" and "\<And>g u n. (\<And>t w. P (n t w)) \<Longrightarrow> P (Act g u n)"
  shows "P p"
proof (induction p)
  case (Act g u n)
  show ?case by (rule assms(2)) (rule Act.IH [OF rangeI rangeI])
qed (rule assms(1))

definition act :: "(int \<Rightarrow> 'w \<Rightarrow> 'x \<times> 'w) \<Rightarrow> ('x \<Rightarrow> ('w, 'a) prog) \<Rightarrow> ('w, 'a) prog" where
  "act f k = Act (\<lambda>_. True) (\<lambda>t w. snd (f t w)) (\<lambda>t w. k (fst (f t w)))"

text \<open>An action with an early return of its error.\<close>

definition try_act :: "(int \<Rightarrow> 'w \<Rightarrow> ('e + 'x) \<times> 'w) \<Rightarrow> ('x \<Rightarrow> ('w, 'e + 'a) prog) \<Rightarrow> ('w, 'e + 'a) prog" where
  "try_act f k = act f (case_sum (\<lambda>e. Ret (Inl e)) k)"

text \<open>The program run at one instant without interruption.\<close>

primrec run :: "('w, 'a) prog \<Rightarrow> int \<Rightarrow> 'w \<Rightarrow> 'a \<times> 'w" where
  "run (Ret a) = (\<lambda>t w. (a, w))"
| "run (Act g u n) = (\<lambda>t w. run (n t w) t (u t w))"

lemma run_act [simp]: "run (act f k) t w = run (k (fst (f t w))) t (snd (f t w))"
  by (simp add: act_def)

lemma run_try_act [simp]: "run (try_act f k) t w = (case fst (f t w) of Inl e \<Rightarrow> (Inl e, snd (f t w)) | Inr a \<Rightarrow> run (k a) t (snd (f t w)))"
  by (simp add: try_act_def split: sum.split)

lemma run_wbind: "run (try_act f k) t w = wbind (f t w) (\<lambda>a. run (k a) t)"
  by (simp add: wbind_def)

fun won :: "('w, 'e + 'a) prog \<Rightarrow> bool" where
  "won (Ret (Inr _)) = True"
| "won _ = False"

section \<open>Pools\<close>

text \<open>The clock, the programs and the shared state.\<close>

type_synonym ('w, 'a) pool = "int \<times> ('w, 'a) prog list \<times> 'w"

inductive threads_step :: "('w, 'a) pool \<Rightarrow> ('w, 'a) pool \<Rightarrow> bool" where
  step: "t \<le> t' \<Longrightarrow> g w \<Longrightarrow> threads_step (t, as @ Act g u n # bs, w) (t', as @ n t' w # bs, u t' w)"

inductive_cases threads_stepE: "threads_step s s'"

lemma step_at:
  assumes "t \<le> t'"
  shows "threads_step (t, as @ act f k # bs, w) (t', as @ k (fst (f t' w)) # bs, snd (f t' w))"
  using threads_step.step [OF assms, of "\<lambda>_. True" w as "\<lambda>t w. snd (f t w)" "\<lambda>t w. k (fst (f t w))" bs] by (simp add: act_def)

lemma step_update:
  assumes "threads_step (t, ps, w) (t', ps', w')"
  obtains k g u n where "k < length ps" "ps ! k = Act g u n" "ps' = ps[k := n t' w]" "g w" "w' = u t' w" "t \<le> t'"
proof -
  from assms obtain as g u n bs where "ps = as @ Act g u n # bs" "ps' = as @ n t' w # bs" "w' = u t' w" "g w" "t \<le> t'"
    by (auto elim: threads_stepE)
  with that [of "length as" g u n] show thesis by (simp add: nth_append)
qed

text \<open>
  A handler whose guards hold as it goes can run through: the atomic handler is one schedule of its program,
  and so are several of them one after another.
\<close>

primrec unguarded :: "('w, 'a) prog \<Rightarrow> bool" where
  "unguarded (Ret a) = True"
| "unguarded (Act g u n) = ((\<forall>w. g w) \<and> (\<forall>t w. unguarded (n t w)))"

primrec goes :: "('w, 'a) prog \<Rightarrow> int \<Rightarrow> 'w \<Rightarrow> bool" where
  "goes (Ret a) = (\<lambda>t w. True)"
| "goes (Act g u n) = (\<lambda>t w. g w \<and> goes (n t w) t (u t w))"

lemma unguarded_goes: "unguarded p \<Longrightarrow> goes p t w"
  by (induction p arbitrary: w rule: prog_induct) simp_all

lemma run_schedule:
  "goes p t w \<Longrightarrow> threads_step\<^sup>*\<^sup>* (t, as @ p # bs, w) (t, as @ Ret (fst (run p t w)) # bs, snd (run p t w))"
proof (induction p arbitrary: w rule: prog_induct)
  case (Act g u n)
  have "threads_step (t, as @ Act g u n # bs, w) (t, as @ n t w # bs, u t w)"
    using Act.prems by (intro threads_step.step) simp_all
  moreover have "threads_step\<^sup>*\<^sup>* (t, as @ n t w # bs, u t w) (t, as @ Ret (fst (run (n t w) t (u t w))) # bs, snd (run (n t w) t (u t w)))"
    using Act.prems by (intro Act.IH) simp
  ultimately show ?case by (simp add: converse_rtranclp_into_rtranclp)
qed simp

lemma run_schedule_later:
  assumes "goes (Act g u n) t w" and "t0 \<le> t"
  shows "threads_step\<^sup>*\<^sup>* (t0, as @ Act g u n # bs, w) (t, as @ Ret (fst (run (Act g u n) t w)) # bs, snd (run (Act g u n) t w))"
proof -
  have "threads_step (t0, as @ Act g u n # bs, w) (t, as @ n t w # bs, u t w)"
    using assms by (intro threads_step.step) simp_all
  with run_schedule [of "n t w" t "u t w" as bs] assms(1) show ?thesis
    by (simp add: converse_rtranclp_into_rtranclp)
qed

fun run_all :: "('w, 'a) prog list \<Rightarrow> int \<Rightarrow> 'w \<Rightarrow> 'a list \<times> 'w" where
  "run_all [] t w = ([], w)"
| "run_all (p # ps) t w = (let (a, w1) = run p t w; (rs, w2) = run_all ps t w1 in (a # rs, w2))"

lemma run_all_Cons:
  "run_all (p # ps) t w = (fst (run p t w) # fst (run_all ps t (snd (run p t w))), snd (run_all ps t (snd (run p t w))))"
  by (cases "run p t w"; cases "run_all ps t (snd (run p t w))") simp

fun all_go :: "('w, 'a) prog list \<Rightarrow> int \<Rightarrow> 'w \<Rightarrow> bool" where
  "all_go [] t w = True"
| "all_go (p # ps) t w = (goes p t w \<and> all_go ps t (snd (run p t w)))"

lemma run_all_schedule:
  "all_go ps t w \<Longrightarrow> threads_step\<^sup>*\<^sup>* (t, as @ ps, w) (t, as @ List.map Ret (fst (run_all ps t w)), snd (run_all ps t w))"
proof (induction ps arbitrary: as w)
  case (Cons p ps)
  have "threads_step\<^sup>*\<^sup>* (t, as @ p # ps, w) (t, (as @ [Ret (fst (run p t w))]) @ ps, snd (run p t w))"
    using run_schedule [of p t w as ps] Cons.prems by simp
  from rtranclp_trans [of threads_step, OF this Cons.IH [of "snd (run p t w)" "as @ [Ret (fst (run p t w))]"]] Cons.prems
  show ?case by (simp add: run_all_Cons del: run_all.simps)
qed simp

section \<open>What a program never does\<close>

primrec never :: "('a \<Rightarrow> bool) \<Rightarrow> ('w, 'a) prog \<Rightarrow> bool" where
  "never P (Ret a) = (\<not> P a)"
| "never P (Act g u n) = (\<forall>t w. never P (n t w))"

text \<open>No action of the program changes what \<open>V\<close> shows, now or later.\<close>

primrec leaves :: "(int \<Rightarrow> 'w \<Rightarrow> 'v) \<Rightarrow> ('w, 'a) prog \<Rightarrow> bool" where
  "leaves V (Ret a) = True"
| "leaves V (Act g u n) = (\<forall>t w. (\<forall>t' \<ge> t. V t' (u t w) = V t' w) \<and> leaves V (n t w))"

named_theorems leaves_rules

lemma leaves_act [leaves_rules]:
  "(\<And>t t' w. t \<le> t' \<Longrightarrow> V t' (snd (f t w)) = V t' w) \<Longrightarrow> (\<And>t w. leaves V (k (fst (f t w)))) \<Longrightarrow> leaves V (act f k)"
  by (simp add: act_def)

lemma leaves_try_act [leaves_rules]:
  "(\<And>t t' w. t \<le> t' \<Longrightarrow> V t' (snd (f t w)) = V t' w) \<Longrightarrow> (\<And>t w a. fst (f t w) = Inr a \<Longrightarrow> leaves V (k a)) \<Longrightarrow> leaves V (try_act f k)"
  by (auto simp: try_act_def act_def split: sum.split)

text \<open>Redis at a key, as a view of the world.\<close>

definition key_view :: "'r rview \<Rightarrow> string \<Rightarrow> int \<Rightarrow> 'r world \<Rightarrow> (rval \<times> int option) option" where
  "key_view view key t w = view (w_redis w) t key"

lemma key_view_set:
  assumes "redis_ok (x_redis X) view" "t \<le> t'" "k \<noteq> key"
  shows "key_view view key t' (snd (redis_Set X t w k v d)) = key_view view key t' w"
  using assms by (auto simp: key_view_def redis_Set_def redis_ok_def set_law_def)

lemma key_view_del:
  assumes "redis_ok (x_redis X) view" "t \<le> t'"
  shows "key_view view key t' (redis_Del X t w k) = (if k = key \<and> \<not> x_redisFault X t ''DEL'' k then None else key_view view key t' w)"
  using redis_store.view_del [OF redis_store.intro [OF assms(1)] assms(2)] by (simp add: key_view_def redis_Del_def)

lemma key_view_getdel:
  assumes "redis_ok (x_redis X) view" "t \<le> t'"
  shows "k \<noteq> key \<Longrightarrow> key_view view key t' (snd (redis_GetDel X t w k)) = key_view view key t' w"
    and "fst (redis_GetDel X t w key) = Inr v \<Longrightarrow> key_view view key t w \<noteq> None \<and> key_view view key t' (snd (redis_GetDel X t w key)) = None"
    and "fst (redis_GetDel X t w key) = Inl e \<Longrightarrow> snd (redis_GetDel X t w key) = w"
  using redis_store.view_del [OF redis_store.intro [OF assms(1)] assms(2)] redis_store.get [OF redis_store.intro [OF assms(1)]]
  by (auto simp: key_view_def redis_GetDel_def split: if_splits option.splits)

section \<open>A key that is taken once\<close>

text \<open>
  The contract of a program that takes its key with \<open>GETDEL\<close>: when nothing was there it cannot
  succeed any more.
\<close>

locale key_taker =
  fixes X :: "'r env" and key :: string and taker :: "('r world, 'e + 'a) prog" and rest :: "rval res \<Rightarrow> ('r world, 'e + 'a) prog"
  assumes takes: "taker = act (\<lambda>t w. redis_GetDel X t w key) rest"
    and fails: "never (\<lambda>r. \<not> isl r) (rest (Inl e))"
begin

definition may_win :: "('r world, 'e + 'a) prog \<Rightarrow> bool" where
  "may_win p \<longleftrightarrow> p \<noteq> taker \<and> \<not> never (\<lambda>r. \<not> isl r) p"

definition winners :: "nat set \<Rightarrow> ('r world, 'e + 'a) prog list \<Rightarrow> nat set" where
  "winners I ps = {i \<in> I. i < length ps \<and> may_win (ps ! i)}"

definition taken_inv :: "'r rview \<Rightarrow> nat set \<Rightarrow> ('r world, 'e + 'a) pool \<Rightarrow> bool" where
  "taken_inv view I s \<longleftrightarrow> (case s of (t, ps, w) \<Rightarrow>
     (\<forall>i < length ps. ps ! i = taker \<and> i \<in> I \<or> leaves (key_view view key) (ps ! i))
     \<and> (\<forall>i \<in> winners I ps. \<forall>j \<in> winners I ps. i = j)
     \<and> (winners I ps \<noteq> {} \<longrightarrow> key_view view key t w = None))"

lemma won_may_win: "won p \<Longrightarrow> may_win p"
proof -
  have "taker \<noteq> Ret a" for a by (simp add: takes act_def)
  then show "won p \<Longrightarrow> may_win p" by (cases p rule: won.cases) (auto simp: may_win_def)
qed

lemma winners_update:
  "winners I (ps[k := q]) \<subseteq> winners I ps \<union> (if k \<in> I \<and> may_win q then {k} else {})"
  by (cases "k < length ps") (auto simp: winners_def nth_list_update list_update_beyond split: if_splits)

lemma taken_step:
  assumes ok: "redis_ok (x_redis X) view" and rest: "\<And>r. leaves (key_view view key) (rest r)"
    and inv: "taken_inv view I (t, ps, w)" and "threads_step (t, ps, w) (t', ps', w')"
  shows "taken_inv view I (t', ps', w')"
proof -
  from assms(4) obtain k g u n where k: "k < length ps" "ps ! k = Act g u n" "ps' = ps[k := n t' w]" "w' = u t' w" "t \<le> t'"
    by (rule step_update)
  let ?V = "key_view view key"
  have gone: "?V t' w = None" if "?V t w = None"
    using redis_store.view_gone [OF redis_store.intro [OF ok] _ k(5)] that by (simp add: key_view_def)
  have old: "\<And>i. i < length ps \<Longrightarrow> ps ! i = taker \<and> i \<in> I \<or> leaves ?V (ps ! i)"
    "\<And>i j. i \<in> winners I ps \<Longrightarrow> j \<in> winners I ps \<Longrightarrow> i = j" "winners I ps \<noteq> {} \<Longrightarrow> ?V t w = None"
    using inv by (auto simp: taken_inv_def)
  have keep: ?thesis if q: "leaves ?V (n t' w)" and sub: "winners I ps' \<subseteq> winners I ps" and v: "?V t' w = None \<Longrightarrow> ?V t' w' = None"
  proof -
    have "\<forall>i < length ps'. ps' ! i = taker \<and> i \<in> I \<or> leaves ?V (ps' ! i)"
      using old(1) q k(1,3) by (simp add: nth_list_update)
    moreover have "\<forall>i \<in> winners I ps'. \<forall>j \<in> winners I ps'. i = j"
      using old(2) sub by blast
    moreover have "winners I ps' \<noteq> {} \<longrightarrow> ?V t' w' = None"
      using old(3) sub gone v by blast
    ultimately show ?thesis by (simp add: taken_inv_def)
  qed
  show ?thesis
  proof (cases "ps ! k = taker \<and> k \<in> I")
    case True
    then have "Act g u n = act (\<lambda>t w. redis_GetDel X t w key) rest" using k(2) takes by simp
    then have n: "n t' w = rest (fst (redis_GetDel X t' w key))" and w': "w' = snd (redis_GetDel X t' w key)"
      using k(4) by (simp_all add: act_def)
    show ?thesis
    proof (cases "fst (redis_GetDel X t' w key)")
      case (Inl e)
      with n fails have "\<not> may_win (n t' w)" by (simp add: may_win_def)
      then have "winners I ps' \<subseteq> winners I ps" using winners_update [of I ps k "n t' w"] k(3) by simp
      moreover from Inl w' key_view_getdel(3) [OF ok order.refl] have "w' = w" by simp
      ultimately show ?thesis using keep rest n by simp
    next
      case (Inr v)
      from key_view_getdel(2) [OF ok order.refl Inr] w' have v: "?V t' w \<noteq> None" "?V t' w' = None" by simp_all
      from gone old(3) v(1) have "winners I ps = {}" by metis
      then have "winners I ps' \<subseteq> {k}" using winners_update [of I ps k "n t' w"] k(3) by (auto split: if_splits)
      moreover have "\<forall>i < length ps'. ps' ! i = taker \<and> i \<in> I \<or> leaves ?V (ps' ! i)"
        using old(1) rest n k(1,3) by (simp add: nth_list_update)
      ultimately show ?thesis using v(2) unfolding taken_inv_def by blast
    qed
  next
    case False
    with old(1) [OF k(1)] have l: "leaves ?V (Act g u n)" using k(2) by auto
    then have w': "?V t' w' = ?V t' w" and n: "leaves ?V (n t' w)" using k(4) by auto
    have "k \<in> I \<Longrightarrow> may_win (n t' w) \<Longrightarrow> k \<in> winners I ps"
      using False k(1,2) by (auto simp: may_win_def winners_def)
    then have "winners I ps' \<subseteq> winners I ps" using winners_update [of I ps k "n t' w"] k(3) by (auto split: if_splits)
    with keep n w' show ?thesis by simp
  qed
qed

text \<open>However the programs interleave, of those that take the key at most one succeeds.\<close>

lemma one_winner:
  assumes "redis_ok (x_redis X) view" and "\<And>r. leaves (key_view view key) (rest r)"
    and "threads_step\<^sup>*\<^sup>* (t0, ps0, w0) (t, ps, w)"
    and "\<And>p. p \<in> set ps0 \<Longrightarrow> p = taker \<or> leaves (key_view view key) p"
    and "i < length ps0" "j < length ps0" "ps0 ! i = taker" "ps0 ! j = taker" "won (ps ! i)" "won (ps ! j)"
  shows "i = j"
proof -
  define I where "I = {i. i < length ps0 \<and> ps0 ! i = taker}"
  have "winners I ps0 = {}" by (auto simp: winners_def I_def may_win_def)
  moreover have "\<forall>i < length ps0. ps0 ! i = taker \<and> i \<in> I \<or> leaves (key_view view key) (ps0 ! i)"
    using assms(4) nth_mem by (auto simp: I_def)
  ultimately have start: "taken_inv view I (t0, ps0, w0)" by (simp add: taken_inv_def)
  have "taken_inv view I s \<and> length (fst (snd s)) = length ps0" if "threads_step\<^sup>*\<^sup>* (t0, ps0, w0) s" for s
    using that
  proof (induction rule: rtranclp_induct)
    case base
    then show ?case using start by simp
  next
    case (step s s')
    obtain t1 ps1 w1 t2 ps2 w2 where "s = (t1, ps1, w1)" "s' = (t2, ps2, w2)" by (metis prod.collapse)
    with step taken_step [OF assms(1,2), of I t1 ps1 w1 t2 ps2 w2] show ?case
      by (auto elim: step_update)
  qed
  from this [OF assms(3)] have "taken_inv view I (t, ps, w)" "length ps = length ps0" by simp_all
  moreover from this(2) assms(5-) won_may_win have "i \<in> winners I ps" "j \<in> winners I ps"
    by (auto simp: winners_def I_def)
  ultimately show ?thesis by (auto simp: taken_inv_def)
qed

end

section \<open>A mutex\<close>

text \<open>
  \<open>mu.Lock()\<close> with a deferred \<open>mu.Unlock()\<close> around a body on the rest of the state; the second
  component of the state is whether the mutex is held.
\<close>

primrec then_unlock :: "('w, 'a) prog \<Rightarrow> ('w \<times> bool, 'a) prog" where
  "then_unlock (Ret a) = Act (\<lambda>_. True) (\<lambda>t s. (fst s, False)) (\<lambda>t s. Ret a)"
| "then_unlock (Act g u n) = Act (\<lambda>s. g (fst s)) (\<lambda>t s. (u t (fst s), snd s)) (\<lambda>t s. then_unlock (n t (fst s)))"

definition locked :: "('w, 'a) prog \<Rightarrow> ('w \<times> bool, 'a) prog" where
  "locked body = Act (\<lambda>s. \<not> snd s) (\<lambda>t s. (fst s, True)) (\<lambda>t s. then_unlock body)"

text \<open>\<open>Q\<close> holds after every action of the program when it runs alone.\<close>

primrec alone_safe :: "('w \<Rightarrow> bool) \<Rightarrow> ('w, 'a) prog \<Rightarrow> 'w \<Rightarrow> bool" where
  "alone_safe Q (Ret a) = Q"
| "alone_safe Q (Act g u n) = (\<lambda>w. Q w \<and> (\<forall>t. alone_safe Q (n t w) (u t w)))"

lemma alone_safe_now: "alone_safe Q p w \<Longrightarrow> Q w"
  by (cases p) simp_all

lemma alone_safe_act: "alone_safe Q (act f k) w \<longleftrightarrow> Q w \<and> (\<forall>t. alone_safe Q (k (fst (f t w))) (snd (f t w)))"
  by (simp add: act_def)

lemma alone_safe_try_act:
  "alone_safe Q (try_act f k) w \<longleftrightarrow> Q w \<and> (\<forall>t. case fst (f t w) of Inl _ \<Rightarrow> Q (snd (f t w)) | Inr a \<Rightarrow> alone_safe Q (k a) (snd (f t w)))"
  by (auto simp: try_act_def alone_safe_act split: sum.splits)

locale critical =
  fixes body :: "'i \<Rightarrow> ('w, 'a) prog" and Q :: "'w \<Rightarrow> bool"
  assumes safe: "Q w \<Longrightarrow> alone_safe Q (body i) w"
begin

definition outside :: "('w \<times> bool, 'a) prog \<Rightarrow> bool" where
  "outside p \<longleftrightarrow> (\<exists>i. p = locked (body i)) \<or> (\<exists>a. p = Ret a)"

definition mutex_inv :: "('w \<times> bool, 'a) pool \<Rightarrow> bool" where
  "mutex_inv s \<longleftrightarrow> (case s of (t, ps, (w, held)) \<Rightarrow>
     if held then \<exists>as q bs. ps = as @ then_unlock q # bs \<and> alone_safe Q q w \<and> list_all outside (as @ bs)
     else Q w \<and> list_all outside ps)"

lemma mutex_step:
  assumes "mutex_inv (t, ps, w, held)" and "threads_step (t, ps, w, held) (t', ps', w', held')"
  shows "mutex_inv (t', ps', w', held')"
proof -
  from assms(2) obtain as g u n bs where s: "ps = as @ Act g u n # bs" "ps' = as @ n t' (w, held) # bs"
    "(w', held') = u t' (w, held)" "g (w, held)"
    by (rule threads_stepE) auto
  show ?thesis
  proof (cases "outside (Act g u n)")
    case True
    then obtain i where l: "Act g u n = locked (body i)" by (auto simp: outside_def)
    with s have free: "\<not> held" "held'" "w' = w" "n t' (w, held) = then_unlock (body i)" by (auto simp: locked_def)
    with assms(1) s(1) have "Q w" "list_all outside (as @ bs)" by (auto simp: mutex_inv_def)
    with safe [of w i] free s(2) show ?thesis by (auto simp: mutex_inv_def)
  next
    case False
    with assms(1) s(1) have held: held by (auto simp: mutex_inv_def split: if_splits)
    with assms(1) obtain cs q ds where q: "ps = cs @ then_unlock q # ds" "alone_safe Q q w" "list_all outside (cs @ ds)"
      by (auto simp: mutex_inv_def)
    have "cs = as \<and> then_unlock q = Act g u n \<and> ds = bs"
    proof -
      have "Act g u n \<notin> set cs \<union> set ds" using False q(3) by (auto simp: list_all_iff)
      moreover have "as @ Act g u n # bs = cs @ then_unlock q # ds" using s(1) q(1) by simp
      ultimately show ?thesis
        by (auto simp: append_eq_append_conv2 append_eq_Cons_conv Cons_eq_append_conv)
    qed
    then have eq: "then_unlock q = Act g u n" "cs = as" "ds = bs" by simp_all
    show ?thesis
    proof (cases q)
      case (Ret a)
      with eq s q(2,3) have "w' = w" "\<not> held'" "n t' (w, held) = Ret a" "Q w" by auto
      then show ?thesis using q(3) eq s(2) by (auto simp: mutex_inv_def outside_def)
    next
      case (Act g' u' n')
      with eq s have "w' = u' t' w" "held' = held" "n t' (w, held) = then_unlock (n' t' w)" by auto
      moreover from Act q(2) have "alone_safe Q (n' t' w) (u' t' w)" by simp
      ultimately show ?thesis using held q(3) eq s(2) by (auto simp: mutex_inv_def)
    qed
  qed
qed

text \<open>However the bodies interleave under the mutex, the property each keeps alone is kept by all.\<close>

lemma serialised:
  assumes "threads_step\<^sup>*\<^sup>* (t0, List.map (\<lambda>i. locked (body i)) is, w0, False) (t, ps, w, held)" and "Q w0"
  shows "Q w"
proof -
  have "mutex_inv s" if "threads_step\<^sup>*\<^sup>* (t0, List.map (\<lambda>i. locked (body i)) is, w0, False) s" for s
    using that
  proof (induction rule: rtranclp_induct)
    case base
    then show ?case using assms(2) by (auto simp: mutex_inv_def list_all_iff outside_def)
  next
    case (step s s')
    then show ?case using mutex_step by (cases s; cases s') (metis prod.collapse)
  qed
  from this [OF assms(1)] show ?thesis
    by (auto simp: mutex_inv_def dest: alone_safe_now split: if_splits)
qed

end

end
