(* ===== verification/Api_Props.thy ===== *)
theory Api_Props
  imports Server
begin

text \<open>
  What the API as a whole guarantees: a request changes the settings, the permissions, the
  codes and the domains of a gate only for an admin session or a manager of this gate; an
  account becomes an admin only through an admin session or a sign-on; and what an API token can
  be given. The frame of the calls that need neither is proved once, in a locale, for every part
  of the database they leave alone.
\<close>

section \<open>Calls on one's own behalf\<close>

text \<open>A part of the database that credentials, schedules and status reports leave alone.\<close>

locale db_view =
  fixes V :: "db \<Rightarrow> 'v"
  assumes view_creds: "V (d\<lparr>db_creds := cs\<rparr>) = V d"
    and view_schedules: "V (d\<lparr>db_schedules := ss\<rparr>) = V d"
    and view_links: "V (d\<lparr>db_links := ls\<rparr>) = V d"
    and view_cascade: "V (cascade_schedules P d) = V d"
    and view_status: "V (snd (gates_UpdateStatus flt d now i st m)) = V d"
    and view_token_grant: "V (snd (credPolicies_Grant flt d t g c)) = V d"
    and view_token_revoke: "V (snd (credPolicies_RevokeAll flt d t)) = V d"
begin

lemmas bind_frame = hbind_db [of V] wbind_db [of V]

lemma links_frame:
  "V (snd (credPolicies_SetSchedule flt d t s)) = V d" "V (snd (credPolicies_RemoveSchedule flt d t)) = V d"
  by (simp_all add: credPolicies_SetSchedule_def credPolicies_RemoveSchedule_def exec_def upsert_link_def
      delete_links_def view_links)

lemma creds_frame:
  "V (snd (creds_Create flt d i now m ty h l e md)) = V d"
  "V (snd (creds_UpdateHashedValue flt d m ty h)) = V d"
  "V (snd (creds_Delete flt d i m)) = V d"
  by (simp_all add: creds_Create_def creds_UpdateHashedValue_def creds_Delete_def Let_def view_creds)

lemma schedules_frame:
  "V (snd (schedule_CreateMember X now d m n de e)) = V d"
  "V (snd (schedule_Update X now d i n de e)) = V d"
  "V (snd (schedule_Delete X now d i)) = V d"
  by (simp_all add: schedule_CreateMember_def schedule_Update_def schedule_Delete_def schedules_Create_def
      schedules_Update_def schedules_Delete_def Let_def view_schedules view_cascade split: sum.splits option.splits)

lemma new_token_frame: "V (w_db (snd (new_token X now m l e w))) = V (w_db w)"
  by (simp add: new_token_def bind_frame creds_frame split: prod.splits)

lemma grant_all_frame: "V (w_db (snd (grant_all X now c ps w))) = V (w_db w)"
  by (induction X now c ps w rule: grant_all.induct) (simp_all add: hbind_db [of V] view_token_grant)

lemma credential_frame:
  "V (w_db (snd (h_CreateMyAPIToken X now cx l e ps so w))) = V (w_db w)"
  "V (w_db (snd (h_DeleteMyCredential X now cx c w))) = V (w_db w)"
  "V (w_db (snd (h_ChangeMyPassword X now cx op np w))) = V (w_db w)"
proof -
  show "V (w_db (snd (h_CreateMyAPIToken X now cx l e ps so w))) = V (w_db w)"
    by (simp add: h_CreateMyAPIToken_def bind_frame new_token_frame grant_all_frame links_frame
        split: prod.splits option.splits)
  show "V (w_db (snd (h_DeleteMyCredential X now cx c w))) = V (w_db w)"
    by (simp add: h_DeleteMyCredential_def delete_credential_def Let_def bind_frame creds_frame links_frame view_token_revoke)
  show "V (w_db (snd (h_ChangeMyPassword X now cx op np w))) = V (w_db w)"
    by (simp add: h_ChangeMyPassword_def Let_def bind_frame creds_frame)
qed

lemma own_schedule_frame:
  "V (w_db (snd (h_schedule_CreateMine X now cx n de e w))) = V (w_db w)"
  "V (w_db (snd (h_schedule_UpdateMine X now cx i n de e w))) = V (w_db w)"
  "V (w_db (snd (h_schedule_DeleteMine X now cx i w))) = V (w_db w)"
  by (simp_all add: h_schedule_CreateMine_def h_schedule_UpdateMine_def h_schedule_DeleteMine_def
      bind_frame schedules_frame)

lemma status_frame: "V (w_db (snd (PushStatus X now au b w))) = V (w_db w)"
proof -
  have "V (w_db (snd (ProcessGateStatus X now g s m w))) = V (w_db w)" for g s m
    by (cases "on_db (\<lambda>d. gates_UpdateStatus (x_dbFault X now) d now (g_ID g)
          (case EvaluateStatusRules (g_StatusRules g) (case m of None \<Rightarrow> [] | Some m \<Rightarrow> m) of
             Some override \<Rightarrow> override | None \<Rightarrow> s) m) w")
       (auto simp: ProcessGateStatus_def Let_def on_db_def view_status split: sum.splits)
  then have "V (w_db w1) = V (w_db w)" if "ProcessGateStatus X now g s m w = (r, w1)" for g s m r w1
    using that by (metis snd_conv)
  then show ?thesis
    by (auto simp: PushStatus_def gate_ProcessStatus_def Let_def split: sum.splits prod.splits)
qed

text \<open>The calls for which neither an admin nor a manager is needed, but for the two that add members.\<close>

lemma personal_frame:
  assumes "Admin \<notin> set (route_guards call)" and "GateManagerOnly \<notin> set (route_guards call)"
    and "\<And>u p n. call \<noteq> SetupCall (SetupInit u p n)"
    and "\<And>p c s e. call \<noteq> SsoCall (SsoCallback p c s e)"
  shows "V (w_db (snd (handle X now rq cx call w))) = V (w_db w)"
proof (cases call)
  case (SetupCall c)
  with assms(3) show ?thesis by (cases c) (auto simp: handle_def)
next
  case (AuthCall c)
  have "V (w_db (snd (h_Logout X now tok w))) = V (w_db w)" for tok
    by (simp add: h_Logout_def auth_db)
  moreover have "V (w_db (snd (h_Refresh X now tok w))) = V (w_db w)" for tok
    by (simp add: h_Refresh_def bind_frame auth_db)
  moreover have "V (w_db (snd (h_Login X now u p w))) = V (w_db w)" for u p
    by (simp add: h_Login_def bind_frame auth_db split: prod.splits)
  ultimately show ?thesis using AuthCall by (cases c) (simp_all add: handle_def)
next
  case (GateCall c)
  with assms(1,2) show ?thesis
    by (cases c) (simp_all add: handle_def route_guards_def gate_routes_def h_gate_Trigger_def Let_def gate_Trigger_db)
next
  case (PolicyCall c)
  with assms(1,2) show ?thesis by (cases c) (simp_all add: handle_def route_guards_def policy_routes_def)
next
  case (MemberCall c)
  with assms(1,2) show ?thesis by (cases c) (simp_all add: handle_def route_guards_def member_routes_def)
next
  case (PinCall c)
  have "V (w_db (snd (h_OpenGate X now cx g p w))) = V (w_db w)" for g p
    by (simp add: h_OpenGate_def bind_frame pin_db)
  with PinCall assms(1,2) show ?thesis
    by (cases c) (simp_all add: handle_def route_guards_def pin_routes_def h_Unlock_def h_PublicTrigger_def Let_def pin_db)
next
  case (ScheduleCall c)
  with assms(1,2) show ?thesis
    by (cases c) (simp_all add: handle_def route_guards_def schedule_routes_def own_schedule_frame)
next
  case (SsoCall c)
  with assms(1,4) show ?thesis by (cases c) (auto simp: handle_def route_guards_def sso_routes_def sso_db)
next
  case (CredCall c)
  with assms(1,2) show ?thesis
    by (cases c) (simp_all add: handle_def route_guards_def credential_routes_def credential_frame)
next
  case (DomainCall c)
  with assms(1,2) show ?thesis by (cases c) (simp_all add: handle_def route_guards_def domain_routes_def)
next
  case (InboundCall c)
  then show ?thesis by (cases c) (simp add: handle_def status_frame)
qed

end

text \<open>
  A part that a new account leaves alone too: no request without a guard changes it.
\<close>

locale account_view = db_view +
  assumes view_members: "V (d\<lparr>db_members := ms\<rparr>) = V d"
begin

lemma members_Create_frame: "V (snd (members_Create flt d i now u n r)) = V d"
  by (simp add: members_Create_def Let_def view_members)

lemma setup_frame: "V (w_db (snd (setup_init X now u p n w))) = V (w_db w)"
proof -
  have "V (w_db (snd (Register X now u p n w))) = V (w_db w)" for w
    by (simp add: Register_def Let_def bind_frame members_Create_frame creds_frame tokens_db split: sum.splits)
  then show ?thesis by (simp add: setup_init_def bind_frame split: sum.splits prod.splits)
qed

lemma callback_frame: "V (w_db (snd (sso_Callback X now p c st e w))) = V (w_db w)"
proof -
  have m: "V (w_db (snd (create_sso_member X now i r w))) = V (w_db w)" for i r w
  proof -
    let ?name = "if si_DisplayName i = [] then None else Some (si_DisplayName i)"
    let ?create = "\<lambda>u. on_db (\<lambda>d. members_Create (x_dbFault X now) d (x_newID X now ''member'') now u ?name r)"
    have k: "V (w_db (snd (?create u w))) = V (w_db w)" for u w
      by (simp add: members_Create_frame)
    obtain q w1 where e: "?create (sso_username i) w = (q, w1)" by fastforce
    with k [of "sso_username i" w] have o: "V (w_db w1) = V (w_db w)" by simp
    show ?thesis
      using o k [of "sso_username i @ ''_'' @ take 8 (si_Subject i)" w1]
      by (cases q) (simp_all only: create_sso_member_def Let_def e prod.case sum.case snd_conv split: if_split, blast)
  qed
  show ?thesis
    by (rule sso_Callback_cases)
      (simp_all add: resolveOrProvision_def Let_def bind_frame m creds_frame split: sum.splits)
qed

lemma unguarded_frame:
  assumes "Admin \<notin> set (route_guards call)" and "GateManagerOnly \<notin> set (route_guards call)"
  shows "V (w_db (snd (handle X now rq cx call w))) = V (w_db w)"
  using personal_frame [OF assms, of X now rq cx w] setup_frame [of X now _ _ _ w] callback_frame [of X now _ _ _ _ w]
  by (cases "\<exists>u p n. call = SetupCall (SetupInit u p n)"; cases "\<exists>p c s e. call = SsoCall (SsoCallback p c s e)")
    (auto simp: handle_def)

end

section \<open>What belongs to a gate\<close>

text \<open>
  The stored settings and the token of a gate (everything but the reported state), the
  permissions of members on it, its codes without their schedule, and its domains.
\<close>

definition gate_settings :: "gate \<Rightarrow> gate" where
  "gate_settings g = g\<lparr>g_Status := [], g_LastSeenAt := None, g_StatusMetadata := None\<rparr>"

definition owned :: "db \<Rightarrow> uuid \<Rightarrow> gate list \<times> (uuid \<times> string) set \<times> gate_pin list \<times> custom_domain list" where
  "owned d g = (List.map gate_settings (filter (\<lambda>r. g_ID r = g) (db_gates d)),
     {(m, c). member_has d m g c},
     List.map (\<lambda>p. p\<lparr>pin_ScheduleID := None\<rparr>) (filter (\<lambda>p. pin_GateID p = g) (db_pins d)),
     filter (\<lambda>c. cd_GateID c = g) (db_domains d))"

lemma filter_upd_where:
  assumes "\<And>r. P r \<Longrightarrow> Q (f r) = Q r \<and> (Q r \<longrightarrow> h (f r) = h r)"
  shows "List.map h (filter Q (upd_where P f rs)) = List.map h (filter Q rs)"
  using assms by (induction rs) auto

interpretation own: account_view "\<lambda>d. owned d g" for g
proof
  fix d P flt now i st m t gi c
  show "owned (cascade_schedules P d) g = owned d g"
    by (simp add: owned_def member_has_def) (simp add: cascade_schedules_def Let_def filter_upd_where)
  show "owned (snd (gates_UpdateStatus flt d now i st m)) g = owned d g"
    by (simp add: owned_def member_has_def gates_UpdateStatus_def filter_upd_where gate_settings_def)
  have "db_gates (snd (credPolicies_Grant flt d t gi c)) = db_gates d \<and> db_pins (snd (credPolicies_Grant flt d t gi c)) = db_pins d
     \<and> db_domains (snd (credPolicies_Grant flt d t gi c)) = db_domains d"
    by (simp add: credPolicies_Grant_def exec_def insert_policy_def)
  then show "owned (snd (credPolicies_Grant flt d t gi c)) g = owned d g"
    by (simp add: owned_def cred_ops_members)
  have "db_gates (snd (credPolicies_RevokeAll flt d t)) = db_gates d \<and> db_pins (snd (credPolicies_RevokeAll flt d t)) = db_pins d
     \<and> db_domains (snd (credPolicies_RevokeAll flt d t)) = db_domains d"
    by (simp add: credPolicies_RevokeAll_def exec_def delete_policies_def)
  then show "owned (snd (credPolicies_RevokeAll flt d t)) g = owned d g"
    by (simp add: owned_def cred_ops_members)
qed (simp_all add: owned_def member_has_def)

text \<open>The accounts that are admins.\<close>

definition admins :: "db \<Rightarrow> uuid set" where
  "admins d = mem_ID ` {m \<in> set (db_members d). mem_Role m = RoleAdmin}"

interpretation adm: db_view db_members
  by unfold_locales (simp_all add: gates_UpdateStatus_def credPolicies_Grant_def credPolicies_RevokeAll_def exec_def
      insert_policy_def delete_policies_def)

section \<open>The calls of a manager\<close>

lemma owned_members [simp]: "owned (d\<lparr>db_members := ms\<rparr>) g = owned d g"
  by (simp add: owned_def member_has_def)

lemma owned_other_gate:
  assumes "g' \<noteq> g"
  shows "owned (snd (gates_Update flt d g' up)) g = owned d g"
    and "owned (snd (policies_Grant flt d m g' c)) g = owned d g"
    and "owned (snd (policies_Revoke flt d m g')) g = owned d g"
    and "owned (snd (policies_RevokePermission flt d m g' c)) g = owned d g"
    and "owned (snd (policies_SetSchedule flt d m g' s)) g = owned d g"
    and "owned (snd (policies_RemoveSchedule flt d m g')) g = owned d g"
    and "owned (snd (pins_Create flt d i now g' h lb md so)) g = owned d g"
    and "owned (snd (pins_Delete flt d i g')) g = owned d g"
    and "owned (snd (domains_Create flt d i tok now g' dn)) g = owned d g"
    and "owned (snd (domains_Delete flt d i g')) g = owned d g"
proof -
  have F: "filter (\<lambda>r. k r = g) (filter (\<lambda>r. P r \<longrightarrow> k r \<noteq> g') rs) = filter (\<lambda>r. k r = g) rs" for k :: "'x \<Rightarrow> uuid" and P rs
    using assms by (induction rs) auto
  show "owned (snd (gates_Update flt d g' up)) g = owned d g"
    using assms by (auto simp: gates_Update_def owned_def member_has_def intro!: filter_upd_where split: option.splits)
  show "owned (snd (policies_Grant flt d m g' c)) g = owned d g"
    using assms by (simp add: policies_Grant_def exec_def insert_policy_def owned_def member_has_def)
  show "owned (snd (policies_Revoke flt d m g')) g = owned d g"
    "owned (snd (policies_RevokePermission flt d m g' c)) g = owned d g"
    using assms by (auto simp: policies_Revoke_def policies_RevokePermission_def Let_def exec_def delete_policies_def
        owned_def member_has_def)
  show "owned (snd (policies_SetSchedule flt d m g' s)) g = owned d g"
    "owned (snd (policies_RemoveSchedule flt d m g')) g = owned d g"
    by (simp_all add: policies_SetSchedule_def policies_RemoveSchedule_def exec_def upsert_link_def delete_links_def own.view_links)
  show "owned (snd (pins_Create flt d i now g' h lb md so)) g = owned d g"
    using assms by (simp add: pins_Create_def Let_def owned_def member_has_def)
  show "owned (snd (pins_Delete flt d i g')) g = owned d g"
    by (simp add: pins_Delete_def owned_def member_has_def F del: filter_filter)
  show "owned (snd (domains_Create flt d i tok now g' dn)) g = owned d g"
    using assms by (simp add: domains_Create_def Let_def owned_def member_has_def)
  show "owned (snd (domains_Delete flt d i g')) g = owned d g"
    by (simp add: domains_Delete_def owned_def member_has_def F del: filter_filter)
qed

lemma owned_pin_update:
  assumes "g' \<noteq> g" and "\<And>p. pin_GateID (f p) = pin_GateID p"
  shows "owned (snd (update_pin fault what d i g' f)) g = owned d g"
  using assms by (auto simp: update_pin_def owned_def member_has_def intro!: filter_upd_where split: option.splits)

text \<open>Verifying a domain marks the row it read, as identifiers are unique.\<close>

lemma owned_verify:
  assumes "db_wf (w_db w)" and "g' \<noteq> g"
  shows "owned (w_db (snd (verifyDomain X now g' i w))) g = owned (w_db w) g"
proof (cases "domains_GetByID (x_dbFault X now) (w_db w) i g'")
  case (Inl e)
  then show ?thesis by (simp add: verifyDomain_def)
next
  case (Inr dm)
  then have dm: "dm \<in> set (db_domains (w_db w))" "cd_GateID dm = g'"
    by (auto simp: domains_GetByID_def scan_one_def domain_row_def dest: find_SomeD split: if_splits option.splits)
  have "distinct (List.map cd_ID (db_domains (w_db w)))"
    using assms(1) by (simp add: db_wf_def domains_wf_def)
  with dm have u: "\<And>c. c \<in> set (db_domains (w_db w)) \<Longrightarrow> cd_ID c = cd_ID dm \<Longrightarrow> c = dm"
    by (auto simp: distinct_map dest: inj_onD)
  have "filter (\<lambda>c. cd_GateID c = g) (upd_where (\<lambda>c. cd_ID c = cd_ID dm) (\<lambda>c. c\<lparr>cd_VerifiedAt := Some now\<rparr>) cs)
      = filter (\<lambda>c. cd_GateID c = g) cs" if "set cs \<subseteq> set (db_domains (w_db w))" for cs
    using that u assms(2) dm(2) by (induction cs) auto
  then have "owned (snd (domains_SetVerified (x_dbFault X now) (w_db w) (cd_ID dm) now)) g = owned (w_db w) g"
    by (simp add: domains_SetVerified_def owned_def member_has_def)
  with Inr show ?thesis
    by (simp add: verifyDomain_def own.bind_frame split: option.splits)
qed

lemma manager_frame:
  assumes "db_wf (w_db w)" and "GateManagerOnly \<in> set (route_guards call)" and "call_gate call \<noteq> Some g"
  shows "owned (w_db (snd (handle X now rq cx call w))) g = owned (w_db w) g"
proof (cases call)
  case (GateCall c)
  have "owned (w_db (snd (h_gate_Update X now g' b w))) g = owned (w_db w) g" if "g' \<noteq> g" for g' b
  proof -
    have u: "owned (w_db (snd (gate_Update X now g' b w'))) g = owned (w_db w') g" for w'
      using owned_other_gate(1) [OF that, of "x_dbFault X now" "w_db w'" b]
      by (auto simp: gate_Update_def on_db_def Let_def split: sum.splits prod.splits)
    show ?thesis by (simp add: h_gate_Update_def own.bind_frame u)
  qed
  with GateCall assms(2,3) show ?thesis
    by (cases c) (simp_all add: handle_def route_guards_def gate_routes_def call_gate_def)
next
  case (PolicyCall c)
  with assms(2,3) show ?thesis
    by (cases c) (simp_all add: handle_def route_guards_def policy_routes_def call_gate_def h_policy_Grant_def
        h_policy_Revoke_def h_policy_RevokePermission_def h_policy_SetMemberGateSchedule_def
        h_policy_RemoveMemberGateSchedule_def svc_Grant_def svc_Revoke_def svc_RevokePermission_def
        svc_SetMemberGateSchedule_def svc_RemoveMemberGateSchedule_def owned_other_gate)
next
  case (PinCall c)
  have p: "owned (w_db (snd (h_CreatePIN X now g' b w))) g = owned (w_db w) g"
    "owned (w_db (snd (h_UpdatePIN X now g' i l m w))) g = owned (w_db w) g"
    "owned (w_db (snd (h_DeletePIN X now g' i w))) g = owned (w_db w) g"
    "owned (w_db (snd (h_SetPinSchedule X now g' i s w))) g = owned (w_db w) g"
    "owned (w_db (snd (h_ClearPinSchedule X now g' i w))) g = owned (w_db w) g" if "g' \<noteq> g" for g' b i l m s
    using that
    by (simp_all add: h_CreatePIN_def h_UpdatePIN_def h_DeletePIN_def h_SetPinSchedule_def h_ClearPinSchedule_def
        pin_Create_def pin_Update_def pin_Delete_def pin_SetSchedule_def pin_ClearSchedule_def Let_def
        pins_Update_def pins_SetPinSchedule_def pins_ClearPinSchedule_def own.bind_frame owned_other_gate owned_pin_update)
  with PinCall assms(2,3) show ?thesis
    by (cases c) (simp_all add: handle_def route_guards_def pin_routes_def call_gate_def)
next
  case (DomainCall c)
  with assms show ?thesis
    by (cases c) (simp_all add: handle_def route_guards_def domain_routes_def call_gate_def addDomain_def Let_def
        deleteDomain_def owned_other_gate owned_verify)
qed (use assms(2) in \<open>auto simp: route_guards_def auth_routes_def member_routes_def schedule_routes_def sso_routes_def
      credential_routes_def split: auth_call.splits member_call.splits schedule_call.splits sso_call.splits credential_call.splits\<close>)

section \<open>Authorization\<close>

lemma RequireAdmin_passed: "RequireAdmin cx = Inr () \<Longrightarrow> session_admin cx"
  by (simp add: RequireAdmin_def session_admin_def IsAPITokenAuth_def split: if_splits)

lemma GateManager_passed:
  "GateManager X now rq d cx = Inr () \<Longrightarrow> session_admin cx
     \<or> (\<exists>g m. x_uuidParse X (rq_PathGateID rq) = Some g \<and> MemberIDFromContext cx = Some m \<and> member_has d m g PermManage)"
  by (auto simp: GateManager_def session_admin_def IsAPITokenAuth_def HasPermission_iff split: if_splits option.splits)

text \<open>A request that changes something passed the guards of its route, on the database it found.\<close>

lemma serve_changed:
  assumes "V (w_db (snd (serve X now rq call w))) \<noteq> V (w_db w)"
  obtains w2 where "w_db w2 = w_db w" and "path_ok X rq call"
    and "snd (serve X now rq call w) = snd (handle X now rq (request_ctx X now rq (w_db w)) call w2)"
    and "Admin \<in> set (route_guards call) \<Longrightarrow> session_admin (request_ctx X now rq (w_db w))"
    and "GateManagerOnly \<in> set (route_guards call) \<Longrightarrow> GateManager X now rq (w_db w) (request_ctx X now rq (w_db w)) = Inr ()"
proof -
  let ?cx = "request_ctx X now rq (w_db w)" and ?w1 = "snd (TenantResolver X now (rq_Host rq) w)"
  let ?r = "run_guards X now rq ?cx (route_guards call) ?w1"
  have d1: "w_db ?w1 = w_db w" by (rule TenantResolver_db)
  have s: "serve X now rq call w = hbind ?r (\<lambda>_ w. if \<not> path_ok X rq call then (Inl (HErr 422 ''validation failed''), w)
      else handle X now rq ?cx call w)"
    by (simp only: serve_def Let_def d1)
  have d2: "w_db (snd ?r) = w_db w" by (simp add: run_guards_db d1)
  obtain r0 w2 where r: "?r = (r0, w2)" by fastforce
  with assms s d2 obtain u where ok: "r0 = Inr u" and path: "path_ok X rq call"
    by (cases r0) (auto split: if_splits)
  show thesis
  proof (rule that [of w2])
    show "w_db w2 = w_db w" using d2 r by simp
    show "snd (serve X now rq call w) = snd (handle X now rq ?cx call w2)" using s r ok path by simp
    note passed = run_guards_passed [of X now rq ?cx "route_guards call" ?w1]
    have p: "fst ?r = Inr ()" using r ok by simp
    show "session_admin ?cx" if "Admin \<in> set (route_guards call)"
      using passed [OF p that] by (auto simp: run_guard_def intro: RequireAdmin_passed)
    show "GateManager X now rq (w_db w) ?cx = Inr ()" if "GateManagerOnly \<in> set (route_guards call)"
      using passed [OF p that] d1 by (auto simp: run_guard_def)
  qed (rule path)
qed

lemma setup_admins: "admins (w_db (snd (setup_init X now u p n w))) = admins (w_db w)"
proof -
  have m: "admins (snd (members_Create flt d i now u n RoleMember)) = admins d" for flt d i now u n
    by (auto simp: members_Create_def Let_def admins_def)
  have cr: "admins (snd (creds_Create flt d i now m ty h l e md)) = admins d" for flt d i now m ty h l e md
    by (simp add: admins_def adm.creds_frame)
  have "admins (w_db (snd (Register X now u p n w))) = admins (w_db w)" for w
    by (simp add: Register_def Let_def wbind_db [of admins] m cr tokens_db split: sum.splits)
  then show ?thesis by (simp add: setup_init_def hbind_db [of admins] split: sum.splits prod.splits)
qed

text \<open>
  C3: Who can change a gate: whatever request the server answers, with whatever failures,
  the stored settings and token of a gate, the permissions members have on it, its access codes
  (but for their schedule) and its custom domains only change if the request comes from the
  session of an admin, or from a member with the manage permission on this very gate, on a
  route of this gate.
\<close>

theorem gate_changes_need_manager:
  assumes "db_wf (w_db w)" and "owned (w_db (snd (serve X now rq call w))) g \<noteq> owned (w_db w) g"
  shows "session_admin (request_ctx X now rq (w_db w))
    \<or> (call_gate call = Some g
       \<and> (\<exists>m. MemberIDFromContext (request_ctx X now rq (w_db w)) = Some m \<and> member_has (w_db w) m g PermManage))"
proof -
  let ?cx = "request_ctx X now rq (w_db w)"
  from serve_changed [of "\<lambda>d. owned d g", OF assms(2)] obtain w2 where d: "w_db w2 = w_db w" and path: "path_ok X rq call"
    and s: "snd (serve X now rq call w) = snd (handle X now rq ?cx call w2)"
    and adm: "Admin \<in> set (route_guards call) \<Longrightarrow> session_admin ?cx"
    and man: "GateManagerOnly \<in> set (route_guards call) \<Longrightarrow> GateManager X now rq (w_db w) ?cx = Inr ()" by blast
  have changed: "owned (w_db (snd (handle X now rq ?cx call w2))) g \<noteq> owned (w_db w2) g"
    using assms(2) s d by simp
  show ?thesis
  proof (cases "Admin \<in> set (route_guards call)")
    case True
    with adm show ?thesis by blast
  next
    case na: False
    show ?thesis
    proof (cases "GateManagerOnly \<in> set (route_guards call)")
      case True
      have g: "call_gate call = Some g"
        using manager_frame [OF _ True] changed assms(1) d by metis
      with path have "x_uuidParse X (rq_PathGateID rq) = Some g" by (simp add: path_ok_def)
      with GateManager_passed [OF man [OF True]] g show ?thesis by auto
    next
      case False
      from own.unguarded_frame [OF na False, where g = g and X = X and now = now and rq = rq and cx = ?cx and w = w2] changed
      show ?thesis by simp
    qed
  qed
qed

lemma policy_members:
  "db_members (snd (policies_Grant flt d m g c)) = db_members d" "db_members (snd (policies_Revoke flt d m g)) = db_members d"
  "db_members (snd (policies_RevokePermission flt d m g c)) = db_members d"
  "db_members (snd (policies_SetSchedule flt d m g s)) = db_members d"
  "db_members (snd (policies_RemoveSchedule flt d m g)) = db_members d"
  by (simp_all add: policies_Grant_def policies_Revoke_def policies_RevokePermission_def policies_SetSchedule_def
      policies_RemoveSchedule_def Let_def exec_def insert_policy_def upsert_link_def delete_policies_def delete_links_def)

lemma manager_members:
  assumes "GateManagerOnly \<in> set (route_guards call)"
  shows "db_members (w_db (snd (handle X now rq cx call w))) = db_members (w_db w)"
proof (cases call)
  case (GateCall c)
  have "db_members (snd (gates_Update flt d g b)) = db_members d" for flt d g b
    by (simp add: gates_Update_def split: option.splits)
  then have "db_members (w_db (snd (gate_Update X now g b w'))) = db_members (w_db w')" for g b w'
    by (auto simp: gate_Update_def on_db_def Let_def split: sum.splits prod.splits)
  then have "db_members (w_db (snd (h_gate_Update X now g b w))) = db_members (w_db w)" for g b
    by (simp add: h_gate_Update_def adm.bind_frame)
  with GateCall assms show ?thesis
    by (cases c) (simp_all add: handle_def route_guards_def gate_routes_def)
next
  case (PolicyCall c)
  with assms show ?thesis
    by (cases c) (simp_all add: handle_def route_guards_def policy_routes_def h_policy_Grant_def
        h_policy_Revoke_def h_policy_RevokePermission_def h_policy_SetMemberGateSchedule_def
        h_policy_RemoveMemberGateSchedule_def svc_Grant_def svc_Revoke_def svc_RevokePermission_def
        svc_SetMemberGateSchedule_def svc_RemoveMemberGateSchedule_def policy_members)
next
  case (PinCall c)
  have u: "db_members (snd (update_pin fault what d i g f)) = db_members d" for fault what d i g f
    by (simp add: update_pin_def split: option.splits)
  have "db_members (snd (pins_Create flt d i now g h l m s)) = db_members d"
    "db_members (snd (pins_Delete flt d i g)) = db_members d" for flt d i now g h l m s
    by (simp_all add: pins_Create_def pins_Delete_def Let_def)
  with u PinCall assms show ?thesis
    by (cases c) (simp_all add: handle_def route_guards_def pin_routes_def h_CreatePIN_def h_UpdatePIN_def h_DeletePIN_def
        h_SetPinSchedule_def h_ClearPinSchedule_def pin_Create_def pin_Update_def pin_Delete_def pin_SetSchedule_def
        pin_ClearSchedule_def Let_def pins_Update_def pins_SetPinSchedule_def pins_ClearPinSchedule_def adm.bind_frame)
next
  case (DomainCall c)
  have "db_members (snd (domains_Create flt d i tok now g n)) = db_members d"
    "db_members (snd (domains_Delete flt d i g)) = db_members d"
    "db_members (snd (domains_SetVerified flt d i now)) = db_members d" for flt d i tok now g n
    by (simp_all add: domains_Create_def domains_Delete_def domains_SetVerified_def Let_def)
  with DomainCall assms show ?thesis
    by (cases c) (simp_all add: handle_def route_guards_def domain_routes_def addDomain_def deleteDomain_def verifyDomain_def
        Let_def adm.bind_frame split: option.splits)
qed (use assms in \<open>auto simp: route_guards_def auth_routes_def member_routes_def schedule_routes_def sso_routes_def
      credential_routes_def split: auth_call.splits member_call.splits schedule_call.splits sso_call.splits credential_call.splits\<close>)

text \<open>
  C2: Who makes an admin: the set of admins only changes through a request from the session
  of an admin, or at a sign-on (which can create an account with the role the provider's
  configuration maps). In particular the first account, which the setup creates, is not one.
\<close>

theorem admins_made_by_admins:
  assumes "admins (w_db (snd (serve X now rq call w))) \<noteq> admins (w_db w)"
  shows "session_admin (request_ctx X now rq (w_db w)) \<or> (\<exists>p c st e. call = SsoCall (SsoCallback p c st e))"
proof -
  let ?cx = "request_ctx X now rq (w_db w)"
  from serve_changed [of admins, OF assms] obtain w2 where d: "w_db w2 = w_db w"
    and s: "snd (serve X now rq call w) = snd (handle X now rq ?cx call w2)"
    and adm: "Admin \<in> set (route_guards call) \<Longrightarrow> session_admin ?cx" by blast
  have changed: "admins (w_db (snd (handle X now rq ?cx call w2))) \<noteq> admins (w_db w2)"
    using assms s d by simp
  then have mem: "db_members (w_db (snd (handle X now rq ?cx call w2))) \<noteq> db_members (w_db w2)"
    by (auto simp: admins_def)
  have "call \<noteq> SetupCall (SetupInit u p n)" for u p n
    using changed by (auto simp: handle_def setup_admins)
  with adm.personal_frame [of call X now rq ?cx w2] manager_members [of call X now rq ?cx w2] mem adm show ?thesis
    by blast
qed

section \<open>What an API token can be given\<close>

lemma credPolicies_Grant_frame:
  "db_gates (snd (credPolicies_Grant flt d t g c)) = db_gates d" "db_creds (snd (credPolicies_Grant flt d t g c)) = db_creds d"
  "db_members (snd (credPolicies_Grant flt d t g c)) = db_members d" "db_links (snd (credPolicies_Grant flt d t g c)) = db_links d"
  by (simp_all add: credPolicies_Grant_def exec_def insert_policy_def)

lemma grant_all_other:
  "db_gates (w_db (snd (grant_all X now c ps w))) = db_gates (w_db w)"
  "db_creds (w_db (snd (grant_all X now c ps w))) = db_creds (w_db w)"
  "db_members (w_db (snd (grant_all X now c ps w))) = db_members (w_db w)"
  "db_links (w_db (snd (grant_all X now c ps w))) = db_links (w_db w)"
  "member_has (w_db (snd (grant_all X now c ps w))) = member_has (w_db w)"
  by (induction X now c ps w rule: grant_all.induct)
    (simp_all add: hbind_db [of db_gates] hbind_db [of db_creds] hbind_db [of db_members] hbind_db [of db_links]
      hbind_db [of member_has] credPolicies_Grant_frame cred_ops_members)

text \<open>The loop of the handler is the sequence of grants of the permission store.\<close>

lemma grant_all_tp:
  assumes "fst (grant_all X now c ps w) = Inr ()"
  shows "fst (tp.grants (x_dbFault X now) (w_db w) c ps) = Inr ()
    \<and> w_db (snd (grant_all X now c ps w)) = snd (tp.grants (x_dbFault X now) (w_db w) c ps)
    \<and> (\<forall>(g, code) \<in> set ps. g \<in> gate_ids (w_db w))"
  using assms
proof (induction X now c ps w rule: grant_all.induct)
  case (2 X now c g code ps w)
  obtain r d1 where e: "credPolicies_Grant (x_dbFault X now) (w_db w) c g code = (r, d1)" by fastforce
  with 2(2) obtain u where r: "r = Inr u" by (cases r) (auto simp: hbind_def)
  have g: "g \<in> gate_ids (w_db w)"
    using e r by (auto simp: credPolicies_Grant_def exec_def insert_policy_def split: if_splits)
  have same: "db_gates d1 = db_gates (w_db w)"
    using credPolicies_Grant_frame(1) [of "x_dbFault X now" "w_db w" c g code] e by simp
  have "fst (grant_all X now c ps (w\<lparr>w_db := d1\<rparr>)) = Inr ()" using 2(2) e r by (simp add: hbind_def)
  from 2(1) [OF this] e r g same show ?case by (simp add: hbind_def)
qed simp

lemma new_token_ok:
  assumes "new_token X now m label e w = (Inr (cred, raw), w1)"
  shows "\<exists>h. raw = ''gatie_'' @ h" and "cr_HashedValue cred = x_sha256 X raw" and "cr_MemberID cred = m"
    and "cr_Type cred = CredAPIToken" and "cr_ExpiresAt cred = e"
    and "w1 = w\<lparr>w_db := (w_db w)\<lparr>db_creds := db_creds (w_db w) @ [cred]\<rparr>\<rparr>" and "m \<in> member_ids (w_db w)"
proof -
  let ?create = "\<lambda>hash d. creds_Create (x_dbFault X now) d (x_newID X now ''credential'') now m CredAPIToken hash (Some label) e []"
  from assms obtain rawhash where g: "GenerateAPIToken X now = Inr (raw, rawhash)" and o: "on_db (?create rawhash) w = (Inr cred, w1)"
    by (auto simp: new_token_def hbind_Inr_iff wrespond_Inr_iff simp del: on_db_fst on_db_snd)
  from o have c: "?create rawhash (w_db w) = (Inr cred, w_db w1)" and w1: "w1 = w\<lparr>w_db := w_db w1\<rparr>"
    by (auto simp: on_db_def Let_def intro: prod_eqI)
  from g have "(\<exists>h. raw = ''gatie_'' @ h) \<and> rawhash = x_sha256 X raw"
    by (auto simp: GenerateAPIToken_def Let_def split: option.splits)
  moreover from c have "cr_HashedValue cred = rawhash \<and> cr_MemberID cred = m \<and> cr_Type cred = CredAPIToken \<and> cr_ExpiresAt cred = e
      \<and> w_db w1 = (w_db w)\<lparr>db_creds := db_creds (w_db w) @ [cred]\<rparr> \<and> m \<in> member_ids (w_db w)"
    by (auto simp: creds_Create_def Let_def split: if_splits)
  ultimately show "\<exists>h. raw = ''gatie_'' @ h" "cr_HashedValue cred = x_sha256 X raw" "cr_MemberID cred = m"
    "cr_Type cred = CredAPIToken" "cr_ExpiresAt cred = e"
    "w1 = w\<lparr>w_db := (w_db w)\<lparr>db_creds := db_creds (w_db w) @ [cred]\<rparr>\<rparr>" "m \<in> member_ids (w_db w)"
    using w1 by metis+
qed

lemma CreateMyAPIToken_ok:
  assumes "h_CreateMyAPIToken X now cx label e ps None w = (Inr (view, raw), w1)"
  obtains m cred w2 where "MemberIDFromContext cx = Some m" and "new_token X now m label e w = (Inr (cred, raw), w2)"
    and "grant_all X now (cr_ID cred) ps w2 = (Inr (), w1)" and "view = credView cred"
  using assms by (auto simp: h_CreateMyAPIToken_def hbind_Inr_iff caller_def split: option.splits)

lemma find_new: "list_all (\<lambda>x. \<not> P x) xs \<Longrightarrow> P y \<Longrightarrow> List.find P (xs @ [y]) = Some y"
  by (induction xs) auto

lemma token_identifies:
  assumes "\<And>op key. \<not> x_dbFault X t op key" and "HasPrefix raw ''gatie_''"
    and "db_creds d = cs @ [cred]" and "x_sha256 X raw \<notin> cr_HashedValue ` set cs"
    and "cr_HashedValue cred = x_sha256 X raw" "cr_Type cred = CredAPIToken" "cr_ExpiresAt cred = None"
    and "member_row d (cr_MemberID cred) = Some mem" and "APITokenEnabled (x_authConfig X mem)"
    and "rq_Cookie rq = []" and "rq_Authorization rq = ''Bearer '' @ raw"
  shows "AuthExtractor X t rq d cx = cx\<lparr>cx_MemberID := Some (mem_ID mem), cx_Role := Some (mem_Role mem), cx_CredentialID := Some (cr_ID cred)\<rparr>"
proof -
  have raw: "bearerToken (''Bearer '' @ raw) = raw" "raw \<noteq> []"
    using assms(2) by (auto simp: bearerToken_def HasPrefix_def TrimPrefix_def)
  have "List.find (\<lambda>c. cr_HashedValue c = x_sha256 X raw \<and> cr_Type c = CredAPIToken \<and> not_expired t (cr_ExpiresAt c)
          \<and> member_row d (cr_MemberID c) \<noteq> None) (db_creds d) = Some cred"
    unfolding assms(3) by (rule find_new) (use assms(4-8) in \<open>auto simp: list_all_iff not_expired_def image_iff\<close>)
  then have "creds_FindByHashedAPIToken (x_dbFault X t) d t (x_sha256 X raw) = Inr (cred, mem)"
    by (simp add: creds_FindByHashedAPIToken_def assms(1,8))
  moreover have "cookieValue [] ''gatie_access'' = []" by (simp add: cookieValue_def cookie_pair_def TrimSpace_def Let_def)
  ultimately show ?thesis
    using assms(2,9-11) raw by (simp add: AuthExtractor_def Let_def)
qed

text \<open>What a policy of the token is enough for, and what an allowed trigger sends.\<close>

lemma token_policy_allows:
  assumes "token_has d c g perm" and "c \<noteq> uuid_Nil" and "gate_row d g = Some row"
    and "\<And>l. l \<in> set (db_links d) \<Longrightarrow> sl_Subject l \<notin> {CredentialOf c, Membership m}"
  shows "trigger_allowed X t d g role m c perm"
proof -
  have "find_link (CredentialOf c) None d = None" "find_link (Membership m) (Some g) d = None"
    unfolding find_link_def using assms(4) by (auto simp: find_None_iff_ball)
  moreover have "token_restricted d c"
    using assms(1) by (force simp: token_restricted_def token_has_def list_ex_iff)
  ultimately show ?thesis using assms(1-3) by (simp add: trigger_allowed_def link_ok_def)
qed

lemma allowed_trigger_sends:
  assumes "\<And>op key. \<not> x_dbFault X t op key"
    and "trigger_allowed X t (w_db w) g role m c (permCode_of action)" and "gate_row (w_db w) g = Some row"
  shows "fst (gate_Trigger X t g role m c action w) = Inr ()"
    and "EvTrigger (scanGate row) action \<in> set (w_out (snd (gate_Trigger X t g role m c action w)))"
proof -
  show ok: "fst (gate_Trigger X t g role m c action w) = Inr ()"
    by (rule trigger_allowed_succeeds [OF assms(1,2)])
  then show "EvTrigger (scanGate row) action \<in> set (w_out (snd (gate_Trigger X t g role m c action w)))"
    using trigger_checks_allowed [of X t "w_db w" g role m c "permCode_of action"] assms(3)
    by (auto simp: gate_Trigger_def audit_Insert_def split: sum.splits)
qed


text \<open>
  C35: The first account: the setup only succeeds on a database without members and leaves
  exactly one, with the name asked for and the role of a plain member; while a member exists
  every further call is refused and changes nothing.
\<close>

theorem setup_first_account:
  assumes "setup_init X now u p n w = (Inr (cookies, m), w')"
  shows "db_members (w_db w) = [] \<and> db_members (w_db w') = [m] \<and> mem_Username m = u \<and> mem_Role m = RoleMember
    \<and> (\<forall>t v q k w2. db_members (w_db w2) \<noteq> [] \<longrightarrow>
         (\<exists>e. setup_init X t v q k w2 = (Inl e, w2)))"
proof -
  from assms have none: "db_members (w_db w) = []"
    by (auto simp: setup_init_def member_HasAny_def members_HasAny_def split: if_splits sum.splits)
  from assms obtain tp where reg: "Register X now u p n w = (Inr (tp, m), w')"
    by (auto simp: setup_init_def hbind_Inr_iff wrespond_Inr_iff split: sum.splits if_splits)
  from Register_ok [OF reg] obtain h d1 c where
    mc: "members_Create (x_dbFault X now) (w_db w) (x_newID X now ''member'') now u n RoleMember = (Inr m, d1)"
    and cc: "creds_Create (x_dbFault X now) d1 (x_newID X now ''credential'') now (mem_ID m) CredPassword h None None [] = (Inr c, w_db w')"
    by blast
  from mc none have "db_members d1 = [m] \<and> mem_Username m = u \<and> mem_Role m = RoleMember"
    by (auto simp: members_Create_def Let_def split: if_splits)
  moreover have "db_members (w_db w') = db_members d1"
    using adm.creds_frame(1) [of "x_dbFault X now" d1 "x_newID X now ''credential''" now "mem_ID m" CredPassword h None None "[]"] cc by simp
  moreover have "\<exists>e. setup_init X t v q k w2 = (Inl e, w2)" if "db_members (w_db w2) \<noteq> []" for t v q k w2
    using that by (simp add: setup_init_def member_HasAny_def members_HasAny_def)
  ultimately show ?thesis using none by simp
qed

section \<open>Examples\<close>

text \<open>An account without permissions creates a token for gate 1 and opens it.\<close>

definition token_request :: "string \<Rightarrow> request" where
  "token_request raw = \<lparr>rq_RemoteAddr = ''a:1'', rq_Host = [], rq_Cookie = [], rq_Authorization = ''Bearer '' @ raw,
     rq_PathGateID = ''i''\<rparr>"

definition guest_db :: db where
  "guest_db = snd (members_Create no_faults sample_db 5 0 ''guest'' None RoleMember)"

definition guest_cx :: req_ctx where
  "guest_cx = (no_identity [])\<lparr>cx_MemberID := Some 5, cx_Role := Some RoleMember\<rparr>"


definition manager_db :: db where
  "manager_db = snd (policies_Grant no_faults sample_db 2 1 PermManage)"

theorem gate_changes_need_manager_witness:
  "let rq = sample_request ''a:1'' ''gatie_access=member-jwt''; w = sample_world manager_db;
       w' = snd (serve auth_env 5 rq (PolicyCall (PolicyGrant 1 7 PermTriggerOpen)) w)
   in owned (w_db w') 1 \<noteq> owned manager_db 1 \<and> \<not> session_admin (request_ctx auth_env 5 rq manager_db)
     \<and> (\<exists>m. MemberIDFromContext (request_ctx auth_env 5 rq manager_db) = Some m \<and> member_has manager_db m 1 PermManage)"
proof -
  let ?rq = "sample_request ''a:1'' ''gatie_access=member-jwt''" and ?w = "sample_world manager_db"
  let ?call = "PolicyCall (PolicyGrant 1 7 PermTriggerOpen)"
  have "member_has (w_db (snd (serve auth_env 5 ?rq ?call ?w))) 7 1 PermTriggerOpen" "\<not> member_has manager_db 7 1 PermTriggerOpen"
    "\<not> session_admin (request_ctx auth_env 5 ?rq manager_db)" by code_simp+
  moreover from this(1,2) have "owned (w_db (snd (serve auth_env 5 ?rq ?call ?w))) 1 \<noteq> owned (w_db ?w) 1"
    by (auto simp: owned_def set_eq_iff)
  moreover have "db_wf (w_db ?w)"
    unfolding manager_db_def sample_db_def by (simp add: repo_wf_ops empty_db_wf)
  ultimately show ?thesis
    using gate_changes_need_manager [of ?w auth_env 5 ?rq ?call 1] by (simp add: Let_def)
qed

theorem admins_made_by_admins_witness:
  "let rq = sample_request ''a:1'' ''gatie_access=admin-jwt''; w = sample_world sample_db;
       w' = snd (serve auth_env 5 rq (MemberCall (MemberUpdate 2 None None (Some RoleAdmin))) w)
   in admins sample_db = {} \<and> admins (w_db w') = {2} \<and> session_admin (request_ctx auth_env 5 rq sample_db)"
proof -
  let ?rq = "sample_request ''a:1'' ''gatie_access=admin-jwt''" and ?w = "sample_world sample_db"
  let ?call = "MemberCall (MemberUpdate 2 None None (Some RoleAdmin))"
  have "List.map (\<lambda>m. (mem_ID m, mem_Role m)) (db_members (w_db (snd (serve auth_env 5 ?rq ?call ?w)))) = [(2, RoleAdmin)]"
    "List.map (\<lambda>m. (mem_ID m, mem_Role m)) (db_members sample_db) = [(2, RoleMember)]" by code_simp+
  then have a: "admins (w_db (snd (serve auth_env 5 ?rq ?call ?w))) = {2}" "admins (w_db ?w) = {}"
    by (auto simp: admins_def map_eq_Cons_conv)
  with admins_made_by_admins [of auth_env 5 ?rq ?call ?w] show ?thesis by (simp add: Let_def)
qed

theorem setup_first_account_witness:
  "let r = setup_init auth_env 0 ''bob'' ''Passw0rd1'' None (sample_world empty_db)
   in (\<exists>cs m. fst r = Inr (cs, m) \<and> db_members (w_db (snd r)) = [m] \<and> mem_Role m = RoleMember)
     \<and> (\<exists>e. setup_init auth_env 1 ''eve'' ''Passw0rd2'' None (snd r) = (Inl e, snd r))"
proof -
  let ?r = "setup_init auth_env 0 ''bob'' ''Passw0rd1'' None (sample_world empty_db)"
  have "(case fst ?r of Inr _ \<Rightarrow> True | Inl _ \<Rightarrow> False)" by code_simp
  then obtain cs m where "fst ?r = Inr (cs, m)" by (cases "fst ?r") auto
  then have r: "?r = (Inr (cs, m), snd ?r)" by (metis prod.collapse)
  from setup_first_account [OF r] have "db_members (w_db (snd ?r)) = [m]" "mem_Role m = RoleMember"
    "\<exists>e. setup_init auth_env 1 ''eve'' ''Passw0rd2'' None (snd ?r) = (Inl e, snd ?r)" by simp_all
  with r show ?thesis unfolding Let_def by (metis fst_conv)
qed

end
