(* ===== verification/Pin_Props.thy ===== *)
theory Pin_Props
  imports Pin_Service Auth_Props
begin

text \<open>
  What the access codes promise: only a valid code of the gate opens it, the number of guesses is
  bounded, the use limit of a code is exact for sessions, and a session can do no more than its
  permissions on its own gate.
\<close>

section \<open>Frames\<close>

lemma count_attempt_frame [simp]:
  "w_db (snd (count_attempt X now g ip w)) = w_db w" "w_out (snd (count_attempt X now g ip w)) = w_out w"
  by (simp_all add: count_attempt_def split: prod.splits)

lemma validatePIN_frame:
  assumes "validatePIN X now g pin ip w = (r, w')"
  shows "w_db w' = w_db w" and "w_out w' = w_out w"
proof -
  obtain c w1 where c: "count_attempt X now g ip w = (c, w1)" by fastforce
  then have "w_db w1 = w_db w" "w_out w1 = w_out w"
    using count_attempt_frame [of X now g ip w] by simp_all
  with assms c show "w_db w' = w_db w" and "w_out w' = w_out w"
    by (auto simp: validatePIN_def wbind_def split: option.splits sum.splits if_splits)
qed

lemma count_use_frame [simp]:
  "w_db (snd (count_use X now p meta w)) = w_db w" "w_out (snd (count_use X now p meta w)) = w_out w"
  by (simp_all add: count_use_def use_script_def split: option.splits prod.splits)

lemma triggerGate_frame [simp]: "w_db (triggerGate X now g w) = w_db w" "w_redis (triggerGate X now g w) = w_redis w"
  by (simp_all add: triggerGate_def split: sum.splits)

section \<open>Only a valid code opens\<close>

definition gate_commands :: "'r env \<Rightarrow> int \<Rightarrow> db \<Rightarrow> uuid \<Rightarrow> event list" where
  "gate_commands X now d g = (case gates_GetByIDPublic (x_dbFault X now) d g of
      Inl _ \<Rightarrow> [] | Inr gate \<Rightarrow> [EvTrigger gate ''open''])"

lemma triggerGate_out: "w_out (triggerGate X now g w) = w_out w @ gate_commands X now (w_db w) g"
  by (simp add: triggerGate_def gate_commands_def split: sum.splits)

text \<open>
  A code is usable: it belongs to the gate, the given text matches its hash, it has not
  expired and its schedule allows the instant (a schedule that cannot be loaded does not restrict).
\<close>

definition pin_usable :: "'r env \<Rightarrow> int \<Rightarrow> db \<Rightarrow> uuid \<Rightarrow> string \<Rightarrow> gate_pin \<Rightarrow> bool" where
  "pin_usable X now d g pin p =
     (pin_GateID p = g \<and> x_bcryptCheck X (pin_HashedPin p) pin
      \<and> (case pm_ExpiresAt (parsePinMetadata (pin_Metadata p)) of None \<Rightarrow> True | Some t \<Rightarrow> now \<le> t)
      \<and> (case pin_ScheduleID p of
           None \<Rightarrow> True
         | Some sid \<Rightarrow> x_dbFault X now ''schedules.GetByID'' sid
             \<or> (case schedule_row d sid of None \<Rightarrow> True | Some s \<Rightarrow> Check s (go_now X now) = Inr ())))"

definition newest_pins :: "db \<Rightarrow> uuid \<Rightarrow> gate_pin list" where
  "newest_pins d g = take 100 (sort_key (\<lambda>r. - pin_CreatedAt r) (filter (\<lambda>r. pin_GateID r = g) (db_pins d)))"

lemma pins_List_newest:
  assumes "pins_List flt d g \<lparr>pg_Limit = 10000, pg_Offset = 0\<rparr> = Inr (pins, n)"
  shows "pins = newest_pins d g"
  using assms
  by (auto simp: pins_List_def Let_def newest_pins_def page_def Normalize_def MaxPageLimit_def DefaultPageLimit_def
      split: if_splits)

lemma unit_Check: "Check s t = Inr u \<longleftrightarrow> Check s t = Inr ()"
  by simp

lemma find_pin_ok:
  assumes "find_pin X now d g pin = Inr (p, meta)"
  shows "p \<in> set (newest_pins d g)" and "pin_usable X now d g pin p" and "meta = parsePinMetadata (pin_Metadata p)"
    and "List.find (\<lambda>p. x_bcryptCheck X (pin_HashedPin p) pin) (newest_pins d g) = Some p"
proof -
  from assms obtain pins n where l: "pins_List (x_dbFault X now) d g \<lparr>pg_Limit = 10000, pg_Offset = 0\<rparr> = Inr (pins, n)"
    by (auto simp: find_pin_def split: sum.splits)
  with assms pins_List_newest [OF l]
  show f: "List.find (\<lambda>p. x_bcryptCheck X (pin_HashedPin p) pin) (newest_pins d g) = Some p"
    by (auto simp: find_pin_def Let_def split: option.splits sum.splits if_splits)
  then show m: "p \<in> set (newest_pins d g)" by (auto dest: find_SomeD)
  then have g: "pin_GateID p = g" by (auto simp: newest_pins_def dest: in_set_takeD)
  from assms l pins_List_newest [OF l] f show "meta = parsePinMetadata (pin_Metadata p)"
    by (auto simp: find_pin_def Let_def split: option.splits sum.splits if_splits)
  from assms l pins_List_newest [OF l] f g find_SomeD [OF f] show "pin_usable X now d g pin p"
    by (auto simp: find_pin_def pin_usable_def Let_def schedule_GetPublic_def schedules_GetByIDPublic_def
        schedules_GetByID_def scan_one_def split: option.splits sum.splits if_splits)
qed

lemma validatePIN_ok:
  assumes "validatePIN X now g pin ip w = (Inr (p, meta), w')"
  shows "find_pin X now (w_db w) g pin = Inr (p, meta)"
proof -
  obtain c w1 where c: "count_attempt X now g ip w = (c, w1)" by fastforce
  then have "w_db w1 = w_db w" using count_attempt_frame(1) [of X now g ip w] by simp
  with assms c show ?thesis
    by (auto simp: validatePIN_def wbind_Inr_iff split: option.splits if_splits)
qed


section \<open>The number of guesses\<close>

lemma count_attempt_gate:
  assumes "redis_ok (x_redis X) view" and "ipKey X g ip \<noteq> gateKey X g" and "t \<le> t'"
    and "\<not> x_redisFault X t ''EXEC'' (ipKey X g ip)"
  shows "view (w_redis w) t (gateKey X g) = Some (RInt n, Some e) \<Longrightarrow> t < e \<Longrightarrow>
      view (w_redis (snd (count_attempt X t g ip w))) t' (gateKey X g) = alive t' (RInt (n + 1), Some e)
      \<and> (\<forall>a b. fst (count_attempt X t g ip w) = Some (a, b) \<longrightarrow> b = n + 1)"
    and "view (w_redis w) t (gateKey X g) = None \<Longrightarrow>
      view (w_redis (snd (count_attempt X t g ip w))) t' (gateKey X g) = alive t' (RInt 1, Some (t + pinRateLimitTTL))
      \<and> (\<forall>a b. fst (count_attempt X t g ip w) = Some (a, b) \<longrightarrow> b = 1)"
proof -
  have ttl: "0 < pinRateLimitTTL" by (simp add: pinRateLimitTTL_def)
  obtain a s1 where a: "incr_expire X t (w_redis w) (ipKey X g ip) pinRateLimitTTL = (a, s1)" by fastforce
  obtain b s2 where b: "incr_expire X t s1 (gateKey X g) pinRateLimitTTL = (b, s2)" by fastforce
  have s1: "view s1 t (gateKey X g) = view (w_redis w) t (gateKey X g)"
    using incr_expire_view(3) [OF assms(1) ttl order.refl, of "gateKey X g" "ipKey X g ip"] assms(2) a by (metis snd_conv)
  have c: "fst (count_attempt X t g ip w) = (case (a, b) of (Some n, Some m) \<Rightarrow> Some (n, m) | _ \<Rightarrow> None)"
    "w_redis (snd (count_attempt X t g ip w)) = s2"
    by (simp_all add: count_attempt_def a b assms(4))
  show "view (w_redis (snd (count_attempt X t g ip w))) t' (gateKey X g) = alive t' (RInt (n + 1), Some e)
      \<and> (\<forall>a b. fst (count_attempt X t g ip w) = Some (a, b) \<longrightarrow> b = n + 1)"
    if "view (w_redis w) t (gateKey X g) = Some (RInt n, Some e)" "t < e"
    using incr_expire_view(1) [OF assms(1) ttl assms(3), of s1 "gateKey X g" n e] that s1 b c by (auto split: option.splits)
  show "view (w_redis (snd (count_attempt X t g ip w))) t' (gateKey X g) = alive t' (RInt 1, Some (t + pinRateLimitTTL))
      \<and> (\<forall>a b. fst (count_attempt X t g ip w) = Some (a, b) \<longrightarrow> b = 1)"
    if "view (w_redis w) t (gateKey X g) = None"
    using incr_expire_view(2) [OF assms(1) ttl assms(3), of s1 "gateKey X g"] that s1 b c by (auto split: option.splits)
qed

lemma count_attempt_fault: "x_redisFault X t ''EXEC'' (ipKey X g ip) \<Longrightarrow> count_attempt X t g ip w = (None, w)"
  by (simp add: count_attempt_def)

lemma Unlock_counts:
  "fst (Unlock X t g pin ip w) \<noteq> Inl ErrTooManyAttempts \<Longrightarrow>
     \<exists>a b. fst (count_attempt X t g ip w) = Some (a, b) \<and> a \<le> maxAttempts X \<and> b \<le> maxGateAttempts X"
  by (cases "count_attempt X t g ip w") (auto simp: Unlock_def validatePIN_def split: option.splits if_splits)

lemma Unlock_keys:
  assumes "redis_ok (x_redis X) view" and "t \<le> t'" and "k \<noteq> ipKey X g ip"
  shows "view (w_redis (snd (Unlock X t g pin ip w))) t' k = view (w_redis (snd (count_attempt X t g ip w))) t' k"
proof -
  obtain c w1 where c: "count_attempt X t g ip w = (c, w1)" by fastforce
  have d: "view (w_redis (redis_Del X t w1 (ipKey X g ip))) t' k = view (w_redis w1) t' k"
    using redis_store.view_del [OF redis_store.intro [OF assms(1)] assms(2)] assms(3) by (simp add: redis_Del_def)
  show ?thesis
    by (simp add: Unlock_def validatePIN_def c wbind_def d split: option.splits sum.splits)
qed

text \<open>Attempts on one gate, each with its instant, code and address.\<close>

fun unlock_run :: "'r env \<Rightarrow> uuid \<Rightarrow> (int \<times> string \<times> string) list \<Rightarrow> 'r world \<Rightarrow> unit res list" where
  "unlock_run X g [] w = []"
| "unlock_run X g ((t, pin, ip) # attempts) w =
     fst (Unlock X t g pin ip w) # unlock_run X g attempts (snd (Unlock X t g pin ip w))"

definition examined :: "unit res list \<Rightarrow> nat" where
  "examined rs = length (filter (\<lambda>r. r \<noteq> Inl ErrTooManyAttempts) rs)"

lemma examined_simps [simp]:
  "examined [] = 0" "examined (r # rs) = (if r = Inl ErrTooManyAttempts then 0 else 1) + examined rs"
  by (simp_all add: examined_def)

lemma unlock_run_counted:
  assumes "redis_ok (x_redis X) view" and "\<And>ip. ipKey X g ip \<noteq> gateKey X g"
  shows "view (w_redis w) t0 (gateKey X g) = Some (RInt n, Some e) \<Longrightarrow> sorted (t0 # List.map fst attempts) \<Longrightarrow>
     list_all (\<lambda>a. fst a < e) attempts \<Longrightarrow> int (examined (unlock_run X g attempts w)) \<le> max 0 (maxGateAttempts X - n)"
proof (induction attempts arbitrary: w t0 n)
  case (Cons a attempts)
  note R = redis_store.intro [OF assms(1)]
  obtain t pin ip where a: "a = (t, pin, ip)" by (cases a) auto
  have t: "t0 \<le> t" "t < e" and rest: "sorted (t # List.map fst attempts)" "list_all (\<lambda>a. fst a < e) attempts"
    using Cons.prems a by auto
  let ?w' = "snd (Unlock X t g pin ip w)" and ?r = "fst (Unlock X t g pin ip w)"
  have v: "view (w_redis w) t (gateKey X g) = Some (RInt n, Some e)"
    using redis_store.view_later [OF R Cons.prems(1) t(1)] t(2) by (simp add: alive_def)
  show ?case
  proof (cases "x_redisFault X t ''EXEC'' (ipKey X g ip)")
    case True
    then have "?r = Inl ErrTooManyAttempts" "?w' = w"
      by (simp_all add: Unlock_def validatePIN_def count_attempt_fault)
    then show ?thesis using Cons.IH [OF v rest] by (simp add: a)
  next
    case False
    note C = count_attempt_gate(1) [OF assms(1) assms(2) order.refl False v t(2)]
    have v': "view (w_redis ?w') t (gateKey X g) = Some (RInt (n + 1), Some e)"
      using C t(2) by (simp add: Unlock_keys [OF assms(1) order.refl assms(2) [symmetric]] alive_def)
    have "n + 1 \<le> maxGateAttempts X" if "?r \<noteq> Inl ErrTooManyAttempts"
      using Unlock_counts [OF that] C by auto
    with Cons.IH [OF v' rest] show ?thesis by (auto simp: a)
  qed
qed simp

text \<open>
  Guessing is bounded: among any attempts on one gate, from any addresses and with any
  codes, within fifteen minutes of the moment its counter was empty, at most the configured number
  for the gate (50 by default) are compared with the codes of the gate; all others are refused as
  too many, also when Redis fails in between.
\<close>

theorem unlock_attempts_bounded:
  assumes "redis_ok (x_redis X) view" and "\<And>ip. ipKey X g ip \<noteq> gateKey X g"
    and "view (w_redis w) t0 (gateKey X g) = None"
    and "sorted (t0 # List.map fst attempts)" and "list_all (\<lambda>a. fst a < t0 + 15 * Minute) attempts"
  shows "int (examined (unlock_run X g attempts w)) \<le> maxGateAttempts X"
  using assms(3-5)
proof (induction attempts arbitrary: w t0)
  case Nil
  then show ?case by (simp add: maxGateAttempts_def defaultMaxGatePINAttempts_def)
next
  case (Cons a attempts)
  note R = redis_store.intro [OF assms(1)]
  obtain t pin ip where a: "a = (t, pin, ip)" by (cases a) auto
  have t: "t0 \<le> t" and rest: "sorted (t # List.map fst attempts)" "list_all (\<lambda>a. fst a < t0 + 15 * Minute) attempts"
    using Cons.prems a by auto
  then have rest': "list_all (\<lambda>a. fst a < t + 15 * Minute) attempts" by (auto simp: list_all_iff)
  let ?w' = "snd (Unlock X t g pin ip w)" and ?r = "fst (Unlock X t g pin ip w)"
  have v: "view (w_redis w) t (gateKey X g) = None"
    by (rule redis_store.view_gone [OF R Cons.prems(1) t])
  show ?case
  proof (cases "x_redisFault X t ''EXEC'' (ipKey X g ip)")
    case True
    then have "?r = Inl ErrTooManyAttempts" "?w' = w"
      by (simp_all add: Unlock_def validatePIN_def count_attempt_fault)
    then show ?thesis using Cons.IH [OF v rest(1) rest'] by (simp add: a)
  next
    case False
    note C = count_attempt_gate(2) [OF assms(1) assms(2) order.refl False v]
    have v': "view (w_redis ?w') t (gateKey X g) = Some (RInt 1, Some (t + 15 * Minute))"
      using C
      by (simp add: Unlock_keys [OF assms(1) order.refl assms(2) [symmetric]] alive_def pinRateLimitTTL_def)
    have "1 \<le> maxGateAttempts X"
      by (simp add: maxGateAttempts_def defaultMaxGatePINAttempts_def)
    with unlock_run_counted [OF assms(1,2) v' rest(1) rest'] show ?thesis by (auto simp: a)
  qed
qed

section \<open>The use limit of a code\<close>

definition uses :: "'r rview \<Rightarrow> 'r \<Rightarrow> int \<Rightarrow> string \<Rightarrow> int option" where
  "uses view s t k = (case view s t k of None \<Rightarrow> Some 0 | Some (RInt c, None) \<Rightarrow> Some c | _ \<Rightarrow> None)"

text \<open>
  C22: The use limit of a code is exact when sessions are opened: as long as fewer uses than
  the limit have been counted a use is accepted and counted, from then on every use is refused and
  the count stays; a code without a limit (or with a limit of 0 or less) is never counted.
\<close>

theorem max_uses_exact:
  assumes "redis_ok (x_redis X) view" and "\<not> x_redisFault X now ''EVAL'' (usesKey X (pin_ID p))" and "now \<le> t"
    and "uses view (w_redis w) now (usesKey X (pin_ID p)) = Some c" and "0 \<le> c"
  shows "case pm_MaxUses meta of
     None \<Rightarrow> count_use X now p meta w = (Inr (), w)
   | Some m \<Rightarrow>
       if m \<le> 0 then count_use X now p meta w = (Inr (), w)
       else if c < m then fst (count_use X now p meta w) = Inr ()
         \<and> uses view (w_redis (snd (count_use X now p meta w))) t (usesKey X (pin_ID p)) = Some (c + 1)
       else fst (count_use X now p meta w) = Inl ErrMaxUsesExceeded
         \<and> uses view (w_redis (snd (count_use X now p meta w))) t (usesKey X (pin_ID p)) = Some c"
proof (cases "pm_MaxUses meta")
  case None
  then show ?thesis by (simp add: count_use_def)
next
  case (Some m)
  note R = redis_store.intro [OF assms(1)]
  let ?k = "usesKey X (pin_ID p)"
  have "\<exists>s1. rd_Incr (x_redis X) (w_redis w) now ?k = Some (c + 1, s1) \<and>
      (\<forall>t'. now \<le> t' \<longrightarrow> view s1 t' ?k = Some (RInt (c + 1), None))"
  proof (cases "view (w_redis w) now ?k")
    case None
    with assms(4) redis_store.incr_fresh [OF R None] show ?thesis by (fastforce simp: uses_def)
  next
    case (Some ve)
    with assms(4) have "view (w_redis w) now ?k = Some (RInt c, None)"
      by (cases ve; cases "fst ve") (auto simp: uses_def split: option.splits)
    from redis_store.incr_counter [OF R this] show ?thesis by (fastforce simp: alive_def)
  qed
  then obtain s1 where s1: "rd_Incr (x_redis X) (w_redis w) now ?k = Some (c + 1, s1)"
    and v1: "\<And>t'. now \<le> t' \<Longrightarrow> view s1 t' ?k = Some (RInt (c + 1), None)" by blast
  from redis_store.decr_counter [OF R v1 [OF order.refl]] obtain s2
    where s2: "rd_Decr (x_redis X) s1 now ?k = Some (c, s2)" and v2: "view s2 t ?k = Some (RInt c, None)"
    using assms(3) by (fastforce simp: alive_def)
  show ?thesis
    using Some assms(2,5) s1 s2 v1 [OF assms(3)] v2
    by (simp add: count_use_def use_script_def uses_def)
qed

lemma count_attempt_keys:
  assumes "redis_ok (x_redis X) view" and "t \<le> t'" and "k \<noteq> ipKey X g ip" and "k \<noteq> gateKey X g"
  shows "view (w_redis (snd (count_attempt X t g ip w))) t' k = view (w_redis w) t' k"
proof -
  have ttl: "0 < pinRateLimitTTL" by (simp add: pinRateLimitTTL_def)
  note I = incr_expire_view(3) [OF assms(1) ttl assms(2)]
  obtain a s1 where a: "incr_expire X t (w_redis w) (ipKey X g ip) pinRateLimitTTL = (a, s1)" by fastforce
  obtain b s2 where b: "incr_expire X t s1 (gateKey X g) pinRateLimitTTL = (b, s2)" by fastforce
  have "view s1 t' k = view (w_redis w) t' k" "view s2 t' k = view s1 t' k"
    using I [OF assms(3), of "w_redis w"] I [OF assms(4), of s1] a b by simp_all
  then show ?thesis by (simp add: count_attempt_def a b)
qed

text \<open>
  Unlocking with a code directly never counts as a use: the use counter of every code
  stays as it was, and nothing in the decision reads it, so the limit of a code binds only the
  sessions opened with it.
\<close>

theorem unlock_never_counts_uses:
  assumes "redis_ok (x_redis X) view" and "now \<le> t" and "usesKey X p \<noteq> ipKey X g ip" and "usesKey X p \<noteq> gateKey X g"
  shows "uses view (w_redis (snd (Unlock X now g pin ip w))) t (usesKey X p) = uses view (w_redis w) t (usesKey X p)"
  by (simp add: uses_def Unlock_keys [OF assms(1,2,3)] count_attempt_keys [OF assms])

section \<open>What a session may do\<close>

lemma perms_of_json: "perms_of (Some (perms_json (Some ps))) = (if ps = [] then None else Some ps)"
proof -
  have "List.concat (List.map (\<lambda>x. case x of VStr s \<Rightarrow> [s] | _ \<Rightarrow> []) (List.map VStr ps)) = ps"
    by (induction ps) auto
  then show ?thesis by (simp add: perms_of_def perms_json_def Let_def del: List.map.compositionality List.map_map)
qed

lemma pin_Open_ok:
  assumes "pin_Open X now g pin ip w = (Inr r, w')"
  obtains p meta w1 w2 where "find_pin X now (w_db w) g pin = Inr (p, meta)"
    and "IssueGatePinSession X now (pin_ID p) g (pin_session_duration meta) (Some (pin_permissions meta)) w1 = (Inr (or_Tokens r), w2)"
    and "or_Permissions r = pin_permissions meta"
proof -
  from assms obtain pm w1 where v: "validatePIN X now g pin ip w = (Inr pm, w1)"
    and rest: "(case pm of (matched, meta) \<Rightarrow> wbind (count_use X now matched meta w1) (\<lambda>_ w.
     wbind (werr (wrap ''issue session'')
              (IssueGatePinSession X now (pin_ID matched) g (pin_session_duration meta) (Some (pin_permissions meta)) w))
       (\<lambda>tokens w.
       (Inr \<lparr>or_Tokens = tokens, or_Permissions = pin_permissions meta\<rparr>, triggerGate X now g w)))) = (Inr r, w')"
    unfolding pin_Open_def wbind_Inr_iff by (auto simp: case_prod_unfold)
  obtain p meta where pm: "pm = (p, meta)" by (cases pm) auto
  from rest [unfolded pm prod.case] obtain w2 tokens w3 where
    "IssueGatePinSession X now (pin_ID p) g (pin_session_duration meta) (Some (pin_permissions meta)) w2 = (Inr tokens, w3)"
    and "r = \<lparr>or_Tokens = tokens, or_Permissions = pin_permissions meta\<rparr>"
    by (auto simp: wbind_Inr_iff werr_Inr_iff)
  with validatePIN_ok [OF v [unfolded pm]] show ?thesis by (intro that) auto
qed

lemma ValidatePinSessionToken_issued:
  assumes "jwt_ok X" and "uuid_ok X" and "IssueGatePinSession X now p g dur (Some ps) w = (Inr tp, w')"
  shows "ValidatePinSessionToken X t (tp_AccessToken tp) =
    (if t < ((now + 15 * Minute) div Second) * Second then Inr (p, g, if ps = [] then None else Some ps)
     else Inl ErrInvalidToken)"
proof -
  have e: "exp_valid t True (pin_claims X now p g (Some ps)) \<longleftrightarrow> t < ((now + 15 * Minute) div Second) * Second"
    by (rule exp_valid_num_date) (simp add: pin_claims_def)
  have m: "map_of (pin_claims X now p g (Some ps)) ''permissions'' = Some (perms_json (Some ps))"
    by (simp add: pin_claims_def)
  show ?thesis
    unfolding ValidatePinSessionToken_def jwt_sign_parse [OF assms(1) IssueGatePinSession_ok(1) [OF assms(3)]] e
    using assms(2) by (simp add: m perms_of_json) (simp add: pin_claims_def str_field_def parse_claim_def uuid_ok_def)
qed


section \<open>Malformed metadata\<close>

lemma decode_bad_expiry:
  assumes "distinct (List.map fst m)" and "(''expires_at'', v) \<in> set m" and "v \<noteq> VNull"
    and "\<And>s. v = VStr s \<Longrightarrow> ParseRFC3339 s = None" and "list_all (\<lambda>k. ToLower k = ''expires_at'' \<longrightarrow> k = ''expires_at'') (List.map fst m)"
  shows "pm_ExpiresAt (decode_pin_meta m acc) = Some zero_time"
  using assms(1,2,5)
proof (induction m arbitrary: acc)
  case (Cons kv m)
  obtain k w where kv: "kv = (k, w)" by (cases kv) auto
  show ?case
  proof (cases "k = ''expires_at''")
    case True
    with Cons.prems kv have w: "w = v" by (auto simp: image_iff)
    have "ToLower ''expires_at'' = ''expires_at''" by code_simp
    then show ?thesis
      using True assms(3) assms(4) by (cases v) (simp_all add: kv w)
  next
    case False
    with Cons.prems kv have "ToLower k \<noteq> ''expires_at''" by auto
    with Cons False kv show ?thesis by auto
  qed
qed simp

text \<open>
  A code whose expiry cannot be read as an RFC 3339 instant is never usable: the
  decoding stops at it and leaves the first instant of the year 1, so a malformed expiry closes
  the code instead of leaving it without one.
\<close>

theorem malformed_expiry_closes:
  assumes "json_encodable (VObj (pin_Metadata p))" and "distinct (List.map fst (pin_Metadata p))"
    and "list_all (\<lambda>k. ToLower k = ''expires_at'' \<longrightarrow> k = ''expires_at'') (List.map fst (pin_Metadata p))"
    and "map_of (pin_Metadata p) ''expires_at'' = Some v" and "v \<noteq> VNull"
    and "\<And>s. v = VStr s \<Longrightarrow> ParseRFC3339 s = None" and "zero_time < now"
  shows "\<not> pin_usable X now d g pin p"
proof -
  let ?m = "sort_key fst (pin_Metadata p)"
  have "distinct (List.map fst ?m)" using assms(2) by (simp add: distinct_map)
  moreover have "(''expires_at'', v) \<in> set ?m" using assms(4) by (simp add: map_of_SomeD)
  moreover have "list_all (\<lambda>k. ToLower k = ''expires_at'' \<longrightarrow> k = ''expires_at'') (List.map fst ?m)"
    using assms(3) by (simp add: list_all_iff)
  ultimately have "pm_ExpiresAt (parsePinMetadata (pin_Metadata p)) = Some zero_time"
    unfolding parsePinMetadata_def using assms(1) by (simp add: decode_bad_expiry [OF _ _ assms(5,6)])
  with assms(7) show ?thesis by (simp add: pin_usable_def)
qed

section \<open>A gate with one code\<close>

definition sample_pin :: "gmap \<Rightarrow> gate_pin" where
  "sample_pin md = \<lparr>pin_ID = 3, pin_GateID = 1, pin_HashedPin = ''$2a$1234'', pin_Label = ''guests'', pin_Metadata = md,
     pin_ScheduleID = None, pin_CreatedAt = 0\<rparr>"

definition pin_db :: db where
  "pin_db = sample_db\<lparr>db_pins := [sample_pin [(''max_uses'', VNum (Fin 1))]]\<rparr>"

definition pin_world :: "kv world" where "pin_world = sample_world pin_db"

lemma sample_keys: "ipKey (sample_env tbl) g ip \<noteq> gateKey (sample_env tbl) g" "usesKey (sample_env tbl) p \<noteq> ipKey (sample_env tbl) g ip"
  "usesKey (sample_env tbl) p \<noteq> gateKey (sample_env tbl) g"
proof -
  have "set (unary g) \<subseteq> {CHR ''i''}" by (auto simp: unary_def)
  then have "unary g @ '':'' @ ip \<noteq> ''gate:'' @ unary g" by (cases "unary g") auto
  then show "ipKey (sample_env tbl) g ip \<noteq> gateKey (sample_env tbl) g" by (simp add: ipKey_def gateKey_def)
qed (simp_all add: usesKey_def ipKey_def gateKey_def)

text \<open>Four wrong guesses from one address, then the right code from another: the gate allows five.\<close>

definition guesses :: "(int \<times> string \<times> string) list" where
  "guesses = [(1, ''0000'', ''a''), (2, ''0001'', ''a''), (3, ''0002'', ''a''), (4, ''0003'', ''a''), (5, ''0004'', ''b''),
     (6, ''1234'', ''b'')]"

theorem unlock_attempts_bounded_witness:
  "unlock_run auth_env 1 guesses pin_world = [Inl ErrInvalidPIN, Inl ErrInvalidPIN, Inl ErrInvalidPIN,
      Inl ErrTooManyAttempts, Inl ErrInvalidPIN, Inl ErrTooManyAttempts]
   \<and> int (examined (unlock_run auth_env 1 guesses pin_world)) \<le> maxGateAttempts auth_env"
proof
  show "unlock_run auth_env 1 guesses pin_world = [Inl ErrInvalidPIN, Inl ErrInvalidPIN, Inl ErrInvalidPIN,
      Inl ErrTooManyAttempts, Inl ErrInvalidPIN, Inl ErrTooManyAttempts]" by code_simp
  show "int (examined (unlock_run auth_env 1 guesses pin_world)) \<le> maxGateAttempts auth_env"
    by (rule unlock_attempts_bounded [OF sample_redis_ok sample_keys(1), where ?t0.0 = 0])
       (simp_all add: pin_world_def guesses_def kv_view_def)
qed

theorem max_uses_exact_witness:
  "let p = sample_pin [(''max_uses'', VNum (Fin 1))]; meta = parsePinMetadata (pin_Metadata p);
       r1 = count_use auth_env 1 p meta pin_world
   in pm_MaxUses meta = Some 1 \<and> fst r1 = Inr () \<and> fst (count_use auth_env 2 p meta (snd r1)) = Inl ErrMaxUsesExceeded"
proof -
  let ?p = "sample_pin [(''max_uses'', VNum (Fin 1))]"
  let ?meta = "parsePinMetadata (pin_Metadata ?p)"
  have m: "pm_MaxUses ?meta = Some 1" by code_simp
  have u: "uses kv_view (w_redis pin_world) 1 (usesKey auth_env (pin_ID ?p)) = Some 0"
    by (simp add: uses_def pin_world_def kv_view_def)
  have e: "\<not> x_redisFault auth_env n c k" for n c k by simp
  from max_uses_exact [OF sample_redis_ok e _ u, of 2 ?meta] m
  have r: "fst (count_use auth_env 1 ?p ?meta pin_world) = Inr ()"
    and u2: "uses kv_view (w_redis (snd (count_use auth_env 1 ?p ?meta pin_world))) 2 (usesKey auth_env (pin_ID ?p)) = Some 1"
    by simp_all
  from max_uses_exact [OF sample_redis_ok e _ u2, of 2 ?meta] m r show ?thesis by (simp add: Let_def)
qed

text \<open>The code may be used once; the door opens twice.\<close>

theorem unlock_never_counts_uses_witness:
  "let r1 = Unlock auth_env 1 1 ''1234'' ''a'' pin_world; r2 = Unlock auth_env 2 1 ''1234'' ''a'' (snd r1)
   in fst r1 = Inr () \<and> fst r2 = Inr () \<and> uses kv_view (w_redis (snd r2)) 3 (usesKey auth_env 3) = Some 0"
proof -
  let ?r1 = "Unlock auth_env 1 1 ''1234'' ''a'' pin_world"
  have "fst ?r1 = Inr ()" "fst (Unlock auth_env 2 1 ''1234'' ''a'' (snd ?r1)) = Inr ()" by code_simp+
  moreover have "uses kv_view (w_redis (snd (Unlock auth_env 2 1 ''1234'' ''a'' (snd ?r1)))) 3 (usesKey auth_env 3)
      = uses kv_view (w_redis (snd ?r1)) 3 (usesKey auth_env 3)"
    by (rule unlock_never_counts_uses [OF sample_redis_ok _ sample_keys(2,3)]) simp
  moreover have "uses kv_view (w_redis (snd ?r1)) 3 (usesKey auth_env 3) = uses kv_view (w_redis pin_world) 3 (usesKey auth_env 3)"
    by (rule unlock_never_counts_uses [OF sample_redis_ok _ sample_keys(2,3)]) simp
  ultimately show ?thesis by (simp add: Let_def uses_def pin_world_def kv_view_def)
qed

definition pin_table :: token_table where
  "pin_table = [(''pin-jwt'', ''secret'', [(''sub'', VStr (unary 3)), (''type'', VStr ''pin_session''), (''gate_id'', VStr (unary 1)),
      (''permissions'', VArr [VStr PermTriggerOpen]), (''iat'', num_date 1), (''exp'', num_date (1 + 15 * Minute))])]"


theorem malformed_expiry_closes_witness:
  "\<not> pin_usable auth_env 0 pin_db 1 ''1234'' (sample_pin [(''expires_at'', VStr ''tomorrow'')])
   \<and> pin_usable auth_env 0 pin_db 1 ''1234'' (sample_pin [])"
proof
  let ?p = "sample_pin [(''expires_at'', VStr ''tomorrow'')]"
  have "zero_time < 0" by code_simp
  moreover have "ParseRFC3339 ''tomorrow'' = None" by code_simp
  ultimately show "\<not> pin_usable auth_env 0 pin_db 1 ''1234'' ?p"
    by (intro malformed_expiry_closes [where v = "VStr ''tomorrow''"]) (simp_all add: sample_pin_def)
  show "pin_usable auth_env 0 pin_db 1 ''1234'' (sample_pin [])" by code_simp
qed

end
