(* ===== verification/Concurrency.thy ===== *)
theory Concurrency
  imports Threads Broker Api_Props Pin_Props
begin

text \<open>
  Requests interleaved inside their handlers: the refresh of a session and the exchange of a sign-on code
  (\<open>service/auth.go\<close>, \<open>handler/sso.go\<close>), the unlock of a gate (\<open>service/gate_pin.go\<close>), the setup with its mutex
  (\<open>handler/setup.go\<close>) and the rotation of a gate token (\<open>service/gate.go\<close>), each as the program of its
  statements in the order of the source. Run without interruption every program is the atomic handler of
  the other theories.
\<close>

section \<open>The programs\<close>

subsection \<open>Sessions\<close>

definition issueTokenPair_prog :: "'r env \<Rightarrow> uuid \<Rightarrow> string \<Rightarrow> int \<Rightarrow> (token_pair \<Rightarrow> ('r world, 'a res) prog) \<Rightarrow> ('r world, 'a res) prog" where
  "issueTokenPair_prog X memberID role sessionDuration k =
     try_act (\<lambda>t w. (map_err (wrap ''sign access token'') (jwt_sign X (member_claims X t memberID role)), w)) (\<lambda>accessToken.
     try_act (\<lambda>t w. (map_err (wrap ''generate refresh token'') (newRefreshToken X t), w)) (\<lambda>refreshToken.
     try_act (\<lambda>t w. werr (wrap ''store refresh token'') (redis_Set X t w (refreshKey X refreshToken)
         (RJson (VObj (member_payload X memberID role sessionDuration))) sessionDuration)) (\<lambda>_.
     k \<lparr>tp_AccessToken = accessToken, tp_RefreshToken = refreshToken, tp_SessionDuration = sessionDuration,
        tp_AccessTokenTTL = AccessTokenTTL\<rparr>)))"

definition IssueGatePinSession_prog :: "'r env \<Rightarrow> uuid \<Rightarrow> uuid \<Rightarrow> int \<Rightarrow> string list option
    \<Rightarrow> (token_pair \<Rightarrow> ('r world, 'a res) prog) \<Rightarrow> ('r world, 'a res) prog" where
  "IssueGatePinSession_prog X pinID gateID sessionDuration permissions k =
     try_act (\<lambda>t w. (map_err (wrap ''sign pin session access token'') (jwt_sign X (pin_claims X t pinID gateID permissions)), w)) (\<lambda>accessToken.
     try_act (\<lambda>t w. (map_err (wrap ''generate pin session refresh token'') (newRefreshToken X t), w)) (\<lambda>refreshToken.
     try_act (\<lambda>t w. werr (wrap ''store pin session refresh token'') (redis_Set X t w (refreshKey X refreshToken)
         (RJson (VObj (pin_payload X pinID gateID sessionDuration permissions))) sessionDuration)) (\<lambda>_.
     k \<lparr>tp_AccessToken = accessToken, tp_RefreshToken = refreshToken, tp_SessionDuration = 0,
        tp_AccessTokenTTL = AccessTokenTTL\<rparr>)))"

definition refresh_member_prog :: "'r env \<Rightarrow> gmap \<Rightarrow> ('r world, refresh_result res) prog" where
  "refresh_member_prog X payload = (case uuid_field X payload ''sub'' of
      None \<Rightarrow> Ret (Inl ErrInvalidToken)
    | Some memberID \<Rightarrow>
        act (\<lambda>t w. (members_GetByID (x_dbFault X t) (w_db w) memberID, w)) (\<lambda>r. case r of
          Inl _ \<Rightarrow> Ret (Inl ErrInvalidToken)
        | Inr member \<Rightarrow> issueTokenPair_prog X memberID (mem_Role member) (payloadSessionDuration payload) (\<lambda>tokens.
            Ret (Inr \<lparr>rr_Tokens = tokens, rr_Type = ''member'', rr_Member = Some member, rr_GateID = uuid_Nil,
                      rr_Permissions = None\<rparr>))))"

definition refresh_pin_prog :: "'r env \<Rightarrow> gmap \<Rightarrow> ('r world, refresh_result res) prog" where
  "refresh_pin_prog X payload = (case (uuid_field X payload ''sub'', uuid_field X payload ''gate_id'') of
      (Some pinID, Some gateID) \<Rightarrow>
        (let perms = perms_of (map_of payload ''permissions'')
         in IssueGatePinSession_prog X pinID gateID (payloadSessionDuration payload) perms (\<lambda>tokens.
              Ret (Inr \<lparr>rr_Tokens = tokens, rr_Type = ''pin_session'', rr_Member = None, rr_GateID = gateID,
                        rr_Permissions = perms\<rparr>)))
    | _ \<Rightarrow> Ret (Inl ErrInvalidToken))"

definition refresh_rest :: "'r env \<Rightarrow> rval res \<Rightarrow> ('r world, refresh_result res) prog" where
  "refresh_rest X r = (case r of
      Inr (RJson (VObj payload)) \<Rightarrow>
        (let typ = str_field payload ''type''
         in if typ = ''member'' then refresh_member_prog X payload
            else if typ = ''pin_session'' then refresh_pin_prog X payload
            else Ret (Inl ErrInvalidToken))
    | _ \<Rightarrow> Ret (Inl ErrInvalidToken))"

definition Refresh_prog :: "'r env \<Rightarrow> string \<Rightarrow> ('r world, refresh_result res) prog" where
  "Refresh_prog X refreshToken = act (\<lambda>t w. redis_GetDel X t w (refreshKey X refreshToken)) (refresh_rest X)"

definition exchange_rest :: "'r env \<Rightarrow> rval res \<Rightarrow> ('r world, sso_exchange_output hres) prog" where
  "exchange_rest X r = Ret (case r of
      Inl _ \<Rightarrow> Inl (HErr 401 ''invalid or expired code'')
    | Inr (RJson (VObj m)) \<Rightarrow>
        (case payload_tokens m of
           None \<Rightarrow> Inl (HErr 500 ''Internal Server Error'')
         | Some tokens \<Rightarrow> Inr \<lparr>so_Cookies = setAuthCookies tokens (cf_cookieSecure X), so_MemberID = str_field m ''member_id'',
             so_GateID = str_field m ''gate_id''\<rparr>)
    | Inr (RJson VNull) \<Rightarrow> Inl (HErr 500 ''Internal Server Error'')
    | Inr _ \<Rightarrow> Inl (HErr 500 ''corrupt code payload''))"

definition sso_Exchange_prog :: "'r env \<Rightarrow> string \<Rightarrow> ('r world, sso_exchange_output hres) prog" where
  "sso_Exchange_prog X code = act (\<lambda>t w. redis_GetDel X t w (code_key code)) (exchange_rest X)"

lemma run_issue:
  "run (issueTokenPair_prog X m r sd k) t w = wbind (issueTokenPair X t m r sd w) (\<lambda>tp. run (k tp) t)"
  "run (IssueGatePinSession_prog X i g sd ps k) t w = wbind (IssueGatePinSession X t i g sd ps w) (\<lambda>tp. run (k tp) t)"
  by (simp_all add: issueTokenPair_prog_def issueTokenPair_def IssueGatePinSession_prog_def IssueGatePinSession_def
      wbind_def split: sum.split)

lemma run_Refresh: "run (Refresh_prog X tok) t w = Refresh X t tok w"
proof -
  have m: "run (refresh_member_prog X payload) t v = refresh_member X t payload v" for payload and v :: "'a world"
    by (simp add: refresh_member_prog_def refresh_member_def run_issue split: option.split sum.split)
  have p: "run (refresh_pin_prog X payload) t v = refresh_pin X t payload v" for payload and v :: "'a world"
    by (simp add: refresh_pin_prog_def refresh_pin_def Let_def run_issue split: option.split)
  show ?thesis
    by (cases "redis_GetDel X t w (refreshKey X tok)")
      (auto simp: Refresh_prog_def refresh_rest_def Refresh_def Let_def m p split: sum.split rval.split gval.split)
qed

lemma run_Exchange: "run (sso_Exchange_prog X code) t w = sso_Exchange X t code w"
  by (cases "redis_GetDel X t w (code_key code)")
    (auto simp: sso_Exchange_prog_def exchange_rest_def sso_Exchange_def split: sum.split rval.split gval.split option.split)

subsection \<open>Access codes\<close>

definition find_pin_prog :: "'r env \<Rightarrow> uuid \<Rightarrow> string \<Rightarrow> (gate_pin \<times> pin_meta \<Rightarrow> ('r world, 'a res) prog) \<Rightarrow> ('r world, 'a res) prog" where
  "find_pin_prog X gateID pin k =
     try_act (\<lambda>t w. (map_err (wrap ''list pins'') (pins_List (x_dbFault X t) (w_db w) gateID \<lparr>pg_Limit = 10000, pg_Offset = 0\<rparr>), w)) (\<lambda>(pins, _).
     case List.find (\<lambda>p. x_bcryptCheck X (pin_HashedPin p) pin) pins of
       None \<Rightarrow> Ret (Inl ErrInvalidPIN)
     | Some matched \<Rightarrow>
         act (\<lambda>t w. (t, w)) (\<lambda>now.
           let meta = parsePinMetadata (pin_Metadata matched)
           in if (case pm_ExpiresAt meta of Some x \<Rightarrow> x < now | None \<Rightarrow> False) then Ret (Inl ErrScheduleDenied)
              else case pin_ScheduleID matched of
                None \<Rightarrow> k (matched, meta)
              | Some sid \<Rightarrow>
                  act (\<lambda>t w. (schedule_GetPublic (x_dbFault X t) (w_db w) sid, w)) (\<lambda>r. case r of
                    Inl _ \<Rightarrow> k (matched, meta)
                  | Inr schedule \<Rightarrow>
                      (case Check schedule (go_now X now) of
                         Inl _ \<Rightarrow> Ret (Inl ErrScheduleDenied)
                       | Inr _ \<Rightarrow> k (matched, meta)))))"

definition after_count :: "'r env \<Rightarrow> uuid \<Rightarrow> string \<Rightarrow> string \<Rightarrow> (gate_pin \<times> pin_meta \<Rightarrow> ('r world, 'a res) prog)
    \<Rightarrow> (int \<times> int) option \<Rightarrow> ('r world, 'a res) prog" where
  "after_count X gateID pin ip k c = (case c of
      None \<Rightarrow> Ret (Inl ErrTooManyAttempts)
    | Some (n, m) \<Rightarrow>
        if maxAttempts X < n \<or> maxGateAttempts X < m then Ret (Inl ErrTooManyAttempts)
        else find_pin_prog X gateID pin (\<lambda>r. act (\<lambda>t w. ((), redis_Del X t w (ipKey X gateID ip))) (\<lambda>_. k r)))"

definition triggerGate_prog :: "'r env \<Rightarrow> uuid \<Rightarrow> ('r world, 'a) prog \<Rightarrow> ('r world, 'a) prog" where
  "triggerGate_prog X gateID k =
     act (\<lambda>t w. (gates_GetByIDPublic (x_dbFault X t) (w_db w) gateID, w)) (\<lambda>r. case r of
       Inl _ \<Rightarrow> k
     | Inr gate \<Rightarrow> act (\<lambda>t w. ((), emit (EvTrigger gate ''open'') w)) (\<lambda>_. k))"

definition unlock_tail :: "'r env \<Rightarrow> uuid \<Rightarrow> string \<Rightarrow> string \<Rightarrow> (int \<times> int) option \<Rightarrow> ('r world, unit res) prog" where
  "unlock_tail X gateID pin ip = after_count X gateID pin ip (\<lambda>_. triggerGate_prog X gateID (Ret (Inr ())))"

definition Unlock_prog :: "'r env \<Rightarrow> uuid \<Rightarrow> string \<Rightarrow> string \<Rightarrow> ('r world, unit res) prog" where
  "Unlock_prog X gateID pin ip = act (\<lambda>t w. count_attempt X t gateID ip w) (unlock_tail X gateID pin ip)"

lemma run_find_pin: "run (find_pin_prog X g pin k) t w = wbind (find_pin X t (w_db w) g pin, w) (\<lambda>r. run (k r) t)"
  by (simp add: find_pin_prog_def find_pin_def Let_def split: sum.split option.split prod.split)

lemma run_Unlock: "run (Unlock_prog X g pin ip) t w = Unlock X t g pin ip w"
proof -
  have tr: "run (triggerGate_prog X g (Ret (Inr ()))) t v = (Inr (), triggerGate X t g v)" for v :: "'a world"
    by (simp add: triggerGate_prog_def triggerGate_def split: sum.split)
  show ?thesis
    by (cases "count_attempt X t g ip w"; cases "find_pin X t (w_db (snd (count_attempt X t g ip w))) g pin")
      (auto simp: Unlock_prog_def unlock_tail_def after_count_def Unlock_def validatePIN_def run_find_pin tr split: option.split)
qed

subsection \<open>Setup\<close>

definition Register_prog :: "'r env \<Rightarrow> string \<Rightarrow> string \<Rightarrow> string option \<Rightarrow> ('r world, (token_pair \<times> member) res) prog" where
  "Register_prog X username password displayName =
     (case validatePassword (cf_passwordPolicy X) password of
        Inl e \<Rightarrow> Ret (Inl e)
      | Inr _ \<Rightarrow>
          act (\<lambda>t w. (members_GetByUsername (x_dbFault X t) (w_db w) username, w)) (\<lambda>r. case r of
            Inr _ \<Rightarrow> Ret (Inl ErrUsernameTaken)
          | Inl e \<Rightarrow>
              if \<not> errIs e ErrNotFound then Ret (Inl (wrap ''check username'' e))
              else try_act (\<lambda>t w. (map_err (wrap ''hash password'') (bcryptGenerate X t password), w)) (\<lambda>hashed.
                   try_act (\<lambda>t w. werr (wrap ''create member'')
                     (on_db (\<lambda>d. members_Create (x_dbFault X t) d (x_newID X t ''member'') t username displayName RoleMember) w)) (\<lambda>member.
                   try_act (\<lambda>t w. werr (wrap ''create credential'')
                     (on_db (\<lambda>d. creds_Create (x_dbFault X t) d (x_newID X t ''credential'') t (mem_ID member) CredPassword hashed
                        None None []) w)) (\<lambda>_.
                   issueTokenPair_prog X (mem_ID member) (mem_Role member) (cf_sessionDuration X) (\<lambda>tokens.
                   Ret (Inr (tokens, member))))))))"

definition setup_answer :: "'r env \<Rightarrow> (token_pair \<times> member) res \<Rightarrow> ((set_cookie \<times> set_cookie) \<times> member) hres" where
  "setup_answer X r = (case r of
      Inl e \<Rightarrow> Inl (if errIs e ErrWeakPassword then HErr 400 ''weak password'' else HErr 500 ''failed to create admin member'')
    | Inr (tokens, member) \<Rightarrow> Inr (setAuthCookies tokens (cf_cookieSecure X), member))"

text \<open>What the handler does while it holds \<open>initMu\<close>.\<close>

definition setup_body :: "'r env \<Rightarrow> string \<times> string \<times> string option \<Rightarrow> ('r world, ((set_cookie \<times> set_cookie) \<times> member) hres) prog" where
  "setup_body X input = (case input of (username, password, displayName) \<Rightarrow>
     act (\<lambda>t w. (member_HasAny X t (w_db w), w)) (\<lambda>r. case r of
       Inl _ \<Rightarrow> Ret (Inl (HErr 500 ''failed to check setup status''))
     | Inr hasAny \<Rightarrow>
         if hasAny then Ret (Inl (HErr 409 ''setup already completed''))
         else map_prog (setup_answer X) (Register_prog X username password displayName)))"

definition setup_prog :: "'r env \<Rightarrow> string \<times> string \<times> string option \<Rightarrow> ('r world \<times> bool, ((set_cookie \<times> set_cookie) \<times> member) hres) prog" where
  "setup_prog X input = locked (setup_body X input)"

lemma run_map: "run (map_prog f p) t w = (f (fst (run p t w)), snd (run p t w))"
  by (induction p arbitrary: w rule: prog_induct) auto

lemma run_then_unlock: "run (then_unlock p) t (w, b) = (fst (run p t w), (snd (run p t w), False))"
  by (induction p arbitrary: w b rule: prog_induct) auto

lemma run_Register: "run (Register_prog X u pw dn) t w = Register X t u pw dn w"
  by (simp add: Register_prog_def Register_def Let_def run_issue wbind_def split: sum.split)

lemma run_setup: "run (setup_prog X (u, pw, dn)) t (w, False) = (fst (setup_init X t u pw dn w), (snd (setup_init X t u pw dn w), False))"
proof -
  have "run (setup_body X (u, pw, dn)) t w = setup_init X t u pw dn w"
    by (cases "Register X t u pw dn w")
      (auto simp: setup_body_def setup_init_def run_map run_Register setup_answer_def hbind_def split: sum.split)
  then show ?thesis by (simp add: setup_prog_def locked_def run_then_unlock)
qed

subsection \<open>Rotation of a gate token\<close>

definition gate_RotateToken_prog :: "'r env \<Rightarrow> uuid \<Rightarrow> ('r world, string res) prog" where
  "gate_RotateToken_prog X gateID =
     try_act (\<lambda>t w. (gates_GetByID (x_dbFault X t) (w_db w) gateID, w)) (\<lambda>gate.
     try_act (\<lambda>t w. (map_err (wrap ''issue gate token'') (IssueGateToken X t (g_ID gate)), w)) (\<lambda>jwtToken.
     try_act (\<lambda>t w. werr (wrap ''set gate token'') (on_db (\<lambda>d. gates_SetToken (x_dbFault X t) d gateID jwtToken) w)) (\<lambda>_.
     act (\<lambda>t w. ((), syncBroker X t (g_ID gate) jwtToken w)) (\<lambda>_.
     Ret (Inr jwtToken)))))"

lemma run_RotateToken: "run (gate_RotateToken_prog X g) t w = gate_RotateToken X t g w"
  by (simp add: gate_RotateToken_prog_def gate_RotateToken_def on_db_def Let_def split: sum.split)

section \<open>Nothing waits\<close>

lemma unguarded_act [simp]: "unguarded (act f k) \<longleftrightarrow> (\<forall>t w. unguarded (k (fst (f t w))))"
  by (simp add: act_def)

lemma unguarded_try_act [simp]: "unguarded (try_act f k) \<longleftrightarrow> (\<forall>t w a. fst (f t w) = Inr a \<longrightarrow> unguarded (k a))"
  by (auto simp: try_act_def split: sum.splits)

lemma unguarded_sessions:
  "(\<And>tp. unguarded (k tp)) \<Longrightarrow> unguarded (issueTokenPair_prog X m r sd k)"
  "(\<And>tp. unguarded (k tp)) \<Longrightarrow> unguarded (IssueGatePinSession_prog X i g sd ps k)"
  by (simp_all add: issueTokenPair_prog_def IssueGatePinSession_prog_def)

text \<open>
  Every handler taken apart here is, run at one instant in a pool with any other requests, the atomic
  handler: the coarse steps of the server are schedules of the fine ones.
\<close>

lemma Refresh_schedule:
  "threads_step\<^sup>*\<^sup>* (t, as @ Refresh_prog X tok # bs, w) (t, as @ Ret (fst (Refresh X t tok w)) # bs, snd (Refresh X t tok w))"
proof -
  have "unguarded (refresh_rest X r)" for r
    by (auto simp: refresh_rest_def refresh_member_prog_def refresh_pin_prog_def Let_def
        intro!: unguarded_sessions split: sum.split rval.split gval.split option.split)
  then show ?thesis
    using run_schedule [OF unguarded_goes, of "Refresh_prog X tok" t as bs w] by (simp add: run_Refresh) (simp add: Refresh_prog_def)
qed

lemma RotateToken_schedule:
  "threads_step\<^sup>*\<^sup>* (t, as @ gate_RotateToken_prog X g # bs, w) (t, as @ Ret (fst (gate_RotateToken X t g w)) # bs, snd (gate_RotateToken X t g w))"
  using run_schedule [OF unguarded_goes, of "gate_RotateToken_prog X g" t as bs w] by (simp add: run_RotateToken) (simp add: gate_RotateToken_prog_def)

section \<open>A session is refreshed once\<close>

interpretation refresh: key_taker X "refreshKey X tok" "Refresh_prog X tok" "refresh_rest X" for X :: "'r env" and tok
  by unfold_locales (simp_all add: Refresh_prog_def refresh_rest_def)

interpretation exchange: key_taker X "code_key code" "sso_Exchange_prog X code" "exchange_rest X" for X :: "'r env" and code
  by unfold_locales (simp_all add: sso_Exchange_prog_def exchange_rest_def)

text \<open>New refresh tokens are stored under other keys: the rest of a refresh leaves the key of \<open>tok\<close> alone.\<close>

definition fresh_keys :: "'r env \<Rightarrow> string \<Rightarrow> bool" where
  "fresh_keys X key \<longleftrightarrow> (\<forall>t s. x_random X t ''refresh'' = Some s \<longrightarrow> refreshKey X s \<noteq> key)"

lemma sessions_leave:
  assumes "redis_ok (x_redis X) view" "fresh_keys X key" and "\<And>tp. leaves (key_view view key) (k tp)"
  shows "leaves (key_view view key) (issueTokenPair_prog X m r sd k)"
    and "leaves (key_view view key) (IssueGatePinSession_prog X i g sd ps k)"
proof -
  have n: "refreshKey X s \<noteq> key" if "newRefreshToken X t = Inr s" for t s
    using assms(2) that by (auto simp: fresh_keys_def newRefreshToken_def split: option.splits)
  show "leaves (key_view view key) (issueTokenPair_prog X m r sd k)"
    unfolding issueTokenPair_prog_def
    by (intro leaves_rules) (simp_all add: key_view_set [OF assms(1)] n assms(3))
  show "leaves (key_view view key) (IssueGatePinSession_prog X i g sd ps k)"
    unfolding IssueGatePinSession_prog_def
    by (intro leaves_rules) (simp_all add: key_view_set [OF assms(1)] n assms(3))
qed

lemma refresh_rest_leaves:
  assumes "redis_ok (x_redis X) view" "fresh_keys X key"
  shows "leaves (key_view view key) (refresh_rest X r)"
proof -
  note L = sessions_leave [OF assms]
  have "leaves (key_view view key) (refresh_member_prog X payload)" for payload
    unfolding refresh_member_prog_def by (auto intro!: leaves_rules L split: option.split sum.split)
  moreover have "leaves (key_view view key) (refresh_pin_prog X payload)" for payload
    unfolding refresh_pin_prog_def by (auto simp: Let_def intro!: L split: option.split)
  ultimately show ?thesis
    by (auto simp: refresh_rest_def Let_def split: sum.split rval.split gval.split)
qed

lemma Refresh_leaves:
  assumes "redis_ok (x_redis X) view" "fresh_keys X key" "refreshKey X tok \<noteq> key"
  shows "leaves (key_view view key) (Refresh_prog X tok)"
  unfolding Refresh_prog_def
  by (intro leaves_rules) (simp_all add: key_view_getdel(1) [OF assms(1)] assms(3) refresh_rest_leaves [OF assms(1,2)])

text \<open>
  C23: However any number of refresh requests interleave between their Redis commands and statements, with
  each other's tokens or with the same one, and whatever fails: of the requests that present one refresh
  token at most one gets a new session, as long as the random tokens do not collide.
\<close>

theorem concurrent_refresh_once:
  assumes "redis_ok (x_redis X) view" and "fresh_keys X (refreshKey X tok)"
    and "threads_step\<^sup>*\<^sup>* (t0, List.map (Refresh_prog X) toks, w0) (t, ps, w)"
    and "i < length toks" "j < length toks" "toks ! i = tok" "toks ! j = tok" "won (ps ! i)" "won (ps ! j)"
  shows "i = j"
proof (rule refresh.one_winner [OF assms(1) _ assms(3)])
  show "leaves (key_view view (refreshKey X tok)) (refresh_rest X r)" for r
    by (rule refresh_rest_leaves [OF assms(1,2)])
  have same: "Refresh_prog X a = Refresh_prog X tok" if "refreshKey X a = refreshKey X tok" for a
    using that by (simp add: Refresh_prog_def)
  then show "p = Refresh_prog X tok \<or> leaves (key_view view (refreshKey X tok)) p" if "p \<in> set (List.map (Refresh_prog X) toks)" for p
    using that Refresh_leaves [OF assms(1,2)] by (metis (no_types, lifting) ex_map_conv)
qed (use assms in simp_all)

text \<open>The same holds of the one-time codes of a sign-on.\<close>

lemma concurrent_exchange_once:
  assumes "redis_ok (x_redis X) view"
    and "threads_step\<^sup>*\<^sup>* (t0, List.map (sso_Exchange_prog X) codes, w0) (t, ps, w)"
    and "i < length codes" "j < length codes" "codes ! i = code" "codes ! j = code" "won (ps ! i)" "won (ps ! j)"
  shows "i = j"
proof (rule exchange.one_winner [OF assms(1) _ assms(2)])
  show r: "leaves (key_view view (code_key code)) (exchange_rest X r)" for r
    by (simp add: exchange_rest_def)
  have "leaves (key_view view (code_key code)) (sso_Exchange_prog X a)" if "a \<noteq> code" for a
  proof -
    from that have "code_key a \<noteq> code_key code" by (simp add: code_key_def)
    then show ?thesis
      unfolding sso_Exchange_prog_def by (intro leaves_rules) (simp_all add: key_view_getdel(1) [OF assms(1)] r)
  qed
  then show "p = sso_Exchange_prog X code \<or> leaves (key_view view (code_key code)) p" if "p \<in> set (List.map (sso_Exchange_prog X) codes)" for p
    using that by (metis (no_types, lifting) ex_map_conv)
qed (use assms in simp_all)

section \<open>Guesses in parallel\<close>

definition unlock_progs :: "'r env \<Rightarrow> uuid \<Rightarrow> ('r world, unit res) prog set" where
  "unlock_progs X g = range (\<lambda>(pin, ip). Unlock_prog X g pin ip)"

text \<open>A request that was let past the counters.\<close>

definition let_past :: "'r env \<Rightarrow> uuid \<Rightarrow> ('r world, unit res) prog \<Rightarrow> bool" where
  "let_past X g p \<longleftrightarrow> p \<notin> unlock_progs X g \<and> p \<noteq> Ret (Inl ErrTooManyAttempts)"

definition past_counter :: "'r env \<Rightarrow> uuid \<Rightarrow> ('r world, unit res) prog list \<Rightarrow> nat" where
  "past_counter X g ps = length (filter (let_past X g) ps)"

lemma past_counter_simps [simp]:
  "past_counter X g [] = 0" "past_counter X g (p # ps) = (if let_past X g p then 1 else 0) + past_counter X g ps"
  "past_counter X g (ps @ qs) = past_counter X g ps + past_counter X g qs"
  by (simp_all add: past_counter_def)

text \<open>The code that was answered otherwise than by a refusal has been compared with the codes of the gate.\<close>

fun answered :: "('r world, unit res) prog \<Rightarrow> bool" where
  "answered (Ret r) = (r \<noteq> Inl ErrTooManyAttempts)"
| "answered (Act g u n) = False"

lemma answered_let_past: "answered p \<Longrightarrow> let_past X g p"
  by (cases p) (auto simp: let_past_def unlock_progs_def Unlock_prog_def act_def)

lemma answered_past: "length (filter answered ps) \<le> past_counter X g ps"
  unfolding past_counter_def by (induction ps) (auto simp: answered_let_past)

lemma unlock_tail_let_past:
  "let_past X g (unlock_tail X g pin ip c) \<Longrightarrow> \<exists>a b. c = Some (a, b) \<and> b \<le> maxGateAttempts X"
  by (auto simp: unlock_tail_def after_count_def let_past_def split: option.splits if_splits)

lemma unlock_tail_leaves:
  assumes "redis_ok (x_redis X) view" and "ipKey X g ip \<noteq> gateKey X g"
  shows "leaves (key_view view (gateKey X g)) (unlock_tail X g pin ip c)"
proof -
  let ?V = "key_view view (gateKey X g)"
  have tr: "leaves ?V (triggerGate_prog X g (Ret (Inr ())))"
    unfolding triggerGate_prog_def
    by (intro leaves_rules) (auto simp: key_view_def emit_def intro!: leaves_rules split: sum.split)
  have d: "leaves ?V (act (\<lambda>t w. ((), redis_Del X t w (ipKey X g ip))) (\<lambda>_. triggerGate_prog X g (Ret (Inr ()))))"
    by (intro leaves_rules) (simp_all add: key_view_del [OF assms(1)] assms(2) tr)
  have "leaves ?V (find_pin_prog X g pin (\<lambda>r. act (\<lambda>t w. ((), redis_Del X t w (ipKey X g ip))) (\<lambda>_. triggerGate_prog X g (Ret (Inr ())))))"
    unfolding find_pin_prog_def
    by (intro leaves_rules) (auto simp: Let_def intro!: leaves_rules d split: option.split sum.split)
  then show ?thesis by (auto simp: unlock_tail_def after_count_def split: option.split)
qed

definition count_inv :: "'r env \<Rightarrow> 'r rview \<Rightarrow> uuid \<Rightarrow> int \<Rightarrow> ('r world, unit res) pool \<Rightarrow> bool" where
  "count_inv X view g t0 s \<longleftrightarrow> (case s of (t, ps, w) \<Rightarrow> t0 \<le> t
     \<and> (\<forall>p \<in> set ps. p \<in> unlock_progs X g \<or> leaves (key_view view (gateKey X g)) p)
     \<and> (key_view view (gateKey X g) t w = None \<and> past_counter X g ps = 0
        \<or> (\<exists>n e. key_view view (gateKey X g) t w = Some (RInt n, Some e) \<and> t0 + pinRateLimitTTL \<le> e
             \<and> int (past_counter X g ps) \<le> n \<and> int (past_counter X g ps) \<le> maxGateAttempts X)))"

lemma count_step:
  assumes ok: "redis_ok (x_redis X) view" and key: "\<And>ip. ipKey X g ip \<noteq> gateKey X g"
    and "count_inv X view g t0 (t, ps, w)" and "threads_step (t, ps, w) (t', ps', w')" and "t' < t0 + pinRateLimitTTL"
  shows "count_inv X view g t0 (t', ps', w')"
proof -
  let ?V = "key_view view (gateKey X g)"
  note R = redis_store.intro [OF ok]
  from assms(4) obtain as h u n bs where s: "ps = as @ Act h u n # bs" "ps' = as @ n t' w # bs" "w' = u t' w" "t \<le> t'"
    by (rule threads_stepE) auto
  have rest: "\<And>p. p \<in> set as \<union> set bs \<Longrightarrow> p \<in> unlock_progs X g \<or> leaves ?V p" and t: "t0 \<le> t'"
    and own: "Act h u n \<in> unlock_progs X g \<or> leaves ?V (Act h u n)"
    using assms(3) s(1,4) by (auto simp: count_inv_def)
  have M: "1 \<le> maxGateAttempts X" by (simp add: maxGateAttempts_def defaultMaxGatePINAttempts_def)
  let ?before = "past_counter X g as + past_counter X g bs"
  have old: "?V t' w = None \<and> past_counter X g ps = 0
      \<or> (\<exists>m e. ?V t' w = Some (RInt m, Some e) \<and> t0 + pinRateLimitTTL \<le> e \<and> int (past_counter X g ps) \<le> m \<and> int (past_counter X g ps) \<le> maxGateAttempts X)"
  proof -
    have "?V t' w = None" if "?V t w = None"
      using redis_store.view_gone [OF R _ s(4)] that by (simp add: key_view_def)
    moreover have "?V t' w = Some (RInt m, Some e)" if "?V t w = Some (RInt m, Some e)" "t0 + pinRateLimitTTL \<le> e" for m e
      using redis_store.view_later [OF R that(1) [unfolded key_view_def] s(4)] that(2) assms(5)
      by (simp add: key_view_def alive_def)
    ultimately show ?thesis using assms(3) unfolding count_inv_def by fastforce
  qed
  have close: ?thesis if "leaves ?V (n t' w)" and "?V t' w' = None \<and> past_counter X g ps' = 0
      \<or> (\<exists>m e. ?V t' w' = Some (RInt m, Some e) \<and> t0 + pinRateLimitTTL \<le> e \<and> int (past_counter X g ps') \<le> m \<and> int (past_counter X g ps') \<le> maxGateAttempts X)"
    using that rest t s(2) by (auto simp: count_inv_def)
  show ?thesis
  proof (cases "Act h u n \<in> unlock_progs X g")
    case True
    then obtain pin ip where "Act h u n = Unlock_prog X g pin ip" by (auto simp: unlock_progs_def)
    then have n: "n t' w = unlock_tail X g pin ip (fst (count_attempt X t' g ip w))" and w': "w' = snd (count_attempt X t' g ip w)"
      using s(3) by (simp_all add: Unlock_prog_def act_def)
    have b: "past_counter X g ps = ?before" using True s(1) by (simp add: let_past_def)
    have l: "leaves ?V (n t' w)" using unlock_tail_leaves [OF ok key] n by simp
    show ?thesis
    proof (cases "x_redisFault X t' ''EXEC'' (ipKey X g ip)")
      case True
      then have "n t' w = Ret (Inl ErrTooManyAttempts)" "w' = w"
        by (simp_all add: n w' count_attempt_fault unlock_tail_def after_count_def)
      then show ?thesis using close [OF l] old b s(2) by (simp add: let_past_def)
    next
      case False
      note C = count_attempt_gate [OF ok key order.refl False, of w]
      note P = unlock_tail_let_past [of X g pin ip "fst (count_attempt X t' g ip w)"]
      from old show ?thesis
      proof (elim disjE conjE exE)
        assume "?V t' w = None" "past_counter X g ps = 0"
        with C(2) w' have "?V t' w' = Some (RInt 1, Some (t' + pinRateLimitTTL))"
          by (simp add: key_view_def alive_def pinRateLimitTTL_def)
        moreover have "int (past_counter X g ps') \<le> 1" using \<open>past_counter X g ps = 0\<close> b s(2) by simp
        ultimately show ?thesis using close [OF l] M t by auto
      next
        fix m e assume v: "?V t' w = Some (RInt m, Some e)" "t0 + pinRateLimitTTL \<le> e"
          and c: "int (past_counter X g ps) \<le> m" "int (past_counter X g ps) \<le> maxGateAttempts X"
        from v assms(5) have "t' < e" by simp
        with C(1) [of m e] v(1) w' have v': "?V t' w' = Some (RInt (m + 1), Some e)"
          and "\<And>a b. fst (count_attempt X t' g ip w) = Some (a, b) \<Longrightarrow> b = m + 1"
          by (simp_all add: key_view_def alive_def)
        with P have "let_past X g (n t' w) \<Longrightarrow> m + 1 \<le> maxGateAttempts X" by (fastforce simp: n)
        then have "int (past_counter X g ps') \<le> m + 1" "int (past_counter X g ps') \<le> maxGateAttempts X"
          using b c s(2) by auto
        with v' v(2) show ?thesis using close [OF l] by blast
      qed
    qed
  next
    case False
    with own have l: "leaves ?V (Act h u n)" by simp
    then have "?V t' w' = ?V t' w" "leaves ?V (n t' w)" using s(3) by auto
    moreover have "past_counter X g ps' \<le> past_counter X g ps" using False s(1,2) by (simp add: let_past_def)
    ultimately show ?thesis using close old by fastforce
  qed
qed

text \<open>
  C6: The bound on guesses holds for parallel attempts too: of any number of unlock requests for one gate, with any
  codes and from any addresses, interleaved in any way between the transaction that counts, the lookup
  and the comparison, at most the configured number for the gate are answered by anything but a refusal
  within fifteen minutes of the moment the counter was empty.
\<close>

theorem parallel_guesses_bounded:
  assumes "redis_ok (x_redis X) view" and "\<And>ip. ipKey X g ip \<noteq> gateKey X g"
    and "view (w_redis w0) t0 (gateKey X g) = None"
    and "threads_step\<^sup>*\<^sup>* (t0, List.map (\<lambda>(pin, ip). Unlock_prog X g pin ip) attempts, w0) (t, ps, w)"
    and "t < t0 + 15 * Minute"
  shows "int (length (filter answered ps)) \<le> maxGateAttempts X"
proof -
  let ?ps0 = "List.map (\<lambda>(pin, ip). Unlock_prog X g pin ip) attempts"
  have "\<forall>p \<in> set ?ps0. p \<in> unlock_progs X g" by (auto simp: unlock_progs_def)
  moreover then have "past_counter X g ?ps0 = 0" by (auto simp: past_counter_def let_past_def filter_empty_conv)
  ultimately have start: "count_inv X view g t0 (t0, ?ps0, w0)"
    using assms(3) by (simp add: count_inv_def key_view_def)
  have "fst s < t0 + pinRateLimitTTL \<longrightarrow> count_inv X view g t0 s" if "threads_step\<^sup>*\<^sup>* (t0, ?ps0, w0) s" for s
    using that
  proof (induction rule: rtranclp_induct)
    case base
    then show ?case using start by simp
  next
    case (step s s')
    obtain t1 ps1 w1 t2 ps2 w2 where e: "s = (t1, ps1, w1)" "s' = (t2, ps2, w2)" by (metis prod.collapse)
    from step(2) e have "t1 \<le> t2" by (auto elim: threads_stepE)
    with step e count_step [OF assms(1,2), of t0 t1 ps1 w1 t2 ps2 w2] show ?case by auto
  qed
  from this [OF assms(4)] assms(5) have "count_inv X view g t0 (t, ps, w)" by (simp add: pinRateLimitTTL_def)
  then have "int (past_counter X g ps) \<le> maxGateAttempts X"
    by (auto simp: count_inv_def maxGateAttempts_def defaultMaxGatePINAttempts_def)
  with answered_past [of ps X g] show ?thesis by linarith
qed

section \<open>One first account\<close>

lemma alone_safe_map: "alone_safe Q (map_prog f p) w = alone_safe Q p w"
  by (induction p arbitrary: w rule: prog_induct) simp_all

definition one_member :: "'r world \<Rightarrow> bool" where
  "one_member w \<longleftrightarrow> length (db_members (w_db w)) \<le> 1"

lemma issue_alone_safe:
  "one_member w \<Longrightarrow> (\<And>tp w. one_member w \<Longrightarrow> alone_safe one_member (k tp) w) \<Longrightarrow> alone_safe one_member (issueTokenPair_prog X m r sd k) w"
  by (auto simp: issueTokenPair_prog_def alone_safe_try_act one_member_def split: sum.split)

lemma setup_alone_safe: "one_member w \<Longrightarrow> alone_safe one_member (setup_body X i) w"
proof -
  assume w: "one_member w"
  have c: "length (db_members (snd (creds_Create flt d j t m ty h l e md))) = length (db_members d)" for flt d j t m ty h l e md
    by (simp add: creds_Create_def Let_def)
  have m: "one_member (w'\<lparr>w_db := snd (members_Create flt (w_db w') j t u dn r)\<rparr>)" if "db_members (w_db w') = []" for flt w' j t u dn r
    using that by (simp add: members_Create_def Let_def one_member_def)
  have reg: "alone_safe one_member (Register_prog X u pw dn) w'" if "db_members (w_db w') = []" for u pw dn and w' :: "'a world"
  proof -
    have o': "one_member w'" using that by (simp add: one_member_def)
    with m [OF that] show ?thesis
      by (auto simp: Register_prog_def alone_safe_act alone_safe_try_act c one_member_def intro!: issue_alone_safe split: sum.split)
  qed
  obtain u pw dn where i: "i = (u, pw, dn)" by (cases i)
  show ?thesis
    unfolding setup_body_def i
    using w reg by (auto simp: alone_safe_act alone_safe_map member_HasAny_def members_HasAny_def split: sum.split)
qed

interpretation init: critical "setup_body X" one_member for X :: "'r env"
  by unfold_locales (rule setup_alone_safe)

text \<open>
  C36: The mutex of the setup does its work: any number of setup requests on a database without members,
  interleaved between their statements in any way and whatever fails, create at most one account. Without
  the mutex the same body lets two through (lemma \<open>setup_needs_mutex\<close>).
\<close>

theorem parallel_setup_one_account:
  assumes "threads_step\<^sup>*\<^sup>* (t0, List.map (setup_prog X) inputs, w0, False) (t, ps, w, held)" and "db_members (w_db w0) = []"
  shows "length (db_members (w_db w)) \<le> 1"
proof -
  have "one_member w0" using assms(2) by (simp add: one_member_def)
  with init.serialised [of t0 X inputs w0 t ps w held] assms(1) have "one_member w" by (simp add: setup_prog_def [abs_def])
  then show ?thesis by (simp add: one_member_def)
qed

lemma Register_half_way:
  assumes "\<And>m. x_dbFault X now ''creds.Create'' m" and "Register X now u p n w = (r, w')"
  shows "db_creds (w_db w') = db_creds (w_db w) \<and> (db_members (w_db w') = db_members (w_db w)
    \<or> r = Inl (wrap ''create credential'' (wrap ''create credential'' (db_err ''scan credential''))))"
proof -
  have c: "creds_Create (x_dbFault X now) d i now m ty h l e md = (Inl (wrap ''create credential'' (db_err ''scan credential'')), d)" for d i m ty h l e md
    using assms(1) by (simp add: creds_Create_def Let_def)
  show ?thesis
  proof (cases "validatePassword (cf_passwordPolicy X) p")
    case (Inl e)
    with assms(2) show ?thesis by (auto simp: Register_def Let_def)
  next
    case valid: (Inr _)
    show ?thesis
    proof (cases "\<exists>e. members_GetByUsername (x_dbFault X now) (w_db w) u = Inl e \<and> errIs e ErrNotFound \<and> isl (bcryptGenerate X now p) = False")
      case False
      with valid assms(2) show ?thesis
        by (cases "bcryptGenerate X now p") (auto simp: Register_def Let_def split: sum.splits if_splits)
    next
      case True
      then obtain e h where g: "members_GetByUsername (x_dbFault X now) (w_db w) u = Inl e" "errIs e ErrNotFound" "bcryptGenerate X now p = Inr h"
        by (cases "bcryptGenerate X now p") auto
      let ?d = "snd (members_Create (x_dbFault X now) (w_db w) (x_newID X now ''member'') now u n RoleMember)"
      have m: "db_creds ?d = db_creds (w_db w)" by (simp add: members_Create_def Let_def)
      show ?thesis
      proof (cases "fst (members_Create (x_dbFault X now) (w_db w) (x_newID X now ''member'') now u n RoleMember)")
        case (Inl e')
        then have "db_members ?d = db_members (w_db w)" by (auto simp: members_Create_def Let_def split: if_splits)
        with Inl valid g m assms(2) show ?thesis by (auto simp: Register_def Let_def wbind_def)
      next
        case (Inr mem)
        with valid g m c assms(2) show ?thesis by (auto simp: Register_def Let_def wbind_def)
      qed
    qed
  qed
qed


section \<open>Rotating twice\<close>

lemma RotateToken_result: "w_db w = w_db v \<Longrightarrow> fst (gate_RotateToken X t g w) = fst (gate_RotateToken X t g v)
    \<and> w_db (snd (gate_RotateToken X t g w)) = w_db (snd (gate_RotateToken X t g v))"
  by (simp add: gate_RotateToken_def syncBroker_def Let_def on_db_def split: sum.split)

text \<open>Up to the point where the token is stored and the broker does not know it yet.\<close>

definition rotated :: "'r env \<Rightarrow> uuid \<Rightarrow> string \<Rightarrow> ('r world, string res) prog" where
  "rotated X g tok = act (\<lambda>t w. ((), syncBroker X t g tok w)) (\<lambda>_. Ret (Inr tok))"

lemma try_act_step:
  assumes "fst (f t w) = Inr a"
  shows "threads_step (t, as @ try_act f k # bs, w) (t, as @ k a # bs, snd (f t w))"
  using step_at [OF order.refl, of t as f "case_sum (\<lambda>e. Ret (Inl e)) k" bs w] assms by (simp add: try_act_def)

lemma rotate_to_stored:
  assumes "fst (gate_RotateToken X t g w) = Inr a"
  shows "threads_step\<^sup>*\<^sup>* (t, as @ gate_RotateToken_prog X g # bs, w) (t, as @ rotated X g a # bs, w\<lparr>w_db := w_db (snd (gate_RotateToken X t g w))\<rparr>)"
proof -
  note R = RotateToken_ok [OF assms]
  from assms obtain gate where g: "gates_GetByID (x_dbFault X t) (w_db w) g = Inr gate"
    by (auto simp: gate_RotateToken_def Let_def split: sum.splits)
  then have i: "g_ID gate = g" using gates_GetByID_ok gate_row_SomeD by fastforce
  let ?set = "\<lambda>tok t w. werr (wrap ''set gate token'') (on_db (\<lambda>d. gates_SetToken (x_dbFault X t) d g tok) w)"
  let ?issue = "\<lambda>t w. (map_err (wrap ''issue gate token'') (IssueGateToken X t (g_ID gate)), w)"
  let ?store = "\<lambda>jwtToken. try_act (?set jwtToken) (\<lambda>_. act (\<lambda>t w. ((), syncBroker X t (g_ID gate) jwtToken w)) (\<lambda>_. Ret (Inr jwtToken)))"
  have 1: "threads_step (t, as @ gate_RotateToken_prog X g # bs, w) (t, as @ try_act ?issue ?store # bs, w)"
    unfolding gate_RotateToken_prog_def
    using try_act_step [of "\<lambda>t w. (gates_GetByID (x_dbFault X t) (w_db w) g, w)" t w gate as _ bs] g by simp
  have 2: "threads_step (t, as @ try_act ?issue ?store # bs, w) (t, as @ try_act (?set a) (\<lambda>_. rotated X g a) # bs, w)"
    using try_act_step [of ?issue t w a as ?store bs] R(1) i by (simp add: rotated_def)
  have 3: "threads_step (t, as @ try_act (?set a) (\<lambda>_. rotated X g a) # bs, w)
      (t, as @ rotated X g a # bs, w\<lparr>w_db := w_db (snd (gate_RotateToken X t g w))\<rparr>)"
    using try_act_step [of "?set a" t w "()" as "\<lambda>_. rotated X g a" bs] R(2,3) by simp
  show ?thesis
    using converse_rtranclp_into_rtranclp [of threads_step, OF 1 converse_rtranclp_into_rtranclp [of threads_step, OF 2 r_into_rtranclp [of threads_step, OF 3]]] .
qed

text \<open>
  C26: Two rotations of one gate can cross: both succeed, the database ends with the second token, and the
  synchronisations reach the broker in the other order, so that the broker is left with the first one. The
  gate has lost its connection until the next rotation: the token the server accepts is refused by the broker,
  and the one the broker accepts is refused by the server.
\<close>

theorem rotations_cross:
  assumes "t1 \<le> t2" and "fst (gate_RotateToken X t1 g w) = Inr a"
    and "fst (gate_RotateToken X t2 g (snd (gate_RotateToken X t1 g w))) = Inr b"
    and "\<not> x_brokerFault X t2 g" and "uuid_ok X"
    and "prompt L" "idle s" "broker_ok (li_control L) pw"
  shows "\<exists>w' es. threads_step\<^sup>*\<^sup>* (t1, [gate_RotateToken_prog X g, gate_RotateToken_prog X g], w) (t2, [Ret (Inr a), Ret (Inr b)], w')
      \<and> (\<forall>tok. token_matches (w_db w') g tok \<longleftrightarrow> tok = b)
      \<and> w_out w' = w_out w @ es \<and> pw (dy_broker (replay DynSec X L es s)) (x_uuidString X g) = Some a"
proof -
  let ?P = "gate_RotateToken_prog X g"
  let ?w1 = "w\<lparr>w_db := w_db (snd (gate_RotateToken X t1 g w))\<rparr>"
  let ?r2 = "gate_RotateToken X t2 g ?w1"
  have db: "w_db ?w1 = w_db (snd (gate_RotateToken X t1 g w))" by simp
  have b: "fst ?r2 = Inr b" using RotateToken_result [OF db, of X t2 g] assms(3) by simp
  have 1: "threads_step\<^sup>*\<^sup>* (t1, [?P, ?P], w) (t1, [rotated X g a, ?P], ?w1)"
    using rotate_to_stored [OF assms(2), of "[]" "[?P]"] by simp
  have "goes ?P t2 ?w1" by (rule unguarded_goes) (simp add: gate_RotateToken_prog_def)
  moreover obtain h u n where P: "?P = Act h u n" by (simp add: gate_RotateToken_prog_def try_act_def act_def)
  ultimately have 2: "threads_step\<^sup>*\<^sup>* (t1, [rotated X g a, ?P], ?w1) (t2, [rotated X g a, Ret (Inr b)], snd ?r2)"
    using run_schedule_later [of h u n t2 ?w1 t1 "[rotated X g a]" "[]"] assms(1) run_RotateToken [of X g t2 ?w1] b by simp
  have 3: "threads_step (t2, [rotated X g a, Ret (Inr b)], snd ?r2) (t2, [Ret (Inr a), Ret (Inr b)], syncBroker X t2 g a (snd ?r2))"
    using step_at [OF order.refl, of t2 "[]" "\<lambda>t w. ((), syncBroker X t g a w)" "\<lambda>_. Ret (Inr a)" "[Ret (Inr b)]" "snd ?r2"]
    by (simp add: rotated_def)
  let ?w' = "syncBroker X t2 g a (snd ?r2)"
  have steps: "threads_step\<^sup>*\<^sup>* (t1, [?P, ?P], w) (t2, [Ret (Inr a), Ret (Inr b)], ?w')"
    using rtranclp_trans [of threads_step, OF 1 rtranclp_trans [of threads_step, OF 2 r_into_rtranclp [of threads_step, OF 3]]] .
  note R = RotateToken_ok [OF b]
  have wdb: "w_db ?w' = w_db (snd ?r2)" by (simp add: syncBroker_def)
  have tok: "token_matches (w_db ?w') g tok \<longleftrightarrow> tok = b" for tok
    unfolding wdb R(3) using gt.accepts_set [OF R(2), of g tok] by simp
  have out: "w_out ?w' = w_out w @ [EvBrokerSync g b, EvBrokerSync g a]"
    using rotate_emits [OF b assms(4)] assms(4) by (simp add: syncBroker_def)
  have "replay DynSec X L [EvBrokerSync g b, EvBrokerSync g a] s = snd (SyncCredentials X L g a (snd (SyncCredentials X L g b s)))"
    by (simp add: replay_def replay_event_def broker_SyncCredentials_def)
  with sync_prompt(2) [OF assms(6) sync_prompt(3) [OF assms(6-8) refl, of X g b] assms(8) refl, of X g a]
  have "pw (dy_broker (replay DynSec X L [EvBrokerSync g b, EvBrokerSync g a] s)) (x_uuidString X g) = Some a" by simp
  with steps tok out show ?thesis by blast
qed

section \<open>Examples\<close>

definition kept_world :: "kv world" where
  "kept_world = (sample_world sample_db)\<lparr>w_redis :=
     [(refreshKey auth_env ''kept'', (RJson (VObj (member_payload auth_env 2 RoleMember (60 * Second))), None))]\<rparr>"

theorem concurrent_refresh_once_witness:
  "\<exists>ps w. threads_step\<^sup>*\<^sup>* (1, List.map (Refresh_prog auth_env) [''kept'', ''kept''], kept_world) (1, ps, w) \<and> won (ps ! 0) \<and> \<not> won (ps ! 1)"
proof -
  let ?ps = "List.map (Refresh_prog auth_env) [''kept'', ''kept'']"
  let ?r = "run_all ?ps 1 kept_world"
  have "all_go ?ps 1 kept_world" by code_simp
  from run_all_schedule [OF this, of "[]"]
  have s: "threads_step\<^sup>*\<^sup>* (1, ?ps, kept_world) (1, List.map Ret (fst ?r), snd ?r)" by simp
  have w: "won (List.map Ret (fst ?r) ! 0 :: (kv world, refresh_result res) prog)" by code_simp
  have f: "fresh_keys auth_env (refreshKey auth_env ''kept'')"
    by (simp add: fresh_keys_def refreshKey_def sample_env_def)
  have "\<not> won (List.map Ret (fst ?r) ! 1 :: (kv world, refresh_result res) prog)"
    using concurrent_refresh_once [OF sample_redis_ok f s, of 0 1] w by auto
  with s w show ?thesis by blast
qed

definition parallel_guesses :: "(string \<times> string) list" where
  "parallel_guesses = [(''0000'', ''a''), (''1234'', ''b''), (''0001'', ''c''), (''0002'', ''d''), (''0003'', ''e''), (''1234'', ''f'')]"

theorem parallel_guesses_bounded_witness:
  "\<exists>ps w. threads_step\<^sup>*\<^sup>* (1, List.map (\<lambda>(pin, ip). Unlock_prog auth_env 1 pin ip) parallel_guesses, pin_world) (1, ps, w)
     \<and> ps ! 1 = Ret (Inr ()) \<and> ps ! 5 = Ret (Inl ErrTooManyAttempts) \<and> int (length (filter answered ps)) \<le> maxGateAttempts auth_env"
proof -
  let ?ps = "List.map (\<lambda>(pin, ip). Unlock_prog auth_env 1 pin ip) parallel_guesses"
  let ?r = "run_all ?ps 1 pin_world"
  have "all_go ?ps 1 pin_world" by code_simp
  from run_all_schedule [OF this, of "[]"]
  have s: "threads_step\<^sup>*\<^sup>* (1, ?ps, pin_world) (1, List.map Ret (fst ?r), snd ?r)" by simp
  have "fst ?r = [Inl ErrInvalidPIN, Inr (), Inl ErrInvalidPIN, Inl ErrInvalidPIN, Inl ErrInvalidPIN, Inl ErrTooManyAttempts]" by code_simp
  moreover have "int (length (filter answered (List.map Ret (fst ?r) :: (kv world, unit res) prog list))) \<le> maxGateAttempts auth_env"
    by (rule parallel_guesses_bounded [OF sample_redis_ok sample_keys(1) _ s]) (simp_all add: pin_world_def kv_view_def)
  ultimately show ?thesis using s by (intro exI [of _ "List.map Ret (fst ?r)"] exI [of _ "snd ?r"]) simp
qed

definition two_setups :: "(string \<times> string \<times> string option) list" where
  "two_setups = [(''bob'', ''Passw0rd1'', None), (''eve'', ''Passw0rd2'', None)]"

theorem parallel_setup_one_account_witness:
  "\<exists>ps w. threads_step\<^sup>*\<^sup>* (0, List.map (setup_prog auth_env) two_setups, sample_world empty_db, False) (0, ps, w, False)
     \<and> won (ps ! 0) \<and> length (db_members (w_db w)) = 1"
proof -
  let ?ps = "List.map (setup_prog auth_env) two_setups"
  let ?r = "run_all ?ps 0 (sample_world empty_db, False)"
  have "all_go ?ps 0 (sample_world empty_db, False)" by code_simp
  from run_all_schedule [OF this, of "[]"]
  have s: "threads_step\<^sup>*\<^sup>* (0, ?ps, sample_world empty_db, False) (0, List.map Ret (fst ?r), snd ?r)" by simp
  have h: "snd (snd ?r) = False" "db_members (w_db (fst (snd ?r))) \<noteq> []"
    "won (List.map Ret (fst ?r) ! 0 :: (kv world \<times> bool, ((set_cookie \<times> set_cookie) \<times> member) hres) prog)" by code_simp+
  obtain w where w: "snd ?r = (w, False)" using h(1) by (metis prod.collapse)
  with s have s': "threads_step\<^sup>*\<^sup>* (0, ?ps, sample_world empty_db, False) (0, List.map Ret (fst ?r), w, False)" by simp
  from parallel_setup_one_account [OF s'] have "length (db_members (w_db w)) \<le> 1" by (simp add: empty_db_def)
  with h(2) w have "length (db_members (w_db w)) = 1" by (cases "db_members (w_db w)") auto
  with s' h(3) show ?thesis by blast
qed

text \<open>The same two requests without the mutex: both look before either writes.\<close>

lemma setup_needs_mutex:
  "\<exists>ps w. threads_step\<^sup>*\<^sup>* (0, List.map (setup_body auth_env) two_setups, sample_world empty_db) (1, ps, w) \<and> length (db_members (w_db w)) = 2"
proof -
  let ?w0 = "sample_world empty_db :: kv world"
  define R where "R = (\<lambda>(u, pw, dn). map_prog (setup_answer auth_env) (Register_prog auth_env u pw dn))"
  have look: "threads_step (0, as @ setup_body auth_env i # bs, ?w0) (0, as @ R i # bs, ?w0)" for as bs i
  proof -
    obtain u pw dn where i: "i = (u, pw, dn)" by (cases i)
    let ?k = "\<lambda>r. case r of Inl _ \<Rightarrow> Ret (Inl (HErr 500 ''failed to check setup status''))
      | Inr hasAny \<Rightarrow> if hasAny then Ret (Inl (HErr 409 ''setup already completed'')) else R i"
    have "setup_body auth_env i = act (\<lambda>t w. (member_HasAny auth_env t (w_db w), w)) ?k"
      unfolding setup_body_def R_def i prod.case by (rule refl)
    moreover have "member_HasAny auth_env 0 empty_db = Inr False" by code_simp
    ultimately show ?thesis
      using step_at [OF order.refl, of 0 as "\<lambda>t w. (member_HasAny auth_env t (w_db w), w)" ?k bs ?w0] by simp
  qed
  let ?a = "(''bob'', ''Passw0rd1'', None)" and ?b = "(''eve'', ''Passw0rd2'', None)"
  let ?wa = "snd (run (R ?a) 0 ?w0)"
  have g: "goes (R ?a) 0 ?w0" "goes (R ?b) 1 ?wa" unfolding R_def by code_simp+
  let ?ra = "Ret (fst (run (R ?a) 0 ?w0))" and ?rb = "Ret (fst (run (R ?b) 1 ?wa))"
  have 1: "threads_step\<^sup>*\<^sup>* (0, [setup_body auth_env ?a, setup_body auth_env ?b], ?w0) (0, [R ?a, R ?b], ?w0)"
    using look [of "[]" ?a "[setup_body auth_env ?b]"] look [of "[R ?a]" ?b "[]"]
    by (auto intro: converse_rtranclp_into_rtranclp)
  have 2: "threads_step\<^sup>*\<^sup>* (0, [R ?a, R ?b], ?w0) (0, [?ra, R ?b], ?wa)"
    using run_schedule [OF g(1), of "[]" "[R ?b]"] by simp
  have 3: "threads_step\<^sup>*\<^sup>* (0, [?ra, R ?b], ?wa) (1, [?ra, ?rb], snd (run (R ?b) 1 ?wa))"
  proof -
    have "case R ?b of Ret _ \<Rightarrow> False | Act _ _ _ \<Rightarrow> True" unfolding R_def by code_simp
    then obtain h u n where "R ?b = Act h u n" by (cases "R ?b") auto
    with run_schedule_later [of h u n 1 ?wa 0 "[?ra]" "[]"] g(2) show ?thesis by simp
  qed
  have "threads_step\<^sup>*\<^sup>* (0, List.map (setup_body auth_env) two_setups, ?w0) (1, [?ra, ?rb], snd (run (R ?b) 1 ?wa))"
    using rtranclp_trans [of threads_step, OF 1 rtranclp_trans [of threads_step, OF 2 3]] by (simp add: two_setups_def)
  moreover have "length (db_members (w_db (snd (run (R ?b) 1 ?wa)))) = 2" unfolding R_def by code_simp
  ultimately show ?thesis by blast
qed

definition two_token_table :: token_table where
  "two_token_table = sample_gate_table @ [(''second-jwt'', ''secret'',
     [(''jti'', VStr (unary 4)), (''sub'', VStr (unary 1)), (''iat'', num_date 1), (''type'', VStr ''gate_token'')])]"

theorem rotations_cross_witness:
  "\<exists>w' es. threads_step\<^sup>*\<^sup>* (0, [gate_RotateToken_prog (sample_env two_token_table) 1, gate_RotateToken_prog (sample_env two_token_table) 1],
        sample_world sample_db) (1, [Ret (Inr ''gate-jwt''), Ret (Inr ''second-jwt'')], w')
     \<and> token_matches (w_db w') 1 ''second-jwt'' \<and> \<not> token_matches (w_db w') 1 ''gate-jwt''
     \<and> w_out w' = es \<and> map_of (dy_broker (replay DynSec (sample_env two_token_table) (sample_link (\<lambda>_. True)) es (sample_manager []))) ''i'' = Some ''gate-jwt''"
proof -
  let ?X = "sample_env two_token_table"
  let ?r1 = "gate_RotateToken ?X 0 1 (sample_world sample_db)"
  have a: "fst ?r1 = Inr ''gate-jwt''" by code_simp
  have b: "fst (gate_RotateToken ?X 1 1 (snd ?r1)) = Inr ''second-jwt''" by code_simp
  have u: "x_uuidString ?X 1 = ''i''" by code_simp
  have f: "\<not> x_brokerFault ?X 1 1" by (simp add: sample_env_def)
  have L: "prompt (sample_link (\<lambda>_. True))" "idle (sample_manager [])" "broker_ok (li_control (sample_link (\<lambda>_. True))) map_of"
    by (simp_all add: prompt_def idle_def sample_link_def sample_manager_def sample_broker_ok)
  have t: "(0 :: int) \<le> 1" by simp
  from rotations_cross [OF t a b f sample_uuid_ok L] obtain w' es where
    r: "threads_step\<^sup>*\<^sup>* (0, [gate_RotateToken_prog ?X 1, gate_RotateToken_prog ?X 1], sample_world sample_db) (1, [Ret (Inr ''gate-jwt''), Ret (Inr ''second-jwt'')], w')"
    and k: "\<forall>tok. token_matches (w_db w') 1 tok \<longleftrightarrow> tok = ''second-jwt''"
    and o': "w_out w' = w_out (sample_world sample_db) @ es"
    and p: "map_of (dy_broker (replay DynSec ?X (sample_link (\<lambda>_. True)) es (sample_manager []))) (x_uuidString ?X 1) = Some ''gate-jwt''"
    by (elim exE conjE)
  from k have "token_matches (w_db w') 1 ''second-jwt''" "\<not> token_matches (w_db w') 1 ''gate-jwt''" by simp_all
  moreover from o' have "w_out w' = es" by simp
  ultimately show ?thesis using r p unfolding u by blast
qed


end
