(* ===== verification/Request_Schema.thy ===== *)
theory Request_Schema
  imports Api_Props
begin

text \<open>
  The checks that stand in the struct tags of \<open>internal/handler\<close> and \<open>internal/model\<close>, which huma
  applies between the middlewares of a route and its handler: one predicate per input type, the
  defaults that follow, and \<open>serve_checked\<close>, the server with them. They are part of the program: what
  the rows of gates and access codes satisfy rests on them, and passwords after the setup
  are checked by nothing else.
\<close>

section \<open>Tags\<close>

text \<open>
  \<open>minLength\<close> and \<open>maxLength\<close> count characters. The text of a decoded body is valid UTF-8, where every
  character has exactly one byte that is not a continuation byte.
\<close>

definition continuation :: "char \<Rightarrow> bool" where
  "continuation c = (128 \<le> (of_char c :: nat) \<and> (of_char c :: nat) < 192)"

definition chars :: "string \<Rightarrow> nat" where
  "chars s = length (filter (\<lambda>c. \<not> continuation c) s)"

definition minLength :: "nat \<Rightarrow> string \<Rightarrow> bool" where
  "minLength n s = (n \<le> chars s)"

definition maxLength :: "nat \<Rightarrow> string \<Rightarrow> bool" where
  "maxLength n s = (chars s \<le> n)"

text \<open>A pointer that was not sent is not checked; a text that was not sent is the empty one.\<close>

definition sent :: "('a \<Rightarrow> bool) \<Rightarrow> 'a option \<Rightarrow> bool" where
  "sent P v = (case v of None \<Rightarrow> True | Some x \<Rightarrow> P x)"

definition enum_or_omitted :: "string list \<Rightarrow> string \<Rightarrow> bool" where
  "enum_or_omitted vs s = (s = [] \<or> s \<in> set vs)"

section \<open>Input types\<close>

definition PaginationQuery :: "pagination \<Rightarrow> bool" where
  "PaginationQuery q = (1 \<le> pg_Limit q \<and> pg_Limit q \<le> 100 \<and> 0 \<le> pg_Offset q)"

definition LoginInput :: "string \<Rightarrow> string \<Rightarrow> bool" where
  "LoginInput username password = (minLength 1 username \<and> minLength 1 password)"

definition SetupInitInput :: "string \<Rightarrow> bool" where
  "SetupInitInput password = minLength 8 password"

definition meta_field_tags :: "meta_field \<Rightarrow> bool" where
  "meta_field_tags f = (minLength 1 (mf_Key f) \<and> minLength 1 (mf_Label f))"

definition status_rule_tags :: "status_rule \<Rightarrow> bool" where
  "status_rule_tags r = (minLength 1 (sr_Key r) \<and> minLength 2 (sr_Op r) \<and> minLength 1 (sr_SetStatus r))"

definition status_transition_tags :: "status_transition \<Rightarrow> bool" where
  "status_transition_tags t = (minLength 1 (st_From t) \<and> minLength 1 (st_To t))"

definition CreateGateInput :: "create_gate_params \<Rightarrow> bool" where
  "CreateGateInput b = (minLength 1 (cg_Name b) \<and> list_all meta_field_tags (cg_MetaConfig b)
     \<and> list_all status_rule_tags (cg_StatusRules b) \<and> list_all status_transition_tags (cg_StatusTransitions b))"

definition UpdateGateInput :: "update_gate_params \<Rightarrow> bool" where
  "UpdateGateInput b = (sent (minLength 1) (ug_Name b) \<and> sent (list_all meta_field_tags) (ug_MetaConfig b)
     \<and> sent (list_all status_rule_tags) (ug_StatusRules b)
     \<and> sent (list_all status_transition_tags) (ug_StatusTransitions b))"

definition TriggerInput :: "string \<Rightarrow> bool" where
  "TriggerInput action = enum_or_omitted [''open'', ''close''] action"

definition GrantPolicyInput :: "string \<Rightarrow> bool" where
  "GrantPolicyInput permissionCode = minLength 1 permissionCode"

definition CreateMemberInput :: "string \<Rightarrow> string option \<Rightarrow> string \<Rightarrow> bool" where
  "CreateMemberInput username displayName password =
     (minLength 1 username \<and> maxLength 50 username \<and> sent (maxLength 100) displayName \<and> minLength 8 password)"

definition UpdateMemberInput :: "string option \<Rightarrow> string option \<Rightarrow> bool" where
  "UpdateMemberInput displayName username =
     (sent (maxLength 100) displayName \<and> sent (\<lambda>u. minLength 1 u \<and> maxLength 50 u) username)"

definition CreatePINInput :: "create_pin_params \<Rightarrow> bool" where
  "CreatePINInput b = (minLength 1 (cp_PIN b) \<and> maxLength 72 (cp_PIN b)
     \<and> enum_or_omitted [''pin'', ''password''] (cp_CodeType b)
     \<and> minLength 1 (cp_Label b) \<and> maxLength 100 (cp_Label b))"

definition UpdatePINInput :: "string option \<Rightarrow> bool" where
  "UpdatePINInput label = sent (\<lambda>l. minLength 1 l \<and> maxLength 100 l) label"

definition UnlockInput :: "string \<Rightarrow> bool" where
  "UnlockInput pin = (minLength 1 pin \<and> maxLength 72 pin)"

definition OpenGateInput :: "string \<Rightarrow> bool" where
  "OpenGateInput pin = (minLength 1 pin \<and> maxLength 72 pin)"

definition PublicTriggerInput :: "string \<Rightarrow> bool" where
  "PublicTriggerInput action = enum_or_omitted [''open'', ''close''] action"

definition CreateScheduleInput :: "string \<Rightarrow> string option \<Rightarrow> bool" where
  "CreateScheduleInput name description = (minLength 1 name \<and> maxLength 100 name \<and> sent (maxLength 255) description)"

definition UpdateScheduleInput :: "string \<Rightarrow> string option \<Rightarrow> bool" where
  "UpdateScheduleInput name description = (minLength 1 name \<and> maxLength 100 name \<and> sent (maxLength 255) description)"

definition SSOExchangeInput :: "string \<Rightarrow> bool" where
  "SSOExchangeInput code = minLength 1 code"

definition policyInput :: "uuid \<times> string \<Rightarrow> bool" where
  "policyInput p = minLength 1 (snd p)"

definition createAPITokenInput :: "string \<Rightarrow> (uuid \<times> string) list \<Rightarrow> bool" where
  "createAPITokenInput label policies = (minLength 1 label \<and> maxLength 100 label \<and> list_all policyInput policies)"

definition changePasswordInput :: "string \<Rightarrow> string \<Rightarrow> bool" where
  "changePasswordInput old new = (minLength 1 old \<and> minLength 8 new)"

definition adminCreateTokenInput :: "string \<Rightarrow> bool" where
  "adminCreateTokenInput label = (minLength 1 label \<and> maxLength 100 label)"

definition adminSetPasswordInput :: "string \<Rightarrow> bool" where
  "adminSetPasswordInput password = minLength 8 password"

definition addDomainInput :: "string \<Rightarrow> bool" where
  "addDomainInput domain = (minLength 3 domain \<and> maxLength 253 domain)"

text \<open>A required query parameter or header that is empty counts as missing.\<close>

definition verifyDomainPublicInput :: "string \<Rightarrow> bool" where
  "verifyDomainPublicInput domain = (domain \<noteq> [])"

definition resolveDomainInput :: "string \<Rightarrow> bool" where
  "resolveDomainInput domain = (domain \<noteq> [])"

definition GateStatusPushInput :: "request \<Rightarrow> bool" where
  "GateStatusPushInput rq = (rq_Authorization rq \<noteq> [])"

section \<open>The checks of a call\<close>

definition auth_input :: "auth_call \<Rightarrow> bool" where
  "auth_input c = (case c of AuthLogin u p \<Rightarrow> LoginInput u p | _ \<Rightarrow> True)"

definition setup_input :: "setup_call \<Rightarrow> bool" where
  "setup_input c = (case c of SetupInit u p n \<Rightarrow> SetupInitInput p | _ \<Rightarrow> True)"

definition gate_input :: "gate_call \<Rightarrow> bool" where
  "gate_input c = (case c of GateList q \<Rightarrow> PaginationQuery q | GateCreate b \<Rightarrow> CreateGateInput b
     | GateUpdate g b \<Rightarrow> UpdateGateInput b | GateTrigger g a \<Rightarrow> TriggerInput a | _ \<Rightarrow> True)"

definition policy_input :: "policy_call \<Rightarrow> bool" where
  "policy_input c = (case c of PolicyListMine q \<Rightarrow> PaginationQuery q | PolicyList g q \<Rightarrow> PaginationQuery q
     | PolicyListByMember m q \<Rightarrow> PaginationQuery q | PolicyGrant g m p \<Rightarrow> GrantPolicyInput p | _ \<Rightarrow> True)"

definition member_input :: "member_call \<Rightarrow> bool" where
  "member_input c = (case c of MemberCreate u n p r \<Rightarrow> CreateMemberInput u n p | MemberList q \<Rightarrow> PaginationQuery q
     | MemberUpdate m n u r \<Rightarrow> UpdateMemberInput n u | _ \<Rightarrow> True)"

definition pin_input :: "pin_call \<Rightarrow> bool" where
  "pin_input c = (case c of PinCreate g b \<Rightarrow> CreatePINInput b | PinList g q \<Rightarrow> PaginationQuery q
     | PinUpdate g i l m \<Rightarrow> UpdatePINInput l | PublicUnlock g p \<Rightarrow> UnlockInput p | PublicOpen g p \<Rightarrow> OpenGateInput p
     | PublicTrigger t a \<Rightarrow> PublicTriggerInput a | _ \<Rightarrow> True)"

definition schedule_input :: "schedule_call \<Rightarrow> bool" where
  "schedule_input c = (case c of ScheduleCreate n d e \<Rightarrow> CreateScheduleInput n d | ScheduleList q \<Rightarrow> PaginationQuery q
     | ScheduleUpdate s n d e \<Rightarrow> UpdateScheduleInput n d | ScheduleCreateMine n d e \<Rightarrow> CreateScheduleInput n d
     | ScheduleListMine q \<Rightarrow> PaginationQuery q | ScheduleUpdateMine s n d e \<Rightarrow> UpdateScheduleInput n d | _ \<Rightarrow> True)"

definition sso_input :: "sso_call \<Rightarrow> bool" where
  "sso_input c = (case c of SsoExchange code \<Rightarrow> SSOExchangeInput code | _ \<Rightarrow> True)"

definition credential_input :: "credential_call \<Rightarrow> bool" where
  "credential_input c = (case c of CredListMine q \<Rightarrow> PaginationQuery q | CredCreateMine l e ps s \<Rightarrow> createAPITokenInput l ps
     | CredChangePassword old new \<Rightarrow> changePasswordInput old new | CredAdminList m q \<Rightarrow> PaginationQuery q
     | CredAdminCreate m l e \<Rightarrow> adminCreateTokenInput l | CredAdminSetPassword m p \<Rightarrow> adminSetPasswordInput p | _ \<Rightarrow> True)"

definition domain_input :: "domain_call \<Rightarrow> bool" where
  "domain_input c = (case c of DomainAdd g n \<Rightarrow> addDomainInput n | DomainList g q \<Rightarrow> PaginationQuery q
     | DomainVerifyPublic n \<Rightarrow> verifyDomainPublicInput n | DomainResolve n \<Rightarrow> resolveDomainInput n | _ \<Rightarrow> True)"

definition input_ok :: "request \<Rightarrow> api_call \<Rightarrow> bool" where
  "input_ok rq call = (case call of
      SetupCall c \<Rightarrow> setup_input c | AuthCall c \<Rightarrow> auth_input c | GateCall c \<Rightarrow> gate_input c
    | PolicyCall c \<Rightarrow> policy_input c | MemberCall c \<Rightarrow> member_input c | PinCall c \<Rightarrow> pin_input c
    | ScheduleCall c \<Rightarrow> schedule_input c | SsoCall c \<Rightarrow> sso_input c | CredCall c \<Rightarrow> credential_input c
    | DomainCall c \<Rightarrow> domain_input c | InboundCall c \<Rightarrow> GateStatusPushInput rq)"

text \<open>The \<open>default\<close> of a field replaces the zero value after the checks.\<close>

definition or_default :: "string \<Rightarrow> string \<Rightarrow> string" where
  "or_default d s = (if s = [] then d else s)"

definition with_defaults :: "api_call \<Rightarrow> api_call" where
  "with_defaults call = (case call of
      GateCall (GateCreate b) \<Rightarrow>
        GateCall (GateCreate (b\<lparr>cg_IntegrationType := or_default ''MQTT'' (cg_IntegrationType b)\<rparr>))
    | GateCall (GateTrigger g a) \<Rightarrow> GateCall (GateTrigger g (or_default ''open'' a))
    | MemberCall (MemberCreate u n p r) \<Rightarrow> MemberCall (MemberCreate u n p (or_default RoleMember r))
    | PinCall (PinCreate g b) \<Rightarrow> PinCall (PinCreate g (b\<lparr>cp_CodeType := or_default ''pin'' (cp_CodeType b)\<rparr>))
    | PinCall (PublicTrigger t a) \<Rightarrow> PinCall (PublicTrigger t (or_default ''open'' a))
    | _ \<Rightarrow> call)"

definition serve_checked :: "'r env \<Rightarrow> int \<Rightarrow> request \<Rightarrow> api_call \<Rightarrow> 'r world \<Rightarrow> unit hres \<times> 'r world" where
  "serve_checked X now rq call w0 =
     (let w = snd (TenantResolver X now (rq_Host rq) w0); cx = request_ctx X now rq (w_db w)
      in hbind (run_guards X now rq cx (route_guards call) w) (\<lambda>_ w.
           if \<not> path_ok X rq call \<or> \<not> input_ok rq call then (Inl (HErr 422 ''validation failed''), w)
           else handle X now rq cx (with_defaults call) w))"

section \<open>The server with its checks\<close>

text \<open>The defaults change neither the route nor what its guards look at.\<close>

lemma with_defaults_route [simp]:
  "route_guards (with_defaults call) = route_guards call" "call_gate (with_defaults call) = call_gate call"
  by (auto simp: with_defaults_def route_guards_def gate_routes_def member_routes_def pin_routes_def call_gate_def
      split: api_call.splits gate_call.splits member_call.splits pin_call.splits)

lemma with_defaults_path [simp]: "path_ok X rq (with_defaults call) = path_ok X rq call"
  by (simp add: path_ok_def)

text \<open>
  A call that satisfies its tags is served as in \<open>Api\<close>, with the defaults filled in: what the
  other theories prove of \<open>serve\<close> holds of it.
\<close>

lemma serve_checked_ok: "input_ok rq call \<Longrightarrow> serve_checked X now rq call w = serve X now rq (with_defaults call) w"
  by (simp add: serve_checked_def serve_def Let_def)

lemma serve_checked_refused:
  assumes "\<not> input_ok rq call"
  shows "isl (fst (serve_checked X now rq call w)) \<and> w_db (snd (serve_checked X now rq call w)) = w_db w"
proof -
  let ?w = "snd (TenantResolver X now (rq_Host rq) w)"
  obtain r w2 where r: "run_guards X now rq (request_ctx X now rq (w_db ?w)) (route_guards call) ?w = (r, w2)" by fastforce
  have "w_db w2 = w_db w" using run_guards_db [of X now rq _ "route_guards call" ?w] r TenantResolver_db by (metis snd_conv)
  with assms r show ?thesis by (cases r) (simp_all add: serve_checked_def Let_def)
qed

text \<open>A page that passes its tags is the one the handler uses: nothing is left to normalize.\<close>

lemma checked_page: "PaginationQuery q \<Longrightarrow> Params q = q"
  by (simp add: PaginationQuery_def Params_def Normalize_def Let_def MaxPageLimit_def)

section \<open>What the rows satisfy\<close>

text \<open>The columns of gates and access codes that hold checked fields.\<close>

definition gate_fields :: "gate \<Rightarrow> string \<times> meta_field list \<times> status_rule list \<times> status_transition list" where
  "gate_fields g = (g_Name g, g_MetaConfig g, g_StatusRules g, g_StatusTransitions g)"

definition checked_fields :: "db \<Rightarrow> (string \<times> meta_field list \<times> status_rule list \<times> status_transition list) list \<times> string list" where
  "checked_fields d = (List.map gate_fields (db_gates d), List.map pin_Label (db_pins d))"

definition gate_checked :: "string \<times> meta_field list \<times> status_rule list \<times> status_transition list \<Rightarrow> bool" where
  "gate_checked x = (case x of (name, meta, rules, transitions) \<Rightarrow> name \<noteq> [] \<and> list_all meta_field_tags meta
     \<and> list_all status_rule_tags rules \<and> list_all status_transition_tags transitions)"

definition label_checked :: "string \<Rightarrow> bool" where
  "label_checked l = (minLength 1 l \<and> maxLength 100 l)"

definition stored_checked :: "db \<Rightarrow> bool" where
  "stored_checked d = (list_all gate_checked (fst (checked_fields d)) \<and> list_all label_checked (snd (checked_fields d)))"

lemma stored_checked_iff:
  "stored_checked d \<longleftrightarrow> (\<forall>g\<in>set (db_gates d). gate_checked (gate_fields g)) \<and> (\<forall>p\<in>set (db_pins d). label_checked (pin_Label p))"
  by (simp add: stored_checked_def checked_fields_def list_all_iff)

lemma stored_checked_same: "stored_checked d \<Longrightarrow> checked_fields d' = checked_fields d \<Longrightarrow> stored_checked d'"
  by (simp add: stored_checked_def)

interpretation chk: account_view checked_fields
proof
  fix d P flt now i st m
  show "checked_fields (cascade_schedules P d) = checked_fields d"
    by (simp add: checked_fields_def cascade_schedules_def Let_def map_upd_where)
  show "checked_fields (snd (gates_UpdateStatus flt d now i st m)) = checked_fields d"
    by (simp add: checked_fields_def gates_UpdateStatus_def map_upd_where gate_fields_def)
qed (simp_all add: checked_fields_def credPolicies_Grant_def credPolicies_RevokeAll_def exec_def insert_policy_def
    delete_policies_def)

text \<open>Requests of admins and managers that touch neither a gate nor a code.\<close>

lemma checked_account_frame:
  "checked_fields (snd (members_Update flt d i n' u' r')) = checked_fields d"
  "checked_fields (snd (members_Delete flt d i)) = checked_fields d"
proof -
  show "checked_fields (snd (members_Update flt d i n' u' r')) = checked_fields d"
    by (simp add: members_Update_def chk.view_members split: option.splits)
  have "checked_fields (cascade_member i d) = checked_fields (cascade_schedules (\<lambda>s. as_MemberID s = Some i) d)"
    by (simp add: cascade_member_def checked_fields_def Let_def)
  then show "checked_fields (snd (members_Delete flt d i)) = checked_fields d"
    by (simp add: members_Delete_def chk.view_cascade)
qed

lemma checked_policy_frame:
  "checked_fields (snd (policies_Grant flt d m g c)) = checked_fields d"
  "checked_fields (snd (policies_Revoke flt d m g)) = checked_fields d"
  "checked_fields (snd (policies_RevokePermission flt d m g c)) = checked_fields d"
  "checked_fields (snd (policies_SetSchedule flt d m g s)) = checked_fields d"
  "checked_fields (snd (policies_RemoveSchedule flt d m g)) = checked_fields d"
  by (simp_all add: policies_Grant_def policies_Revoke_def policies_RevokePermission_def policies_SetSchedule_def
      policies_RemoveSchedule_def Let_def exec_def insert_policy_def upsert_link_def delete_policies_def delete_links_def
      checked_fields_def)

lemma checked_domain_frame:
  "checked_fields (snd (domains_Create flt d i tok now g n)) = checked_fields d"
  "checked_fields (snd (domains_Delete flt d i g)) = checked_fields d"
  "checked_fields (snd (domains_SetVerified flt d i now)) = checked_fields d"
  by (simp_all add: domains_Create_def domains_Delete_def domains_SetVerified_def Let_def checked_fields_def)

text \<open>What the calls of an admin or a manager may change, they change within the tags.\<close>

lemma stored_checked_bind:
  assumes "stored_checked (w_db (snd r))" and "\<And>a w. stored_checked (w_db w) \<Longrightarrow> stored_checked (w_db (snd (f a w)))"
  shows "stored_checked (w_db (snd (hbind r f)))"
  using assms by (cases r; cases "fst r") (simp_all add: hbind_def)

lemma minLength_1: "minLength (Suc 0) s \<Longrightarrow> s \<noteq> []"
  by (auto simp: minLength_def chars_def)

lemma gate_checked_update:
  "UpdateGateInput b \<Longrightarrow> gate_checked (gate_fields g) \<Longrightarrow> gate_checked (gate_fields (apply_update b g))"
  by (auto simp: gate_checked_def gate_fields_def apply_update_def UpdateGateInput_def sent_def slice_update_def
      minLength_1 split: option.splits)

lemma gate_fields_token [simp]: "gate_fields (g\<lparr>g_GateToken := t\<rparr>) = gate_fields g"
  by (simp add: gate_fields_def)

lemma stored_checked_gates:
  assumes "stored_checked d"
  shows "CreateGateInput b \<Longrightarrow> stored_checked (snd (gates_Create flt d i tok now b))"
    and "UpdateGateInput u \<Longrightarrow> stored_checked (snd (gates_Update flt d g u))"
    and "stored_checked (snd (gates_SetToken flt d g tok))"
    and "stored_checked (snd (gates_Delete flt d g))"
proof -
  show "stored_checked (snd (gates_Create flt d i tok now b))" if "CreateGateInput b"
    using assms that
    by (auto simp: stored_checked_def checked_fields_def gates_Create_def Let_def gate_fields_def CreateGateInput_def
        gate_checked_def minLength_1)
qed (use assms in \<open>auto simp: stored_checked_iff gates_Update_def gates_SetToken_def gates_Delete_def cascade_gate_def
      upd_where_def gate_checked_update split: option.splits\<close>)

lemma stored_checked_pins:
  assumes "stored_checked d"
  shows "CreatePINInput b \<Longrightarrow> stored_checked (snd (pins_Create flt d i now g h (cp_Label b) m so))"
    and "UpdatePINInput l \<Longrightarrow> stored_checked (snd (pins_Update flt d i g l m))"
    and "stored_checked (snd (pins_SetPinSchedule flt d i g sid))" and "stored_checked (snd (pins_ClearPinSchedule flt d i g))"
    and "stored_checked (snd (pins_Delete flt d i g))"
  using assms
  by (auto simp: stored_checked_iff pins_Create_def pins_Update_def pins_SetPinSchedule_def pins_ClearPinSchedule_def
      pins_Delete_def update_pin_def Let_def CreatePINInput_def UpdatePINInput_def label_checked_def sent_def upd_where_def
      split: option.splits)

lemma gate_handlers_checked:
  assumes "stored_checked (w_db w)"
  shows "CreateGateInput b \<Longrightarrow> stored_checked (w_db (snd (h_gate_Create X now b w)))"
    and "UpdateGateInput u \<Longrightarrow> stored_checked (w_db (snd (h_gate_Update X now g u w)))"
    and "stored_checked (w_db (snd (h_gate_Delete X now g w)))"
    and "stored_checked (w_db (snd (h_gate_RotateToken X now g w)))"
proof -
  have sync: "w_db (syncBroker X now i tok w') = w_db w'" "w_db (removeBroker X now i w') = w_db w'" for i tok and w' :: "'a world"
    by (simp_all add: syncBroker_def removeBroker_def)
  note S = stored_checked_gates [OF assms]
  show "stored_checked (w_db (snd (h_gate_Create X now b w)))" if "CreateGateInput b"
  proof -
    let ?b = "b\<lparr>cg_IntegrationType := (if cg_IntegrationType b = [] then ''MQTT'' else cg_IntegrationType b)\<rparr>"
    obtain r w1 where c: "on_db (\<lambda>d. gates_Create (x_dbFault X now) d (x_newID X now ''gate'') (db_random X now ''gate_token'') now ?b) w
        = (r, w1)" by fastforce
    from that have b: "CreateGateInput ?b" by (simp add: CreateGateInput_def)
    have "stored_checked (w_db w1)"
      using S(1) [OF b, of "x_dbFault X now" "x_newID X now ''gate''" "db_random X now ''gate_token''" now] c
      by (auto simp: on_db_def Let_def split: prod.splits)
    note T = stored_checked_gates(3) [OF this]
    have "stored_checked (w_db (snd (gate_Create X now b w)))"
      using c T \<open>stored_checked (w_db w1)\<close>
      by (auto simp: gate_Create_def Let_def sync on_db_def split: sum.splits prod.splits)
    with assms show ?thesis by (simp add: h_gate_Create_def hbind_def split: sum.splits)
  qed
  have "stored_checked (w_db (snd (gate_Update X now g u w)))" if "UpdateGateInput u"
    using S(2) [OF that, of "x_dbFault X now" g]
    by (auto simp: gate_Update_def on_db_def Let_def split: sum.splits prod.splits)
  with assms show "stored_checked (w_db (snd (h_gate_Update X now g u w)))" if "UpdateGateInput u"
    using that by (simp add: h_gate_Update_def hbind_def split: sum.splits)
  show "stored_checked (w_db (snd (h_gate_Delete X now g w)))"
    using S(4) [of "x_dbFault X now" g]
    by (auto simp: h_gate_Delete_def gate_Delete_def on_db_def Let_def sync split: sum.splits prod.splits)
  have "stored_checked (w_db (snd (gate_RotateToken X now g w)))"
    using S(3) [of "x_dbFault X now" g] assms
    by (auto simp: gate_RotateToken_def on_db_def Let_def sync split: sum.splits prod.splits)
  then show "stored_checked (w_db (snd (h_gate_RotateToken X now g w)))"
    by (simp add: h_gate_RotateToken_def stored_checked_bind)
qed

lemma pin_handlers_checked:
  assumes "stored_checked (w_db w)"
  shows "CreatePINInput b \<Longrightarrow> stored_checked (w_db (snd (h_CreatePIN X now g b w)))"
    and "UpdatePINInput l \<Longrightarrow> stored_checked (w_db (snd (h_UpdatePIN X now g i l m w)))"
    and "stored_checked (w_db (snd (h_DeletePIN X now g i w)))"
    and "stored_checked (w_db (snd (h_SetPinSchedule X now g i sid w)))"
    and "stored_checked (w_db (snd (h_ClearPinSchedule X now g i w)))"
proof -
  note S = stored_checked_pins [OF assms]
  show "stored_checked (w_db (snd (h_CreatePIN X now g b w)))" if "CreatePINInput b"
    using S(1) [OF that] assms by (simp add: h_CreatePIN_def pin_Create_def Let_def wbind_def split: sum.splits prod.splits)
  show "stored_checked (w_db (snd (h_DeletePIN X now g i w)))"
    using S(5) [of "x_dbFault X now" i g]
    by (auto simp: h_DeletePIN_def pin_Delete_def wbind_def on_db_def Let_def split: sum.splits prod.splits)
qed (simp_all add: h_UpdatePIN_def h_SetPinSchedule_def h_ClearPinSchedule_def pin_Update_def pin_SetSchedule_def
    pin_ClearSchedule_def stored_checked_pins [OF assms])

text \<open>The calls of admins that touch neither a gate nor a code.\<close>

lemma checked_admin_frame:
  "checked_fields (w_db (snd (h_member_Create X now u n p r w))) = checked_fields (w_db w)"
  "checked_fields (w_db (snd (h_member_Update X now m n' u' r' w))) = checked_fields (w_db w)"
  "checked_fields (w_db (snd (h_member_Delete X now m w))) = checked_fields (w_db w)"
  "checked_fields (w_db (snd (h_schedule_Create X now sn sd se w))) = checked_fields (w_db w)"
  "checked_fields (w_db (snd (h_schedule_Update X now sid sn sd se w))) = checked_fields (w_db w)"
  "checked_fields (w_db (snd (h_schedule_Delete X now sid w))) = checked_fields (w_db w)"
  "checked_fields (w_db (snd (h_AdminCreateMemberAPIToken X now m l e w))) = checked_fields (w_db w)"
  "checked_fields (w_db (snd (h_AdminDeleteMemberCredential X now m c w))) = checked_fields (w_db w)"
  "checked_fields (w_db (snd (h_AdminSetMemberPassword X now m p w))) = checked_fields (w_db w)"
proof -
  show "checked_fields (w_db (snd (h_member_Create X now u n p r w))) = checked_fields (w_db w)"
    "checked_fields (w_db (snd (h_member_Update X now m n' u' r' w))) = checked_fields (w_db w)"
    "checked_fields (w_db (snd (h_member_Delete X now m w))) = checked_fields (w_db w)"
    by (simp_all add: h_member_Create_def member_Create_def h_member_Update_def member_Update_def h_member_Delete_def
        member_Delete_def Let_def chk.bind_frame chk.members_Create_frame chk.creds_frame checked_account_frame)
  have "checked_fields (snd (schedule_Create X now d sn sd se)) = checked_fields d" for d
    by (simp add: schedule_Create_def schedules_Create_def Let_def chk.view_schedules split: sum.splits)
  then show "checked_fields (w_db (snd (h_schedule_Create X now sn sd se w))) = checked_fields (w_db w)"
    by (simp add: h_schedule_Create_def)
  show "checked_fields (w_db (snd (h_schedule_Update X now sid sn sd se w))) = checked_fields (w_db w)"
    "checked_fields (w_db (snd (h_schedule_Delete X now sid w))) = checked_fields (w_db w)"
    by (simp_all add: h_schedule_Update_def h_schedule_Delete_def chk.schedules_frame)
  show "checked_fields (w_db (snd (h_AdminCreateMemberAPIToken X now m l e w))) = checked_fields (w_db w)"
    by (simp add: h_AdminCreateMemberAPIToken_def chk.bind_frame chk.new_token_frame split: prod.splits)
  show "checked_fields (w_db (snd (h_AdminDeleteMemberCredential X now m c w))) = checked_fields (w_db w)"
    by (simp add: h_AdminDeleteMemberCredential_def delete_credential_def Let_def chk.bind_frame chk.creds_frame
        chk.links_frame chk.view_token_revoke)
  have u: "checked_fields (w_db w') = checked_fields (w_db w0)"
    if "on_db (\<lambda>d. creds_UpdateHashedValue flt d m ty h) w0 = (q, w')" for flt ty h w0 and q and w' :: "'a world"
    using chk.creds_frame(2) [of flt "w_db w0" m ty h] that by (auto simp: on_db_def Let_def split: prod.splits)
  show "checked_fields (w_db (snd (h_AdminSetMemberPassword X now m p w))) = checked_fields (w_db w)"
    unfolding h_AdminSetMemberPassword_def Let_def
    by (subst chk.bind_frame(1), subst chk.bind_frame(1))
      (auto simp: chk.bind_frame chk.creds_frame dest!: u split: prod.splits sum.splits)
qed

lemma checked_domain_handlers:
  "checked_fields (w_db (snd (addDomain X now g n w))) = checked_fields (w_db w)"
  "checked_fields (w_db (snd (deleteDomain X now g i w))) = checked_fields (w_db w)"
  "checked_fields (w_db (snd (verifyDomain X now g i w))) = checked_fields (w_db w)"
proof -
  show "checked_fields (w_db (snd (addDomain X now g n w))) = checked_fields (w_db w)"
    "checked_fields (w_db (snd (deleteDomain X now g i w))) = checked_fields (w_db w)"
    by (simp_all add: addDomain_def deleteDomain_def Let_def checked_domain_frame)
  show "checked_fields (w_db (snd (verifyDomain X now g i w))) = checked_fields (w_db w)"
    unfolding verifyDomain_def
    by (subst chk.bind_frame(1)) (simp_all add: chk.bind_frame checked_domain_frame split: option.splits)
qed

text \<open>The handlers, one family of calls at a time.\<close>

lemma guarded_checked:
  assumes "stored_checked (w_db w)" and "input_ok rq call"
    and "Admin \<in> set (route_guards call) \<or> GateManagerOnly \<in> set (route_guards call)"
  shows "stored_checked (w_db (snd (handle X now rq cx (with_defaults call) w)))"
proof (cases call)
  case (GateCall c)
  have "CreateGateInput (b\<lparr>cg_IntegrationType := t\<rparr>) = CreateGateInput b" for b t by (simp add: CreateGateInput_def)
  with GateCall assms show ?thesis
    by (cases c) (simp_all add: handle_def with_defaults_def route_guards_def gate_routes_def input_ok_def gate_input_def
        gate_handlers_checked)
next
  case (PinCall c)
  have "CreatePINInput b \<Longrightarrow> CreatePINInput (b\<lparr>cp_CodeType := or_default ''pin'' (cp_CodeType b)\<rparr>)" for b
    by (auto simp: CreatePINInput_def or_default_def enum_or_omitted_def)
  with PinCall assms show ?thesis
    by (cases c) (simp_all add: handle_def with_defaults_def route_guards_def pin_routes_def input_ok_def pin_input_def
        pin_handlers_checked)
next
  case (PolicyCall c)
  with assms have "checked_fields (w_db (snd (handle X now rq cx (with_defaults call) w))) = checked_fields (w_db w)"
    by (cases c) (simp_all add: handle_def with_defaults_def route_guards_def policy_routes_def h_policy_Grant_def
        h_policy_Revoke_def h_policy_RevokePermission_def h_policy_SetMemberGateSchedule_def
        h_policy_RemoveMemberGateSchedule_def svc_Grant_def svc_Revoke_def svc_RevokePermission_def
        svc_SetMemberGateSchedule_def svc_RemoveMemberGateSchedule_def checked_policy_frame)
  then show ?thesis by (rule stored_checked_same [OF assms(1)])
next
  case (DomainCall c)
  with assms have "checked_fields (w_db (snd (handle X now rq cx (with_defaults call) w))) = checked_fields (w_db w)"
    by (cases c) (simp_all add: handle_def with_defaults_def route_guards_def domain_routes_def checked_domain_handlers)
  then show ?thesis by (rule stored_checked_same [OF assms(1)])
next
  case (MemberCall c)
  then have "checked_fields (w_db (snd (handle X now rq cx (with_defaults call) w))) = checked_fields (w_db w)"
    by (cases c) (simp_all add: handle_def with_defaults_def checked_admin_frame)
  then show ?thesis by (rule stored_checked_same [OF assms(1)])
next
  case (ScheduleCall c)
  then have "checked_fields (w_db (snd (handle X now rq cx (with_defaults call) w))) = checked_fields (w_db w)"
    by (cases c) (simp_all add: handle_def with_defaults_def checked_admin_frame chk.own_schedule_frame)
  then show ?thesis by (rule stored_checked_same [OF assms(1)])
next
  case (CredCall c)
  then have "checked_fields (w_db (snd (handle X now rq cx (with_defaults call) w))) = checked_fields (w_db w)"
    by (cases c) (simp_all add: handle_def with_defaults_def checked_admin_frame chk.credential_frame)
  then show ?thesis by (rule stored_checked_same [OF assms(1)])
next
  case (SsoCall c)
  with assms(3) have "checked_fields (w_db (snd (handle X now rq cx (with_defaults call) w))) = checked_fields (w_db w)"
    by (cases c) (simp_all add: handle_def with_defaults_def route_guards_def sso_routes_def)
  then show ?thesis by (rule stored_checked_same [OF assms(1)])
qed (use assms(3) in \<open>auto simp: route_guards_def auth_routes_def split: auth_call.splits\<close>)

text \<open>
  C31: The checks of the struct tags: a request that violates them is answered with an error and
  leaves the database as it is; and whatever requests come, with whatever failures, every gate
  keeps a name and well-formed display fields, rules and transitions, and every access code a
  label of one to a hundred characters.
\<close>

theorem checks_keep_rows:
  assumes "stored_checked (w_db w)"
  shows "stored_checked (w_db (snd (serve_checked X now rq call w)))
    \<and> (\<not> input_ok rq call \<longrightarrow> isl (fst (serve_checked X now rq call w)) \<and> w_db (snd (serve_checked X now rq call w)) = w_db w)"
proof (cases "input_ok rq call")
  case False
  with serve_checked_refused [of rq call X now w] assms show ?thesis by simp
next
  case ok: True
  let ?w' = "snd (serve_checked X now rq call w)"
  have "stored_checked (w_db ?w')"
  proof (cases "checked_fields (w_db ?w') = checked_fields (w_db w)")
    case True
    then show ?thesis by (rule stored_checked_same [OF assms])
  next
    case False
    then have "checked_fields (w_db (snd (serve X now rq (with_defaults call) w))) \<noteq> checked_fields (w_db w)"
      by (simp add: serve_checked_ok [OF ok])
    then obtain w2 where d: "w_db w2 = w_db w"
      and s: "?w' = snd (handle X now rq (request_ctx X now rq (w_db w)) (with_defaults call) w2)"
      unfolding serve_checked_ok [OF ok] by (rule serve_changed)
    let ?f = "\<lambda>v. checked_fields (w_db v)" and ?cx = "request_ctx X now rq (w_db w)"
    have changed: "?f (snd (handle X now rq ?cx (with_defaults call) w2)) \<noteq> ?f w2"
      using False unfolding s d .
    have "Admin \<in> set (route_guards call) \<or> GateManagerOnly \<in> set (route_guards call)"
      using chk.unguarded_frame [of "with_defaults call" X now rq ?cx w2, unfolded with_defaults_route] changed by blast
    from guarded_checked [OF _ ok this, of w2] assms d s show ?thesis by simp
  qed
  with ok show ?thesis by simp
qed

section \<open>Examples\<close>

text \<open>An admin adds a code: with a label it is stored, without one the request is refused.\<close>

definition labelled_code :: "string \<Rightarrow> api_call" where
  "labelled_code l = PinCall (PinCreate 1 \<lparr>cp_PIN = ''4711'', cp_CodeType = [], cp_Label = l, cp_Metadata = [], cp_ScheduleID = None\<rparr>)"

theorem checks_keep_rows_witness:
  "let rq = sample_request ''a:1'' ''gatie_access=admin-jwt''; w = sample_world sample_db;
       r = serve_checked auth_env 5 rq (labelled_code ''side door'') w; q = serve_checked auth_env 5 rq (labelled_code []) w
   in db_pins sample_db = [] \<and> List.map pin_Label (db_pins (w_db (snd r))) = [''side door''] \<and> stored_checked (w_db (snd r))
     \<and> isl (fst q) \<and> w_db (snd q) = sample_db"
proof -
  let ?rq = "sample_request ''a:1'' ''gatie_access=admin-jwt''" and ?w = "sample_world sample_db"
  have "stored_checked (w_db ?w)" "\<not> input_ok ?rq (labelled_code [])" "db_pins sample_db = []"
    "List.map pin_Label (db_pins (w_db (snd (serve_checked auth_env 5 ?rq (labelled_code ''side door'') ?w)))) = [''side door'']"
    by code_simp+
  with checks_keep_rows [of ?w auth_env 5 ?rq "labelled_code ''side door''"] checks_keep_rows [of ?w auth_env 5 ?rq "labelled_code []"]
  show ?thesis by (simp add: Let_def)
qed

text \<open>
  The password policy of the configuration only holds for the first account: the setup refuses a
  password without capitals and digits, an admin gives it to the next account.
\<close>

lemma weak_password_accepted:
  "let rq = sample_request ''a:1'' ''gatie_access=admin-jwt''; p = ''aaaaaaaa'';
       s = serve_checked auth_env 5 rq (SetupCall (SetupInit ''bob'' p None)) (sample_world empty_db);
       r = serve_checked auth_env 5 rq (MemberCall (MemberCreate ''bob'' None p [])) (sample_world sample_db)
   in isl (fst s) \<and> db_members (w_db (snd s)) = [] \<and> fst r = Inr ()
     \<and> list_ex (\<lambda>m. mem_Username m = ''bob''
          \<and> list_ex (\<lambda>c. cr_MemberID c = mem_ID m \<and> x_bcryptCheck auth_env (cr_HashedValue c) p) (db_creds (w_db (snd r))))
         (db_members (w_db (snd r)))"
  by code_simp

text \<open>
  A password has no \<open>maxLength\<close>, but bcrypt takes 72 bytes: a longer one passes the checks and is
  answered as a failure of the server.
\<close>

lemma long_password_fails:
  "let rq = sample_request ''a:1'' ''gatie_access=admin-jwt''; p = replicate 73 CHR ''a'';
       call = MemberCall (MemberCreate ''bob'' None p [])
   in input_ok rq call \<and> fst (serve_checked auth_env 5 rq call (sample_world sample_db)) = Inl (HErr 500 ''failed to create member'')"
  by code_simp

end
