(* ===== verification/Simulator.thy ===== *)
theory Simulator
  imports Device_Ingress
begin

text \<open>
  \<open>cmd/gatesim/main.go\<close>: the reference device, which answers commands over MQTT or HTTP and
  reports its status. It closes the loop around the server: what a trigger sends is what the
  device reads, and what the device reports is what the ingress reads. Payloads are JSON values;
  \<open>jparse\<close> is the JSON parser.
\<close>

section \<open>State\<close>

record simulator =
  sm_gateID :: uuid
  sm_token :: string
  sm_apiURL :: string
  sm_status :: string

definition getStatus :: "simulator \<Rightarrow> string" where
  "getStatus sim = sm_status sim"

definition setStatus :: "string \<Rightarrow> simulator \<Rightarrow> simulator" where
  "setStatus status sim = sim\<lparr>sm_status := status\<rparr>"

definition sampleMeta :: "string \<Rightarrow> gmap" where
  "sampleMeta m = [(''sim.mode'', VStr m), (''sim.latency'', VStr ''0ms''), (''lora.snr'', VNum (Fin (- 8))), (''lora.rssi'', VNum (Fin (- 72)))]"

definition actionToStatus :: "string \<Rightarrow> string" where
  "actionToStatus action = (if action = ''open'' then ''open'' else if action = ''close'' then ''closed'' else action)"

section \<open>The gate named by a token\<close>

text \<open>\<open>base64.RawURLEncoding\<close>: six bits a character, no padding; line ends are skipped.\<close>

definition sextet :: "char \<Rightarrow> nat option" where
  "sextet c = (let n = (of_char c :: nat) in
     if 65 \<le> n \<and> n \<le> 90 then Some (n - 65)
     else if 97 \<le> n \<and> n \<le> 122 then Some (n - 71)
     else if 48 \<le> n \<and> n \<le> 57 then Some (n + 4)
     else if n = 45 then Some 62 else if n = 95 then Some 63 else None)"

fun octets_of :: "nat list \<Rightarrow> nat list option" where
  "octets_of [] = Some []"
| "octets_of [a] = None"
| "octets_of [a, b] = Some [a * 4 + b div 16]"
| "octets_of [a, b, c] = Some [a * 4 + b div 16, b mod 16 * 16 + c div 4]"
| "octets_of (a # b # c # d # s) =
     map_option (\<lambda>r. (a * 4 + b div 16) # (b mod 16 * 16 + c div 4) # (c mod 4 * 64 + d) # r) (octets_of s)"

definition RawURLDecode :: "string \<Rightarrow> string option" where
  "RawURLDecode s = (case those (List.map sextet (filter (\<lambda>c. c \<notin> {CHR 0x0A, CHR 0x0D}) s)) of
      None \<Rightarrow> None | Some xs \<Rightarrow> map_option (List.map char_of) (octets_of xs))"

text \<open>\<open>json.Unmarshal\<close> into a struct with one string field, whose name is matched in any case.\<close>

definition decode_text :: "string \<Rightarrow> gval \<Rightarrow> string option" where
  "decode_text name v = decode_object (\<lambda>k w acc. if ToLower k = name then decode_string w acc else Some acc) v []"

definition parseJWTClaims :: "'r env \<Rightarrow> (string \<Rightarrow> gval option) \<Rightarrow> string \<Rightarrow> uuid res" where
  "parseJWTClaims X jparse token =
     (case split_on CHR ''.'' token of
        [_, p, _] \<Rightarrow>
          (case RawURLDecode p of
             None \<Rightarrow> Inl (Wrapf ''decode payload: %w'' [] (ErrExternal ''base64''))
           | Some payload \<Rightarrow>
               (case Option.bind (jparse payload) (decode_text ''sub'') of
                  None \<Rightarrow> Inl (Wrapf ''unmarshal claims: %w'' [] (ErrExternal ''json''))
                | Some sub \<Rightarrow>
                    (case x_uuidParse X sub of
                       None \<Rightarrow> Inl (Wrapf ''parse gate_id from sub: %w'' [] (ErrExternal ''uuid''))
                     | Some gateID \<Rightarrow> Inr gateID)))
      | parts \<Rightarrow> Inl (Errorf ''not a JWT (expected 3 parts, got %d)'' [AInt (int (length parts))]))"

text \<open>The two modes of \<open>main\<close>; the token is required.\<close>

definition start_sim :: "'r env \<Rightarrow> (string \<Rightarrow> gval option) \<Rightarrow> string \<Rightarrow> string \<Rightarrow> string \<Rightarrow> simulator option" where
  "start_sim X jparse token m apiURL =
     (if token = [] then None
      else if m = ''http'' then Some \<lparr>sm_gateID = uuid_Nil, sm_token = token, sm_apiURL = apiURL, sm_status = ''closed''\<rparr>
      else if m = ''mqtt'' then
        (case parseJWTClaims X jparse token of
           Inl _ \<Rightarrow> None
         | Inr gateID \<Rightarrow> Some \<lparr>sm_gateID = gateID, sm_token = token, sm_apiURL = apiURL, sm_status = ''closed''\<rparr>)
      else None)"

section \<open>MQTT mode\<close>

definition sim_commandTopic :: "'r env \<Rightarrow> simulator \<Rightarrow> string" where
  "sim_commandTopic X sim = ''gates/'' @ x_uuidString X (sm_gateID sim) @ ''/command''"

definition sim_statusTopic :: "'r env \<Rightarrow> simulator \<Rightarrow> string" where
  "sim_statusTopic X sim = ''gates/'' @ x_uuidString X (sm_gateID sim) @ ''/status''"

text \<open>\<open>json.Unmarshal\<close> into \<open>commandPayload\<close> gives the action; null leaves it empty.\<close>

definition commandAction :: "gval option \<Rightarrow> string option" where
  "commandAction payload = Option.bind payload (decode_text ''action'')"

definition mqttStatusPayload :: "simulator \<Rightarrow> string \<Rightarrow> gmap \<Rightarrow> gval" where
  "mqttStatusPayload sim status meta = VObj ([(''token'', VStr (sm_token sim)), (''status'', VStr status)]
     @ (if meta = [] then [] else [(''meta'', VObj meta)]))"

text \<open>What is published; a failure to publish is only logged.\<close>

definition handleMQTTCommand :: "'r env \<Rightarrow> gval option \<Rightarrow> simulator \<Rightarrow> simulator \<times> (string \<times> gval) list" where
  "handleMQTTCommand X payload sim =
     (case commandAction payload of
        None \<Rightarrow> (sim, [])
      | Some action \<Rightarrow>
          (let newStatus = actionToStatus action; sim1 = setStatus newStatus sim
           in (sim1, [(sim_statusTopic X sim, mqttStatusPayload sim1 newStatus (sampleMeta ''mqtt''))])))"

definition mqttHeartbeat :: "'r env \<Rightarrow> simulator \<Rightarrow> string \<times> gval" where
  "mqttHeartbeat X sim = (sim_statusTopic X sim, mqttStatusPayload sim (getStatus sim) (sampleMeta ''mqtt''))"

section \<open>HTTP mode\<close>

text \<open>The request of \<open>pushStatus\<close>: its URL, its authorization header and its JSON body.\<close>

record status_push =
  pu_URL :: string
  pu_Authorization :: string
  pu_Body :: gmap

definition pushStatus :: "simulator \<Rightarrow> string \<Rightarrow> gmap \<Rightarrow> status_push" where
  "pushStatus sim status meta = \<lparr>pu_URL = sm_apiURL sim @ ''/api/inbound/status'', pu_Authorization = ''Bearer '' @ sm_token sim,
     pu_Body = fold (\<lambda>(k, v) body. AList.update k v body) meta [(''status'', VStr status)]\<rparr>"

definition http_meta :: gmap where
  "http_meta = [(''sim.mode'', VStr ''http'')]"

text \<open>The command server: the status of the answer, the new state and the report it sends.\<close>

definition http_report :: "string \<Rightarrow> simulator \<Rightarrow> int \<times> simulator \<times> status_push option" where
  "http_report status sim = (let sim1 = setStatus status sim in (200, sim1, Some (pushStatus sim1 status http_meta)))"

definition serve_command :: "string \<Rightarrow> string \<Rightarrow> gval option \<Rightarrow> simulator \<Rightarrow> int \<times> simulator \<times> status_push option" where
  "serve_command path verb body sim =
     (if path \<notin> {''/open'', ''/close'', ''/action''} then (404, sim, None)
      else if verb \<noteq> ''POST'' then (405, sim, None)
      else if path = ''/open'' then http_report ''open'' sim
      else if path = ''/close'' then http_report ''closed'' sim
      else case commandAction body of
        None \<Rightarrow> (400, sim, None)
      | Some action \<Rightarrow> if action = [] then (400, sim, None) else http_report (actionToStatus action) sim)"

definition httpHeartbeat :: "simulator \<Rightarrow> status_push" where
  "httpHeartbeat sim = pushStatus sim (getStatus sim) http_meta"

section \<open>Reading a token back\<close>

text \<open>The encoding the decoder inverts.\<close>

fun sextets_of :: "nat list \<Rightarrow> nat list" where
  "sextets_of [] = []"
| "sextets_of [x] = [x div 4, x mod 4 * 16]"
| "sextets_of [x, y] = [x div 4, x mod 4 * 16 + y div 16, y mod 16 * 4]"
| "sextets_of (x # y # z # s) =
     (x div 4) # (x mod 4 * 16 + y div 16) # (y mod 16 * 4 + z div 64) # (z mod 64) # sextets_of s"

definition sextet_char :: "nat \<Rightarrow> char" where
  "sextet_char n = char_of (if n < 26 then n + 65 else if n < 52 then n + 71 else if n < 62 then n - 4 else if n = 62 then 45 else 95)"

definition RawURLEncode :: "string \<Rightarrow> string" where
  "RawURLEncode s = List.map sextet_char (sextets_of (List.map of_char s))"

lemma sextet_of_char:
  assumes "n < 64"
  shows "sextet (sextet_char n) = Some n" and "sextet_char n \<notin> {CHR 0x0A, CHR 0x0D, CHR ''.''}"
proof -
  let ?k = "if n < 26 then n + 65 else if n < 52 then n + 71 else if n < 62 then n - 4 else if n = 62 then 45 else 95"
  have k: "of_char (sextet_char n) = ?k" using assms by (simp add: sextet_char_def)
  then show "sextet (sextet_char n) = Some n" using assms by (auto simp: sextet_def Let_def)
  have "?k \<notin> {10, 13, 46}" using assms by auto
  moreover have "of_char CHR 0x0A = (10::nat)" "of_char CHR 0x0D = (13::nat)" "of_char CHR ''.'' = (46::nat)" by simp_all
  ultimately show "sextet_char n \<notin> {CHR 0x0A, CHR 0x0D, CHR ''.''}" using k by (metis insertE insertI1 insertI2 empty_iff)
qed

lemma octets_of_sextets: "\<forall>x \<in> set xs. x < 256 \<Longrightarrow> octets_of (sextets_of xs) = Some xs"
proof (induction xs rule: sextets_of.induct)
  case (4 x y z s)
  have "y div 16 < 16" "z div 64 < 4" using 4(2) by auto
  then have "(x mod 4 * 16 + y div 16) div 16 = x mod 4" "(x mod 4 * 16 + y div 16) mod 16 = y div 16"
    "(y mod 16 * 4 + z div 64) div 4 = y mod 16" "(y mod 16 * 4 + z div 64) mod 4 = z div 64" by simp_all
  with 4 show ?case by simp
next
  case (3 x y)
  have "y div 16 < 16" using 3 by auto
  then have "(x mod 4 * 16 + y div 16) div 16 = x mod 4" "(x mod 4 * 16 + y div 16) mod 16 = y div 16" by simp_all
  then show ?case by simp
qed auto

lemma sextets_bound: "\<forall>x \<in> set xs. x < 256 \<Longrightarrow> \<forall>n \<in> set (sextets_of xs). n < 64"
  by (induction xs rule: sextets_of.induct) (auto simp: less_mult_imp_div_less)

lemma those_map_Some: "(\<And>x. x \<in> set xs \<Longrightarrow> f x = Some (g x)) \<Longrightarrow> those (List.map f xs) = Some (List.map g xs)"
  by (induction xs) auto

lemma RawURL_roundtrip: "RawURLDecode (RawURLEncode s) = Some s" "CHR ''.'' \<notin> set (RawURLEncode s)"
proof -
  let ?b = "List.map of_char s :: nat list"
  have b: "\<forall>x \<in> set ?b. x < 256" by auto
  note n = sextets_bound [OF b]
  have "filter (\<lambda>c. c \<notin> {CHR 0x0A, CHR 0x0D}) (RawURLEncode s) = RawURLEncode s"
    using n sextet_of_char(2) by (auto simp: RawURLEncode_def filter_id_conv)
  moreover have "those (List.map sextet (RawURLEncode s)) = Some (sextets_of ?b)"
    using those_map_Some [of "sextets_of ?b" "\<lambda>n. sextet (sextet_char n)" id] n sextet_of_char(1)
    by (simp add: RawURLEncode_def comp_def)
  ultimately show "RawURLDecode (RawURLEncode s) = Some s"
    using octets_of_sextets [OF b] by (simp add: RawURLDecode_def comp_def)
  show "CHR ''.'' \<notin> set (RawURLEncode s)"
    using n sextet_of_char(2) by (force simp: RawURLEncode_def)
qed

lemma decode_members_one:
  "filter (\<lambda>kv. ToLower (fst kv) = name) m = [(k, VStr s)] \<Longrightarrow>
   decode_members (\<lambda>k w acc. if ToLower k = name then decode_string w acc else Some acc) m acc = Some s"
proof (induction m arbitrary: acc)
  case (Cons kv m)
  have rest: "decode_members (\<lambda>k w acc. if ToLower k = name then decode_string w acc else Some acc) xs a = Some a"
    if "filter (\<lambda>kv. ToLower (fst kv) = name) xs = []" for xs a
    using that by (induction xs) (auto split: if_splits)
  from Cons rest [of m s] show ?case by (cases kv) (auto simp: decode_string_def split: if_splits)
qed simp

lemma decode_text_one:
  assumes "filter (\<lambda>kv. ToLower (fst kv) = name) m = [(k, VStr s)]"
  shows "decode_text name (VObj m) = Some s"
  using decode_members_one [of name "sort_key fst m" k s "[]"] assms
  by (simp add: decode_text_def decode_object_def filter_sort)

text \<open>
  C40: The device finds its gate in the token: for every signed token text whose payload is the
  base64url form of a JSON object whose one member called \<open>sub\<close> is the identifier of a gate, whatever its header and
  signature, the simulator reads back this gate.
\<close>

theorem token_gate_roundtrip:
  assumes "uuid_ok X" and "CHR ''.'' \<notin> set header" and "CHR ''.'' \<notin> set signature"
    and "jparse json = Some (VObj m)" and "filter (\<lambda>kv. ToLower (fst kv) = ''sub'') m = [(''sub'', VStr (x_uuidString X g))]"
  shows "parseJWTClaims X jparse (header @ ''.'' @ RawURLEncode json @ ''.'' @ signature) = Inr g"
  using assms by (simp add: parseJWTClaims_def split_on_append split_on_no_sep RawURL_roundtrip uuid_ok_def decode_text_one)

theorem token_gate_roundtrip_witness:
  "let X = sample_env []; jparse = (\<lambda>t. if t = ''{sub:iii}'' then Some (VObj [(''sub'', VStr ''iii'')]) else None)
   in parseJWTClaims X jparse (''eyJ9.'' @ RawURLEncode ''{sub:iii}'' @ ''.sig'') = Inr 3"
proof -
  let ?jparse = "\<lambda>t. if t = ''{sub:iii}'' then Some (VObj [(''sub'', VStr ''iii'')]) else None"
  have "x_uuidString (sample_env []) 3 = ''iii''" "ToLower ''sub'' = ''sub''" by code_simp+
  then show ?thesis
    using token_gate_roundtrip [OF sample_uuid_ok, of "''eyJ9''" "''sig''" ?jparse "''{sub:iii}''" "[(''sub'', VStr ''iii'')]" "[]" 3]
    by simp
qed

section \<open>The loop around the server\<close>

lemma ToLower_action: "ToLower ''action'' = ''action''"
  by code_simp

lemma trigger_mqtt_gatie:
  assumes "x_mqttUp X" and "\<not> x_mqttFault X now (CommandTopic X (g_ID g))"
    and "g_OpenConfig g = Some oc" "ac_Type oc = DriverTypeMQTTGatie" "g_CloseConfig g = Some cc" "ac_Type cc = DriverTypeMQTTGatie"
    and "action \<in> {''open'', ''close''}"
  shows "gateTrigger X now g action = [OutMQTT (CommandTopic X (g_ID g)) (VObj [(''action'', VStr action)])]"
  using assms by (auto simp: gateTrigger_def NewOpenDriver_def NewCloseDriver_def newDriver_def Execute_def mqtt_send_def
      mqtt_Publish_def json_encodable.simps)

lemma message_stored:
  assumes "parseTopicGateID X topic = Inr i" "ParseGateToken X now tok = Inr i" "tok \<noteq> []" "str_field raw ''token'' = tok"
    and "gates_GetByToken (x_dbFault X now) (w_db w) i tok = Inr g" "resolveMQTTPayload g raw = Inr (status, meta)"
  shows "on_status_message X now False topic (Some (VObj raw)) w = snd (ProcessGateStatus X now g status meta w)"
  using assms by (simp add: on_status_message_def decode_map_def Let_def mqtt_gate_def)

lemma processed_row:
  assumes "\<not> x_dbFault X now ''gates.UpdateStatus'' (g_ID g)" and "g_StatusRules g = []"
  shows "gate_row (w_db (snd (ProcessGateStatus X now g status meta w))) (g_ID g)
    = map_option (\<lambda>r. r\<lparr>g_Status := status, g_LastSeenAt := Some now,
        g_StatusMetadata := Some (case meta of None \<Rightarrow> [] | Some m \<Rightarrow> m)\<rparr>) (gate_row (w_db w) (g_ID g))"
  using assms by (auto simp: Let_def ProcessGateStatus_def on_db_def gates_UpdateStatus_def gate_row_upd EvaluateStatusRules.simps
      publishGateStatusEvent_def map_option_case dest: gate_row_SomeD split: option.splits)


definition mqtt_gatie :: action_config where
  "mqtt_gatie = \<lparr>ac_Type = DriverTypeMQTTGatie, ac_Config = []\<rparr>"

definition looped_gate :: gate where
  "looped_gate = (sample_gate 1)\<lparr>g_GateToken := Some ''gate-jwt'', g_OpenConfig := Some mqtt_gatie,
     g_CloseConfig := Some mqtt_gatie, g_StatusConfig := Some mqtt_gatie\<rparr>"


text \<open>
  Over MQTT the simulator nests its metadata under \<open>meta\<close>, where the server does not look: none of
  its keys is found in the report, neither as it is nor as a path. Over HTTP they are at the root.
\<close>

lemma simulator_metadata:
  assumes "key \<in> set (List.map fst (sampleMeta ''mqtt''))"
  shows "getNestedValue [(''token'', VStr tok), (''status'', VStr st), (''meta'', VObj (sampleMeta ''mqtt''))] key = None
    \<and> getNestedValue [(''token'', VStr tok), (''status'', VStr st), (''meta'', VObj (sampleMeta ''mqtt''))] (''meta.'' @ key) = None
    \<and> getNestedValue (pu_Body (pushStatus sim st http_meta)) ''sim.mode'' = Some (VStr ''http'')"
  using assms unfolding sampleMeta_def list.map list.set fst_conv insert_iff empty_iff
  by (elim disjE FalseE; simp add: getNestedValue_def pushStatus_def http_meta_def)

end
