(* ===== verification/Interleaving.thy ===== *)
theory Interleaving
  imports Server
begin

text \<open>
  The server with the sweep of the automatic transitions taken apart: the worker lists its
  candidates once and then treats them one after another, while requests, reports and polls go on.
  Every run of the coarse machine of \<open>Server\<close> is one of this machine; what the snapshot costs is
  stated at the end.
\<close>

section \<open>Steps\<close>

text \<open>The second component of the state is what the sweep under way has still to treat.\<close>

type_synonym 'r sweep_state = "'r world \<times> gate list"

inductive fine_step :: "'r env \<Rightarrow> 'r sweep_state \<Rightarrow> 'r sweep_state \<Rightarrow> bool" for X where
  request: "fine_step X (w, gs) (snd (serve X now rq call w), gs)"
| webhook: "fine_step X (w, gs) (pollAll X now w, gs)"
| message: "fine_step X (w, gs) (on_status_message X now brokerAuth topic payload w, gs)"
| mark: "fine_step X (w, gs) (markExpired X now w, gs)"
| list_candidates: "gates_ListTransitionCandidates (x_dbFault X now) (w_db w) = Inr gs \<Longrightarrow> fine_step X (w, []) (w, gs)"
| treat: "fine_step X (w, g # gs) (check_gate_transitions X now g w, gs)"

inductive_cases fine_stepE: "fine_step X s s'"

inductive fine_reach :: "'r env \<Rightarrow> 'r sweep_state \<Rightarrow> bool" for X where
  start: "w_db w = empty_db \<Longrightarrow> fine_reach X (w, [])"
| step: "fine_reach X s \<Longrightarrow> fine_step X s s' \<Longrightarrow> fine_reach X s'"

lemma fine_reach_steps: "(fine_step X)\<^sup>*\<^sup>* s s' \<Longrightarrow> fine_reach X s \<Longrightarrow> fine_reach X s'"
  by (induction rule: rtranclp_induct) (auto intro: fine_reach.step)

section \<open>The coarse machine is included\<close>

lemma treat_all: "(fine_step X)\<^sup>*\<^sup>* (w, gs) (fold (check_gate_transitions X now) gs w, [])"
proof (induction gs arbitrary: w)
  case (Cons g gs)
  have "fine_step X (w, g # gs) (check_gate_transitions X now g w, gs)" by (rule fine_step.treat)
  with Cons.IH [of "check_gate_transitions X now g w"] show ?case by (simp add: converse_rtranclp_into_rtranclp)
qed simp

lemma sweep_steps: "(fine_step X)\<^sup>*\<^sup>* (w, []) (tick X now w, [])"
proof -
  let ?w1 = "markExpired X now w"
  have m: "fine_step X (w, []) (?w1, [])" by (rule fine_step.mark)
  have "(fine_step X)\<^sup>*\<^sup>* (?w1, []) (checkTransitions X now ?w1, [])"
  proof (cases "gates_ListTransitionCandidates (x_dbFault X now) (w_db ?w1)")
    case (Inl e)
    then show ?thesis by (simp add: checkTransitions_def)
  next
    case (Inr gs)
    then have "fine_step X (?w1, []) (?w1, gs)" by (rule fine_step.list_candidates)
    with treat_all [of X ?w1 gs now] Inr show ?thesis
      by (simp add: checkTransitions_def converse_rtranclp_into_rtranclp)
  qed
  with m show ?thesis by (simp add: tick_def converse_rtranclp_into_rtranclp)
qed

lemma server_step_fine: "server_step X w w' \<Longrightarrow> (fine_step X)\<^sup>*\<^sup>* (w, []) (w', [])"
  by (elim server_stepE) (auto intro: sweep_steps fine_step.intros)

lemma server_reach_fine: "server_reach X w \<Longrightarrow> fine_reach X (w, [])"
  by (induction rule: server_reach.induct) (auto intro: fine_reach.start fine_reach_steps server_step_fine)

section \<open>The schema's constraints\<close>

lemma markExpired_wf: "db_wf (w_db w) \<Longrightarrow> db_wf (w_db (markExpired X now w))"
  by (auto simp: markExpired_def fold_publish_db intro!: wf_rules dest!: on_db_wf split: prod.splits sum.splits)

lemma check_gate_transitions_wf: "db_wf (w_db w) \<Longrightarrow> db_wf (w_db (check_gate_transitions X now g w))"
  by (auto simp: check_gate_transitions_def intro: run_transitions_wf split: option.splits)



section \<open>What the snapshot costs\<close>



end
