(* ===== verification/Poll_Pool.thy ===== *)
theory Poll_Pool
  imports Webhook_Worker
begin

text \<open>
  The concurrency of a webhook sweep (\<open>pollAll\<close> of \<open>internal/service/gate_webhook_worker.go\<close>): one
  goroutine for every gate that is due, of which at most \<open>maxConcurrentPolls\<close> hold a slot of the
  semaphore. A goroutine waits for its slot, performs its HTTP exchange, stores the status and publishes
  it; the database statement and the publication are single steps, and any goroutine may take the
  next step. The sweep waits for all of them.
\<close>

section \<open>Goroutines\<close>

datatype poll_task =
    Waiting (task_gate: gate)
  | Polling (task_gate: gate)
  | Publishing (task_gate: gate) string "gmap option"
  | Finished (task_gate: gate)

definition maxConcurrentPolls :: nat where
  "maxConcurrentPolls = 10"

fun holds_slot :: "poll_task \<Rightarrow> bool" where
  "holds_slot (Polling _) = True"
| "holds_slot (Publishing _ _ _) = True"
| "holds_slot _ = False"

definition slots :: "poll_task list \<Rightarrow> nat" where
  "slots ts = length (filter holds_slot ts)"

inductive pool_step :: "'r env \<Rightarrow> int \<Rightarrow> poll_task list \<times> 'r world \<Rightarrow> poll_task list \<times> 'r world \<Rightarrow> bool" for X now where
  acquire: "slots (ts @ us) < maxConcurrentPolls \<Longrightarrow>
    pool_step X now (ts @ Waiting g # us, w) (ts @ Polling g # us, w)"
| no_status: "poll_outcome X now g = None \<Longrightarrow>
    pool_step X now (ts @ Polling g # us, w) (ts @ Finished g # us, w)"
| store: "poll_outcome X now g = Some (s, meta) \<Longrightarrow>
    on_db (\<lambda>d. gates_UpdateStatus (x_dbFault X now) d now (g_ID g) (final_status g s meta) meta) w = (Inr (), w1) \<Longrightarrow>
    pool_step X now (ts @ Polling g # us, w) (ts @ Publishing g (final_status g s meta) meta # us, w1)"
| refused: "poll_outcome X now g = Some (s, meta) \<Longrightarrow>
    on_db (\<lambda>d. gates_UpdateStatus (x_dbFault X now) d now (g_ID g) (final_status g s meta) meta) w = (Inl e, w1) \<Longrightarrow>
    pool_step X now (ts @ Polling g # us, w) (ts @ Finished g # us, w1)"
| publish: "pool_step X now (ts @ Publishing g s meta # us, w)
    (ts @ Finished g # us, publishGateStatusEvent X now (g_ID g) s meta w)"

inductive_cases pool_stepE: "pool_step X now s s'"

definition pool_start :: "'r env \<Rightarrow> int \<Rightarrow> 'r world \<Rightarrow> poll_task list \<times> 'r world" where
  "pool_start X now w = (List.map Waiting (due_gates X now (w_db w)), w)"

section \<open>What is left to do\<close>

text \<open>The effect a goroutine will still have, whenever it runs.\<close>

fun remaining :: "'r env \<Rightarrow> int \<Rightarrow> poll_task \<Rightarrow> 'r observation \<Rightarrow> 'r observation" where
  "remaining X now (Waiting g) = poll_step X now g"
| "remaining X now (Polling g) = poll_step X now g"
| "remaining X now (Publishing g s meta) = (\<lambda>(d, r, evs). (d, r,
     if x_redisFault X now ''PUBLISH'' ''gate:events'' then evs else add_mset (EvPublish (g_ID g) s meta) evs))"
| "remaining X now (Finished g) = id"

lemma remaining_commute:
  "g_ID (task_gate t) \<noteq> g_ID (task_gate u) \<Longrightarrow> remaining X now t (remaining X now u ob) = remaining X now u (remaining X now t ob)"
  using poll_step_commute [of "task_gate t" "task_gate u" X now]
  by (cases t; cases u; cases ob) (auto simp: fun_eq_iff poll_step_def add_mset_commute split: option.splits)

lemma remaining_front:
  assumes "distinct (List.map (\<lambda>t. g_ID (task_gate t)) (ts @ t # us))"
  shows "fold (remaining X now) (ts @ t # us) ob = fold (remaining X now) (ts @ us) (remaining X now t ob)"
  using assms
proof (induction ts arbitrary: ob)
  case (Cons x ts)
  then have "remaining X now t (remaining X now x ob) = remaining X now x (remaining X now t ob)"
    by (intro remaining_commute) auto
  with Cons show ?case by simp
qed simp

fun rank :: "poll_task \<Rightarrow> nat" where
  "rank (Waiting _) = 3"
| "rank (Polling _) = 2"
| "rank (Publishing _ _ _) = 1"
| "rank (Finished _) = 0"

definition work :: "poll_task list \<Rightarrow> nat" where
  "work ts = sum_list (List.map rank ts)"

lemma slots_simps [simp]:
  "slots (ts @ us) = slots ts + slots us" "slots (t # us) = (if holds_slot t then 1 else 0) + slots us" "slots [] = 0"
  by (simp_all add: slots_def)

lemma work_simps [simp]: "work (ts @ us) = work ts + work us" "work (t # us) = rank t + work us" "work [] = 0"
  by (simp_all add: work_def)

text \<open>One step keeps what will come out in the end, uses work up and never takes an eleventh slot.\<close>

lemma pool_step_keeps:
  assumes "pool_step X now (ts, w) (ts', w')" and "distinct (List.map (\<lambda>t. g_ID (task_gate t)) ts)"
  shows "fold (remaining X now) ts' (observe w') = fold (remaining X now) ts (observe w)"
    and "List.map task_gate ts' = List.map task_gate ts" and "work ts' < work ts"
    and "slots ts \<le> maxConcurrentPolls \<longrightarrow> slots ts' \<le> maxConcurrentPolls"
proof -
  have pub: "observe (publishGateStatusEvent X now i s m v) = (\<lambda>(d, r, evs). (d, r,
     if x_redisFault X now ''PUBLISH'' ''gate:events'' then evs else add_mset (EvPublish i s m) evs)) (observe v)" for i s m v
    by (simp add: observe_def publishGateStatusEvent_def)
  have keep: "fold (remaining X now) (as @ t' # bs) ob' = fold (remaining X now) (as @ t # bs) ob"
    if "distinct (List.map (\<lambda>t. g_ID (task_gate t)) (as @ t # bs))" "task_gate t' = task_gate t"
      "remaining X now t' ob' = remaining X now t ob" for as bs t t' ob ob'
    using remaining_front [OF that(1), of X now ob] remaining_front [of as t' bs X now ob'] that by simp
  show "fold (remaining X now) ts' (observe w') = fold (remaining X now) ts (observe w)"
    using assms(1)
  proof (cases rule: pool_step.cases)
    case (store g s meta as bs)
    show ?thesis unfolding store(1,2)
      by (rule keep) (use assms(2) store in \<open>auto simp: poll_step_def on_db_def gates_UpdateStatus_def observe_def store_status_def split: if_splits\<close>)
  next
    case (refused g s meta e as bs)
    show ?thesis unfolding refused(1,2)
      by (rule keep) (use assms(2) refused in \<open>auto simp: poll_step_def on_db_def gates_UpdateStatus_def observe_def split: if_splits\<close>)
  next
    case (no_status g as bs)
    show ?thesis unfolding no_status(1,2)
      by (rule keep) (use assms(2) no_status in \<open>auto simp: poll_step_def observe_def\<close>)
  next
    case (publish as g s meta bs)
    show ?thesis unfolding publish(1,2)
      by (rule keep) (use assms(2) publish in \<open>auto simp: pub\<close>)
  next
    case (acquire as bs g)
    show ?thesis unfolding acquire(1,2)
      by (rule keep) (use assms(2) acquire(1,3) in \<open>simp_all\<close>)
  qed
  show "List.map task_gate ts' = List.map task_gate ts"
    using assms(1) by (rule pool_stepE) simp_all
  show "work ts' < work ts"
    using assms(1) by (rule pool_stepE) simp_all
  show "slots ts \<le> maxConcurrentPolls \<longrightarrow> slots ts' \<le> maxConcurrentPolls"
    using assms(1) by (rule pool_stepE) simp_all
qed

section \<open>The sweep\<close>

text \<open>Whoever still has work can go on: a full pool contains a goroutine that needs no slot.\<close>

lemma pool_progress:
  assumes "t \<in> set ts" and "rank t \<noteq> 0"
  shows "\<exists>s'. pool_step X now (ts, w) s'"
proof (cases "\<exists>u \<in> set ts. holds_slot u")
  case True
  then obtain u as bs where u: "holds_slot u" "ts = as @ u # bs" by (meson split_list)
  show ?thesis
  proof (cases u)
    case (Polling g)
    show ?thesis
    proof (cases "poll_outcome X now g")
      case None
      with u Polling show ?thesis by (blast intro: pool_step.no_status)
    next
      case (Some p)
      obtain s meta where p: "p = (s, meta)" by fastforce
      obtain r w1 where "on_db (\<lambda>d. gates_UpdateStatus (x_dbFault X now) d now (g_ID g) (final_status g s meta) meta) w = (r, w1)"
        by fastforce
      with Some p u Polling show ?thesis
        by (cases r) (auto intro: pool_step.store pool_step.refused)
    qed
  next
    case (Publishing g s meta)
    with u show ?thesis by (blast intro: pool_step.publish)
  qed (use u in simp_all)
next
  case False
  then have "\<not> holds_slot t" using assms(1) by blast
  with assms(2) obtain g where g: "t = Waiting g" by (cases t) auto
  obtain as bs where s: "ts = as @ Waiting g # bs" using assms(1) g by (meson split_list)
  from False have "filter holds_slot ts = []" by (auto simp: filter_empty_conv)
  then have "slots (as @ bs) = 0" using s by (simp add: slots_def)
  then have "slots (as @ bs) < maxConcurrentPolls" by (simp only: maxConcurrentPolls_def)
  with s show ?thesis by (blast intro: pool_step.acquire)
qed

lemma pool_run:
  assumes "(pool_step X now ^^ n) (ts, w) (ts', w')" and "distinct (List.map (\<lambda>t. g_ID (task_gate t)) ts)"
  shows "fold (remaining X now) ts' (observe w') = fold (remaining X now) ts (observe w)
    \<and> List.map task_gate ts' = List.map task_gate ts \<and> work ts' + n \<le> work ts
    \<and> (slots ts \<le> maxConcurrentPolls \<longrightarrow> slots ts' \<le> maxConcurrentPolls)"
  using assms(1)
proof (induction n arbitrary: ts' w')
  case (Suc n)
  then obtain ts1 w1 where a: "(pool_step X now ^^ n) (ts, w) (ts1, w1)" and b: "pool_step X now (ts1, w1) (ts', w')"
    by (metis relpowp_Suc_E surj_pair)
  note IH = Suc.IH [OF a]
  have "List.map (g_ID \<circ> task_gate) ts1 = List.map (g_ID \<circ> task_gate) ts" using IH by (metis list.map_comp)
  then have "distinct (List.map (\<lambda>t. g_ID (task_gate t)) ts1)" using assms(2) by (simp add: comp_def)
  from pool_step_keeps [OF b this] IH show ?case by auto
qed (use assms in simp)

text \<open>
  C16: A sweep with its goroutines: whichever of them takes the next step, never more than ten hold a slot
  of the semaphore, after at most three steps a gate nothing is left to do, no state in between is stuck,
  and when all have finished the database, Redis and the published events are those of polling one gate
  after another (\<open>pollAll\<close>).
\<close>

theorem concurrent_sweep:
  assumes "db_wf (w_db w)" and "(pool_step X now ^^ n) (pool_start X now w) (ts, w')"
  shows "slots ts \<le> maxConcurrentPolls \<and> n \<le> 3 * length (due_gates X now (w_db w))
    \<and> ((\<nexists>s. pool_step X now (ts, w') s) \<longrightarrow> observe w' = observe (pollAll X now w))"
proof -
  let ?gs = "due_gates X now (w_db w)"
  have "distinct (List.map (\<lambda>t. g_ID (task_gate t)) (List.map Waiting ?gs))"
    using due_gates_distinct [OF assms(1)] by (simp add: comp_def)
  note R = pool_run [OF assms(2) [unfolded pool_start_def] this]
  have w: "work (List.map Waiting gs) = 3 * length gs" and z: "slots (List.map Waiting gs) = 0" for gs
    by (induction gs) simp_all
  have q: "fold (remaining X now) (List.map Waiting gs) ob = fold (poll_step X now) gs ob" for gs and ob :: "'a observation"
    by (induction gs arbitrary: ob) simp_all
  have "observe w' = observe (pollAll X now w)" if stuck: "\<nexists>s. pool_step X now (ts, w') s"
  proof -
    have "rank t = 0" if "t \<in> set ts" for t using pool_progress [OF that] stuck by blast
    then have "fold (remaining X now) ts ob = ob" for ob :: "'a observation"
    proof (induction ts arbitrary: ob)
      case (Cons t ts)
      then have "rank t = 0" by simp
      with Cons show ?case by (cases t) simp_all
    qed simp
    with R q show ?thesis by (simp add: observe_fold pollAll_def)
  qed
  with R w z show ?thesis by auto
qed

text \<open>One gate: slot, store, publish.\<close>

theorem concurrent_sweep_witness:
  "\<exists>ts w'. (pool_step (sample_env []) 7 ^^ 3)
       (pool_start (sample_env []) 7 (sample_world (empty_db\<lparr>db_gates := [sample_webhook_gate 1]\<rparr>))) (ts, w')
     \<and> observe w' = observe (pollAll (sample_env []) 7 (sample_world (empty_db\<lparr>db_gates := [sample_webhook_gate 1]\<rparr>)))
     \<and> w_out w' = [EvPublish 1 ''open'' None]"
proof -
  let ?X = "sample_env []" and ?w = "sample_world (empty_db\<lparr>db_gates := [sample_webhook_gate 1]\<rparr>)"
  let ?g = "scanGate (sample_webhook_gate 1)"
  have d: "due_gates ?X 7 (w_db ?w) = [?g]" and wf: "db_wf (w_db ?w)" and oc: "poll_outcome ?X 7 ?g = Some (''open'', None)"
    and fs: "final_status ?g ''open'' None = ''open''" and id: "g_ID (sample_webhook_gate 1) = 1" by code_simp+
  obtain w1 where u: "on_db (\<lambda>d. gates_UpdateStatus (x_dbFault ?X 7) d 7 (g_ID ?g) (final_status ?g ''open'' None) None) ?w = (Inr (), w1)"
    "w_out w1 = []" by (simp add: on_db_def gates_UpdateStatus_def)
  let ?w2 = "publishGateStatusEvent ?X 7 (g_ID ?g) (final_status ?g ''open'' None) None w1"
  have s1: "pool_step ?X 7 (pool_start ?X 7 ?w) ([Polling ?g], ?w)"
    unfolding pool_start_def d using pool_step.acquire [of "[]" "[]" ?X 7 ?g ?w] by (simp add: maxConcurrentPolls_def)
  have s2: "pool_step ?X 7 ([Polling ?g], ?w) ([Publishing ?g (final_status ?g ''open'' None) None], w1)"
    using pool_step.store [OF oc u(1), of "[]" "[]"] by simp
  have s3: "pool_step ?X 7 ([Publishing ?g (final_status ?g ''open'' None) None], w1) ([Finished ?g], ?w2)"
    using pool_step.publish [of ?X 7 "[]" ?g "final_status ?g ''open'' None" None "[]" w1] by simp
  have "(pool_step ?X 7 ^^ 3) (pool_start ?X 7 ?w) ([Finished ?g], ?w2)"
    unfolding numeral_3_eq_3 using s1 s2 s3 by (meson relpowp_0_I relpowp_Suc_I)
  moreover have "\<nexists>s. pool_step ?X 7 ([Finished ?g], ?w2) s"
    by (auto elim!: pool_stepE simp: Cons_eq_append_conv)
  moreover have "w_out ?w2 = [EvPublish 1 ''open'' None]"
    by (simp add: publishGateStatusEvent_def u(2) fs id)
  ultimately show ?thesis using concurrent_sweep [OF wf] by blast
qed

end
