(* ===== verification/Discovery_Cache.thy ===== *)
theory Discovery_Cache
  imports Platform
begin

text \<open>
  The cache of discovered identity providers (\<open>oidcDiscoveryCache\<close> of \<open>internal/service/sso_oidc.go\<close>): a
  map behind a read-write lock, looked up under the read lock, and filled under the write lock
  after a second look. Any number of requests run \<open>get\<close> at the same time; every statement of \<open>get\<close> is a
  step. What discovery answers (\<open>gooidc.NewProvider\<close>) is left open, \<open>'p\<close> is its provider.
\<close>

section \<open>Callers and steps\<close>

datatype 'p get_call =
    Start string
  | Reading string
  | Looked string "'p option"
  | Missed string
  | Writing string
  | Discovering string
  | Storing string 'p
  | Unlocking string "err + 'p"
  | Returned string "err + 'p"

fun has_rlock :: "'p get_call \<Rightarrow> bool" where
  "has_rlock (Reading _) = True"
| "has_rlock (Looked _ _) = True"
| "has_rlock _ = False"

fun has_lock :: "'p get_call \<Rightarrow> bool" where
  "has_lock (Writing _) = True"
| "has_lock (Discovering _) = True"
| "has_lock (Storing _ _) = True"
| "has_lock (Unlocking _ _) = True"
| "has_lock _ = False"

text \<open>The map, the answers of discovery so far, and the callers. The lock is held by whom it is held.\<close>

record 'p cache =
  dc_store :: "(string, 'p) map"
  dc_answers :: "(string \<times> (err + 'p)) list"
  dc_calls :: "'p get_call list"

definition rlock_free :: "'p get_call list \<Rightarrow> bool" where
  "rlock_free cs = (filter has_lock cs = [])"

definition lock_free :: "'p get_call list \<Rightarrow> bool" where
  "lock_free cs = (filter has_lock cs = [] \<and> filter has_rlock cs = [])"

definition discovery_error :: "string \<Rightarrow> err \<Rightarrow> err" where
  "discovery_error issuer e = Wrapf ''OIDC discovery for %q: %w'' [AStr issuer] e"

inductive cache_step :: "'p cache \<Rightarrow> 'p cache \<Rightarrow> bool" where
  rlock: "dc_calls c = as @ Start i # bs \<Longrightarrow> rlock_free (as @ bs) \<Longrightarrow> cache_step c (c\<lparr>dc_calls := as @ Reading i # bs\<rparr>)"
| lookup: "dc_calls c = as @ Reading i # bs \<Longrightarrow> cache_step c (c\<lparr>dc_calls := as @ Looked i (dc_store c i) # bs\<rparr>)"
| hit: "dc_calls c = as @ Looked i (Some p) # bs \<Longrightarrow> cache_step c (c\<lparr>dc_calls := as @ Returned i (Inr p) # bs\<rparr>)"
| miss: "dc_calls c = as @ Looked i None # bs \<Longrightarrow> cache_step c (c\<lparr>dc_calls := as @ Missed i # bs\<rparr>)"
| lock: "dc_calls c = as @ Missed i # bs \<Longrightarrow> lock_free (as @ bs) \<Longrightarrow> cache_step c (c\<lparr>dc_calls := as @ Writing i # bs\<rparr>)"
| found: "dc_calls c = as @ Writing i # bs \<Longrightarrow> dc_store c i = Some p \<Longrightarrow>
    cache_step c (c\<lparr>dc_calls := as @ Unlocking i (Inr p) # bs\<rparr>)"
| absent: "dc_calls c = as @ Writing i # bs \<Longrightarrow> dc_store c i = None \<Longrightarrow>
    cache_step c (c\<lparr>dc_calls := as @ Discovering i # bs\<rparr>)"
| failed: "dc_calls c = as @ Discovering i # bs \<Longrightarrow>
    cache_step c (c\<lparr>dc_answers := dc_answers c @ [(i, Inl e)], dc_calls := as @ Unlocking i (Inl (discovery_error i e)) # bs\<rparr>)"
| discovered: "dc_calls c = as @ Discovering i # bs \<Longrightarrow>
    cache_step c (c\<lparr>dc_answers := dc_answers c @ [(i, Inr p)], dc_calls := as @ Storing i p # bs\<rparr>)"
| store: "dc_calls c = as @ Storing i p # bs \<Longrightarrow>
    cache_step c (c\<lparr>dc_store := (dc_store c)(i \<mapsto> p), dc_calls := as @ Unlocking i (Inr p) # bs\<rparr>)"
| unlock: "dc_calls c = as @ Unlocking i r # bs \<Longrightarrow> cache_step c (c\<lparr>dc_calls := as @ Returned i r # bs\<rparr>)"

inductive_cases cache_stepE: "cache_step c c'"

definition cache_start :: "string list \<Rightarrow> 'p cache" where
  "cache_start issuers = \<lparr>dc_store = Map.empty, dc_answers = [], dc_calls = List.map Start issuers\<rparr>"

section \<open>The invariant\<close>

text \<open>What a caller knows of the map, given that nobody else holds the write lock while it does.\<close>

fun call_ok :: "(string, 'p) map \<Rightarrow> (string \<times> (err + 'p)) list \<Rightarrow> 'p get_call \<Rightarrow> bool" where
  "call_ok m as (Looked i (Some p)) = (m i = Some p)"
| "call_ok m as (Discovering i) = (m i = None)"
| "call_ok m as (Storing i p) = (m i = None \<and> (i, Inr p) \<in> set as)"
| "call_ok m as (Unlocking i (Inr p)) = (m i = Some p)"
| "call_ok m as (Returned i (Inr p)) = (m i = Some p)"
| "call_ok m as _ = True"

definition locks_ok :: "'p get_call list \<Rightarrow> bool" where
  "locks_ok cs \<longleftrightarrow> length (filter has_lock cs) \<le> 1 \<and> (filter has_lock cs \<noteq> [] \<longrightarrow> filter has_rlock cs = [])"

definition successes :: "(string \<times> (err + 'p)) list \<Rightarrow> (string \<times> 'p) list" where
  "successes as = List.map_filter (\<lambda>(i, r). case r of Inl _ \<Rightarrow> None | Inr p \<Rightarrow> Some (i, p)) as"

definition pending :: "'p get_call list \<Rightarrow> (string \<times> 'p) list" where
  "pending cs = List.map_filter (\<lambda>c. case c of Storing i p \<Rightarrow> Some (i, p) | _ \<Rightarrow> None) cs"

text \<open>
  The map holds the successful answers but the one that is about to be stored, and no issuer was
  discovered twice.
\<close>

definition cache_ok :: "'p cache \<Rightarrow> bool" where
  "cache_ok c \<longleftrightarrow> locks_ok (dc_calls c)
     \<and> list_all (call_ok (dc_store c) (dc_answers c)) (dc_calls c)
     \<and> distinct (List.map fst (successes (dc_answers c)))
     \<and> (\<forall>i p. (i, p) \<in> set (successes (dc_answers c)) \<longleftrightarrow> dc_store c i = Some p \<or> (i, p) \<in> set (pending (dc_calls c)))"

lemma successes_snoc [simp]:
  "successes (as @ [(i, Inl e)]) = successes as" "successes (as @ [(i, Inr p)]) = successes as @ [(i, p)]" "successes [] = []"
  by (simp_all add: successes_def map_filter_def)

lemma pending_simps [simp]:
  "pending (as @ bs) = pending as @ pending bs" "pending [] = []"
  "pending (c # cs) = (case c of Storing i p \<Rightarrow> [(i, p)] | _ \<Rightarrow> []) @ pending cs"
  by (simp_all add: pending_def map_filter_def split: get_call.splits)

lemma pending_locked: "(i, p) \<in> set (pending cs) \<Longrightarrow> filter has_lock cs \<noteq> []"
  by (induction cs) (auto split: get_call.splits)

lemma holder_alone:
  "locks_ok (as @ c # bs) \<Longrightarrow> has_lock c \<Longrightarrow> filter has_lock (as @ bs) = [] \<and> filter has_rlock (as @ bs) = []"
  by (cases c) (auto simp: locks_ok_def)

lemma locks_replace:
  assumes "locks_ok (as @ c # bs)" and "has_lock c' \<longrightarrow> has_lock c \<or> lock_free (as @ bs)"
    and "has_rlock c' \<longrightarrow> has_rlock c \<or> rlock_free (as @ bs)" and "\<not> (has_lock c' \<and> has_rlock c')"
  shows "locks_ok (as @ c' # bs)"
  using assms by (auto simp: locks_ok_def lock_free_def rlock_free_def split: if_splits)

lemma call_ok_simps [simp]:
  "call_ok m an (Looked i (m i))" "call_ok m an (Returned i r) = call_ok m an (Unlocking i r)"
  by (cases "m i"; simp) (cases r; simp)

lemma calls_stored:
  assumes "list_all (call_ok m an) cs" and "filter has_lock cs = []" and "m i = None"
  shows "list_all (call_ok (m(i \<mapsto> p)) an') cs"
proof -
  have "call_ok (m(i \<mapsto> p)) an' c" if "call_ok m an c" "\<not> has_lock c" for c
    using that assms(3) by (cases "(m, an, c)" rule: call_ok.cases) auto
  with assms(1,2) show ?thesis by (auto simp: list_all_iff filter_empty_conv)
qed

lemma calls_answered:
  "list_all (call_ok m an) cs \<Longrightarrow> list_all (call_ok m (an @ xs)) cs"
proof -
  have "call_ok m (an @ xs) c" if "call_ok m an c" for c
    using that by (cases "(m, an, c)" rule: call_ok.cases) auto
  then show "list_all (call_ok m an) cs \<Longrightarrow> list_all (call_ok m (an @ xs)) cs" by (auto simp: list_all_iff)
qed

lemma cache_step_ok:
  assumes "cache_step c c'" and "cache_ok c"
  shows "cache_ok c'"
  using assms
proof (cases rule: cache_step.cases)
  case (discovered as i bs p)
  have l: "locks_ok (as @ Discovering i # bs)" and m: "dc_store c i = None"
    and ps: "\<And>j q. (j, q) \<in> set (successes (dc_answers c)) \<longleftrightarrow> dc_store c j = Some q \<or> (j, q) \<in> set (pending (as @ bs))"
    using assms(2) discovered(2) by (auto simp: cache_ok_def)
  have alone: "filter has_lock (as @ bs) = []" using holder_alone [OF l] by simp
  then have none: "pending (as @ bs) = []" using pending_locked by (metis list.set_intros(1) neq_Nil_conv old.prod.exhaust)
  have "locks_ok (as @ Storing i p # bs)" by (rule locks_replace [OF l]) simp_all
  moreover have "i \<notin> fst ` set (successes (dc_answers c))" using ps m none by auto
  ultimately show ?thesis
    using assms(2) discovered none ps m calls_answered [of "dc_store c" "dc_answers c" "as @ bs" "[(i, Inr p)]"]
    by (auto simp: cache_ok_def)
next
  case (store as i p bs)
  have l: "locks_ok (as @ Storing i p # bs)" and m: "dc_store c i = None"
    using assms(2) store(2) by (auto simp: cache_ok_def)
  have alone: "filter has_lock (as @ bs) = []" using holder_alone [OF l] by simp
  then have none: "pending (as @ bs) = []" using pending_locked by (metis list.set_intros(1) neq_Nil_conv old.prod.exhaust)
  have "locks_ok (as @ Unlocking i (Inr p) # bs)" by (rule locks_replace [OF l]) simp_all
  then show ?thesis
    using assms(2) store none m calls_stored [of "dc_store c" "dc_answers c" "as @ bs" i p "dc_answers c"] alone
    by (auto simp: cache_ok_def)
qed (auto simp: cache_ok_def calls_answered intro: locks_replace)

section \<open>Progress\<close>

fun left :: "'p get_call \<Rightarrow> nat" where
  "left (Start _) = 8"
| "left (Reading _) = 7"
| "left (Looked _ _) = 6"
| "left (Missed _) = 5"
| "left (Writing _) = 4"
| "left (Discovering _) = 3"
| "left (Storing _ _) = 2"
| "left (Unlocking _ _) = 1"
| "left (Returned _ _) = 0"

definition steps_left :: "'p cache \<Rightarrow> nat" where
  "steps_left c = sum_list (List.map left (dc_calls c))"

lemma cache_step_left: "cache_step c c' \<Longrightarrow> steps_left c' < steps_left c"
  by (erule cache_stepE) (simp_all add: steps_left_def)

lemma cache_step_store: "cache_step c c' \<Longrightarrow> cache_ok c \<Longrightarrow> dc_store c \<subseteq>\<^sub>m dc_store c'"
  by (erule cache_stepE) (auto simp: map_le_def cache_ok_def)

lemma holder_steps:
  assumes "dc_calls c = as @ x # bs" and "has_lock x \<or> has_rlock x"
  shows "\<exists>c'. cache_step c c'"
proof (cases x)
  case (Writing i)
  with assms show ?thesis
    by (cases "dc_store c i") (blast intro: cache_step.absent cache_step.found)+
next
  case (Looked i r)
  with assms show ?thesis by (cases r) (blast intro: cache_step.hit cache_step.miss)+
qed (use assms in \<open>auto intro: cache_step.intros\<close>)

lemma cache_progress:
  assumes "x \<in> set (dc_calls c)" and "left x \<noteq> 0"
  shows "\<exists>c'. cache_step c c'"
proof (cases "\<exists>y \<in> set (dc_calls c). has_lock y \<or> has_rlock y")
  case True
  then obtain y as bs where "has_lock y \<or> has_rlock y" "dc_calls c = as @ y # bs" by (meson split_list)
  then show ?thesis by (blast intro: holder_steps)
next
  case False
  obtain as bs where c: "dc_calls c = as @ x # bs" using assms(1) by (meson split_list)
  with False have f: "lock_free (as @ bs)" "rlock_free (as @ bs)" and n: "\<not> has_lock x" "\<not> has_rlock x"
    by (auto simp: lock_free_def rlock_free_def filter_empty_conv)
  show ?thesis
  proof (cases x)
    case (Start i)
    with c f(2) show ?thesis by (blast intro: cache_step.rlock)
  next
    case (Missed i)
    with c f(1) show ?thesis by (blast intro: cache_step.lock)
  qed (use n assms(2) in simp_all)
qed

lemma cache_run:
  assumes "(cache_step ^^ n) (cache_start issuers) c"
  shows "cache_ok c \<and> steps_left c + n \<le> 8 * length issuers"
  using assms
proof (induction n arbitrary: c)
  case 0
  have "steps_left (cache_start issuers :: 'a cache) = 8 * length issuers"
    by (induction issuers) (simp_all add: steps_left_def cache_start_def)
  moreover have "cache_ok (cache_start issuers :: 'a cache)"
    by (induction issuers) (simp_all add: cache_ok_def cache_start_def locks_ok_def)
  ultimately show ?case using 0 by simp
next
  case (Suc n)
  then obtain c1 where "(cache_step ^^ n) (cache_start issuers) c1" and s: "cache_step c1 c" by (metis relpowp_Suc_E)
  with Suc.IH [of c1] cache_step_ok [OF s] cache_step_left [OF s] show ?case by auto
qed

text \<open>
  Requests that sign on at the same time share one discovery: whatever the order of their steps,
  the write lock excludes everybody else, no issuer is discovered successfully twice, what was once
  stored stays, a caller that got a provider got the stored one (so all callers of an issuer
  use the same provider and a failed discovery is not remembered), no state is a deadlock, and all calls
  have returned after eight steps each.
\<close>

theorem discovery_shared:
  assumes "(cache_step ^^ n) (cache_start issuers) c"
  shows "locks_ok (dc_calls c) \<and> distinct (List.map fst (successes (dc_answers c)))
    \<and> (\<forall>c'. cache_step c c' \<longrightarrow> dc_store c \<subseteq>\<^sub>m dc_store c')
    \<and> (\<forall>i p. Returned i (Inr p) \<in> set (dc_calls c) \<longrightarrow> dc_store c i = Some p \<and> (i, p) \<in> set (successes (dc_answers c)))
    \<and> (\<forall>x \<in> set (dc_calls c). left x \<noteq> 0 \<longrightarrow> (\<exists>c'. cache_step c c')) \<and> n \<le> 8 * length issuers"
proof -
  have ok: "cache_ok c" and n: "n \<le> 8 * length issuers" using cache_run [OF assms] by simp_all
  have "dc_store c i = Some p \<and> (i, p) \<in> set (successes (dc_answers c))" if "Returned i (Inr p) \<in> set (dc_calls c)" for i p
  proof -
    have "dc_store c i = Some p" using ok that by (force simp: cache_ok_def list_all_iff)
    with ok show ?thesis by (auto simp: cache_ok_def)
  qed
  with ok n cache_step_store cache_progress show ?thesis by (auto simp: cache_ok_def)
qed

text \<open>Two requests for one issuer: the first has discovered it, the second is about to look.\<close>

theorem discovery_shared_witness:
  "\<exists>c :: nat cache. (cache_step ^^ 8) (cache_start [''https://idp'', ''https://idp'']) c
     \<and> dc_store c ''https://idp'' = Some 7 \<and> dc_calls c = [Returned ''https://idp'' (Inr 7), Start ''https://idp'']
     \<and> (\<exists>c'. cache_step c c')"
proof -
  let ?i = "''https://idp''"
  let ?c = "\<lambda>m an x. \<lparr>dc_store = m, dc_answers = an, dc_calls = [x, Start ?i]\<rparr> :: nat cache"
  let ?an = "[(?i, Inr 7)]" and ?m = "[?i \<mapsto> 7]"
  have s: "cache_step (?c Map.empty [] (Start ?i)) (?c Map.empty [] (Reading ?i))"
    "cache_step (?c Map.empty [] (Reading ?i)) (?c Map.empty [] (Looked ?i None))"
    "cache_step (?c Map.empty [] (Looked ?i None)) (?c Map.empty [] (Missed ?i))"
    "cache_step (?c Map.empty [] (Missed ?i)) (?c Map.empty [] (Writing ?i))"
    "cache_step (?c Map.empty [] (Writing ?i)) (?c Map.empty [] (Discovering ?i))"
    "cache_step (?c Map.empty [] (Discovering ?i)) (?c Map.empty ?an (Storing ?i 7))"
    "cache_step (?c Map.empty ?an (Storing ?i 7)) (?c ?m ?an (Unlocking ?i (Inr 7)))"
    "cache_step (?c ?m ?an (Unlocking ?i (Inr 7))) (?c ?m ?an (Returned ?i (Inr 7)))"
    using cache_step.rlock [of "?c Map.empty [] (Start ?i)" "[]" ?i "[Start ?i]"]
      cache_step.lookup [of "?c Map.empty [] (Reading ?i)" "[]" ?i "[Start ?i]"]
      cache_step.miss [of "?c Map.empty [] (Looked ?i None)" "[]" ?i "[Start ?i]"]
      cache_step.lock [of "?c Map.empty [] (Missed ?i)" "[]" ?i "[Start ?i]"]
      cache_step.absent [of "?c Map.empty [] (Writing ?i)" "[]" ?i "[Start ?i]"]
      cache_step.discovered [of "?c Map.empty [] (Discovering ?i)" "[]" ?i "[Start ?i]" 7]
      cache_step.store [of "?c Map.empty ?an (Storing ?i 7)" "[]" ?i 7 "[Start ?i]"]
      cache_step.unlock [of "?c ?m ?an (Unlocking ?i (Inr 7))" "[]" ?i "Inr 7" "[Start ?i]"]
    by (simp_all add: rlock_free_def lock_free_def)
  have e: "(8::nat) = Suc (Suc (Suc (Suc (Suc (Suc (Suc (Suc 0)))))))" by simp
  have run: "(cache_step ^^ 8) (cache_start [?i, ?i]) (?c ?m ?an (Returned ?i (Inr 7)))"
    unfolding e cache_start_def list.map by (rule relpowp_Suc_I2 [where P = cache_step, OF s(1)] relpowp_Suc_I2 [where P = cache_step, OF s(2)] relpowp_Suc_I2 [where P = cache_step, OF s(3)]
        relpowp_Suc_I2 [where P = cache_step, OF s(4)] relpowp_Suc_I2 [where P = cache_step, OF s(5)] relpowp_Suc_I2 [where P = cache_step, OF s(6)] relpowp_Suc_I2 [where P = cache_step, OF s(7)]
        relpowp_Suc_I2 [where P = cache_step, OF s(8)] relpowp_0_I)+
  have "\<exists>c'. cache_step (?c ?m ?an (Returned ?i (Inr 7))) c'" using discovery_shared [OF run] by simp
  with run show ?thesis by (intro exI [of _ "?c ?m ?an (Returned ?i (Inr 7))"]) simp
qed

end
