(* ===== verification/Demo_Seed.thy ===== *)
theory Demo_Seed
  imports Api_Props
begin

text \<open>
  \<open>cmd/seed/main.go\<close>: the client that fills a development server with an account and four gates. The
  server it talks to is first any transport, then the API of this repository behind a cookie jar. A
  request body is the decoded input of the call; what the client prints is the list of the gates'
  identifiers and tokens.
\<close>

section \<open>The client\<close>

datatype seed_request = Health | Request api_call

text \<open>The status of the answer and its JSON body, or no answer at all, with the next state.\<close>

type_synonym 's transport = "seed_request \<Rightarrow> 's \<Rightarrow> (int \<times> gmap) option \<times> 's"

text \<open>Every failure ends the process, which is the result \<open>None\<close>.\<close>

definition must :: "'s transport \<Rightarrow> seed_request \<Rightarrow> int \<Rightarrow> 's \<Rightarrow> gmap option \<times> 's" where
  "must T rq wantStatus s =
     (case T rq s of
        (None, s1) \<Rightarrow> (None, s1)
      | (Some (got, out), s1) \<Rightarrow> (if got \<noteq> wantStatus then None else Some out, s1))"

definition demoUsername :: string where "demoUsername = ''demo''"
definition demoPassword :: string where "demoPassword = ''Demo1234!''"

definition seed_mapping :: "string \<Rightarrow> gmap" where
  "seed_mapping field = [(''mapping'', VObj [(''status'', VObj [(''field'', VStr field),
     (''values'', VObj [(''open'', VStr ''open''), (''closed'', VStr ''closed'')])])])]"

text \<open>A body with a name only; the type of the integration defaults to MQTT.\<close>

definition seed_gate :: "string \<Rightarrow> create_gate_params" where
  "seed_gate name = \<lparr>cg_Name = name, cg_IntegrationType = ''MQTT'', cg_IntegrationConfig = [], cg_OpenConfig = None,
     cg_CloseConfig = None, cg_StatusConfig = None, cg_MetaConfig = [], cg_StatusRules = [], cg_CustomStatuses = [],
     cg_TTLSeconds = None, cg_StatusTransitions = []\<rparr>"

definition seed_gates :: "create_gate_params list" where
  "seed_gates =
     [(seed_gate ''Portail Principal'')\<lparr>
         cg_StatusConfig := Some \<lparr>ac_Type = ''HTTP_INBOUND'', ac_Config = seed_mapping ''status''\<rparr>,
         cg_MetaConfig := [\<lparr>mf_Key = ''battery'', mf_Label = ''Batterie'', mf_Unit = [CHR 0x25]\<rparr>,
           \<lparr>mf_Key = ''rssi'', mf_Label = ''Signal RSSI'', mf_Unit = ''dBm''\<rparr>],
         cg_StatusRules := [\<lparr>sr_Key = ''battery'', sr_Op = ''lt'', sr_Value = ''20'', sr_SetStatus = ''low_battery''\<rparr>],
         cg_CustomStatuses := [''low_battery'']\<rparr>,
      seed_gate ''Garage'',
      (seed_gate ''Interphone'')\<lparr>
         cg_OpenConfig := Some \<lparr>ac_Type = ''MQTT_GATIE'', ac_Config = []\<rparr>,
         cg_CloseConfig := Some \<lparr>ac_Type = ''MQTT_GATIE'', ac_Config = []\<rparr>,
         cg_StatusConfig := Some \<lparr>ac_Type = ''MQTT_GATIE'', ac_Config = []\<rparr>\<rparr>,
      (seed_gate (''Barri'' @ [CHR 0xC3, CHR 0xA8] @ ''re''))\<lparr>
         cg_OpenConfig := Some \<lparr>ac_Type = ''MQTT_CUSTOM'', ac_Config = [(''payload'', VObj [(''cmd'', VStr ''OPEN'')])]\<rparr>,
         cg_CloseConfig := Some \<lparr>ac_Type = ''MQTT_CUSTOM'', ac_Config = [(''payload'', VObj [(''cmd'', VStr ''CLOSE'')])]\<rparr>,
         cg_StatusConfig := Some \<lparr>ac_Type = ''MQTT_CUSTOM'', ac_Config = seed_mapping ''state''\<rparr>,
         cg_MetaConfig := [\<lparr>mf_Key = ''voltage'', mf_Label = ''Tension batterie'', mf_Unit = ''V''\<rparr>,
           \<lparr>mf_Key = ''temp'', mf_Label = ''Temp'' @ [CHR 0xC3, CHR 0xA9] @ ''rature'', mf_Unit = [CHR 0xC2, CHR 0xB0] @ ''C''\<rparr>]\<rparr>]"

fun seed_create :: "'s transport \<Rightarrow> create_gate_params list \<Rightarrow> 's \<Rightarrow> (string \<times> string) list option \<times> 's" where
  "seed_create T [] s = (Some [], s)"
| "seed_create T (b # bs) s =
     (case must T (Request (GateCall (GateCreate b))) 201 s of
        (None, s1) \<Rightarrow> (None, s1)
      | (Some g, s1) \<Rightarrow>
          (case seed_create T bs s1 of
             (None, s2) \<Rightarrow> (None, s2)
           | (Some gs, s2) \<Rightarrow> (Some ((str_field g ''id'', str_field g ''gate_token'') # gs), s2)))"

definition seed_main :: "'s transport \<Rightarrow> 's \<Rightarrow> (string \<times> string) list option \<times> 's" where
  "seed_main T s =
     (case must T Health 200 s of
        (None, s1) \<Rightarrow> (None, s1)
      | (Some health, s1) \<Rightarrow>
          if str_field health ''database'' \<noteq> ''ok'' then (None, s1)
          else (case must T (Request (SetupCall SetupStatus)) 200 s1 of
                  (None, s2) \<Rightarrow> (None, s2)
                | (Some setupStatus, s2) \<Rightarrow>
                    (case must T (Request (if map_of setupStatus ''setup_required'' = Some (VBool True)
                             then SetupCall (SetupInit demoUsername demoPassword None)
                             else AuthCall (AuthLogin demoUsername demoPassword))) 200 s2 of
                       (None, s3) \<Rightarrow> (None, s3)
                     | (Some _, s3) \<Rightarrow> seed_create T seed_gates s3)))"

section \<open>The client and the server\<close>

text \<open>
  The cookie jar sends a cookie back to the paths below its own, a secure one only over HTTPS, longer
  paths first; a run is shorter than the life of the cookies. The clock gives the instant of every
  request of the run.
\<close>

definition jar_header :: "bool \<Rightarrow> string \<Rightarrow> set_cookie list \<Rightarrow> string" where
  "jar_header https path jar = cookie_header (sort_key (\<lambda>c. - int (length (sk_Path c)))
     (filter (\<lambda>c. (sk_Secure c \<longrightarrow> https) \<and> (path = sk_Path c \<or> HasPrefix path (sk_Path c @ ''/''))) jar))"

definition jar_store :: "set_cookie list \<Rightarrow> set_cookie list \<Rightarrow> set_cookie list" where
  "jar_store new jar = filter (\<lambda>c. 0 < sk_MaxAge c) new
     @ filter (\<lambda>c. \<not> list_ex (\<lambda>n. sk_Name n = sk_Name c \<and> sk_Path n = sk_Path c) new) jar"

record 'r seeding =
  se_Jar :: "set_cookie list"
  se_World :: "'r world"
  se_Requests :: nat

record seed_link =
  sl_HTTPS :: bool
  sl_Addr :: string
  sl_Host :: string
  sl_Clock :: "nat \<Rightarrow> int"
  sl_Health :: gmap

definition seed_path :: "api_call \<Rightarrow> string" where
  "seed_path call = (case call of
      SetupCall SetupStatus \<Rightarrow> ''/api/setup/status'' | SetupCall _ \<Rightarrow> ''/api/setup/init''
    | AuthCall _ \<Rightarrow> ''/api/auth/login'' | _ \<Rightarrow> ''/api/gates'')"

text \<open>The body of an answer and the cookies it sets, from the handler's value.\<close>

definition seed_answer :: "'r env \<Rightarrow> int \<Rightarrow> api_call \<Rightarrow> 'r world \<Rightarrow> gmap \<times> set_cookie list" where
  "seed_answer X now call w = (case call of
      SetupCall SetupStatus \<Rightarrow>
        ((case setup_status X now w of Inr b \<Rightarrow> [(''setup_required'', VBool b)] | Inl _ \<Rightarrow> []), [])
    | SetupCall (SetupInit u p n) \<Rightarrow>
        ([], case fst (setup_init X now u p n w) of Inr ((a, r), _) \<Rightarrow> [a, r] | Inl _ \<Rightarrow> [])
    | AuthCall (AuthLogin u p) \<Rightarrow>
        ([], case fst (h_Login X now u p w) of Inr out \<Rightarrow> [fst (ao_Cookies out), snd (ao_Cookies out)] | Inl _ \<Rightarrow> [])
    | GateCall (GateCreate b) \<Rightarrow>
        ((case fst (h_gate_Create X now b w) of
            Inr g \<Rightarrow> [(''id'', VStr (x_uuidString X (g_ID g))),
              (''gate_token'', VStr (case g_GateToken g of None \<Rightarrow> [] | Some t \<Rightarrow> t))]
          | Inl _ \<Rightarrow> []), [])
    | _ \<Rightarrow> ([], []))"

definition seed_status :: "api_call \<Rightarrow> int" where
  "seed_status call = (case call of GateCall _ \<Rightarrow> 201 | _ \<Rightarrow> 200)"

definition seed_transport :: "'r env \<Rightarrow> seed_link \<Rightarrow> 'r seeding transport" where
  "seed_transport X L rq s =
     (case rq of
        Health \<Rightarrow> (Some (200, sl_Health L), s\<lparr>se_Requests := Suc (se_Requests s)\<rparr>)
      | Request call \<Rightarrow>
          (let now = sl_Clock L (se_Requests s);
               hrq = \<lparr>rq_RemoteAddr = sl_Addr L, rq_Host = sl_Host L,
                 rq_Cookie = jar_header (sl_HTTPS L) (seed_path call) (se_Jar s), rq_Authorization = [], rq_PathGateID = []\<rparr>;
               w0 = snd (TenantResolver X now (sl_Host L) (se_World s));
               w1 = snd (run_guards X now hrq (request_ctx X now hrq (w_db w0)) (route_guards call) w0);
               (r, w2) = serve X now hrq call (se_World s); s2 = s\<lparr>se_World := w2, se_Requests := Suc (se_Requests s)\<rparr>
           in case r of
                Inl (HErr code _) \<Rightarrow> (Some (code, []), s2)
              | Inr _ \<Rightarrow> (let (out, cookies) = seed_answer X now call w1
                          in (Some (seed_status call, out), s2\<lparr>se_Jar := jar_store cookies (se_Jar s)\<rparr>))))"

section \<open>A fresh database\<close>

lemma must_cases:
  "T rq s = (None, s1) \<Longrightarrow> must T rq want s = (None, s1)"
  "T rq s = (Some (got, out), s1) \<Longrightarrow> must T rq want s = (if got \<noteq> want then None else Some out, s1)"
  by (simp_all add: must_def)

lemma seed_create_stops:
  "T (Request (GateCall (GateCreate b))) s = (Some (403, out), s1) \<Longrightarrow> seed_create T (b # bs) s = (None, s1)"
  by (simp add: must_cases(2))

lemma serve_setup:
  "serve X now rq (SetupCall c) w = handle_setup X now rq (request_ctx X now rq (w_db w)) c (snd (TenantResolver X now (rq_Host rq) w))"
  by (simp add: serve_def Let_def route_guards_def path_ok_def call_gate_def handle_def TenantResolver_db)

lemma serve_create_refused:
  assumes "MemberRoleFromContext (request_ctx X now rq (w_db w)) \<noteq> Some RoleAdmin"
  shows "\<exists>m. serve X now rq (GateCall (GateCreate b)) w = (Inl (HErr 403 m), snd (TenantResolver X now (rq_Host rq) w))"
  using assms by (auto simp: serve_def Let_def route_guards_def gate_routes_def run_guard_def RequireAdmin_def TenantResolver_db)

text \<open>Whoever was just made the first account is not an admin for the server.\<close>

lemma fresh_account_role:
  assumes "jwt_ok X" "uuid_ok X" and "\<forall>secret claims t. x_jwtSign X secret claims = Some t \<longrightarrow> cookie_text t"
    and "issueTokenPair X t0 m RoleMember dur w = (Inr tp, w')"
    and "rq_Cookie rq = [] \<or> rq_Cookie rq = cookie_header [fst (setAuthCookies tp secure)]" "rq_Authorization rq = []"
  shows "MemberRoleFromContext (request_ctx X now rq d) \<noteq> Some RoleAdmin"
proof -
  have tok: "cookie_text (tp_AccessToken tp)"
    using issueTokenPair_ok(1) [OF assms(4)] assms(3) by (auto simp: jwt_sign_def split: option.splits)
  have "cookieValue (cookie_header [fst (setAuthCookies tp secure)]) ''gatie_access'' = tp_AccessToken tp"
    using tok by (subst cookieValue_header) (auto simp: cookie_text_def is_space_def)
  moreover have "cookieValue [] ''gatie_access'' = []" by (simp add: cookieValue_def cookie_pair_def TrimSpace_def Let_def)
  moreover have "bearerToken [] = []" by (simp add: bearerToken_def HasPrefix_def)
  ultimately show ?thesis
    using assms(5,6) access_token_valid [OF assms(1,2) _ assms(4), of now]
    by (auto simp: request_ctx_def AuthExtractor_def extractJWT_def Let_def MemberRoleFromContext_def no_identity_def
        ClientIPInjector_def split: sum.splits if_splits)
qed

lemma Register_issues:
  assumes "Register X now u p n w = (Inr (tp, m), w')"
  shows "\<exists>w1 w2. issueTokenPair X now (mem_ID m) RoleMember (cf_sessionDuration X) w1 = (Inr tp, w2)"
proof -
  from Register_ok [OF assms] obtain d1 where
    "members_Create (x_dbFault X now) (w_db w) (x_newID X now ''member'') now u n RoleMember = (Inr m, d1)" by blast
  then have "mem_Role m = RoleMember" by (auto simp: members_Create_def Let_def split: if_splits)
  moreover from assms have "\<exists>w1 w2. issueTokenPair X now (mem_ID m) (mem_Role m) (cf_sessionDuration X) w1 = (Inr tp, w2)"
    by (auto simp: Register_def Let_def wbind_Inr_iff split: sum.splits if_splits)
  ultimately show ?thesis by simp
qed

lemma setup_init_answers:
  "fst (setup_init X now u p n w) = Inl (HErr c m) \<Longrightarrow> c \<in> {400, 409, 500}"
  "fst (setup_init X now u p n w) = Inr ((a, r), mb) \<Longrightarrow> \<exists>tp w1 w2. a = fst (setAuthCookies tp (cf_cookieSecure X))
     \<and> r = snd (setAuthCookies tp (cf_cookieSecure X))
     \<and> issueTokenPair X now (mem_ID mb) RoleMember (cf_sessionDuration X) w1 = (Inr tp, w2)"
proof -
  obtain q w' where reg: "Register X now u p n w = (q, w')" by fastforce
  show "fst (setup_init X now u p n w) = Inl (HErr c m) \<Longrightarrow> c \<in> {400, 409, 500}"
    by (cases q) (auto simp: setup_init_def reg wrespond_def split: sum.splits if_splits)
  show "fst (setup_init X now u p n w) = Inr ((a, r), mb) \<Longrightarrow> \<exists>tp w1 w2. a = fst (setAuthCookies tp (cf_cookieSecure X))
     \<and> r = snd (setAuthCookies tp (cf_cookieSecure X))
     \<and> issueTokenPair X now (mem_ID mb) RoleMember (cf_sessionDuration X) w1 = (Inr tp, w2)"
  proof (cases q)
    case (Inr tm)
    obtain tp mb' where tm: "tm = (tp, mb')" by fastforce
    assume "fst (setup_init X now u p n w) = Inr ((a, r), mb)"
    with Inr tm reg have "setAuthCookies tp (cf_cookieSecure X) = (a, r)" "mb' = mb"
      by (auto simp: setup_init_def wrespond_def split: sum.splits if_splits)
    with Register_issues [of X now u p n w tp mb' w'] reg Inr tm show ?thesis by (metis fst_conv snd_conv)
  qed (auto simp: setup_init_def reg wrespond_def split: sum.splits if_splits)
qed

lemma gate_ids_owned: "(\<And>g. owned d g = owned d' g) \<Longrightarrow> gate_ids d = gate_ids d'"
proof -
  have k: "g \<in> gate_ids d \<longleftrightarrow> fst (owned d g) \<noteq> []" for d g
    by (auto simp: owned_def filter_empty_conv)
  assume "\<And>g. owned d g = owned d' g"
  then have "g \<in> gate_ids d \<longleftrightarrow> g \<in> gate_ids d'" for g unfolding k by simp
  then show ?thesis by blast
qed

text \<open>The three requests of the run, one after another.\<close>

lemma seed_asks_status:
  assumes "db_members (w_db (se_World s)) = []"
  shows "\<exists>c out s1. seed_transport X L (Request (SetupCall SetupStatus)) s = (Some (c, out), s1)
    \<and> w_db (se_World s1) = w_db (se_World s) \<and> se_Jar s1 = se_Jar s
    \<and> (c = 200 \<longrightarrow> out = [(''setup_required'', VBool True)])"
proof -
  have "setup_status X now w = Inl (HErr 500 ''failed to check setup status'') \<or> setup_status X now w = Inr True"
    if "w_db w = w_db (se_World s)" for now and w :: "'a world"
    using assms that by (auto simp: setup_status_def member_HasAny_def members_HasAny_def)
  note q = this [OF TenantResolver_db]
  show ?thesis
    using q [of "sl_Clock L (se_Requests s)" X "sl_Clock L (se_Requests s)" "sl_Host L"]
    by (auto simp: seed_transport_def Let_def serve_setup query_def seed_answer_def seed_status_def route_guards_def
        jar_store_def TenantResolver_db)
qed

lemma seed_sets_up:
  shows "\<exists>c out s1. seed_transport X L (Request (SetupCall (SetupInit u p n))) s = (Some (c, out), s1)
    \<and> gate_ids (w_db (se_World s1)) = gate_ids (w_db (se_World s))
    \<and> (c = 200 \<longrightarrow> (\<exists>tp t0 i w1 w2. se_Jar s1 = jar_store [fst (setAuthCookies tp (cf_cookieSecure X)),
            snd (setAuthCookies tp (cf_cookieSecure X))] (se_Jar s)
          \<and> issueTokenPair X t0 i RoleMember (cf_sessionDuration X) w1 = (Inr tp, w2)))"
proof -
  let ?now = "sl_Clock L (se_Requests s)"
  let ?w0 = "snd (TenantResolver X ?now (sl_Host L) (se_World s))"
  obtain q w1 where e: "setup_init X ?now u p n ?w0 = (q, w1)" by fastforce
  have ids: "gate_ids (w_db w1) = gate_ids (w_db (se_World s))"
    using gate_ids_owned [OF own.setup_frame [of X ?now u p n ?w0]] e by (simp add: TenantResolver_db)
  show ?thesis
  proof (cases q)
    case (Inl h)
    obtain c m where h: "h = HErr c m" by (cases h)
    with Inl e setup_init_answers(1) [of X ?now u p n ?w0 c m] have "c \<noteq> 200" by auto
    with Inl e h ids show ?thesis by (simp add: seed_transport_def Let_def serve_setup status_def)
  next
    case (Inr v)
    obtain a r mb where v: "v = ((a, r), mb)" by (metis surj_pair)
    from setup_init_answers(2) [of X ?now u p n ?w0 a r mb] e Inr v obtain tp w3 w4 where
      "a = fst (setAuthCookies tp (cf_cookieSecure X))" "r = snd (setAuthCookies tp (cf_cookieSecure X))"
      "issueTokenPair X ?now (mem_ID mb) RoleMember (cf_sessionDuration X) w3 = (Inr tp, w4)" by auto
    with Inr e v ids show ?thesis
      by (auto simp: seed_transport_def Let_def serve_setup status_def seed_answer_def seed_status_def route_guards_def
          case_prod_unfold intro!: exI [of _ tp])
  qed
qed

lemma seed_refused:
  assumes "jwt_ok X" "uuid_ok X" and "\<forall>secret claims t. x_jwtSign X secret claims = Some t \<longrightarrow> cookie_text t"
    and "issueTokenPair X t0 i RoleMember dur w1 = (Inr tp, w2)"
    and "se_Jar s = jar_store [fst (setAuthCookies tp secure), snd (setAuthCookies tp secure)] []"
  shows "\<exists>s1. seed_transport X L (Request (GateCall (GateCreate b))) s = (Some (403, []), s1)
    \<and> w_db (se_World s1) = w_db (se_World s)"
proof -
  have p: "sk_Path (fst (setAuthCookies tp secure)) = ''/api''" "sk_Path (snd (setAuthCookies tp secure)) = ''/api/auth''"
    by (simp_all add: setAuthCookies_def Let_def)
  have sent: "jar_header h ''/api/gates'' (se_Jar s) = [] \<or> jar_header h ''/api/gates'' (se_Jar s) = cookie_header [fst (setAuthCookies tp secure)]" for h
    using p by (auto simp: assms(5) jar_store_def jar_header_def HasPrefix_def cookie_header_def)
  let ?now = "sl_Clock L (se_Requests s)"
  let ?rq = "\<lparr>rq_RemoteAddr = sl_Addr L, rq_Host = sl_Host L, rq_Cookie = jar_header (sl_HTTPS L) ''/api/gates'' (se_Jar s),
     rq_Authorization = [], rq_PathGateID = []\<rparr>"
  have "MemberRoleFromContext (request_ctx X ?now ?rq (w_db (se_World s))) \<noteq> Some RoleAdmin"
    by (rule fresh_account_role [OF assms(1-4), where secure = secure]) (use sent in simp_all)
  from serve_create_refused [OF this, of b] show ?thesis
    by (auto simp: seed_transport_def Let_def seed_path_def TenantResolver_db)
qed

text \<open>
  The seed on a fresh database: it asks for the first account, and the first gate it then wants to
  create is refused, because that account is no admin for the server. The client gives up, and no
  gate exists afterwards that did not exist before; this holds with secure and with plain cookies,
  at any speed, and whatever fails on the way.
\<close>

theorem seed_needs_admin:
  assumes "jwt_ok X" "uuid_ok X" and "\<forall>secret claims t. x_jwtSign X secret claims = Some t \<longrightarrow> cookie_text t"
    and "db_members (w_db (se_World s)) = []" and "se_Jar s = []"
  shows "fst (seed_main (seed_transport X L) s) = None
    \<and> gate_ids (w_db (se_World (snd (seed_main (seed_transport X L) s)))) = gate_ids (w_db (se_World s))"
proof -
  let ?T = "seed_transport X L" and ?s1 = "s\<lparr>se_Requests := Suc (se_Requests s)\<rparr>"
  have h: "?T Health s = (Some (200, sl_Health L), ?s1)" by (simp add: seed_transport_def)
  have "db_members (w_db (se_World ?s1)) = []" using assms(4) by simp
  from seed_asks_status [OF this, of X L] obtain c2 out2 s2 where
    st: "?T (Request (SetupCall SetupStatus)) ?s1 = (Some (c2, out2), s2)" "w_db (se_World s2) = w_db (se_World s)"
      "se_Jar s2 = []" "c2 = 200 \<Longrightarrow> out2 = [(''setup_required'', VBool True)]" using assms(5) by auto
  from seed_sets_up [of X L demoUsername demoPassword None s2, unfolded st(2,3)] obtain c3 out3 s3 where
    init: "?T (Request (SetupCall (SetupInit demoUsername demoPassword None))) s2 = (Some (c3, out3), s3)"
      "gate_ids (w_db (se_World s3)) = gate_ids (w_db (se_World s))"
    and tok: "c3 = 200 \<Longrightarrow> \<exists>tp t0 i w1 w2. se_Jar s3 = jar_store [fst (setAuthCookies tp (cf_cookieSecure X)),
        snd (setAuthCookies tp (cf_cookieSecure X))] [] \<and> issueTokenPair X t0 i RoleMember (cf_sessionDuration X) w1 = (Inr tp, w2)"
    by blast
  have create: "\<exists>s4. seed_create ?T seed_gates s3 = (None, s4) \<and> gate_ids (w_db (se_World s4)) = gate_ids (w_db (se_World s))"
    if "c3 = 200"
  proof -
    from tok [OF that] obtain tp t0 i w1 w2 where t: "issueTokenPair X t0 i RoleMember (cf_sessionDuration X) w1 = (Inr tp, w2)"
      "se_Jar s3 = jar_store [fst (setAuthCookies tp (cf_cookieSecure X)), snd (setAuthCookies tp (cf_cookieSecure X))] []" by blast
    obtain b bs where g: "seed_gates = b # bs" by (simp add: seed_gates_def)
    from seed_refused [OF assms(1-3) t, where L = L and b = b] obtain s4 where
      "?T (Request (GateCall (GateCreate b))) s3 = (Some (403, []), s4)" "w_db (se_World s4) = w_db (se_World s3)" by blast
    with init(2) seed_create_stops [of ?T b s3 "[]" s4 bs] show ?thesis unfolding g by simp
  qed
  show ?thesis
    using st(2,4) init(2) create
    by (cases "c2 = 200"; cases "c3 = 200") (auto simp: seed_main_def must_def h st(1) init(1))
qed

text \<open>The bodies themselves are accepted: all four pass the validators of the server.\<close>

lemma seed_gates_valid: "list_all (\<lambda>b. validate_create b = Inr ()) seed_gates"
  by code_simp

definition dev_link :: seed_link where
  "dev_link = \<lparr>sl_HTTPS = True, sl_Addr = ''a:1'', sl_Host = [], sl_Clock = (\<lambda>_. 0), sl_Health = [(''database'', VStr ''ok'')]\<rparr>"

lemma sample_cookie_text: "\<forall>secret claims t. x_jwtSign auth_env secret claims = Some t \<longrightarrow> cookie_text t"
proof -
  have "list_all (\<lambda>e. cookie_text (fst e)) sample_auth_table" by code_simp
  then show ?thesis by (auto simp: table_sign_def list_all_iff dest!: find_SomeD)
qed

theorem seed_needs_admin_witness:
  "let s = \<lparr>se_Jar = [], se_World = sample_world empty_db, se_Requests = 0\<rparr>; r = seed_main (seed_transport auth_env dev_link) s
   in fst r = None \<and> gate_ids (w_db (se_World (snd r))) = {}"
proof -
  let ?s = "\<lparr>se_Jar = [], se_World = sample_world empty_db, se_Requests = 0\<rparr>"
  have "db_members (w_db (se_World ?s)) = []" "se_Jar ?s = []" "gate_ids (w_db (se_World ?s)) = {}"
    by (simp_all add: empty_db_def)
  with seed_needs_admin [OF sample_auth_ok sample_uuid_ok sample_cookie_text this(1,2), of dev_link]
  show ?thesis by (simp add: Let_def)
qed

end
